(* ===== verification/Go_Prelude.thy ===== *)
theory Go_Prelude
  imports Main "HOL-Library.Word"
begin

text \<open>
  Vocabulary shared by every component: the sentinel errors of the services, the
  results of fallible calls, Go's fixed-width integers written out on \<open>int\<close>, durations
  in nanoseconds, the string functions the code uses, and generic lemmas about lists
  used as tables. A \<open>string\<close> is a Go string seen as its bytes.
\<close>

section \<open>Automation\<close>

named_theorems tx_simps \<open>unfolding rules of the transaction combinators\<close>
named_theorems query_defs \<open>definitions of the SQL queries\<close>
named_theorems table_simps \<open>lemmas about list-backed tables\<close>

section \<open>Errors\<close>

text \<open>
  The sentinel errors of \<open>internal/service\<close>, \<open>internal/domain\<close> and pgx. The services
  wrap a sentinel with a message (\<open>fmt.Errorf("%w: ...", ErrX, ...)\<close>) and their callers
  only look at the sentinel (\<open>errors.Is\<close>), so an error is modelled by its sentinel.
  \<open>PgError c\<close> is a PostgreSQL error with SQLSTATE \<open>c\<close>; \<open>ErrOther m\<close> any other error.
\<close>

datatype goerr =
    ErrNotFound | ErrConflict | ErrForbidden | ErrValidation
  | ErrUsageConflict | ErrUsageAlreadyInvoiced | ErrQuotaExceeded
  | ErrCellDraining | ErrCutoverLocked | ErrProviderNotWritable | ErrLifecycleConflict
  | ErrLiveReviewRequired | ErrRiskReviewConflict
  | ErrInvalidTransition | ErrBlockedURL | ErrWebhookReplayConflict
  | ErrNoRows | PgError string | ErrOther string

type_synonym 'a result = "goerr + 'a"

abbreviation unique_violation :: goerr where
  "unique_violation \<equiv> PgError ''23505''"

definition is_ok :: "'a result \<Rightarrow> bool" where
  "is_ok r = (case r of Inl _ \<Rightarrow> False | Inr _ \<Rightarrow> True)"

lemma is_ok_simps [simp]: "is_ok (Inl e) = False" "is_ok (Inr x) = True"
  by (simp_all add: is_ok_def)

lemma is_ok_iff: "is_ok r \<longleftrightarrow> (\<exists>x. r = Inr x)"
  by (cases r) auto

section \<open>Fixed-width integers\<close>

text \<open>
  Go's \<open>int\<close>, \<open>int64\<close> and \<open>time.Duration\<close> are 64-bit two's complement on the deployment
  targets: \<open>wrap64\<close> brings a mathematical result back into range. A shift by an unsigned
  count of 64 or more gives 0; a negative signed count converted with \<open>uint\<close> is such a
  huge count.
\<close>

definition wrap64 :: "int \<Rightarrow> int" where
  "wrap64 x = (x + 2 ^ 63) mod 2 ^ 64 - 2 ^ 63"

definition wrap32 :: "int \<Rightarrow> int" where
  "wrap32 x = (x + 2 ^ 31) mod 2 ^ 32 - 2 ^ 31"

definition in64 :: "int \<Rightarrow> bool" where
  "in64 x \<longleftrightarrow> - (2 ^ 63) \<le> x \<and> x < 2 ^ 63"

lemma wrap64_id: "in64 x \<Longrightarrow> wrap64 x = x"
  by (simp add: in64_def wrap64_def)

lemma in64_wrap64: "in64 (wrap64 x)"
  by (simp add: in64_def wrap64_def)

definition uint64_of :: "int \<Rightarrow> nat" where
  "uint64_of x = nat (x mod 2 ^ 64)"

definition shl64 :: "int \<Rightarrow> nat \<Rightarrow> int" where
  "shl64 x k = (if k \<ge> 64 then 0 else wrap64 (x * 2 ^ k))"

section \<open>Durations\<close>

abbreviation Nanosecond :: int where "Nanosecond \<equiv> 1"
abbreviation Millisecond :: int where "Millisecond \<equiv> 1000000"
abbreviation Second :: int where "Second \<equiv> 1000000000"
abbreviation Minute :: int where "Minute \<equiv> 60000000000"
abbreviation Hour :: int where "Hour \<equiv> 3600000000000"

section \<open>Strings\<close>

definition has_prefix :: "string \<Rightarrow> string \<Rightarrow> bool" where
  "has_prefix s p \<longleftrightarrow> take (length p) s = p"

definition has_suffix :: "string \<Rightarrow> string \<Rightarrow> bool" where
  "has_suffix s p \<longleftrightarrow> has_prefix (rev s) (rev p)"

lemma has_prefix_append [simp]: "has_prefix (p @ s) p"
  by (simp add: has_prefix_def)

lemma has_prefix_iff: "has_prefix s p \<longleftrightarrow> (\<exists>t. s = p @ t)"
  by (metis append_eq_conv_conj append_take_drop_id has_prefix_def)

lemma split_first:
  "c \<notin> set xs \<Longrightarrow> c \<notin> set ys \<Longrightarrow> xs @ c # us = ys @ c # vs \<longleftrightarrow> xs = ys \<and> us = vs"
proof (induction xs arbitrary: ys)
  case Nil
  then show ?case by (cases ys) auto
next
  case (Cons x xs)
  then show ?case by (cases ys) auto
qed

text \<open>The order of the bytes.\<close>

fun str_less :: "string \<Rightarrow> string \<Rightarrow> bool" where
  "str_less _ [] = False"
| "str_less [] (_ # _) = True"
| "str_less (a # s) (b # t) \<longleftrightarrow> (of_char a :: nat) < of_char b \<or> a = b \<and> str_less s t"

lemma str_less_irrefl [simp]: "\<not> str_less s s"
  by (induction s) auto

lemma str_less_asym: "str_less s t \<Longrightarrow> \<not> str_less t s"
  by (induction s t rule: str_less.induct) auto

lemma str_less_total: "s \<noteq> t \<Longrightarrow> str_less s t \<or> str_less t s"
proof (induction s t rule: str_less.induct)
  case (1 s)
  then show ?case by (cases s) auto
next
  case (3 a s b t)
  show ?case
  proof (cases "a = b")
    case False
    then have "(of_char a :: nat) \<noteq> of_char b" by simp
    then have "(of_char a :: nat) < of_char b \<or> (of_char b :: nat) < of_char a" by linarith
    then show ?thesis by auto
  qed (use 3 in auto)
qed simp

lemma str_less_trans: "str_less s t \<Longrightarrow> str_less t u \<Longrightarrow> str_less s u"
proof (induction s t arbitrary: u rule: str_less.induct)
  case (2 b t)
  then show ?case by (cases u) auto
next
  case (3 a s b t)
  then show ?case by (cases u) auto
qed simp

section \<open>Lists as tables\<close>

text \<open>
  A table is the list of its rows in insertion order. \<open>select\<close> is a query with
  a condition, \<open>select_one\<close> a \<open>:one\<close> query (\<open>pgx.ErrNoRows\<close> when it is empty),
  \<open>update_where\<close> an \<open>UPDATE ... WHERE\<close>.
\<close>

definition select_one :: "('r \<Rightarrow> bool) \<Rightarrow> 'r list \<Rightarrow> 'r result" where
  "select_one p rs = (case find p rs of None \<Rightarrow> Inl ErrNoRows | Some r \<Rightarrow> Inr r)"

definition update_where :: "('r \<Rightarrow> bool) \<Rightarrow> ('r \<Rightarrow> 'r) \<Rightarrow> 'r list \<Rightarrow> 'r list" where
  "update_where p f rs = map (\<lambda>r. if p r then f r else r) rs"

lemma find_Some_mem: "find p rs = Some r \<Longrightarrow> r \<in> set rs \<and> p r"
  by (auto simp: find_Some_iff)

lemma select_one_Inr [table_simps]:
  "select_one p rs = Inr r \<longleftrightarrow> find p rs = Some r"
  by (auto simp: select_one_def split: option.splits)

lemma select_one_Inl [table_simps]:
  "select_one p rs = Inl e \<longleftrightarrow> e = ErrNoRows \<and> (\<forall>r\<in>set rs. \<not> p r)"
proof (cases "find p rs")
  case None
  then have "\<forall>r\<in>set rs. \<not> p r" by (simp add: find_None_iff)
  with None show ?thesis by (auto simp: select_one_def)
next
  case (Some r)
  then show ?thesis by (auto simp: select_one_def dest: find_Some_mem)
qed

lemma length_update_where [simp]: "length (update_where p f rs) = length rs"
  by (simp add: update_where_def)

lemma set_update_where:
  "set (update_where p f rs) = f ` {r \<in> set rs. p r} \<union> {r \<in> set rs. \<not> p r}"
  by (auto simp: update_where_def)

lemma update_where_none: "\<forall>r\<in>set rs. \<not> p r \<Longrightarrow> update_where p f rs = rs"
  by (induction rs) (auto simp: update_where_def)

lemma map_update_where:
  "(\<And>r. p r \<Longrightarrow> g (f r) = g r) \<Longrightarrow> map g (update_where p f rs) = map g rs"
  by (auto simp: update_where_def)

lemma filter_update_where_other:
  "(\<And>r. p r \<Longrightarrow> \<not> q r) \<Longrightarrow> (\<And>r. p r \<Longrightarrow> \<not> q (f r)) \<Longrightarrow>
   filter q (update_where p f rs) = filter q rs"
  by (induction rs) (auto simp: update_where_def)

lemma find_update_where_same:
  "find p rs = Some r \<Longrightarrow> (\<And>x. p x \<Longrightarrow> p (f x)) \<Longrightarrow>
   find p (update_where p f rs) = Some (f r)"
  by (induction rs) (auto simp: update_where_def split: if_splits)

lemma distinct_keys_unique:
  "distinct (map k rs) \<Longrightarrow> x \<in> set rs \<Longrightarrow> y \<in> set rs \<Longrightarrow> k x = k y \<Longrightarrow> x = y"
  by (induction rs) (auto simp: rev_image_eqI)

section \<open>Digits\<close>

lemma digits_eq:
  fixes a b a' b' n :: nat
  assumes "b < n" "b' < n"
  shows "a * n + b = a' * n + b' \<longleftrightarrow> a = a' \<and> b = b'"
proof
  assume eq: "a * n + b = a' * n + b'"
  have "(a * n + b) div n = a" "(a * n + b) mod n = b"
    "(a' * n + b') div n = a'" "(a' * n + b') mod n = b'" using assms by simp_all
  then show "a = a' \<and> b = b'" unfolding eq by simp
qed simp

lemma div_is_1: "0 < n \<Longrightarrow> (b::nat) div n = 1 \<longleftrightarrow> n \<le> b \<and> b < 2 * n"
proof -
  assume n: "0 < n"
  have "b div n = 1 \<longleftrightarrow> 0 < b div n \<and> b div n < 2" by auto
  with n show ?thesis by (simp add: div_greater_zero_iff div_less_iff_less_mult)
qed

section \<open>Retry delays\<close>

text \<open>
  \<open>nextRetryAt\<close> occurs twice in the source, in the outbox relay and in the webhook worker,
  with the same constants: \<open>retryBase << uint(attempts-1)\<close>, replaced by \<open>retryCap\<close> when
  the result exceeds the cap or overflowed to a non-positive value. This lemma is the
  arithmetic both need: a base of 2 s never overflows to a small positive delay.
\<close>

lemma shl64_zero: "64 \<le> k \<Longrightarrow> shl64 x k = 0"
  by (simp add: shl64_def)

lemma wrap64_multiple:
  assumes "k \<le> 63" "wrap64 (a * 2 ^ k) = r" "0 < r"
  shows "2 ^ k \<le> r"
proof -
  have split: "(2::int) ^ 63 = 2 ^ (63 - k) * 2 ^ k"
    using assms(1) by (simp add: power_add [symmetric])
  have split': "(2::int) ^ 64 = 2 ^ (64 - k) * 2 ^ k"
    using assms(1) by (simp add: power_add [symmetric])
  have "r = (a * 2 ^ k + 2 ^ (63 - k) * 2 ^ k) mod (2 ^ (64 - k) * 2 ^ k) - 2 ^ (63 - k) * 2 ^ k"
    using assms(2) unfolding wrap64_def split split' by simp
  also have "\<dots> = ((a + 2 ^ (63 - k)) mod 2 ^ (64 - k) - 2 ^ (63 - k)) * 2 ^ k"
    by (simp add: distrib_right [symmetric] mod_mult_mult2 left_diff_distrib)
  finally have r: "r = ((a + 2 ^ (63 - k)) mod 2 ^ (64 - k) - 2 ^ (63 - k)) * 2 ^ k" .
  with assms(3) have "0 < (a + 2 ^ (63 - k)) mod 2 ^ (64 - k) - 2 ^ (63 - k)"
    by (simp add: zero_less_mult_iff)
  then have "1 * 2 ^ k \<le> ((a + 2 ^ (63 - k)) mod 2 ^ (64 - k) - 2 ^ (63 - k)) * 2 ^ k"
    by (intro mult_right_mono) auto
  with r show ?thesis by simp
qed

text \<open>\<open>ORDER BY\<close> a text or uuid column.\<close>

fun insert_by :: "('a \<Rightarrow> string) \<Rightarrow> 'a \<Rightarrow> 'a list \<Rightarrow> 'a list" where
  "insert_by k x [] = [x]"
| "insert_by k x (y # ys) = (if str_less (k y) (k x) then y # insert_by k x ys else x # y # ys)"

definition sort_by :: "('a \<Rightarrow> string) \<Rightarrow> 'a list \<Rightarrow> 'a list" where
  "sort_by k xs = foldr (insert_by k) xs []"

lemma set_insert_by: "set (insert_by k x xs) = insert x (set xs)"
  by (induction xs) auto

lemma set_sort_by [simp]: "set (sort_by k xs) = set xs"
  by (induction xs) (simp_all add: sort_by_def set_insert_by)

end
