(* ===== verification/Transition_Table.thy ===== *)
theory Transition_Table
  imports Go_Prelude
begin

text \<open>
  The interface of a status machine given by a table of allowed transitions, shared by
  the provider lifecycle and the catalog lifecycle of \<open>internal/domain\<close>: \<open>allowed\<close> is the
  table, \<open>tr\<close> the function that validates one requested transition. Runs and traces of
  requests are defined once here, and the facts about closed sets of states and about
  gates (states that every way out of a set goes through) are proved once in the locale.
\<close>

text \<open>
  A sequence of requested targets: an accepted request moves the state, a rejected one
  leaves it, as the handlers do.
\<close>

fun run_requests :: "('a \<Rightarrow> 'a \<Rightarrow> 'a result) \<Rightarrow> 'a \<Rightarrow> 'a list \<Rightarrow> 'a" where
  "run_requests tr s [] = s"
| "run_requests tr s (t # ts) =
     (case tr s t of Inl _ \<Rightarrow> run_requests tr s ts
                      | Inr u \<Rightarrow> run_requests tr u ts)"

text \<open>The states the run enters, in order.\<close>

fun entered :: "('a \<Rightarrow> 'a \<Rightarrow> 'a result) \<Rightarrow> 'a \<Rightarrow> 'a list \<Rightarrow> 'a list" where
  "entered tr s [] = []"
| "entered tr s (t # ts) =
     (case tr s t of Inl _ \<Rightarrow> entered tr s ts
                      | Inr u \<Rightarrow> u # entered tr u ts)"

inductive reaches :: "('a \<Rightarrow> 'a list) \<Rightarrow> 'a \<Rightarrow> 'a \<Rightarrow> bool" for allowed where
  reaches_refl: "reaches allowed s s"
| reaches_step: "reaches allowed s t \<Longrightarrow> u \<in> set (allowed t) \<Longrightarrow> reaches allowed s u"

inductive_cases reaches_cases: "reaches allowed s t"

lemma reaches_closed:
  "reaches allowed s t \<Longrightarrow> s \<in> S \<Longrightarrow>
   (\<And>x y. x \<in> S \<Longrightarrow> y \<in> set (allowed x) \<Longrightarrow> y \<in> S) \<Longrightarrow> t \<in> S"
  by (induction rule: reaches.induct) auto

lemma reaches_trans:
  "reaches allowed t u \<Longrightarrow> reaches allowed s t \<Longrightarrow> reaches allowed s u"
  by (induction rule: reaches.induct) (auto intro: reaches.intros)

lemma reaches_one: "t \<in> set (allowed s) \<Longrightarrow> reaches allowed s t"
  by (auto intro: reaches.intros)

locale transition_table =
  fixes allowed :: "'a \<Rightarrow> 'a list"
    and tr :: "'a \<Rightarrow> 'a \<Rightarrow> 'a result"
  assumes trans_Inr: "tr s t = Inr u \<longleftrightarrow> u = t \<and> t \<in> set (allowed s)"
    and trans_Inl: "tr s t = Inl e \<Longrightarrow> e = ErrInvalidTransition"
begin

lemma trans_rejected: "t \<notin> set (allowed s) \<Longrightarrow> tr s t = Inl ErrInvalidTransition"
  by (cases "tr s t") (auto simp: trans_Inr dest: trans_Inl)

lemma trans_accepted: "t \<in> set (allowed s) \<Longrightarrow> tr s t = Inr t"
  by (simp add: trans_Inr)

lemma run_reaches: "reaches allowed s (run_requests tr s ts)"
proof (induction ts arbitrary: s)
  case Nil
  show ?case by (simp add: reaches_refl)
next
  case (Cons t ts)
  show ?case
  proof (cases "t \<in> set (allowed s)")
    case True
    then have "reaches allowed s (run_requests tr t ts)"
      by (intro reaches_trans [OF Cons.IH] reaches_one)
    with True show ?thesis by (simp add: trans_accepted)
  next
    case False
    then show ?thesis using Cons.IH [of s] by (simp add: trans_rejected)
  qed
qed

lemma run_closed:
  assumes "s \<in> S" "\<And>x y. x \<in> S \<Longrightarrow> y \<in> set (allowed x) \<Longrightarrow> y \<in> S"
  shows "run_requests tr s ts \<in> S"
  using reaches_closed [OF run_reaches assms(1)] assms(2) by blast

lemma run_terminal: "allowed s = [] \<Longrightarrow> run_requests tr s ts = s"
  using run_closed [of s "{s}"] by auto

text \<open>Leaving a set whose only exit is \<open>g\<close> enters \<open>g\<close>.\<close>

lemma run_gate:
  assumes exits: "\<And>x y. x \<in> S \<Longrightarrow> y \<in> set (allowed x) \<Longrightarrow> y \<in> S \<or> y = g"
  shows "s \<in> S \<Longrightarrow> run_requests tr s ts \<notin> S \<Longrightarrow> g \<in> set (entered tr s ts)"
proof (induction ts arbitrary: s)
  case Nil
  then show ?case by simp
next
  case (Cons t ts)
  show ?case
  proof (cases "t \<in> set (allowed s)")
    case True
    with exits Cons.prems have "t \<in> S \<or> t = g" by blast
    with True Cons show ?thesis by (auto simp: trans_accepted)
  next
    case False
    with Cons show ?thesis by (simp add: trans_rejected)
  qed
qed

end

end
