(* ===== verification/Domain_Lifecycle.thy ===== *)
theory Domain_Lifecycle
  imports Transition_Table
begin

text \<open>
  \<open>internal/domain/lifecycle.go\<close>: the provider lifecycle states and their transition
  table, credential scopes, capabilities, team roles and the closed vocabularies with
  their validity predicates. Go's \<open>LifecycleState\<close> is a string type and requests carry
  arbitrary strings, so states stay strings here.
\<close>

section \<open>Constants\<close>

type_synonym LifecycleState = string

abbreviation StateRegistered :: LifecycleState where "StateRegistered \<equiv> ''REGISTERED''"
abbreviation StateTestActive :: LifecycleState where "StateTestActive \<equiv> ''TEST_ACTIVE''"
abbreviation StateLiveReview :: LifecycleState where "StateLiveReview \<equiv> ''LIVE_REVIEW''"
abbreviation StateLiveActive :: LifecycleState where "StateLiveActive \<equiv> ''LIVE_ACTIVE''"
abbreviation StateRestricted :: LifecycleState where "StateRestricted \<equiv> ''RESTRICTED''"
abbreviation StateSuspended :: LifecycleState where "StateSuspended \<equiv> ''SUSPENDED''"
abbreviation StateOffboarding :: LifecycleState where "StateOffboarding \<equiv> ''OFFBOARDING''"

abbreviation EnvKindTest :: string where "EnvKindTest \<equiv> ''test''"
abbreviation EnvKindLive :: string where "EnvKindLive \<equiv> ''live''"

abbreviation ScopeRead :: string where "ScopeRead \<equiv> ''read''"
abbreviation ScopeWrite :: string where "ScopeWrite \<equiv> ''write''"
abbreviation ScopeCredentialsManage :: string where "ScopeCredentialsManage \<equiv> ''credentials:manage''"
abbreviation ScopeAuditRead :: string where "ScopeAuditRead \<equiv> ''audit:read''"
abbreviation ScopeSupportApprove :: string where "ScopeSupportApprove \<equiv> ''support:approve''"
abbreviation ScopeSCIMManage :: string where "ScopeSCIMManage \<equiv> ''scim:manage''"

abbreviation CommerceDomainPlatform :: string where "CommerceDomainPlatform \<equiv> ''platform''"
abbreviation CommerceDomainProvider :: string where "CommerceDomainProvider \<equiv> ''provider''"

abbreviation RiskDecisionApproved :: string where "RiskDecisionApproved \<equiv> ''approved''"
abbreviation RiskDecisionRejected :: string where "RiskDecisionRejected \<equiv> ''rejected''"

abbreviation SupportAccessStandard :: string where "SupportAccessStandard \<equiv> ''standard''"
abbreviation SupportAccessEmergency :: string where "SupportAccessEmergency \<equiv> ''emergency''"
abbreviation SupportStatusRequested :: string where "SupportStatusRequested \<equiv> ''requested''"
abbreviation SupportStatusActive :: string where "SupportStatusActive \<equiv> ''active''"
abbreviation SupportStatusExpired :: string where "SupportStatusExpired \<equiv> ''expired''"
abbreviation SupportStatusRevoked :: string where "SupportStatusRevoked \<equiv> ''revoked''"
abbreviation SupportStatusDenied :: string where "SupportStatusDenied \<equiv> ''denied''"

abbreviation QuotaReserved :: string where "QuotaReserved \<equiv> ''reserved''"
abbreviation QuotaCommitted :: string where "QuotaCommitted \<equiv> ''committed''"
abbreviation QuotaReleased :: string where "QuotaReleased \<equiv> ''released''"
abbreviation QuotaExpired :: string where "QuotaExpired \<equiv> ''expired''"
abbreviation QuotaPeriodDaily :: string where "QuotaPeriodDaily \<equiv> ''daily''"
abbreviation QuotaPeriodMonthly :: string where "QuotaPeriodMonthly \<equiv> ''monthly''"
abbreviation QuotaPeriodTotal :: string where "QuotaPeriodTotal \<equiv> ''total''"

abbreviation TeamRoleAdmin :: string where "TeamRoleAdmin \<equiv> ''admin''"
abbreviation TeamRoleBillingAdmin :: string where "TeamRoleBillingAdmin \<equiv> ''billing_admin''"
abbreviation TeamRoleDeveloper :: string where "TeamRoleDeveloper \<equiv> ''developer''"
abbreviation TeamRoleSupportAgent :: string where "TeamRoleSupportAgent \<equiv> ''support_agent''"

abbreviation CellTypeShared :: string where "CellTypeShared \<equiv> ''shared''"
abbreviation CellTypeDedicated :: string where "CellTypeDedicated \<equiv> ''dedicated''"
abbreviation CellStatusActive :: string where "CellStatusActive \<equiv> ''active''"
abbreviation CellStatusDraining :: string where "CellStatusDraining \<equiv> ''draining''"
abbreviation CellStatusInactive :: string where "CellStatusInactive \<equiv> ''inactive''"

abbreviation FailoverStatusInitiated :: string where "FailoverStatusInitiated \<equiv> ''initiated''"
abbreviation FailoverStatusFenced :: string where "FailoverStatusFenced \<equiv> ''fenced''"
abbreviation FailoverStatusSwitched :: string where "FailoverStatusSwitched \<equiv> ''switched''"
abbreviation FailoverStatusReplaying :: string where "FailoverStatusReplaying \<equiv> ''replaying''"
abbreviation FailoverStatusCompleted :: string where "FailoverStatusCompleted \<equiv> ''completed''"
abbreviation FailoverStatusAborted :: string where "FailoverStatusAborted \<equiv> ''aborted''"

abbreviation CellMigrationPlanned :: string where "CellMigrationPlanned \<equiv> ''planned''"
abbreviation CellMigrationPrechecking :: string where "CellMigrationPrechecking \<equiv> ''prechecking''"
abbreviation CellMigrationReady :: string where "CellMigrationReady \<equiv> ''ready''"
abbreviation CellMigrationMigrating :: string where "CellMigrationMigrating \<equiv> ''migrating''"
abbreviation CellMigrationCompleted :: string where "CellMigrationCompleted \<equiv> ''completed''"
abbreviation CellMigrationFailed :: string where "CellMigrationFailed \<equiv> ''failed''"
abbreviation CellMigrationCancelled :: string where "CellMigrationCancelled \<equiv> ''cancelled''"

abbreviation MigrationStatusDraft :: string where "MigrationStatusDraft \<equiv> ''draft''"
abbreviation MigrationStatusValidating :: string where "MigrationStatusValidating \<equiv> ''validating''"
abbreviation MigrationStatusValidated :: string where "MigrationStatusValidated \<equiv> ''validated''"
abbreviation MigrationStatusImporting :: string where "MigrationStatusImporting \<equiv> ''importing''"
abbreviation MigrationStatusCompleted :: string where "MigrationStatusCompleted \<equiv> ''completed''"
abbreviation MigrationStatusFailed :: string where "MigrationStatusFailed \<equiv> ''failed''"
abbreviation MigrationStatusRolledBack :: string where "MigrationStatusRolledBack \<equiv> ''rolled_back''"

abbreviation MigrationRecordPending :: string where "MigrationRecordPending \<equiv> ''pending''"
abbreviation MigrationRecordValid :: string where "MigrationRecordValid \<equiv> ''valid''"
abbreviation MigrationRecordInvalid :: string where "MigrationRecordInvalid \<equiv> ''invalid''"
abbreviation MigrationRecordImported :: string where "MigrationRecordImported \<equiv> ''imported''"
abbreviation MigrationRecordFailed :: string where "MigrationRecordFailed \<equiv> ''failed''"
abbreviation MigrationRecordRolledBack :: string where "MigrationRecordRolledBack \<equiv> ''rolled_back''"
abbreviation MigrationRecordCustomer :: string where "MigrationRecordCustomer \<equiv> ''customer''"
abbreviation MigrationRecordSubscription :: string where "MigrationRecordSubscription \<equiv> ''subscription''"

section \<open>Vocabularies\<close>

definition AllScopes :: "string list" where
  "AllScopes = [ScopeRead, ScopeWrite, ScopeCredentialsManage, ScopeAuditRead,
                ScopeSupportApprove, ScopeSCIMManage]"

definition AllCapabilities :: "string list" where
  "AllCapabilities = [''messaging'', ''domains'', ''payments'', ''throughput'', ''event_delivery'']"

definition ValidCapability :: "string \<Rightarrow> bool" where
  "ValidCapability s = (s \<in> set AllCapabilities)"

definition ValidScope :: "string \<Rightarrow> bool" where
  "ValidScope s = (s \<in> set AllScopes)"

definition ValidSupportAccessType :: "string \<Rightarrow> bool" where
  "ValidSupportAccessType s = (s = SupportAccessStandard \<or> s = SupportAccessEmergency)"

definition ValidQuotaPeriod :: "string \<Rightarrow> bool" where
  "ValidQuotaPeriod s = (s = QuotaPeriodDaily \<or> s = QuotaPeriodMonthly \<or> s = QuotaPeriodTotal)"

definition ValidTeamRole :: "string \<Rightarrow> bool" where
  "ValidTeamRole s = (s = TeamRoleAdmin \<or> s = TeamRoleBillingAdmin \<or>
                      s = TeamRoleDeveloper \<or> s = TeamRoleSupportAgent)"

definition ValidPlatformRole :: "string \<Rightarrow> bool" where
  "ValidPlatformRole s = (s = ''provider_admin'' \<or> s = ''provider_developer'' \<or>
                          s = ''provider_billing'')"

definition ValidMigrationRecordType :: "string \<Rightarrow> bool" where
  "ValidMigrationRecordType s = (s = ''customer'' \<or> s = ''subscription'')"

definition ValidNotificationChannel :: "string \<Rightarrow> bool" where
  "ValidNotificationChannel s = (s = ''email'' \<or> s = ''sms'')"

definition ValidCellType :: "string \<Rightarrow> bool" where
  "ValidCellType s = (s = CellTypeShared \<or> s = CellTypeDedicated)"

definition ValidCellStatus :: "string \<Rightarrow> bool" where
  "ValidCellStatus s = (s = CellStatusActive \<or> s = CellStatusDraining \<or> s = CellStatusInactive)"

definition ValidPricingModel :: "string \<Rightarrow> bool" where
  "ValidPricingModel s = (s = ''per_unit'' \<or> s = ''tiered'' \<or> s = ''volume'' \<or> s = ''stairstep'')"

definition RoleScopes :: "string \<Rightarrow> string list" where
  "RoleScopes role =
     (if role = TeamRoleAdmin then
        [ScopeRead, ScopeWrite, ScopeCredentialsManage, ScopeAuditRead, ScopeSupportApprove, ScopeSCIMManage]
      else if role = TeamRoleBillingAdmin then [ScopeRead, ScopeWrite, ScopeAuditRead]
      else if role = TeamRoleDeveloper then [ScopeRead, ScopeWrite]
      else if role = TeamRoleSupportAgent then [ScopeRead, ScopeAuditRead, ScopeSupportApprove]
      else [])"

section \<open>The lifecycle state machine\<close>

text \<open>A state that is not a key of the Go map has no transitions (a nil slice).\<close>

definition allowedTransitions :: "LifecycleState \<Rightarrow> LifecycleState list" where
  "allowedTransitions s =
     (if s = StateRegistered then []
      else if s = StateTestActive then [StateLiveReview]
      else if s = StateLiveReview then [StateLiveActive, StateRestricted, StateSuspended]
      else if s = StateLiveActive then [StateRestricted, StateSuspended, StateOffboarding]
      else if s = StateRestricted then [StateLiveActive, StateSuspended, StateOffboarding]
      else if s = StateSuspended then [StateLiveActive, StateOffboarding]
      else if s = StateOffboarding then []
      else [])"

text \<open>The exported copy: the same contents in a fresh slice.\<close>

definition AllowedTransitions :: "LifecycleState \<Rightarrow> LifecycleState list" where
  "AllowedTransitions from = allowedTransitions from"

definition CanTransition :: "LifecycleState \<Rightarrow> LifecycleState \<Rightarrow> bool" where
  "CanTransition from to = (\<exists>s\<in>set (allowedTransitions from). s = to)"

definition Transition :: "LifecycleState \<Rightarrow> LifecycleState \<Rightarrow> LifecycleState result" where
  "Transition from to =
     (if \<not> CanTransition from to then Inl ErrInvalidTransition else Inr to)"

definition CanWrite :: "LifecycleState \<Rightarrow> bool" where
  "CanWrite state = (state = StateTestActive \<or> state = StateLiveReview \<or>
                     state = StateLiveActive \<or> state = StateRestricted)"

definition CanPublishCatalog :: "LifecycleState \<Rightarrow> bool" where
  "CanPublishCatalog state = CanWrite state"

interpretation lifecycle: transition_table allowedTransitions Transition
  by unfold_locales (auto simp: Transition_def CanTransition_def split: if_splits)

definition LiveStates :: "LifecycleState set" where
  "LiveStates = {StateLiveActive, StateRestricted, StateSuspended, StateOffboarding}"

lemma allowed_pre_live:
  "x \<in> {StateRegistered, StateTestActive} \<Longrightarrow> y \<in> set (allowedTransitions x) \<Longrightarrow>
   y \<in> {StateRegistered, StateTestActive} \<or> y = StateLiveReview"
  by (auto simp: allowedTransitions_def)

lemma allowed_live_closed:
  "x \<in> LiveStates \<Longrightarrow> y \<in> set (allowedTransitions x) \<Longrightarrow> y \<in> LiveStates"
  by (auto simp: allowedTransitions_def LiveStates_def split: if_splits)

text \<open>The edges of the lifecycle.\<close>

definition lifecycle_edges :: "(LifecycleState \<times> LifecycleState) set" where
  "lifecycle_edges =
     {(StateTestActive, StateLiveReview),
      (StateLiveReview, StateLiveActive), (StateLiveReview, StateRestricted), (StateLiveReview, StateSuspended),
      (StateLiveActive, StateRestricted), (StateLiveActive, StateSuspended), (StateLiveActive, StateOffboarding),
      (StateRestricted, StateLiveActive), (StateRestricted, StateSuspended), (StateRestricted, StateOffboarding),
      (StateSuspended, StateLiveActive), (StateSuspended, StateOffboarding)}"

text \<open>
  C26. A transition request on a provider's state, whatever the two strings, is granted for
  exactly the twelve edges of the lifecycle and refused for every other pair. So two states have
  no way out by a request (REGISTERED, whose only exit is activation, and OFFBOARDING), from
  TEST_ACTIVE every run of requests that ends anywhere else has passed through LIVE_REVIEW,
  and a run that starts in a live state stays in the live states.
\<close>

theorem lifecycle_review_gate:
  "(\<forall>x y. Transition x y = (if (x, y) \<in> lifecycle_edges then Inr y else Inl ErrInvalidTransition)) \<and>
   (\<forall>ts. run_requests Transition StateRegistered ts = StateRegistered) \<and>
   (\<forall>ts. run_requests Transition StateOffboarding ts = StateOffboarding) \<and>
   (\<forall>ts. run_requests Transition StateTestActive ts = StateTestActive \<or>
         StateLiveReview \<in> set (entered Transition StateTestActive ts)) \<and>
   {run_requests Transition s ts |s ts. s \<in> LiveStates} \<subseteq> LiveStates"
proof (intro conjI allI)
  fix x y
  show "Transition x y = (if (x, y) \<in> lifecycle_edges then Inr y else Inl ErrInvalidTransition)"
    by (auto simp: Transition_def CanTransition_def allowedTransitions_def lifecycle_edges_def)
next
  show "{run_requests Transition s ts |s ts. s \<in> LiveStates} \<subseteq> LiveStates"
    using lifecycle.run_closed [of _ LiveStates] allowed_live_closed by blast
next
  fix ts
  show "run_requests Transition StateRegistered ts = StateRegistered"
    by (rule lifecycle.run_terminal) (simp add: allowedTransitions_def)
  show "run_requests Transition StateOffboarding ts = StateOffboarding"
    by (rule lifecycle.run_terminal) (simp add: allowedTransitions_def)
  have "StateLiveReview \<in> set (entered Transition StateTestActive ts)"
    if "run_requests Transition StateTestActive ts \<noteq> StateTestActive"
    using that
    by (intro lifecycle.run_gate [where S = "{StateTestActive}"])
       (auto simp: allowedTransitions_def)
  then show "run_requests Transition StateTestActive ts = StateTestActive \<or>
      StateLiveReview \<in> set (entered Transition StateTestActive ts)" by blast
qed

text \<open>
  Once live, a provider never returns to a test or review state, whatever is
  requested; and as soon as it is suspended or offboarding it cannot write until the
  operator makes it LIVE_ACTIVE again (the only writable successor of SUSPENDED).
\<close>

theorem lifecycle_live_is_closed:
  assumes "s \<in> LiveStates"
  shows "run_requests Transition s ts \<in> LiveStates \<and>
         (CanWrite (run_requests Transition s ts) \<longleftrightarrow>
          run_requests Transition s ts \<in> {StateLiveActive, StateRestricted}) \<and>
         {t. Transition StateSuspended t = Inr t \<and> CanWrite t} = {StateLiveActive}"
proof (intro conjI)
  show *: "run_requests Transition s ts \<in> LiveStates"
    using assms allowed_live_closed by (rule lifecycle.run_closed)
  from * show "CanWrite (run_requests Transition s ts) \<longleftrightarrow>
         run_requests Transition s ts \<in> {StateLiveActive, StateRestricted}"
    by (auto simp: LiveStates_def CanWrite_def)
  show "{t. Transition StateSuspended t = Inr t \<and> CanWrite t} = {StateLiveActive}"
    by (auto simp: lifecycle.trans_Inr allowedTransitions_def CanWrite_def)
qed

theorem lifecycle_live_is_closed_witness:
  "run_requests Transition StateLiveActive [StateTestActive, StateSuspended] \<in> LiveStates \<and>
   \<not> CanWrite (run_requests Transition StateLiveActive [StateTestActive, StateSuspended])"
  using lifecycle_live_is_closed [of StateLiveActive "[StateTestActive, StateSuspended]"]
  by (simp add: LiveStates_def Transition_def CanTransition_def allowedTransitions_def)

lemma RoleScopes_valid: "sc \<in> set (RoleScopes role) \<Longrightarrow> ValidScope sc"
  by (auto simp: RoleScopes_def ValidScope_def AllScopes_def split: if_splits)

lemma RoleScopes_nonempty_iff: "RoleScopes role \<noteq> [] \<longleftrightarrow> ValidTeamRole role"
  by (auto simp: RoleScopes_def ValidTeamRole_def)

end
