(* ===== verification/Go_Json.thy ===== *)
theory Go_Json
  imports Go_Prelude
begin

text \<open>
  \<open>encoding/json\<close> as far as the source uses it: JSON values, \<open>json.RawMessage\<close>, and
  decoding into structs (object keys matched to field names up to ASCII case, \<open>null\<close> a
  no-op or a nil pointer, integers only from literals without fraction or exponent that
  fit 64 bits). The parser from bytes to values is the standard library's and is not
  modelled: a raw message is either empty, invalid, or the text of a value.
\<close>

datatype json =
    JNull | JBool bool | JInt int | JDec string | JStr string
  | JArr "json list" | JObj "(string \<times> json) list"

text \<open>\<open>JDec\<close> is a number literal with a fraction or an exponent, kept as its text.\<close>

datatype RawMessage = RawEmpty | RawInvalid | RawJson json

definition lower_char :: "char \<Rightarrow> char" where
  "lower_char c = (let n = of_char c :: nat in if 65 \<le> n \<and> n \<le> 90 then char_of (n + 32) else c)"

definition to_lower :: "string \<Rightarrow> string" where
  "to_lower s = map lower_char s"

definition fold_eq :: "string \<Rightarrow> string \<Rightarrow> bool" where
  "fold_eq a b \<longleftrightarrow> to_lower a = to_lower b"

section \<open>Decoding\<close>

text \<open>\<open>None\<close> is the decoder's error; decoding a field starts from the value it has.\<close>

fun dec_int64_ptr :: "json \<Rightarrow> int option option" where
  "dec_int64_ptr JNull = Some None"
| "dec_int64_ptr (JInt i) = (if in64 i then Some (Some i) else None)"
| "dec_int64_ptr _ = None"

fun dec_string :: "json \<Rightarrow> string \<Rightarrow> string option" where
  "dec_string JNull old = Some old"
| "dec_string (JStr s) old = Some s"
| "dec_string _ old = None"

fun dec_list :: "(json \<Rightarrow> 'a option) \<Rightarrow> json list \<Rightarrow> 'a list option" where
  "dec_list d [] = Some []"
| "dec_list d (j # js) =
     (case d j of None \<Rightarrow> None
      | Some x \<Rightarrow> (case dec_list d js of None \<Rightarrow> None | Some xs \<Rightarrow> Some (x # xs)))"

definition dec_slice :: "(json \<Rightarrow> 'a option) \<Rightarrow> json \<Rightarrow> 'a list option" where
  "dec_slice d j = (case j of JNull \<Rightarrow> Some [] | JArr js \<Rightarrow> dec_list d js | _ \<Rightarrow> None)"

fun dec_fields :: "(string \<Rightarrow> json \<Rightarrow> 's \<Rightarrow> 's option) \<Rightarrow> (string \<times> json) list \<Rightarrow> 's \<Rightarrow> 's option" where
  "dec_fields f [] s = Some s"
| "dec_fields f ((k, v) # kvs) s =
     (case f k v s of None \<Rightarrow> None | Some s' \<Rightarrow> dec_fields f kvs s')"

definition dec_struct :: "(string \<Rightarrow> json \<Rightarrow> 's \<Rightarrow> 's option) \<Rightarrow> 's \<Rightarrow> json \<Rightarrow> 's option" where
  "dec_struct f zero j =
     (case j of JNull \<Rightarrow> Some zero | JObj kvs \<Rightarrow> dec_fields f kvs zero | _ \<Rightarrow> None)"

definition unmarshal :: "(json \<Rightarrow> 's option) \<Rightarrow> RawMessage \<Rightarrow> 's option" where
  "unmarshal d raw = (case raw of RawJson j \<Rightarrow> d j | _ \<Rightarrow> None)"

lemma dec_int64_ptr_in64: "dec_int64_ptr j = Some (Some i) \<Longrightarrow> in64 i"
  by (cases j) (auto split: if_splits)

lemma length_dec_list: "dec_list d js = Some xs \<Longrightarrow> length xs = length js"
  by (induction js arbitrary: xs) (auto split: option.splits)

text \<open>A property every single step of a struct decoder keeps holds of the result.\<close>

lemma dec_fields_inv:
  "dec_fields f kvs s = Some s' \<Longrightarrow> P s \<Longrightarrow>
   (\<And>k v s s'. P s \<Longrightarrow> f k v s = Some s' \<Longrightarrow> P s') \<Longrightarrow> P s'"
  by (induction kvs arbitrary: s) (auto split: option.splits prod.splits)

lemma unmarshal_struct_inv:
  assumes "unmarshal (dec_struct f zero) raw = Some s" "P zero"
    and "\<And>k v s s'. P s \<Longrightarrow> f k v s = Some s' \<Longrightarrow> P s'"
  shows "P s"
  using assms
  by (auto simp: unmarshal_def dec_struct_def split: RawMessage.splits json.splits
           intro: dec_fields_inv)

end
