(* ===== verification/Domain_Catalog.thy ===== *)
theory Domain_Catalog
  imports Transition_Table Go_Json
begin

text \<open>
  \<open>internal/domain/catalog.go\<close>: the catalog lifecycle, the content rules of a catalog
  version (structural, and complete for the validate transition) with the tier rules of
  tiered prices, and the merge of plan grants with subscription overrides. A content
  violation is a value of \<open>catalog_error\<close>, one constructor per message of the source; \<open>None\<close>
  is Go's nil error.
\<close>

section \<open>Catalog lifecycle\<close>

type_synonym CatalogState = string

abbreviation CatalogDraft :: CatalogState where "CatalogDraft \<equiv> ''draft''"
abbreviation CatalogValidated :: CatalogState where "CatalogValidated \<equiv> ''validated''"
abbreviation CatalogPublished :: CatalogState where "CatalogPublished \<equiv> ''published''"
abbreviation CatalogRetired :: CatalogState where "CatalogRetired \<equiv> ''retired''"

abbreviation ChargeModelFixed :: string where "ChargeModelFixed \<equiv> ''fixed''"
abbreviation ChargeModelPerUnit :: string where "ChargeModelPerUnit \<equiv> ''per_unit''"
abbreviation ChargeModelTiered :: string where "ChargeModelTiered \<equiv> ''tiered''"

abbreviation SubscriptionActive :: string where "SubscriptionActive \<equiv> ''active''"
abbreviation SubscriptionTerminated :: string where "SubscriptionTerminated \<equiv> ''terminated''"
abbreviation UsageKindIngestion :: string where "UsageKindIngestion \<equiv> ''ingestion''"
abbreviation UsageKindReversal :: string where "UsageKindReversal \<equiv> ''reversal''"

abbreviation EntitlementSourcePlan :: string where "EntitlementSourcePlan \<equiv> ''plan''"
abbreviation EntitlementSourceOverride :: string where "EntitlementSourceOverride \<equiv> ''override''"

definition catalogTransitions :: "CatalogState \<Rightarrow> CatalogState list" where
  "catalogTransitions s =
     (if s = CatalogDraft then [CatalogValidated]
      else if s = CatalogValidated then [CatalogPublished]
      else if s = CatalogPublished then [CatalogRetired]
      else [])"

definition TransitionCatalog :: "CatalogState \<Rightarrow> CatalogState \<Rightarrow> CatalogState result" where
  "TransitionCatalog from to =
     (if to \<in> set (catalogTransitions from) then Inr to else Inl ErrInvalidTransition)"

interpretation catalog_lifecycle: transition_table catalogTransitions TransitionCatalog
  by unfold_locales (auto simp: TransitionCatalog_def split: if_splits)

definition validAggregationType :: "string \<Rightarrow> bool" where
  "validAggregationType s = (s \<in> {''count'', ''sum'', ''max'', ''unique_count''})"

definition validInterval :: "string \<Rightarrow> bool" where
  "validInterval s = (s \<in> {''weekly'', ''monthly'', ''yearly''})"

definition validChargeModel :: "string \<Rightarrow> bool" where
  "validChargeModel s = (s \<in> {ChargeModelFixed, ChargeModelPerUnit, ChargeModelTiered})"

definition ValidValueType :: "string \<Rightarrow> bool" where
  "ValidValueType s = (s \<in> {''boolean'', ''numeric'', ''period''})"

definition ValidAccountType :: "string \<Rightarrow> bool" where
  "ValidAccountType s = (s = ''individual'' \<or> s = ''business'')"

section \<open>Catalog content\<close>

record MetricInput =
  m_Code :: string
  m_Name :: string
  m_AggregationType :: string
  m_FieldName :: string
  m_Billable :: "bool option"

record PriceInput =
  pr_MetricCode :: string
  pr_ChargeModel :: string
  pr_Properties :: RawMessage

record EntitlementInput =
  e_Key :: string
  e_ValueType :: string
  e_Value :: RawMessage

record PlanInput =
  p_Code :: string
  p_Name :: string
  p_Interval :: string
  p_Currency :: string
  p_Prices :: "PriceInput list"
  p_Entitlements :: "EntitlementInput list"

record CatalogContent =
  c_Metrics :: "MetricInput list"
  c_Plans :: "PlanInput list"

record fixedPriceProperties =
  fx_AmountCents :: "int option"
  fx_Currency :: string

record perUnitPriceProperties =
  pu_UnitAmountCents :: "int option"

record priceTier =
  FromValue :: "int option"
  ToValue :: "int option"
  UnitAmountCents :: "int option"

record tieredPriceProperties =
  Tiers :: "priceTier list"

definition dec_fixed :: "json \<Rightarrow> fixedPriceProperties option" where
  "dec_fixed = dec_struct (\<lambda>k v p.
     if fold_eq k ''amount_cents'' then map_option (\<lambda>a. p\<lparr>fx_AmountCents := a\<rparr>) (dec_int64_ptr v)
     else if fold_eq k ''currency'' then
       map_option (\<lambda>c. p\<lparr>fx_Currency := c\<rparr>) (dec_string v (fx_Currency p))
     else Some p) \<lparr>fx_AmountCents = None, fx_Currency = ''''\<rparr>"

definition dec_per_unit :: "json \<Rightarrow> perUnitPriceProperties option" where
  "dec_per_unit = dec_struct (\<lambda>k v p.
     if fold_eq k ''unit_amount_cents''
     then map_option (\<lambda>a. p\<lparr>pu_UnitAmountCents := a\<rparr>) (dec_int64_ptr v)
     else Some p) \<lparr>pu_UnitAmountCents = None\<rparr>"

definition dec_tier :: "json \<Rightarrow> priceTier option" where
  "dec_tier = dec_struct (\<lambda>k v t.
     if fold_eq k ''from_value'' then map_option (\<lambda>a. t\<lparr>FromValue := a\<rparr>) (dec_int64_ptr v)
     else if fold_eq k ''to_value'' then map_option (\<lambda>a. t\<lparr>ToValue := a\<rparr>) (dec_int64_ptr v)
     else if fold_eq k ''unit_amount_cents''
     then map_option (\<lambda>a. t\<lparr>UnitAmountCents := a\<rparr>) (dec_int64_ptr v)
     else Some t) \<lparr>FromValue = None, ToValue = None, UnitAmountCents = None\<rparr>"

text \<open>Each key of the object occurs at most once up to case (a repeated \<open>tiers\<close> array
  would be decoded over the elements of the first one).\<close>

definition dec_tiered :: "json \<Rightarrow> tieredPriceProperties option" where
  "dec_tiered = dec_struct (\<lambda>k v p.
     if fold_eq k ''tiers'' then map_option (\<lambda>ts. p\<lparr>Tiers := ts\<rparr>) (dec_slice dec_tier v)
     else Some p) \<lparr>Tiers = []\<rparr>"

section \<open>Validation\<close>

datatype catalog_error =
    MetricCodeRequired | DuplicateMetricCode string | UnknownAggregationType string string
  | NoPlans | PlanCodeRequired | DuplicatePlanCode string | UnknownInterval string string
  | CurrencyNotThreeLetters string | NoPrices string
  | UnknownChargeModel string string
  | BadProperties string string | AmountRequired string string
  | CurrencyMismatch string string string | UnknownMetric string string string
  | NoTiers string | FromValueRequired string nat | FirstTierNotZero string
  | OnlyLastOpen string nat | NotContiguous string nat | EmptyTier string nat
  | LastTierNotOpen string
  | EntitlementKeyRequired | UnknownValueType string string | ValueRequired string
  | PlanViolation string catalog_error | DuplicateEntitlementKey string string

text \<open>The loop over the tiers: \<open>i\<close> is the index, \<open>prev\<close> is \<open>tiers[i-1]\<close> when \<open>i > 0\<close>.\<close>

fun validateTiers_loop :: "string \<Rightarrow> nat \<Rightarrow> priceTier option \<Rightarrow> priceTier list \<Rightarrow> catalog_error option" where
  "validateTiers_loop planCode i prev [] = None"
| "validateTiers_loop planCode i prev (t # ts) =
     (case FromValue t of
        None \<Rightarrow> Some (FromValueRequired planCode i)
      | Some f \<Rightarrow>
          (case (case prev of
                   None \<Rightarrow> (if f \<noteq> 0 then Some (FirstTierNotZero planCode) else None)
                 | Some p \<Rightarrow>
                     (case ToValue p of
                        None \<Rightarrow> Some (OnlyLastOpen planCode (i - 1))
                      | Some u \<Rightarrow> if u \<noteq> f then Some (NotContiguous planCode i) else None)) of
             Some err \<Rightarrow> Some err
           | None \<Rightarrow>
               (case ToValue t of
                  Some u \<Rightarrow> if u \<le> f then Some (EmptyTier planCode i)
                            else validateTiers_loop planCode (i + 1) (Some t) ts
                | None \<Rightarrow> validateTiers_loop planCode (i + 1) (Some t) ts)))"

definition validateTiers :: "string \<Rightarrow> priceTier list \<Rightarrow> catalog_error option" where
  "validateTiers planCode tiers =
     (if tiers = [] then Some (NoTiers planCode)
      else case validateTiers_loop planCode 0 None tiers of
             Some err \<Rightarrow> Some err
           | None \<Rightarrow> if ToValue (last tiers) \<noteq> None then Some (LastTierNotOpen planCode) else None)"

definition validatePrice :: "PlanInput \<Rightarrow> PriceInput \<Rightarrow> string set \<Rightarrow> catalog_error option" where
  "validatePrice plan pr metricCodes =
     (let code = p_Code plan in
      if \<not> validChargeModel (pr_ChargeModel pr) then Some (UnknownChargeModel code (pr_ChargeModel pr))
      else if pr_ChargeModel pr = ChargeModelFixed then
        (case unmarshal dec_fixed (pr_Properties pr) of
           None \<Rightarrow> Some (BadProperties code ''fixed'')
         | Some props \<Rightarrow>
             (if (case fx_AmountCents props of None \<Rightarrow> True | Some a \<Rightarrow> a < 0)
              then Some (AmountRequired code ''fixed'')
              else if fx_Currency props \<noteq> p_Currency plan
              then Some (CurrencyMismatch code (fx_Currency props) (p_Currency plan))
              else None))
      else if pr_ChargeModel pr = ChargeModelPerUnit then
        (if pr_MetricCode pr = '''' \<or> pr_MetricCode pr \<notin> metricCodes
         then Some (UnknownMetric code ''per_unit'' (pr_MetricCode pr))
         else case unmarshal dec_per_unit (pr_Properties pr) of
           None \<Rightarrow> Some (BadProperties code ''per_unit'')
         | Some props \<Rightarrow>
             (if (case pu_UnitAmountCents props of None \<Rightarrow> True | Some a \<Rightarrow> a < 0)
              then Some (AmountRequired code ''per_unit'') else None))
      else if pr_ChargeModel pr = ChargeModelTiered then
        (if pr_MetricCode pr = '''' \<or> pr_MetricCode pr \<notin> metricCodes
         then Some (UnknownMetric code ''tiered'' (pr_MetricCode pr))
         else case unmarshal dec_tiered (pr_Properties pr) of
           None \<Rightarrow> Some (BadProperties code ''tiered'')
         | Some props \<Rightarrow> validateTiers code (Tiers props))
      else None)"

definition ValidateEntitlementInput :: "EntitlementInput \<Rightarrow> catalog_error option" where
  "ValidateEntitlementInput e =
     (if e_Key e = '''' then Some EntitlementKeyRequired
      else if \<not> ValidValueType (e_ValueType e) then Some (UnknownValueType (e_Key e) (e_ValueType e))
      else if e_Value e = RawEmpty \<or> e_Value e = RawJson JNull then Some (ValueRequired (e_Key e))
      else None)"

fun validate_metrics :: "MetricInput list \<Rightarrow> string set \<Rightarrow> catalog_error + string set" where
  "validate_metrics [] metricCodes = Inr metricCodes"
| "validate_metrics (m # ms) metricCodes =
     (if m_Code m = '''' then Inl MetricCodeRequired
      else if m_Code m \<in> metricCodes then Inl (DuplicateMetricCode (m_Code m))
      else if \<not> validAggregationType (m_AggregationType m)
           then Inl (UnknownAggregationType (m_Code m) (m_AggregationType m))
      else validate_metrics ms (insert (m_Code m) metricCodes))"

fun validate_prices :: "PlanInput \<Rightarrow> PriceInput list \<Rightarrow> string set \<Rightarrow> catalog_error option" where
  "validate_prices p [] metricCodes = None"
| "validate_prices p (pr # prs) metricCodes =
     (case validatePrice p pr metricCodes of
        Some err \<Rightarrow> Some err | None \<Rightarrow> validate_prices p prs metricCodes)"

fun validate_grants :: "PlanInput \<Rightarrow> EntitlementInput list \<Rightarrow> string set \<Rightarrow> catalog_error option" where
  "validate_grants p [] grantKeys = None"
| "validate_grants p (e # es) grantKeys =
     (case ValidateEntitlementInput e of
        Some err \<Rightarrow> Some (PlanViolation (p_Code p) err)
      | None \<Rightarrow> if e_Key e \<in> grantKeys then Some (DuplicateEntitlementKey (p_Code p) (e_Key e))
                else validate_grants p es (insert (e_Key e) grantKeys))"

fun validate_plans :: "bool \<Rightarrow> string set \<Rightarrow> PlanInput list \<Rightarrow> string set \<Rightarrow> catalog_error option" where
  "validate_plans requireComplete metricCodes [] planCodes = None"
| "validate_plans requireComplete metricCodes (p # ps) planCodes =
     (if p_Code p = '''' then Some PlanCodeRequired
      else if p_Code p \<in> planCodes then Some (DuplicatePlanCode (p_Code p))
      else if \<not> validInterval (p_Interval p) then Some (UnknownInterval (p_Code p) (p_Interval p))
      else if length (p_Currency p) \<noteq> 3 then Some (CurrencyNotThreeLetters (p_Code p))
      else if requireComplete \<and> p_Prices p = [] then Some (NoPrices (p_Code p))
      else case validate_prices p (p_Prices p) metricCodes of
        Some err \<Rightarrow> Some err
      | None \<Rightarrow>
          (case validate_grants p (p_Entitlements p) {} of
             Some err \<Rightarrow> Some err
           | None \<Rightarrow> validate_plans requireComplete metricCodes ps (insert (p_Code p) planCodes)))"

definition validateCatalog :: "CatalogContent \<Rightarrow> bool \<Rightarrow> catalog_error option" where
  "validateCatalog c requireComplete =
     (case validate_metrics (c_Metrics c) {} of
        Inl err \<Rightarrow> Some err
      | Inr metricCodes \<Rightarrow>
          (if requireComplete \<and> c_Plans c = [] then Some NoPlans
           else validate_plans requireComplete metricCodes (c_Plans c) {}))"

definition ValidateCatalog :: "CatalogContent \<Rightarrow> catalog_error option" where
  "ValidateCatalog c = validateCatalog c True"

definition ValidateCatalogStructure :: "CatalogContent \<Rightarrow> catalog_error option" where
  "ValidateCatalogStructure c = validateCatalog c False"

section \<open>Entitlement evaluation\<close>

record GrantKV =
  g_Key :: string
  g_ValueType :: string
  g_Value :: RawMessage

record OverrideKV =
  o_Key :: string
  o_ValueType :: string
  o_Value :: RawMessage
  o_ExpiresAt :: "int option"

record EvaluatedEntitlement =
  ev_ValueType :: string
  ev_Value :: RawMessage
  ev_Source :: string
  ev_ExpiresAt :: "int option"

fun apply_grants :: "GrantKV list \<Rightarrow> (string \<rightharpoonup> EvaluatedEntitlement) \<Rightarrow> (string \<rightharpoonup> EvaluatedEntitlement)" where
  "apply_grants [] out = out"
| "apply_grants (g # gs) out =
     apply_grants gs (out(g_Key g \<mapsto>
       \<lparr>ev_ValueType = g_ValueType g, ev_Value = g_Value g,
        ev_Source = EntitlementSourcePlan, ev_ExpiresAt = None\<rparr>))"

fun apply_overrides :: "int \<Rightarrow> OverrideKV list \<Rightarrow> (string \<rightharpoonup> EvaluatedEntitlement) \<Rightarrow> (string \<rightharpoonup> EvaluatedEntitlement)" where
  "apply_overrides now [] out = out"
| "apply_overrides now (ov # os) out =
     (if (case o_ExpiresAt ov of None \<Rightarrow> False | Some t \<Rightarrow> \<not> now < t) then apply_overrides now os out
      else apply_overrides now os (out(o_Key ov \<mapsto>
        \<lparr>ev_ValueType = o_ValueType ov, ev_Value = o_Value ov,
         ev_Source = EntitlementSourceOverride, ev_ExpiresAt = o_ExpiresAt ov\<rparr>)))"

definition EvaluateEntitlements ::
  "GrantKV list \<Rightarrow> OverrideKV list \<Rightarrow> int \<Rightarrow> (string \<rightharpoonup> EvaluatedEntitlement)" where
  "EvaluateEntitlements grants overrides now = apply_overrides now overrides (apply_grants grants Map.empty)"

section \<open>Tiers\<close>

text \<open>A proper tier is a nonempty half-open interval; a quantity falls into the tiers that
  cover it.\<close>

definition proper_tier :: "priceTier \<Rightarrow> bool" where
  "proper_tier t = (case FromValue t of None \<Rightarrow> False
                    | Some f \<Rightarrow> (case ToValue t of None \<Rightarrow> True | Some u \<Rightarrow> f < u))"

definition covers :: "int \<Rightarrow> priceTier \<Rightarrow> bool" where
  "covers q t = (case FromValue t of None \<Rightarrow> False
                 | Some f \<Rightarrow> f \<le> q \<and> (case ToValue t of None \<Rightarrow> True | Some u \<Rightarrow> q < u))"

definition starts_before :: "priceTier \<Rightarrow> priceTier \<Rightarrow> bool" where
  "starts_before s t = (the (FromValue s) < the (FromValue t))"

text \<open>The shape the loop accepts from a start value on.\<close>

fun chain :: "int \<Rightarrow> priceTier list \<Rightarrow> bool" where
  "chain a [] = False"
| "chain a (t # ts) = (FromValue t = Some a \<and>
     (case ToValue t of None \<Rightarrow> ts = [] | Some u \<Rightarrow> a < u \<and> chain u ts))"

lemma validateTiers_loop_chain:
  "ToValue p = Some a \<Longrightarrow> ts \<noteq> [] \<Longrightarrow>
   validateTiers_loop pc i (Some p) ts = None \<and> ToValue (last ts) = None \<longleftrightarrow> chain a ts"
proof (induction ts arbitrary: p a i)
  case Nil
  then show ?case by simp
next
  case (Cons t ts)
  show ?case
  proof (cases "ts = []")
    case True
    with Cons.prems show ?thesis by (auto split: option.splits)
  next
    case False
    then obtain t' ts' where ts: "ts = t' # ts'" by (cases ts) auto
    show ?thesis
    proof (cases "ToValue t")
      case None
      with Cons.prems ts show ?thesis by (auto split: option.splits)
    next
      case (Some u)
      with Cons.IH [OF Some False] Cons.prems False show ?thesis
        by (auto split: option.splits)
    qed
  qed
qed

lemma validateTiers_chain: "validateTiers pc ts = None \<longleftrightarrow> chain 0 ts"
proof (cases ts)
  case Nil
  then show ?thesis by (simp add: validateTiers_def)
next
  case (Cons t rest)
  show ?thesis
  proof (cases "rest = []")
    case True
    with Cons show ?thesis by (auto simp: validateTiers_def split: option.splits)
  next
    case False
    then obtain t' ts' where rest: "rest = t' # ts'" by (cases rest) auto
    show ?thesis
    proof (cases "ToValue t")
      case None
      with Cons rest show ?thesis by (auto simp: validateTiers_def split: option.splits)
    next
      case (Some u)
      with Cons False validateTiers_loop_chain [OF Some False, of pc 1] show ?thesis
        by (auto simp: validateTiers_def split: option.splits)
    qed
  qed
qed

lemma covers_from:
  "FromValue t = Some f \<Longrightarrow>
   covers q t \<longleftrightarrow> f \<le> q \<and> (case ToValue t of None \<Rightarrow> True | Some u \<Rightarrow> q < u)"
  by (simp add: covers_def)

lemma chain_counts:
  "chain a ts \<Longrightarrow> length (filter (covers q) ts) = (if a \<le> q then 1 else 0)"
proof (induction ts arbitrary: a)
  case (Cons t ts)
  then have f: "FromValue t = Some a" by simp
  show ?case
  proof (cases "ToValue t")
    case None
    with Cons.prems show ?thesis by (simp add: covers_from [OF f])
  next
    case (Some u)
    with Cons.prems Cons.IH [of u] show ?thesis by (simp add: covers_from [OF f])
  qed
qed simp

lemma chain_starts: "chain a ts \<Longrightarrow> t \<in> set ts \<Longrightarrow> a \<le> the (FromValue t)"
proof (induction ts arbitrary: a)
  case (Cons t' ts)
  then show ?case by (fastforce split: option.splits)
qed simp

lemma chain_sorted: "chain a ts \<Longrightarrow> sorted_wrt starts_before ts"
proof (induction ts arbitrary: a)
  case (Cons t ts)
  show ?case
  proof (cases "ToValue t")
    case None
    with Cons.prems show ?thesis by simp
  next
    case (Some u)
    with Cons.prems have "a < u" "chain u ts" "FromValue t = Some a" by simp_all
    with Cons.IH [of u] show ?thesis
      by (auto simp: starts_before_def dest!: chain_starts [of u ts])
  qed
qed simp

lemma chain_proper: "chain a ts \<Longrightarrow> t \<in> set ts \<Longrightarrow> proper_tier t"
proof (induction ts arbitrary: a)
  case (Cons t' ts)
  show ?case
  proof (cases "t = t'")
    case True
    with Cons.prems show ?thesis by (auto simp: proper_tier_def split: option.splits)
  next
    case False
    with Cons.prems obtain u where "chain u ts" "t \<in> set ts" by (auto split: option.splits)
    then show ?thesis by (rule Cons.IH)
  qed
qed simp

lemma covers_start: "proper_tier t \<Longrightarrow> covers (the (FromValue t)) t"
  by (auto simp: proper_tier_def covers_def split: option.splits)

lemma partition_chain:
  assumes "\<forall>t\<in>set ts. proper_tier t" "sorted_wrt starts_before ts"
    and "\<forall>q. length (filter (covers q) ts) = (if a \<le> q then 1 else 0)"
  shows "chain a ts"
  using assms
proof (induction ts arbitrary: a)
  case Nil
  from Nil.prems(3) have "(0::nat) = (if a \<le> a then 1 else 0)"
    by (metis filter.simps(1) list.size(3))
  then show ?case by simp
next
  case (Cons t ts)
  obtain f where f: "FromValue t = Some f"
    using Cons.prems(1) by (auto simp: proper_tier_def split: option.splits)
  have cnt: "(if covers q t then 1 else 0) + length (filter (covers q) ts) = (if a \<le> q then 1 else 0)" for q
    using Cons.prems(3) [rule_format, of q] by (simp split: if_splits)
  have later: "covers q s \<Longrightarrow> s \<in> set ts \<Longrightarrow> f < q" for q s
    using Cons.prems(2) f by (auto simp: starts_before_def covers_def split: option.splits)
  then have early: "q \<le> f \<Longrightarrow> filter (covers q) ts = []" for q
    by (fastforce simp: filter_empty_conv)
  have tf: "covers f t" using covers_start [of t] Cons.prems(1) f by simp
  have "a \<le> f" using cnt [of f] tf by (simp split: if_splits)
  moreover have "f \<le> a"
  proof (rule ccontr)
    assume "\<not> f \<le> a"
    then show False using cnt [of a] early [of a] f by (simp add: covers_def)
  qed
  ultimately have fa: "f = a" by simp
  show ?case
  proof (cases "ToValue t")
    case None
    then have "covers q t" if "a \<le> q" for q using f fa that by (simp add: covers_def)
    then have none: "filter (covers q) ts = []" for q
      using cnt [of q] early [of q] fa by (cases "a \<le> q") auto
    have "ts = []"
    proof (rule ccontr)
      assume "ts \<noteq> []"
      then obtain s where "s \<in> set ts" by (cases ts) auto
      with Cons.prems(1) covers_start none show False by (fastforce simp: filter_empty_conv)
    qed
    with None f fa show ?thesis by simp
  next
    case (Some u)
    have au: "a < u" using Cons.prems(1) f fa Some by (simp add: proper_tier_def)
    have "length (filter (covers q) ts) = (if u \<le> q then 1 else 0)" for q
      using cnt [of q] f fa Some au by (auto simp: covers_def split: if_splits)
    then have "chain u ts" using Cons.IH [of u] Cons.prems(1,2) by simp
    with f fa Some au show ?thesis by simp
  qed
qed

text \<open>
  C31. \<open>validateTiers\<close> accepts exactly the tier lists that partition the quantities from 0
  up: every tier is a nonempty interval, the tiers come in increasing order, every
  quantity from 0 on falls into exactly one tier and no negative quantity into any.
\<close>

theorem validateTiers_iff_partition:
  "validateTiers planCode tiers = None \<longleftrightarrow>
   (\<forall>t\<in>set tiers. proper_tier t) \<and> sorted_wrt starts_before tiers \<and>
   (\<forall>q. length (filter (covers q) tiers) = (if 0 \<le> q then 1 else 0))"
  unfolding validateTiers_chain
  using chain_counts chain_sorted chain_proper partition_chain by blast

theorem validateTiers_iff_partition_witness:
  "length (filter (covers 250)
     [\<lparr>FromValue = Some 0, ToValue = Some 100, UnitAmountCents = Some 5\<rparr>,
      \<lparr>FromValue = Some 100, ToValue = None, UnitAmountCents = Some 3\<rparr>]) = 1"
  using validateTiers_iff_partition [of "''pro''"
     "[\<lparr>FromValue = Some 0, ToValue = Some 100, UnitAmountCents = Some 5\<rparr>,
       \<lparr>FromValue = Some 100, ToValue = None, UnitAmountCents = Some 3\<rparr>]"]
  by (simp add: validateTiers_def)

section \<open>The content rules\<close>

definition metrics_ok :: "MetricInput list \<Rightarrow> bool" where
  "metrics_ok ms = ((\<forall>m\<in>set ms. m_Code m \<noteq> '''' \<and> validAggregationType (m_AggregationType m)) \<and>
                    distinct (map m_Code ms))"

definition grants_ok :: "EntitlementInput list \<Rightarrow> bool" where
  "grants_ok es = ((\<forall>e\<in>set es. e_Key e \<noteq> '''' \<and> ValidValueType (e_ValueType e) \<and>
                      e_Value e \<noteq> RawEmpty \<and> e_Value e \<noteq> RawJson JNull) \<and>
                   distinct (map e_Key es))"

definition amount_given :: "int option \<Rightarrow> bool" where
  "amount_given a = (case a of None \<Rightarrow> False | Some c \<Rightarrow> 0 \<le> c)"

definition price_ok :: "string set \<Rightarrow> PlanInput \<Rightarrow> PriceInput \<Rightarrow> bool" where
  "price_ok codes p pr =
     ((pr_ChargeModel pr = ChargeModelFixed \<and>
        (\<exists>x. unmarshal dec_fixed (pr_Properties pr) = Some x \<and>
             amount_given (fx_AmountCents x) \<and> fx_Currency x = p_Currency p)) \<or>
      (pr_ChargeModel pr = ChargeModelPerUnit \<and> pr_MetricCode pr \<in> codes \<and>
        (\<exists>x. unmarshal dec_per_unit (pr_Properties pr) = Some x \<and>
             amount_given (pu_UnitAmountCents x))) \<or>
      (pr_ChargeModel pr = ChargeModelTiered \<and> pr_MetricCode pr \<in> codes \<and>
        (\<exists>x. unmarshal dec_tiered (pr_Properties pr) = Some x \<and> chain 0 (Tiers x))))"

definition plan_ok :: "bool \<Rightarrow> string set \<Rightarrow> PlanInput \<Rightarrow> bool" where
  "plan_ok complete codes p =
     (p_Code p \<noteq> '''' \<and> validInterval (p_Interval p) \<and> length (p_Currency p) = 3 \<and>
      (complete \<longrightarrow> p_Prices p \<noteq> []) \<and>
      (\<forall>pr\<in>set (p_Prices p). price_ok codes p pr) \<and> grants_ok (p_Entitlements p))"

definition catalog_ok :: "bool \<Rightarrow> CatalogContent \<Rightarrow> bool" where
  "catalog_ok complete c =
     (metrics_ok (c_Metrics c) \<and> (complete \<longrightarrow> c_Plans c \<noteq> []) \<and>
      (\<forall>p\<in>set (c_Plans c). plan_ok complete (m_Code ` set (c_Metrics c)) p) \<and>
      distinct (map p_Code (c_Plans c)))"

lemma validate_metrics_iff:
  "validate_metrics ms codes = Inr r \<longleftrightarrow>
   metrics_ok ms \<and> m_Code ` set ms \<inter> codes = {} \<and> r = codes \<union> m_Code ` set ms"
  by (induction ms arbitrary: codes) (auto simp: metrics_ok_def)

lemma validate_grants_iff:
  "validate_grants p es keys = None \<longleftrightarrow> grants_ok es \<and> e_Key ` set es \<inter> keys = {}"
  by (induction es arbitrary: keys)
     (auto simp: grants_ok_def ValidateEntitlementInput_def split: option.splits if_splits)

lemma validatePrice_iff:
  "'''' \<notin> codes \<Longrightarrow> validatePrice p pr codes = None \<longleftrightarrow> price_ok codes p pr"
  by (auto simp: validatePrice_def price_ok_def Let_def validChargeModel_def amount_given_def
        validateTiers_chain split: option.splits if_splits)

lemma validate_prices_iff:
  "'''' \<notin> codes \<Longrightarrow>
   validate_prices p prs codes = None \<longleftrightarrow> (\<forall>pr\<in>set prs. price_ok codes p pr)"
proof (induction prs)
  case (Cons pr prs)
  then show ?case
    using validatePrice_iff [of codes p pr] by (cases "validatePrice p pr codes") auto
qed simp

lemma validate_plans_iff:
  "'''' \<notin> codes \<Longrightarrow>
   validate_plans b codes ps seen = None \<longleftrightarrow>
   (\<forall>p\<in>set ps. plan_ok b codes p) \<and> distinct (map p_Code ps) \<and> p_Code ` set ps \<inter> seen = {}"
proof (induction ps arbitrary: seen)
  case (Cons p ps)
  have prices: "validate_prices p (p_Prices p) codes = None \<longleftrightarrow>
      (\<forall>pr\<in>set (p_Prices p). price_ok codes p pr)"
    using validate_prices_iff Cons.prems by blast
  have grants: "validate_grants p (p_Entitlements p) {} = None \<longleftrightarrow> grants_ok (p_Entitlements p)"
    by (simp add: validate_grants_iff)
  have IH: "validate_plans b codes ps (insert (p_Code p) seen) = None \<longleftrightarrow>
      (\<forall>p\<in>set ps. plan_ok b codes p) \<and> distinct (map p_Code ps) \<and>
      p_Code ` set ps \<inter> insert (p_Code p) seen = {}"
    using Cons.IH [OF Cons.prems] .
  show ?case
  proof (cases "validate_prices p (p_Prices p) codes")
    case None
    with prices have 1: "\<forall>pr\<in>set (p_Prices p). price_ok codes p pr" by simp
    show ?thesis
    proof (cases "validate_grants p (p_Entitlements p) {}")
      case n: None
      with grants have "grants_ok (p_Entitlements p)" by simp
      with 1 have "plan_ok b codes p \<longleftrightarrow> p_Code p \<noteq> '''' \<and> validInterval (p_Interval p) \<and>
          length (p_Currency p) = 3 \<and> (b \<longrightarrow> p_Prices p \<noteq> [])"
        by (simp add: plan_ok_def)
      with None n IH show ?thesis by auto
    next
      case (Some e)
      with grants None show ?thesis by (simp add: plan_ok_def)
    qed
  next
    case (Some e)
    then have "\<not> (\<forall>pr\<in>set (p_Prices p). price_ok codes p pr)" using prices by simp
    with Some show ?thesis by (auto simp: plan_ok_def)
  qed
qed simp

lemma validateCatalog_ok:
  "validateCatalog c requireComplete = None \<longleftrightarrow> catalog_ok requireComplete c"
proof (cases "validate_metrics (c_Metrics c) {}")
  case (Inl e)
  then have "\<not> metrics_ok (c_Metrics c)"
    using validate_metrics_iff [of "c_Metrics c" "{}" "m_Code ` set (c_Metrics c)"] by auto
  with Inl show ?thesis by (simp add: validateCatalog_def catalog_ok_def)
next
  case (Inr codes)
  then have m: "metrics_ok (c_Metrics c)" "codes = m_Code ` set (c_Metrics c)"
    by (auto simp: validate_metrics_iff)
  then have "'''' \<notin> codes" by (auto simp: metrics_ok_def)
  with validate_plans_iff [of codes requireComplete "c_Plans c" "{}"] Inr m show ?thesis
    by (auto simp: validateCatalog_def catalog_ok_def)
qed

text \<open>
  C25. The content validation returns no error exactly when the catalog satisfies the
  declarative rules: unique nonempty metric and plan codes, known enumerations, prices
  whose properties decode and match their metric and currency, complete entitlement grants
  with unique keys, and, for the complete variant only, at least one plan and at least one
  price per plan.
\<close>

theorem validateCatalog_iff_ok:
  "validateCatalog c requireComplete = None \<longleftrightarrow> catalog_ok requireComplete c"
  by (rule validateCatalog_ok)

text \<open>
  Completing never needs restructuring: a catalog that passes the publish-time rules
  passes the rules a draft is saved under, and a saved draft passes the publish-time rules
  exactly when it has a plan and every plan has a price.
\<close>

theorem ValidateCatalog_completes_structure:
  "ValidateCatalog c = None \<longleftrightarrow>
   ValidateCatalogStructure c = None \<and> c_Plans c \<noteq> [] \<and> [] \<notin> p_Prices ` set (c_Plans c)"
  unfolding ValidateCatalog_def ValidateCatalogStructure_def validateCatalog_ok
  by (auto simp: catalog_ok_def plan_ok_def) (metis image_eqI)

section \<open>Entitlements\<close>

definition expired :: "int \<Rightarrow> OverrideKV \<Rightarrow> bool" where
  "expired now ov = (case o_ExpiresAt ov of None \<Rightarrow> False | Some t \<Rightarrow> t \<le> now)"

lemma find_append: "find p (xs @ ys) = (case find p xs of None \<Rightarrow> find p ys | Some x \<Rightarrow> Some x)"
  by (induction xs) auto

lemma apply_grants_lookup:
  "apply_grants gs out k =
   (case find (\<lambda>g. g_Key g = k) (rev gs) of
      Some g \<Rightarrow> Some \<lparr>ev_ValueType = g_ValueType g, ev_Value = g_Value g,
                      ev_Source = EntitlementSourcePlan, ev_ExpiresAt = None\<rparr>
    | None \<Rightarrow> out k)"
  by (induction gs arbitrary: out) (auto simp: find_append split: option.splits)

lemma apply_overrides_lookup:
  "apply_overrides now os out k =
   (case find (\<lambda>ov. o_Key ov = k \<and> \<not> expired now ov) (rev os) of
      Some ov \<Rightarrow> Some \<lparr>ev_ValueType = o_ValueType ov, ev_Value = o_Value ov,
                       ev_Source = EntitlementSourceOverride, ev_ExpiresAt = o_ExpiresAt ov\<rparr>
    | None \<Rightarrow> out k)"
proof (induction os arbitrary: out)
  case (Cons ov os)
  have "(case o_ExpiresAt ov of None \<Rightarrow> False | Some t \<Rightarrow> \<not> now < t) = expired now ov"
    by (simp add: expired_def not_less split: option.splits)
  with Cons show ?case by (auto simp: find_append split: option.splits)
qed simp

text \<open>
  C32. The entitlement snapshot at a key is the last override of that key that has not
  expired (an override expires at its \<open>ExpiresAt\<close> itself); without one it is the last plan
  grant of the key, and without a grant the key is absent.
\<close>

theorem EvaluateEntitlements_lookup:
  "EvaluateEntitlements grants overrides now k =
   (case find (\<lambda>ov. o_Key ov = k \<and> \<not> expired now ov) (rev overrides) of
      Some ov \<Rightarrow> Some \<lparr>ev_ValueType = o_ValueType ov, ev_Value = o_Value ov,
                       ev_Source = EntitlementSourceOverride, ev_ExpiresAt = o_ExpiresAt ov\<rparr>
    | None \<Rightarrow>
        (case find (\<lambda>g. g_Key g = k) (rev grants) of
           Some g \<Rightarrow> Some \<lparr>ev_ValueType = g_ValueType g, ev_Value = g_Value g,
                           ev_Source = EntitlementSourcePlan, ev_ExpiresAt = None\<rparr>
         | None \<Rightarrow> None))"
  by (simp add: EvaluateEntitlements_def apply_overrides_lookup apply_grants_lookup
      cong: option.case_cong)

section \<open>What the tier rules leave out\<close>

definition tier_gap_catalog :: CatalogContent where
  "tier_gap_catalog =
     \<lparr>c_Metrics = [\<lparr>m_Code = ''calls'', m_Name = '''', m_AggregationType = ''sum'',
                    m_FieldName = '''', m_Billable = None\<rparr>],
      c_Plans = [\<lparr>p_Code = ''pro'', p_Name = '''', p_Interval = ''monthly'', p_Currency = ''USD'',
        p_Prices = [\<lparr>pr_MetricCode = ''calls'', pr_ChargeModel = ChargeModelTiered,
          pr_Properties = RawJson (JObj [(''tiers'', JArr
            [JObj [(''from_value'', JInt 0), (''to_value'', JInt 10), (''unit_amount_cents'', JInt (-5))],
             JObj [(''from_value'', JInt 10)]])])\<rparr>],
        p_Entitlements = []\<rparr>]\<rparr>"

text \<open>
  The validation never looks at a tier's \<open>unit_amount_cents\<close>: fixed and per-unit prices
  must carry a nonnegative amount, but this catalog, whose tiered price has a negative
  amount in its first tier and none in its second, passes the publish-time rules.
\<close>

lemma tier_amounts_unchecked: "ValidateCatalog tier_gap_catalog = None"
  by code_simp

end
