(* ===== verification/Breaker.thy ===== *)
theory Breaker
  imports Go_Prelude
begin

text \<open>
  \<open>internal/circuitbreaker/breaker.go\<close>, twice. First the methods as whole calls, each
  returning the updated breaker; one protected call (\<open>Allow\<close>, then \<open>OnSuccess\<close> or
  \<open>OnFailure\<close>) at a time refines a two-state machine. Then the same methods as sequences
  of atomic loads, stores, additions and compare-and-swaps of concurrent goroutines, where
  the probe bound of the half-open counter holds but slots can be lost.
  Logging and the transition callback are left out: they do not touch the breaker.
\<close>

section \<open>State\<close>

datatype State = StateClosed | StateHalfOpen | StateOpen

record Options =
  FailureThreshold :: int
  OpenTimeout :: int
  HalfOpenMax :: int

record Breaker =
  opts :: Options
  state :: State
  failures :: int
  openedAt :: int
  halfInFlight :: int

definition New :: "Options \<Rightarrow> Breaker" where
  "New o' = \<lparr>opts = \<lparr>FailureThreshold = (if FailureThreshold o' \<le> 0 then 5 else FailureThreshold o'),
                    OpenTimeout = (if OpenTimeout o' \<le> 0 then 30 * Second else OpenTimeout o'),
                    HalfOpenMax = (if HalfOpenMax o' \<le> 0 then 1 else HalfOpenMax o')\<rparr>,
            state = StateClosed, failures = 0, openedAt = 0, halfInFlight = 0\<rparr>"

section \<open>The methods as whole calls\<close>

definition expireOpen :: "int \<Rightarrow> Breaker \<Rightarrow> bool \<times> Breaker" where
  "expireOpen now b =
     (if now - openedAt b < OpenTimeout (opts b) then (False, b)
      else (True, if state b = StateOpen then b\<lparr>state := StateHalfOpen\<rparr> else b))"

definition tryAcquireHalfOpen :: "Breaker \<Rightarrow> bool \<times> Breaker" where
  "tryAcquireHalfOpen b =
     (if halfInFlight b \<ge> HalfOpenMax (opts b) then (False, b)
      else (True, b\<lparr>halfInFlight := halfInFlight b + 1\<rparr>))"

text \<open>Uncontended, the loop of \<open>Allow\<close> runs at most twice: after \<open>expireOpen\<close> succeeds the
  state is half-open.\<close>

definition Allow :: "int \<Rightarrow> Breaker \<Rightarrow> bool \<times> Breaker" where
  "Allow now b =
     (case state b of
        StateClosed \<Rightarrow> (True, b)
      | StateOpen \<Rightarrow>
          (let (ok, b1) = expireOpen now b
           in if \<not> ok then (False, b1) else tryAcquireHalfOpen b1)
      | StateHalfOpen \<Rightarrow> tryAcquireHalfOpen b)"

definition OnSuccess :: "Breaker \<Rightarrow> Breaker" where
  "OnSuccess b =
     (case state b of
        StateClosed \<Rightarrow> b\<lparr>failures := 0\<rparr>
      | StateHalfOpen \<Rightarrow> b\<lparr>state := StateClosed, halfInFlight := halfInFlight b - 1, failures := 0\<rparr>
      | StateOpen \<Rightarrow> b)"

definition OnFailure :: "int \<Rightarrow> Breaker \<Rightarrow> Breaker" where
  "OnFailure now b =
     (case state b of
        StateClosed \<Rightarrow>
          (let b1 = b\<lparr>failures := failures b + 1\<rparr>
           in if failures b1 < FailureThreshold (opts b) then b1
              else b1\<lparr>state := StateOpen, openedAt := now\<rparr>)
      | StateHalfOpen \<Rightarrow> b\<lparr>halfInFlight := halfInFlight b - 1, state := StateOpen, openedAt := now\<rparr>
      | StateOpen \<Rightarrow> b)"

text \<open>One protected call at time \<open>now\<close> whose outcome, if it is made, is \<open>ok\<close>.\<close>

definition protected_call :: "int \<Rightarrow> bool \<Rightarrow> Breaker \<Rightarrow> bool \<times> Breaker" where
  "protected_call now ok b =
     (let (allowed, b1) = Allow now b
      in (allowed, if \<not> allowed then b1 else if ok then OnSuccess b1 else OnFailure now b1))"

section \<open>Refinement of a two-state machine\<close>

datatype spec_state = Counting int | Cooling int

fun spec_call :: "Options \<Rightarrow> int \<Rightarrow> bool \<Rightarrow> spec_state \<Rightarrow> bool \<times> spec_state" where
  "spec_call op now True (Counting n) = (True, Counting 0)"
| "spec_call op now False (Counting n) =
     (True, if n + 1 < FailureThreshold op then Counting (n + 1) else Cooling now)"
| "spec_call op now ok (Cooling t) =
     (if now - t < OpenTimeout op then (False, Cooling t)
      else (True, if ok then Counting 0 else Cooling now))"

definition abs_breaker :: "Breaker \<Rightarrow> spec_state" where
  "abs_breaker b = (if state b = StateOpen then Cooling (openedAt b) else Counting (failures b))"

definition quiet :: "Breaker \<Rightarrow> bool" where
  "quiet b \<longleftrightarrow> state b \<noteq> StateHalfOpen \<and> halfInFlight b = 0 \<and> 0 < HalfOpenMax (opts b)"

lemma quiet_New: "quiet (New op)"
  by (simp add: quiet_def New_def)

lemmas method_defs = protected_call_def Allow_def expireOpen_def tryAcquireHalfOpen_def
  OnSuccess_def OnFailure_def

lemma protected_call_step:
  "quiet b \<Longrightarrow> protected_call now ok b = (allowed, b') \<Longrightarrow>
   quiet b' \<and> opts b' = opts b \<and> spec_call (opts b) now ok (abs_breaker b) = (allowed, abs_breaker b')"
  by (cases ok; cases "state b")
     (auto simp: quiet_def method_defs abs_breaker_def Let_def split: if_splits)

fun run_calls :: "(int \<times> bool) list \<Rightarrow> Breaker \<Rightarrow> bool list \<times> Breaker" where
  "run_calls [] b = ([], b)"
| "run_calls ((now, ok) # cs) b =
     (let (a, b1) = protected_call now ok b; (as, b2) = run_calls cs b1 in (a # as, b2))"

fun run_spec :: "Options \<Rightarrow> (int \<times> bool) list \<Rightarrow> spec_state \<Rightarrow> bool list \<times> spec_state" where
  "run_spec op [] s = ([], s)"
| "run_spec op ((now, ok) # cs) s =
     (let (a, s1) = spec_call op now ok s; (as, s2) = run_spec op cs s1 in (a # as, s2))"

lemma run_calls_refines:
  "quiet b \<Longrightarrow> run_calls cs b = (as, b') \<Longrightarrow>
   quiet b' \<and> opts b' = opts b \<and> run_spec (opts b) cs (abs_breaker b) = (as, abs_breaker b')"
proof (induction cs arbitrary: b b' as)
  case (Cons c cs)
  obtain now ok where c: "c = (now, ok)" by (cases c)
  obtain a b1 where 1: "protected_call now ok b = (a, b1)" by fastforce
  obtain as1 b2 where 2: "run_calls cs b1 = (as1, b2)" by fastforce
  from protected_call_step [OF Cons.prems(1) 1]
  have s: "quiet b1" "opts b1 = opts b"
    "spec_call (opts b) now ok (abs_breaker b) = (a, abs_breaker b1)" by auto
  from Cons.IH [OF s(1) 2] s Cons.prems(2) c 1 2 show ?case by simp
qed simp

text \<open>
  C24. Protected calls made one after the other, with any times and outcomes, are admitted
  and denied exactly as by the two-state machine: counting consecutive failures up to the
  threshold, then cooling down for \<open>OpenTimeout\<close>, then deciding by a single probe. Between
  calls no probe slot is held.
\<close>

theorem breaker_refines_spec:
  "fst (run_calls cs (New op)) = fst (run_spec (opts (New op)) cs (Counting 0)) \<and>
   halfInFlight (snd (run_calls cs (New op))) = 0"
proof -
  obtain as b' where r: "run_calls cs (New op) = (as, b')" by fastforce
  have "abs_breaker (New op) = Counting 0" by (simp add: abs_breaker_def New_def)
  with run_calls_refines [OF quiet_New r] r show ?thesis by (simp add: quiet_def)
qed

lemma run_spec_append:
  "run_spec op (cs @ ds) s =
   (let (as, s1) = run_spec op cs s; (bs, s2) = run_spec op ds s1 in (as @ bs, s2))"
  by (induction cs arbitrary: s) (auto simp: Let_def split: prod.splits)

lemma run_spec_failures:
  "n + int (length ts) < FailureThreshold op \<Longrightarrow>
   run_spec op (map (\<lambda>t. (t, False)) ts) (Counting n) =
   (replicate (length ts) True, Counting (n + int (length ts)))"
  by (induction ts arbitrary: n) (auto simp: Let_def)

lemma run_spec_denied:
  "\<forall>(t, ok)\<in>set cs. t - t0 < OpenTimeout op \<Longrightarrow>
   run_spec op cs (Cooling t0) = (replicate (length cs) False, Cooling t0)"
proof (induction cs)
  case (Cons c cs)
  then obtain t ok where "c = (t, ok)" "t - t0 < OpenTimeout op" by (cases c) auto
  with Cons show ?case by (cases ok) (auto simp: Let_def)
qed simp

text \<open>
  A fresh breaker whose first \<open>FailureThreshold\<close> calls fail admits all of them and is
  then open: every call before the cool-down has passed since the last failure is denied,
  however many are made.
\<close>

theorem breaker_trips_and_cools:
  assumes "int (length ts) + 1 = FailureThreshold op" "0 < OpenTimeout op"
    and "\<forall>(t, ok)\<in>set cs. t - t0 < OpenTimeout op"
  shows "fst (run_calls (map (\<lambda>t. (t, False)) ts @ (t0, False) # cs) (New op)) =
         replicate (length ts + 1) True @ replicate (length cs) False"
proof -
  let ?op = "opts (New op)"
  have op: "FailureThreshold ?op = FailureThreshold op" "OpenTimeout ?op = OpenTimeout op"
    using assms by (auto simp: New_def)
  let ?run = "map (\<lambda>t. (t, False)) ts @ (t0, False) # cs"
  obtain as b' where r: "run_calls ?run (New op) = (as, b')" by fastforce
  have a: "abs_breaker (New op) = Counting 0" by (simp add: abs_breaker_def New_def)
  have "run_spec ?op ?run (Counting 0) =
      (replicate (length ts) True @ True # replicate (length cs) False, Cooling t0)"
    using assms run_spec_failures [of 0 ts ?op] run_spec_denied [of cs t0 ?op]
    by (simp add: run_spec_append op)
  with run_calls_refines [OF quiet_New r] a r show ?thesis
    by (simp add: replicate_app_Cons_same)
qed

theorem breaker_trips_and_cools_witness:
  "fst (run_calls [(1, False), (2, False), (3, False), (20, True), (1000, True)]
        (New \<lparr>FailureThreshold = 3, OpenTimeout = 30 * Second, HalfOpenMax = 1\<rparr>)) =
   [True, True, True, False, False]"
  using breaker_trips_and_cools [of "[1, 2]" "\<lparr>FailureThreshold = 3, OpenTimeout = 30 * Second, HalfOpenMax = 1\<rparr>"
      "[(20, True), (1000, True)]" 3]
  by (simp add: numeral_eq_Suc)

section \<open>The methods as interleaved atomic operations\<close>

text \<open>
  A goroutine is idle, inside one of the methods just before an atomic operation, or making
  its admitted call. \<open>Start\<close> calls \<open>Allow\<close>, \<open>Adv\<close> performs the next atomic operation of
  a goroutine, \<open>Finish\<close> ends its call and enters \<open>OnSuccess\<close> or \<open>OnFailure\<close>, \<open>Tick\<close>
  lets time pass.
\<close>

datatype pc =
    Idle | InCall
  | AllowLoad | ExpireLoad | ExpireCAS | AcquireLoad | AcquireCAS int
  | SuccLoad | SuccReset | SuccCAS | SuccRelease | SuccZero
  | FailLoad | FailAdd | FailTripCAS | FailTripStamp | FailRelease | FailCAS | FailStamp

datatype event = Start nat | Adv nat | Finish nat bool | Tick nat

record config =
  shared :: Breaker
  pcs :: "nat \<Rightarrow> pc"
  clock :: int

fun atomic :: "int \<Rightarrow> pc \<Rightarrow> Breaker \<Rightarrow> pc \<times> Breaker" where
  "atomic now Idle b = (Idle, b)"
| "atomic now InCall b = (InCall, b)"
| "atomic now AllowLoad b =
     (case state b of StateClosed \<Rightarrow> (InCall, b) | StateOpen \<Rightarrow> (ExpireLoad, b)
                    | StateHalfOpen \<Rightarrow> (AcquireLoad, b))"
| "atomic now ExpireLoad b =
     (if now - openedAt b < OpenTimeout (opts b) then (Idle, b) else (ExpireCAS, b))"
| "atomic now ExpireCAS b =
     (AllowLoad, if state b = StateOpen then b\<lparr>state := StateHalfOpen\<rparr> else b)"
| "atomic now AcquireLoad b =
     (if halfInFlight b \<ge> HalfOpenMax (opts b) then (Idle, b) else (AcquireCAS (halfInFlight b), b))"
| "atomic now (AcquireCAS n) b =
     (if halfInFlight b = n then (InCall, b\<lparr>halfInFlight := n + 1\<rparr>) else (AcquireLoad, b))"
| "atomic now SuccLoad b =
     (case state b of StateClosed \<Rightarrow> (SuccReset, b) | StateHalfOpen \<Rightarrow> (SuccCAS, b)
                    | StateOpen \<Rightarrow> (Idle, b))"
| "atomic now SuccReset b = (Idle, b\<lparr>failures := 0\<rparr>)"
| "atomic now SuccCAS b =
     (if state b = StateHalfOpen then (SuccRelease, b\<lparr>state := StateClosed\<rparr>) else (SuccLoad, b))"
| "atomic now SuccRelease b = (SuccZero, b\<lparr>halfInFlight := halfInFlight b - 1\<rparr>)"
| "atomic now SuccZero b = (Idle, b\<lparr>failures := 0\<rparr>)"
| "atomic now FailLoad b =
     (case state b of StateClosed \<Rightarrow> (FailAdd, b) | StateHalfOpen \<Rightarrow> (FailRelease, b)
                    | StateOpen \<Rightarrow> (Idle, b))"
| "atomic now FailAdd b =
     (if failures b + 1 < FailureThreshold (opts b) then (Idle, b\<lparr>failures := failures b + 1\<rparr>)
      else (FailTripCAS, b\<lparr>failures := failures b + 1\<rparr>))"
| "atomic now FailTripCAS b =
     (if state b = StateClosed then (FailTripStamp, b\<lparr>state := StateOpen\<rparr>) else (Idle, b))"
| "atomic now FailTripStamp b = (Idle, b\<lparr>openedAt := now\<rparr>)"
| "atomic now FailRelease b = (FailCAS, b\<lparr>halfInFlight := halfInFlight b - 1\<rparr>)"
| "atomic now FailCAS b =
     (if state b = StateHalfOpen then (FailStamp, b\<lparr>state := StateOpen\<rparr>) else (Idle, b))"
| "atomic now FailStamp b = (Idle, b\<lparr>openedAt := now\<rparr>)"

fun breaker_event :: "event \<Rightarrow> config \<Rightarrow> config" where
  "breaker_event (Start g) c =
     (if pcs c g = Idle then c\<lparr>pcs := (pcs c)(g := AllowLoad)\<rparr> else c)"
| "breaker_event (Finish g ok) c =
     (if pcs c g = InCall then c\<lparr>pcs := (pcs c)(g := if ok then SuccLoad else FailLoad)\<rparr> else c)"
| "breaker_event (Adv g) c =
     (let (p, b) = atomic (clock c) (pcs c g) (shared c)
      in c\<lparr>shared := b, pcs := (pcs c)(g := p)\<rparr>)"
| "breaker_event (Tick d) c = c\<lparr>clock := clock c + int d\<rparr>"

definition breaker_init :: "Options \<Rightarrow> int \<Rightarrow> config" where
  "breaker_init op now = \<lparr>shared = New op, pcs = (\<lambda>g. Idle), clock = now\<rparr>"

fun run_events :: "event list \<Rightarrow> config \<Rightarrow> config" where
  "run_events [] c = c"
| "run_events (e # es) c = run_events es (breaker_event e c)"

lemma run_events_append: "run_events (es @ fs) c = run_events fs (run_events es c)"
  by (induction es arbitrary: c) auto

inductive breaker_reach :: "config \<Rightarrow> config \<Rightarrow> bool" where
  breach_refl: "breaker_reach c c"
| breach_step: "breaker_reach c d \<Longrightarrow> breaker_reach c (breaker_event e d)"

lemma breaker_reach_run: "breaker_reach c (run_events es c)"
proof (induction es rule: rev_induct)
  case (snoc e es)
  then show ?case by (simp add: run_events_append breach_step)
qed (simp add: breach_refl)

lemma atomic_opts: "atomic now p b = (p', b') \<Longrightarrow> opts b' = opts b"
  by (cases p) (auto split: if_splits State.splits)

lemma breaker_event_opts: "opts (shared (breaker_event e c)) = opts (shared c)"
  by (cases e) (auto simp: atomic_opts split: prod.splits)

lemma run_events_opts: "opts (shared (run_events es c)) = opts (shared c)"
  by (induction es arbitrary: c) (auto simp: breaker_event_opts)

text \<open>The bound a pending compare-and-swap and the counter both respect.\<close>

definition slots_ok :: "config \<Rightarrow> bool" where
  "slots_ok c \<longleftrightarrow> halfInFlight (shared c) \<le> HalfOpenMax (opts (shared c)) \<and>
     (\<forall>g n. pcs c g = AcquireCAS n \<longrightarrow> n < HalfOpenMax (opts (shared c)))"

lemma atomic_slots:
  "atomic now p b = (p', b') \<Longrightarrow> halfInFlight b \<le> HalfOpenMax (opts b) \<Longrightarrow>
   (\<And>n. p = AcquireCAS n \<Longrightarrow> n < HalfOpenMax (opts b)) \<Longrightarrow>
   halfInFlight b' \<le> HalfOpenMax (opts b) \<and>
   (\<forall>n. p' = AcquireCAS n \<longrightarrow> n < HalfOpenMax (opts b))"
  by (cases p) (auto split: if_splits State.splits)

lemma slots_ok_event: "slots_ok c \<Longrightarrow> slots_ok (breaker_event e c)"
proof (cases e)
  case (Adv g)
  assume c: "slots_ok c"
  obtain p b where a: "atomic (clock c) (pcs c g) (shared c) = (p, b)" by fastforce
  from c a atomic_opts [OF a] atomic_slots [OF a] Adv show ?thesis by (auto simp: slots_ok_def)
qed (auto simp: slots_ok_def)

lemma slots_ok_reach: "breaker_reach c d \<Longrightarrow> slots_ok c \<Longrightarrow> slots_ok d"
  by (induction rule: breaker_reach.induct) (auto intro: slots_ok_event)

text \<open>
  C34. Whatever the interleaving of concurrent callers, the half-open counter never exceeds
  \<open>HalfOpenMax\<close>.
\<close>

theorem breaker_slot_bound:
  "halfInFlight (shared (run_events es (breaker_init op now))) \<le> HalfOpenMax (opts (New op))"
proof -
  have "slots_ok (breaker_init op now)"
    by (simp add: slots_ok_def breaker_init_def New_def)
  with slots_ok_reach [OF breaker_reach_run]
  have "slots_ok (run_events es (breaker_init op now))" .
  then show ?thesis by (simp add: slots_ok_def run_events_opts breaker_init_def)
qed

subsection \<open>A breaker that never recovers\<close>

text \<open>All slots taken in the half-open state and no call or method left to release one.\<close>

definition wedged :: "config \<Rightarrow> bool" where
  "wedged c \<longleftrightarrow> state (shared c) = StateHalfOpen \<and>
     halfInFlight (shared c) \<ge> HalfOpenMax (opts (shared c)) \<and>
     (\<forall>g. pcs c g \<in> {Idle, AllowLoad, AcquireLoad})"

lemma wedged_event: "wedged c \<Longrightarrow> wedged (breaker_event e c)"
proof (cases e)
  case (Adv g)
  assume "wedged c"
  moreover from this have "pcs c g \<in> {Idle, AllowLoad, AcquireLoad}" by (simp add: wedged_def)
  ultimately show ?thesis using Adv by (elim insertE) (auto simp: wedged_def)
next
  case (Finish g ok)
  assume "wedged c"
  moreover from this have "pcs c g \<in> {Idle, AllowLoad, AcquireLoad}" by (simp add: wedged_def)
  then have "pcs c g \<noteq> InCall" by auto
  ultimately show ?thesis using Finish by simp
qed (auto simp: wedged_def)

lemma wedged_run: "wedged c \<Longrightarrow> wedged (run_events es c)"
  by (induction es arbitrary: c) (auto intro: wedged_event)

text \<open>
  The default options and four callers: 0 fails five times and trips the breaker; after
  the cool-down 1 is the probe; 2 has read the half-open state when the probe succeeds and
  closes the breaker, takes the slot just released, and finishes in the closed state, where
  nothing releases a slot. After the next trip and cool-down the only slot is gone.
\<close>

definition one_failure :: "event list" where
  "one_failure = [Start 0, Adv 0, Finish 0 False, Adv 0, Adv 0]"

definition trip :: "event list" where
  "trip = one_failure @ one_failure @ one_failure @ one_failure @ one_failure @ [Adv 0, Adv 0]"

definition lost_slot :: "event list" where
  "lost_slot = trip @ [Tick 30000000000] @
     [Start 1, Adv 1, Adv 1, Adv 1, Adv 1, Adv 1, Adv 1] @
     [Start 2, Adv 2] @
     [Finish 1 True, Adv 1, Adv 1, Adv 1, Adv 1] @
     [Adv 2, Adv 2, Finish 2 True, Adv 2, Adv 2] @
     trip @ [Tick 30000000000] @ [Start 3, Adv 3, Adv 3, Adv 3, Adv 3, Adv 3]"

text \<open>
  C33. With the default options there is a run of four concurrent callers after which
  no caller is inside a call and yet the breaker denies every call for good: it stays
  half-open and no later run, however long, ever admits a call.
\<close>

theorem breaker_can_wedge:
  "let c = run_events lost_slot (breaker_init \<lparr>FailureThreshold = 0, OpenTimeout = 0, HalfOpenMax = 0\<rparr> 0)
   in \<forall>es g. pcs (run_events es c) g \<noteq> InCall \<and> state (shared (run_events es c)) = StateHalfOpen"
proof -
  let ?c = "run_events lost_slot (breaker_init \<lparr>FailureThreshold = 0, OpenTimeout = 0, HalfOpenMax = 0\<rparr> 0)"
  have "wedged ?c"
    by (simp add: wedged_def lost_slot_def trip_def one_failure_def breaker_init_def New_def)
  then have "wedged (run_events es ?c)" for es by (rule wedged_run)
  then have "pcs (run_events es ?c) g \<in> {Idle, AllowLoad, AcquireLoad} \<and>
      state (shared (run_events es ?c)) = StateHalfOpen" for es g
    by (simp add: wedged_def)
  then show ?thesis unfolding Let_def by (metis insert_iff empty_iff pc.distinct)
qed

end
