(* ===== verification/RateLimit.thy ===== *)
theory RateLimit
  imports Go_Prelude
begin

text \<open>
  \<open>internal/ratelimit\<close>: the fixed-window limiters behind the \<open>Backend\<close> interface, in
  memory (\<open>limiter.go\<close>) and on Redis (\<open>redis.go\<close>). The Redis server that runs the Lua
  script is a parameter \<open>eval\<close>. Calls are whole and time values stay far below the
  64-bit limit. The locale \<open>window_counter\<close> is the contract of a fixed window: within one
  window every request counts one, and a request is admitted while the count is within
  the limit.
\<close>

section \<open>The contract\<close>

fun attempts :: "('q \<Rightarrow> 's \<Rightarrow> (bool \<times> int) \<times> 's) \<Rightarrow> 'q list \<Rightarrow> 's \<Rightarrow> (bool \<times> int) list \<times> 's" where
  "attempts f [] s = ([], s)"
| "attempts f (q # qs) s =
     (let (r, s1) = f q s; (rs, s2) = attempts f qs s1 in (r # rs, s2))"

definition admitted :: "(bool \<times> int) list \<Rightarrow> int" where
  "admitted rs = int (length (filter fst rs))"

lemma attempts_results:
  "attempts f qs s = (rs, s') \<Longrightarrow> (\<And>q s r s'. f q s = (r, s') \<Longrightarrow> P r) \<Longrightarrow> \<forall>r\<in>set rs. P r"
  by (induction qs arbitrary: s rs) (auto split: prod.splits)

lemma attempts_frame:
  "attempts f qs s = (rs, s') \<Longrightarrow> (\<And>q s r s'. f q s = (r, s') \<Longrightarrow> g s' = g s) \<Longrightarrow> g s' = g s"
  by (induction qs arbitrary: s rs) (auto split: prod.splits)

locale window_counter =
  fixes attempt :: "'q \<Rightarrow> 's \<Rightarrow> (bool \<times> int) \<times> 's"
    and limit :: int
    and used :: "'s \<Rightarrow> int"
    and within :: "'q \<Rightarrow> 's \<Rightarrow> bool"
  assumes counts: "attempt q s = ((ok, retry), s') \<Longrightarrow> within q s \<Longrightarrow>
                   used s' = used s + 1 \<and> (ok \<longleftrightarrow> used s + 1 \<le> limit)"
    and window_stays: "attempt q s = ((ok, retry), s') \<Longrightarrow> within q s \<Longrightarrow> within q' s \<Longrightarrow> within q' s'"
begin

lemma run_admits:
  "attempts attempt qs s = (rs, s') \<Longrightarrow> \<forall>q\<in>set qs. within q s \<Longrightarrow>
   admitted rs = max 0 (min (int (length qs)) (limit - used s)) \<and>
   used s' = used s + int (length qs)"
proof (induction qs arbitrary: s rs)
  case (Cons q qs)
  obtain ok retry s1 where 1: "attempt q s = ((ok, retry), s1)" by (metis prod.exhaust)
  obtain rs1 s2 where 2: "attempts attempt qs s1 = (rs1, s2)" by fastforce
  have w: "\<forall>q'\<in>set qs. within q' s1" using window_stays [OF 1] Cons.prems(2) by simp
  from counts [OF 1] Cons.prems(2)
  have c: "used s1 = used s + 1" "ok \<longleftrightarrow> used s + 1 \<le> limit" by auto
  from Cons.prems(1) 1 2 have r: "rs = (ok, retry) # rs1" "s' = s2" by auto
  with Cons.IH [OF _ w, of rs1] 2 c show ?case by (auto simp: admitted_def)
qed (simp add: admitted_def)

end

section \<open>The in-memory limiter\<close>

record bucket =
  count :: int
  windowEnd :: int

type_synonym Limiter = "string \<rightharpoonup> bucket"

definition AllowRetryAfter ::
  "int \<Rightarrow> string \<Rightarrow> int \<Rightarrow> int \<Rightarrow> Limiter \<Rightarrow> (bool \<times> int) \<times> Limiter" where
  "AllowRetryAfter now key limit window l =
     (let windowEnd' = now + window;
          bkt = (case l key of None \<Rightarrow> \<lparr>count = 0, windowEnd = 0\<rparr> | Some b \<Rightarrow> b);
          currentEnd = windowEnd bkt;
          bkt = (if currentEnd \<le> now then bkt\<lparr>windowEnd := windowEnd', count := 0\<rparr> else bkt);
          bkt = bkt\<lparr>count := count bkt + 1\<rparr>;
          l' = l(key \<mapsto> bkt)
      in if count bkt \<le> limit then ((True, 0), l')
         else (let retry = windowEnd bkt - now
               in if retry < Millisecond then ((False, Millisecond), l') else ((False, retry), l')))"

definition Limiter_Allow :: "int \<Rightarrow> string \<Rightarrow> int \<Rightarrow> int \<Rightarrow> Limiter \<Rightarrow> bool \<times> Limiter" where
  "Limiter_Allow now key limit window l =
     (let ((ok, _), l') = AllowRetryAfter now key limit window l in (ok, l'))"

text \<open>One tick of the cleanup goroutine.\<close>

definition cleanup :: "int \<Rightarrow> Limiter \<Rightarrow> Limiter" where
  "cleanup now l = (\<lambda>key. case l key of None \<Rightarrow> None
     | Some b \<Rightarrow> if now > windowEnd b + Minute then None else Some b)"

definition bucket_used :: "string \<Rightarrow> Limiter \<Rightarrow> int" where
  "bucket_used key l = (case l key of None \<Rightarrow> 0 | Some b \<Rightarrow> count b)"

definition in_window :: "string \<Rightarrow> int \<Rightarrow> Limiter \<Rightarrow> bool" where
  "in_window key now l = (case l key of None \<Rightarrow> False | Some b \<Rightarrow> now < windowEnd b)"

interpretation memory: window_counter "\<lambda>now. AllowRetryAfter now key limit window"
  limit "bucket_used key" "in_window key" for key limit window
  by unfold_locales
     (auto simp: AllowRetryAfter_def bucket_used_def in_window_def Let_def
           split: option.splits if_splits)

lemma AllowRetryAfter_other:
  "AllowRetryAfter now key limit window l = (r, l') \<Longrightarrow> k \<noteq> key \<Longrightarrow> l' k = l k"
  by (auto simp: AllowRetryAfter_def Let_def split: if_splits)

definition retry_ok :: "bool \<times> int \<Rightarrow> bool" where
  "retry_ok r = (if fst r then snd r = 0 else Millisecond \<le> snd r)"

lemma AllowRetryAfter_retry: "AllowRetryAfter now key limit window l = (r, l') \<Longrightarrow> retry_ok r"
  unfolding retry_ok_def
  by (auto simp: AllowRetryAfter_def Let_def split: if_splits)

lemma AllowRetryAfter_opens:
  "\<not> in_window key now l \<Longrightarrow> 0 \<le> now \<Longrightarrow>
   AllowRetryAfter now key limit window l =
   (if 1 \<le> limit then ((True, 0), l(key \<mapsto> \<lparr>count = 1, windowEnd = now + window\<rparr>))
    else ((False, max Millisecond window), l(key \<mapsto> \<lparr>count = 1, windowEnd = now + window\<rparr>)))"
  by (cases "l key") (auto simp: AllowRetryAfter_def in_window_def Let_def max_def)

text \<open>
  C35. The first request of a key outside any window opens one, and of it and the requests
  that follow before \<open>now + window\<close>, in any number and order of times, exactly the first
  \<open>limit\<close> are admitted. An admitted request has retry 0, a rejected one at least a
  millisecond, and requests of other keys neither see nor touch the window.
\<close>

theorem limiter_window_quota:
  assumes "\<not> in_window key now l" "0 \<le> now" "\<forall>t\<in>set ts. t < now + window"
    and "attempts (\<lambda>t. AllowRetryAfter t key limit window) (now # ts) l = (rs, l')"
  shows "admitted rs = max 0 (min (int (length ts) + 1) limit) \<and>
         (\<forall>r\<in>set rs. retry_ok r) \<and> (\<forall>k. k \<noteq> key \<longrightarrow> l' k = l k)"
proof -
  let ?f = "\<lambda>t. AllowRetryAfter t key limit window"
  have retries: "\<forall>r\<in>set rs. retry_ok r"
    using assms(4) by (rule attempts_results) (rule AllowRetryAfter_retry)
  have others: "k \<noteq> key \<Longrightarrow> l' k = l k" for k
    using assms(4) by (rule attempts_frame [where g = "\<lambda>m. m k"]) (erule AllowRetryAfter_other)
  obtain r l1 rs1 where 1: "?f now l = (r, l1)" "attempts ?f ts l1 = (rs1, l')" "rs = r # rs1"
    using assms(4) by (auto split: prod.splits)
  have l1: "l1 = l(key \<mapsto> \<lparr>count = 1, windowEnd = now + window\<rparr>)" "fst r \<longleftrightarrow> 1 \<le> limit"
    using AllowRetryAfter_opens [OF assms(1,2)] 1 by (auto split: if_splits)
  then have "bucket_used key l1 = 1" "\<forall>t\<in>set ts. in_window key t l1"
    using assms(3) by (simp_all add: bucket_used_def in_window_def)
  with memory.run_admits [OF 1(2)] l1 1(3)
  have "admitted rs = max 0 (min (int (length ts) + 1) limit)" by (auto simp: admitted_def)
  with retries others show ?thesis by blast
qed

theorem limiter_window_quota_witness:
  "admitted (fst (attempts (\<lambda>t. AllowRetryAfter t ''p1'' 2 Minute) [5, 6, 7, 8] Map.empty)) = 2"
  using limiter_window_quota [of "''p1''" 5 Map.empty "[6, 7, 8]" Minute 2]
  by (cases "attempts (\<lambda>t. AllowRetryAfter t ''p1'' 2 Minute) [5, 6, 7, 8] Map.empty")
     (simp add: in_window_def)

text \<open>
  Cleanup is invisible: removing expired buckets at some moment never changes a later
  decision, its retry time, or the bucket the decision leaves.
\<close>

theorem cleanup_transparent:
  assumes "now \<le> now'" "0 \<le> now'"
  shows "fst (AllowRetryAfter now' key limit window (cleanup now l)) =
         fst (AllowRetryAfter now' key limit window l) \<and>
         snd (AllowRetryAfter now' key limit window (cleanup now l)) key =
         snd (AllowRetryAfter now' key limit window l) key"
  using assms
  by (cases "l key") (auto simp: AllowRetryAfter_def cleanup_def Let_def)

theorem cleanup_transparent_witness:
  "fst (AllowRetryAfter (3 * Minute) ''k'' 1 Minute (cleanup (2 * Minute + 5) [''k'' \<mapsto> \<lparr>count = 9, windowEnd = 4\<rparr>])) =
   fst (AllowRetryAfter (3 * Minute) ''k'' 1 Minute [''k'' \<mapsto> \<lparr>count = 9, windowEnd = 4\<rparr>])"
  by (rule conjunct1 [OF cleanup_transparent]) simp_all

section \<open>The Redis limiter\<close>

datatype reply_value = RInt int | ROther

datatype eval_result = EvalError | EvalArray "reply_value list" | EvalScalar

text \<open>\<open>fixedWindowScript\<close> runs on the server; \<open>eval key windowSec\<close> is its answer. The
  result is the decision, the retry time and whether \<open>onErr\<close> is called.\<close>

definition Redis_AllowRetryAfter ::
  "(string \<Rightarrow> int \<Rightarrow> 'r \<Rightarrow> eval_result \<times> 'r) \<Rightarrow> string \<Rightarrow> string \<Rightarrow> int \<Rightarrow> int \<Rightarrow> 'r \<Rightarrow>
   ((bool \<times> int) \<times> bool) \<times> 'r" where
  "Redis_AllowRetryAfter eval prefix key limit window r =
     (let windowSec = max (window div Second) 1;
          (res, r') = eval (prefix @ '':'' @ key) windowSec r
      in (case res of
            EvalError \<Rightarrow> ((True, 0), True)
          | EvalScalar \<Rightarrow> ((True, 0), True)
          | EvalArray vals \<Rightarrow>
              (if length vals < 2 then ((True, 0), True)
               else case vals ! 0 of
                 ROther \<Rightarrow> ((True, 0), True)
               | RInt cnt \<Rightarrow>
                   (if cnt \<le> limit then ((True, 0), False)
                    else case vals ! 1 of
                      ROther \<Rightarrow> ((True, 0), True)
                    | RInt ttl \<Rightarrow> ((False, max (ttl * Second) Millisecond), False))), r'))"

text \<open>
  The Redis limiter fails open and nothing else: a request is rejected only on a well
  formed reply whose count exceeds the limit, then with a retry time of at least a
  millisecond and without an error report; every error report goes with an admission.
\<close>

theorem redis_rejects_only_over_limit:
  "Redis_AllowRetryAfter eval prefix key limit window r = (((ok, retry), reported), r') \<Longrightarrow>
   (\<not> ok \<longrightarrow> Millisecond \<le> retry \<and> \<not> reported \<and>
      (\<exists>cnt ttl rest. fst (eval (prefix @ '':'' @ key) (max (window div Second) 1) r) =
          EvalArray (RInt cnt # RInt ttl # rest) \<and> limit < cnt)) \<and>
   (reported \<longrightarrow> ok \<and> retry = 0)"
proof -
  have two: "\<not> length vals < 2 \<Longrightarrow> vals ! 0 = x \<Longrightarrow> vals ! 1 = y \<Longrightarrow> \<exists>rest. vals = x # y # rest"
    for vals :: "reply_value list" and x y
    by (cases vals; cases "tl vals") auto
  assume "Redis_AllowRetryAfter eval prefix key limit window r = (((ok, retry), reported), r')"
  then show ?thesis
    by (auto simp: Redis_AllowRetryAfter_def Let_def split: prod.splits eval_result.splits
          reply_value.splits if_splits dest!: two)
qed

theorem redis_rejects_only_over_limit_witness:
  "fst (Redis_AllowRetryAfter (\<lambda>k w n. (EvalArray [RInt n, RInt w], n + 1)) ''rl'' ''k'' 2 Minute 3) =
     ((False, 60 * Second), False) \<and>
   Millisecond \<le> 60 * Second"
  using redis_rejects_only_over_limit [of "\<lambda>k w n. (EvalArray [RInt n, RInt w], n + 1)"
      "''rl''" "''k''" 2 Minute 3 False "60 * Second" False 4]
  by (simp add: Redis_AllowRetryAfter_def)

end
