(* ===== verification/Supervisor.thy ===== *)
theory Supervisor
  imports Complex_Main Go_Prelude
begin

text \<open>
  \<open>internal/worker/supervisor.go\<close>: restart with exponential backoff. What the worker and
  the context do is the input of the loop: one \<open>attempt\<close> per iteration says whether the
  context was already cancelled, how the worker function ended, whether the context was
  cancelled by then, how long the run took and whether the context is cancelled during the
  wait. The output is the sequence of hook calls and waits. \<open>BackoffFactor\<close> is a rational
  and the product exact, as it is in \<open>float64\<close> for the factor 2 and delays below 104 days.
\<close>

record sup_options =
  BackoffInitial :: int
  BackoffMax :: int
  BackoffFactor :: rat
  ResetAfter :: int

definition Supervisor_New :: "sup_options \<Rightarrow> sup_options" where
  "Supervisor_New o' =
     \<lparr>BackoffInitial = (if BackoffInitial o' \<le> 0 then Second else BackoffInitial o'),
      BackoffMax = (if BackoffMax o' \<le> 0 then 30 * Second else BackoffMax o'),
      BackoffFactor = (if BackoffFactor o' \<le> 1 then 2 else BackoffFactor o'),
      ResetAfter = (if ResetAfter o' \<le> 0 then 5 * Minute else ResetAfter o')\<rparr>"

datatype fn_result = Panics | Returns "string option"

record attempt =
  cancelled_before :: bool
  fn_ends :: fn_result
  cancelled_after :: bool
  uptime :: int
  cancelled_waiting :: bool

datatype observation = OnPanic | OnRestart string | Wait int | Done

definition runOnce :: "attempt \<Rightarrow> string \<times> bool \<times> string option" where
  "runOnce a =
     (if cancelled_before a then ('''', False, None)
      else case fn_ends a of
        Panics \<Rightarrow> (''panic'', True, None)
      | Returns err \<Rightarrow> if cancelled_after a then ('''', False, None) else (''exit'', False, err))"

definition next_backoff :: "sup_options \<Rightarrow> int \<Rightarrow> int \<Rightarrow> int" where
  "next_backoff op up backoff =
     (if up \<ge> ResetAfter op then BackoffInitial op
      else (let b = \<lfloor>of_int backoff * BackoffFactor op\<rfloor>
            in if b > BackoffMax op then BackoffMax op else b))"

definition sleep_ok :: "attempt \<Rightarrow> int \<Rightarrow> bool" where
  "sleep_ok a d = (d \<le> 0 \<or> \<not> cancelled_waiting a)"

fun supervise :: "sup_options \<Rightarrow> int \<Rightarrow> attempt list \<Rightarrow> observation list" where
  "supervise op backoff [] = []"
| "supervise op backoff (a # as) =
     (let (reason, panicked, err) = runOnce a
      in if reason = '''' then [Done]
         else (let d = next_backoff op (uptime a) backoff
               in (if panicked then [OnPanic] else []) @ [OnRestart reason, Wait d] @
                  (if sleep_ok a d then supervise op d as else [Done])))"

definition Run :: "sup_options \<Rightarrow> attempt list \<Rightarrow> observation list" where
  "Run o' as = (let op = Supervisor_New o' in supervise op (BackoffInitial op) as)"

section \<open>Backoff\<close>

definition waits :: "observation list \<Rightarrow> int list" where
  "waits obs = concat (map (\<lambda>x. case x of Wait d \<Rightarrow> [d] | _ \<Rightarrow> []) obs)"

lemma waits_append [simp]: "waits (xs @ ys) = waits xs @ waits ys"
  by (simp add: waits_def)

lemma waits_simps [simp]:
  "waits [] = []" "waits (Wait d # xs) = d # waits xs" "waits (OnPanic # xs) = waits xs"
  "waits (OnRestart r # xs) = waits xs" "waits (Done # xs) = waits xs"
  by (simp_all add: waits_def)

definition sup_ok :: "sup_options \<Rightarrow> bool" where
  "sup_ok op \<longleftrightarrow> 0 < BackoffInitial op \<and> 0 < BackoffMax op \<and> 1 < BackoffFactor op \<and> 0 < ResetAfter op"

lemma sup_ok_New: "sup_ok (Supervisor_New op)"
  by (simp add: sup_ok_def Supervisor_New_def)

lemma next_backoff_bounds:
  assumes "sup_ok op" "0 < b"
  shows "0 < next_backoff op up b \<and> next_backoff op up b \<le> max (BackoffInitial op) (BackoffMax op)"
proof -
  have "of_int b * 1 \<le> of_int b * BackoffFactor op"
    using assms by (intro mult_left_mono) (auto simp: sup_ok_def)
  then have "b \<le> \<lfloor>of_int b * BackoffFactor op\<rfloor>" by (simp add: le_floor_iff)
  with assms(2) obtain p where p: "\<lfloor>of_int b * BackoffFactor op\<rfloor> = p" "0 < p" by simp
  then show ?thesis using assms(1) by (auto simp: next_backoff_def Let_def sup_ok_def)
qed

lemma supervise_waits_bounds:
  "sup_ok op \<Longrightarrow> 0 < b \<Longrightarrow> d \<in> set (waits (supervise op b as)) \<Longrightarrow>
   0 < d \<and> d \<le> max (BackoffInitial op) (BackoffMax op)"
proof (induction as arbitrary: b)
  case (Cons a as)
  let ?d = "next_backoff op (uptime a) b"
  have n: "0 < ?d \<and> ?d \<le> max (BackoffInitial op) (BackoffMax op)"
    using next_backoff_bounds Cons.prems(1,2) .
  from Cons.prems(3) have "d = ?d \<or> d \<in> set (waits (supervise op ?d as))"
    by (auto simp: Let_def split: prod.splits if_splits)
  with n Cons.IH [OF Cons.prems(1), of ?d] show ?case by blast
qed simp

text \<open>
  Every wait of a supervised worker is positive and bounded by the larger of the
  initial and the maximal delay, after the defaults have replaced unset options.
\<close>

theorem supervisor_waits_bounded:
  "d \<in> set (waits (Run o' as)) \<Longrightarrow>
   0 < d \<and> d \<le> max (BackoffInitial (Supervisor_New o')) (BackoffMax (Supervisor_New o'))"
  by (rule supervise_waits_bounds [OF sup_ok_New, where b = "BackoffInitial (Supervisor_New o')"])
     (use sup_ok_New [of o'] in \<open>auto simp: Run_def Let_def sup_ok_def\<close>)

definition crash :: "attempt \<Rightarrow> bool" where
  "crash a \<longleftrightarrow> \<not> cancelled_before a \<and> \<not> cancelled_after a \<and> \<not> cancelled_waiting a"

lemma next_backoff_power:
  assumes "sup_ok op" "BackoffFactor op = of_int f" "up < ResetAfter op"
    and "b = min (BackoffMax op) (BackoffInitial op * f ^ k)"
  shows "next_backoff op up b = min (BackoffMax op) (BackoffInitial op * f ^ (k + 1))"
proof -
  have f: "1 < f" using assms(1,2) by (simp add: sup_ok_def)
  have p: "0 < BackoffMax op" "0 < BackoffInitial op * f ^ k"
    using assms(1) f by (simp_all add: sup_ok_def)
  have "next_backoff op up b = min (BackoffMax op) (b * f)"
    using assms(2,3) by (simp add: next_backoff_def Let_def flip: of_int_mult)
  also have "\<dots> = min (BackoffMax op) (BackoffInitial op * f ^ (k + 1))"
  proof (cases "BackoffMax op \<le> BackoffInitial op * f ^ k")
    case True
    have "BackoffMax op * 1 \<le> BackoffMax op * f" using f p by (intro mult_left_mono) auto
    moreover have "BackoffMax op * f \<le> BackoffInitial op * f ^ k * f"
      using True f by (intro mult_right_mono) auto
    ultimately show ?thesis using True assms(4) by (simp add: algebra_simps)
  next
    case False
    then show ?thesis using assms(4) by (simp add: algebra_simps)
  qed
  finally show ?thesis .
qed

lemma runOnce_crash: "crash a \<Longrightarrow> fst (runOnce a) \<noteq> ''''"
  by (auto simp: crash_def runOnce_def split: fn_result.splits)

lemma supervise_crashes:
  assumes "sup_ok op" "BackoffFactor op = of_int f"
  shows "\<forall>a\<in>set as. crash a \<and> uptime a < ResetAfter op \<Longrightarrow>
    waits (supervise op (min (BackoffMax op) (BackoffInitial op * f ^ k)) as) =
    map (\<lambda>i. min (BackoffMax op) (BackoffInitial op * f ^ (k + i + 1))) [0..<length as]"
proof (induction as arbitrary: k)
  case (Cons a as)
  let ?b = "\<lambda>k. min (BackoffMax op) (BackoffInitial op * f ^ k)"
  have n: "next_backoff op (uptime a) (?b k) = ?b (k + 1)"
    using next_backoff_power [OF assms, of "uptime a" "?b k" k] Cons.prems by simp
  have s: "sleep_ok a d" for d using Cons.prems by (simp add: sleep_ok_def crash_def)
  have "waits (supervise op (?b k) (a # as)) = ?b (k + 1) # waits (supervise op (?b (k + 1)) as)"
    using runOnce_crash [of a] Cons.prems by (auto simp: n s Let_def split: prod.splits)
  also have "\<dots> = ?b (k + 1) # map (\<lambda>i. ?b (k + 1 + i + 1)) [0..<length as]"
    using Cons.IH [of "k + 1"] Cons.prems by simp
  finally show ?case by (simp add: upt_conv_Cons map_Suc_upt [symmetric] del: upt_Suc)
qed simp

text \<open>
  C40. With an integral factor \<open>f\<close> and a worker that keeps crashing soon after its start,
  the wait before the \<open>n\<close>-th restart is \<open>BackoffInitial * f ^ n\<close> up to \<open>BackoffMax\<close>. The
  first restart already waits \<open>BackoffInitial * f\<close>, not \<open>BackoffInitial\<close> as the comment
  on the option says.
\<close>

theorem supervisor_crash_loop:
  assumes "BackoffFactor (Supervisor_New o') = of_int f"
    and "BackoffInitial (Supervisor_New o') \<le> BackoffMax (Supervisor_New o')"
    and "\<forall>a\<in>set as. crash a \<and> uptime a < ResetAfter (Supervisor_New o')"
  shows "waits (Run o' as) =
         map (\<lambda>i. min (BackoffMax (Supervisor_New o')) (BackoffInitial (Supervisor_New o') * f ^ (i + 1)))
             [0..<length as]"
  using supervise_crashes [OF sup_ok_New assms(1,3), of 0] assms(2)
  by (simp add: Run_def Let_def min_absorb2)

definition quick_panic :: attempt where
  "quick_panic = \<lparr>cancelled_before = False, fn_ends = Panics, cancelled_after = False,
                  uptime = 5 * Millisecond, cancelled_waiting = False\<rparr>"

theorem supervisor_crash_loop_witness:
  "waits (Run \<lparr>BackoffInitial = 0, BackoffMax = 0, BackoffFactor = 0, ResetAfter = 0\<rparr>
       (replicate 6 quick_panic)) =
   [2 * Second, 4 * Second, 8 * Second, 16 * Second, 30 * Second, 30 * Second]"
proof -
  have "waits (Run \<lparr>BackoffInitial = 0, BackoffMax = 0, BackoffFactor = 0, ResetAfter = 0\<rparr>
       (replicate 6 quick_panic)) =
     map (\<lambda>i. min (30 * Second) (Second * 2 ^ (i + 1))) [0..<6]"
    using supervisor_crash_loop [of "\<lparr>BackoffInitial = 0, BackoffMax = 0, BackoffFactor = 0, ResetAfter = 0\<rparr>"
        2 "replicate 6 quick_panic"]
    by (simp add: Supervisor_New_def quick_panic_def crash_def)
  then show ?thesis by (simp add: upt_rec)
qed

theorem supervisor_waits_bounded_witness:
  "2 * Second \<le> max Second (30 * Second)"
  using supervisor_waits_bounded [of "2 * Second"
      "\<lparr>BackoffInitial = 0, BackoffMax = 0, BackoffFactor = 0, ResetAfter = 0\<rparr>" "[quick_panic]"]
  by (simp add: Run_def Supervisor_New_def quick_panic_def runOnce_def next_backoff_def)

end
