(* ===== verification/Ssrf.thy ===== *)
theory Ssrf
  imports Go_Json
begin

text \<open>
  \<open>internal/webhook/ssrf.go\<close>: which URLs a webhook may be delivered to. Addresses are
  \<open>netip.Addr\<close> values, prefixes and \<open>Prefix.Contains\<close> as documented in \<open>net/netip\<close>: an
  address of the other family or with a zone is in no prefix. URL parsing, address parsing
  and name resolution are arguments: \<open>parse_url\<close> yields scheme and host name,
  \<open>parse_addr\<close> an address literal, \<open>lookup_ip\<close> the resolved addresses (\<open>None\<close> inside the
  list is a slice that is no address).
\<close>

datatype addr = V4 "32 word" | V6 "128 word" string

datatype prefix = P4 "32 word" nat | P6 "128 word" nat

fun contains :: "prefix \<Rightarrow> addr \<Rightarrow> bool" where
  "contains (P4 p n) (V4 a) = (drop_bit (32 - n) p = drop_bit (32 - n) a)"
| "contains (P6 p n) (V6 a z) = (z = '''' \<and> drop_bit (128 - n) p = drop_bit (128 - n) a)"
| "contains _ _ = False"

definition ip4 :: "nat \<Rightarrow> nat \<Rightarrow> nat \<Rightarrow> nat \<Rightarrow> 32 word" where
  "ip4 a b c d = of_nat (16777216 * a + 65536 * b + 256 * c + d)"

definition blockedPrefixNets :: "prefix list" where
  "blockedPrefixNets =
     [P4 (ip4 10 0 0 0) 8, P4 (ip4 172 16 0 0) 12, P4 (ip4 192 168 0 0) 16,
      P4 (ip4 127 0 0 0) 8, P4 (ip4 169 254 0 0) 16, P4 (ip4 0 0 0 0) 8,
      P4 (ip4 100 64 0 0) 10,
      P6 1 128, P6 (of_nat (0xfc * 2 ^ 120)) 7, P6 (of_nat (0xfe80 * 2 ^ 112)) 10]"

definition isBlocked :: "addr \<Rightarrow> bool" where
  "isBlocked a = (\<exists>p\<in>set blockedPrefixNets. contains p a)"

definition loopbackPrefixNets :: "prefix list" where
  "loopbackPrefixNets = [P4 (ip4 127 0 0 0) 8, P6 1 128]"

definition isLoopback :: "addr \<Rightarrow> bool" where
  "isLoopback a = (\<exists>p\<in>set loopbackPrefixNets. contains p a)"

record net =
  parse_url :: "string \<Rightarrow> (string \<times> string) option"
  parse_addr :: "string \<Rightarrow> addr option"
  lookup_ip :: "string \<Rightarrow> addr option list option"

fun check_ips :: "(addr \<Rightarrow> goerr option) \<Rightarrow> addr option list \<Rightarrow> goerr option" where
  "check_ips check [] = None"
| "check_ips check (None # ips) = check_ips check ips"
| "check_ips check (Some a # ips) =
     (case check a of Some err \<Rightarrow> Some err | None \<Rightarrow> check_ips check ips)"

definition ValidateURL :: "net \<Rightarrow> string \<Rightarrow> goerr option" where
  "ValidateURL n rawURL =
     (case parse_url n rawURL of
        None \<Rightarrow> Some (ErrOther ''parse URL'')
      | Some (scheme0, host) \<Rightarrow>
          (let scheme = to_lower scheme0
           in if scheme \<noteq> ''http'' \<and> scheme \<noteq> ''https'' then Some ErrBlockedURL
              else if host = '''' then Some ErrBlockedURL
              else case parse_addr n host of
                Some a \<Rightarrow> (if isBlocked a then Some ErrBlockedURL else None)
              | None \<Rightarrow>
                  (case lookup_ip n host of
                     None \<Rightarrow> Some (ErrOther ''resolve host'')
                   | Some ips \<Rightarrow>
                       (if ips = [] then Some ErrBlockedURL
                        else check_ips (\<lambda>a. if isBlocked a then Some ErrBlockedURL else None) ips))))"

definition loopback_check :: "addr \<Rightarrow> goerr option" where
  "loopback_check a =
     (if isLoopback a then None else if isBlocked a then Some ErrBlockedURL else None)"

definition ValidateURLAllowLoopback :: "net \<Rightarrow> string \<Rightarrow> goerr option" where
  "ValidateURLAllowLoopback n rawURL =
     (case parse_url n rawURL of
        None \<Rightarrow> Some (ErrOther ''parse URL'')
      | Some (scheme0, host) \<Rightarrow>
          (let scheme = to_lower scheme0
           in if scheme \<noteq> ''http'' \<and> scheme \<noteq> ''https'' then Some ErrBlockedURL
              else if host = '''' then Some ErrBlockedURL
              else case parse_addr n host of
                Some a \<Rightarrow> loopback_check a
              | None \<Rightarrow>
                  (case lookup_ip n host of
                     None \<Rightarrow> Some (ErrOther ''resolve host'')
                   | Some ips \<Rightarrow>
                       (if ips = [] then Some ErrBlockedURL else check_ips loopback_check ips))))"

section \<open>What is blocked\<close>

lemma drop_bit_eq_div_iff:
  fixes a p :: "'a::len word"
  shows "drop_bit n p = drop_bit n a \<longleftrightarrow> unat p div 2 ^ n = unat a div 2 ^ n"
  by (simp add: word_unat_eq_iff unat_drop_bit_eq) (simp add: drop_bit_eq_div)

lemma unat_ip4:
  assumes "a < 256" "b < 256" "c < 256" "d < 256"
  shows "unat (ip4 a b c d) = 16777216 * a + 65536 * b + 256 * c + d"
proof -
  have "16777216 * a + 65536 * b + 256 * c + d < 2 ^ 32" using assms by simp
  then show ?thesis unfolding ip4_def by (simp add: unat_of_nat take_bit_nat_eq_self del: of_nat_add of_nat_mult)
qed

lemma octet_div:
  fixes a b c d :: nat
  assumes "b < 256" "c < 256" "d < 256"
  shows "(16777216 * a + 65536 * b + 256 * c + d) div 16777216 = a"
    and "(16777216 * a + 65536 * b + 256 * c + d) div 4194304 = a * 4 + b div 64"
    and "(16777216 * a + 65536 * b + 256 * c + d) div 1048576 = a * 16 + b div 16"
    and "(16777216 * a + 65536 * b + 256 * c + d) div 65536 = a * 256 + b"
  using assms by simp_all

definition private_octets :: "nat \<Rightarrow> nat \<Rightarrow> bool" where
  "private_octets a b \<longleftrightarrow> a = 10 \<or> (a = 172 \<and> 16 \<le> b \<and> b < 32) \<or> (a = 192 \<and> b = 168) \<or>
     a = 127 \<or> (a = 169 \<and> b = 254) \<or> a = 0 \<or> (a = 100 \<and> 64 \<le> b \<and> b < 128)"

lemma isBlocked_V4:
  assumes "a < 256" "b < 256" "c < 256" "d < 256"
  shows "isBlocked (V4 (ip4 a b c d)) \<longleftrightarrow> private_octets a b"
proof -
  have p: "contains (P4 (ip4 a' b' 0 0) n) (V4 (ip4 a b c d)) \<longleftrightarrow>
      (16777216 * a' + 65536 * b') div 2 ^ (32 - n) = (16777216 * a + 65536 * b + 256 * c + d) div 2 ^ (32 - n)"
    if "a' < 256" "b' < 256" for a' b' n
    using that assms by (simp add: drop_bit_eq_div_iff unat_ip4)
  have 8: "contains (P4 (ip4 a' 0 0 0) 8) (V4 (ip4 a b c d)) \<longleftrightarrow> a = a'" if "a' < 256" for a'
    using p [of a' 0 8] that assms by (auto simp: octet_div)
  have 12: "contains (P4 (ip4 a' b' 0 0) 12) (V4 (ip4 a b c d)) \<longleftrightarrow> a * 16 + b div 16 = a' * 16 + b' div 16"
    if "a' < 256" "b' < 256" for a' b'
    using p [of a' b' 12] that assms by (auto simp: octet_div)
  have 16: "contains (P4 (ip4 a' b' 0 0) 16) (V4 (ip4 a b c d)) \<longleftrightarrow> a * 256 + b = a' * 256 + b'"
    if "a' < 256" "b' < 256" for a' b'
    using p [of a' b' 16] that assms by (auto simp: octet_div)
  have 10: "contains (P4 (ip4 a' b' 0 0) 10) (V4 (ip4 a b c d)) \<longleftrightarrow> a * 4 + b div 64 = a' * 4 + b' div 64"
    if "a' < 256" "b' < 256" for a' b'
    using p [of a' b' 10] that assms by (auto simp: octet_div)
  have isb: "isBlocked (V4 (ip4 a b c d)) \<longleftrightarrow> a = 10 \<or> a * 16 + b div 16 = 172 * 16 + 1 \<or>
      a * 256 + b = 192 * 256 + 168 \<or> a = 127 \<or> a * 256 + b = 169 * 256 + 254 \<or> a = 0 \<or>
      a * 4 + b div 64 = 100 * 4 + 1"
    using 8 [of 10] 8 [of 127] 8 [of 0] 12 [of 172 16] 16 [of 192 168] 16 [of 169 254] 10 [of 100 64]
    unfolding isBlocked_def blockedPrefixNets_def
    by (simp only: list.set bex_simps contains.simps(3-) insert_iff empty_iff) auto
  have eqs: "a * 16 + b div 16 = 172 * 16 + 1 \<longleftrightarrow> a = 172 \<and> 16 \<le> b \<and> b < 32"
    "a * 256 + b = 192 * 256 + 168 \<longleftrightarrow> a = 192 \<and> b = 168"
    "a * 256 + b = 169 * 256 + 254 \<longleftrightarrow> a = 169 \<and> b = 254"
    "a * 4 + b div 64 = 100 * 4 + 1 \<longleftrightarrow> a = 100 \<and> 64 \<le> b \<and> b < 128"
  proof -
    have d: "b div 16 < 16" "b div 64 < 4" using assms(2) by simp_all
    have "a * 16 + b div 16 = 172 * 16 + 1 \<longleftrightarrow> a = 172 \<and> b div 16 = 1"
      by (rule digits_eq [OF d(1)]) simp
    also have "b div 16 = 1 \<longleftrightarrow> 16 \<le> b \<and> b < 32" using div_is_1 [of 16 b] by simp
    finally show "a * 16 + b div 16 = 172 * 16 + 1 \<longleftrightarrow> a = 172 \<and> 16 \<le> b \<and> b < 32" .
    have "a * 4 + b div 64 = 100 * 4 + 1 \<longleftrightarrow> a = 100 \<and> b div 64 = 1"
      by (rule digits_eq [OF d(2)]) simp
    also have "b div 64 = 1 \<longleftrightarrow> 64 \<le> b \<and> b < 128" using div_is_1 [of 64 b] by simp
    finally show "a * 4 + b div 64 = 100 * 4 + 1 \<longleftrightarrow> a = 100 \<and> 64 \<le> b \<and> b < 128" .
    show "a * 256 + b = 192 * 256 + 168 \<longleftrightarrow> a = 192 \<and> b = 168"
      by (rule digits_eq [OF assms(2)]) simp
    show "a * 256 + b = 169 * 256 + 254 \<longleftrightarrow> a = 169 \<and> b = 254"
      by (rule digits_eq [OF assms(2)]) simp
  qed
  show ?thesis by (simp only: isb eqs private_octets_def)
qed

lemma unat_of_nat_small:
  "k < 2 ^ 128 \<Longrightarrow> unat (of_nat k :: 128 word) = k"
  by (simp add: unat_of_nat)

lemma isBlocked_V6:
  "isBlocked (V6 a z) \<longleftrightarrow> z = '''' \<and>
     (a = 1 \<or> unat a div 2 ^ 121 = 0x7e \<or> unat a div 2 ^ 118 = 0x3fa)"
proof -
  have "unat (of_nat (0xfc * 2 ^ 120) :: 128 word) div 2 ^ 121 = 0x7e"
    "unat (of_nat (0xfe80 * 2 ^ 112) :: 128 word) div 2 ^ 118 = 0x3fa"
    by (subst unat_of_nat_small; simp)+
  then show ?thesis
    by (auto simp add: isBlocked_def blockedPrefixNets_def drop_bit_eq_div_iff simp del: of_nat_mult
          of_nat_numeral)
qed

lemma check_ips_None:
  "check_ips check ips = None \<longleftrightarrow> (\<forall>a. Some a \<in> set ips \<longrightarrow> check a = None)"
  by (induction check ips rule: check_ips.induct) (auto split: option.splits)

text \<open>The ranges of the address space that a webhook may not reach, as the intervals of the
  standards that reserve them: for IPv4 this network, private use, shared address space,
  loopback, link-local (the metadata service among them); for IPv6 the loopback address, unique
  local and link-local addresses, written without a zone.\<close>

fun reserved :: "addr \<Rightarrow> bool" where
  "reserved (V4 w) =
     (let n = unat w in
      n < 2 ^ 24 \<or> (10 * 2 ^ 24 \<le> n \<and> n < 11 * 2 ^ 24) \<or>
      (100 * 2 ^ 24 + 64 * 2 ^ 16 \<le> n \<and> n < 100 * 2 ^ 24 + 128 * 2 ^ 16) \<or>
      (127 * 2 ^ 24 \<le> n \<and> n < 128 * 2 ^ 24) \<or>
      (169 * 2 ^ 24 + 254 * 2 ^ 16 \<le> n \<and> n < 169 * 2 ^ 24 + 255 * 2 ^ 16) \<or>
      (172 * 2 ^ 24 + 16 * 2 ^ 16 \<le> n \<and> n < 172 * 2 ^ 24 + 32 * 2 ^ 16) \<or>
      (192 * 2 ^ 24 + 168 * 2 ^ 16 \<le> n \<and> n < 192 * 2 ^ 24 + 169 * 2 ^ 16))"
| "reserved (V6 w z) =
     (let n = unat w in
      z = '''' \<and> (n = 1 \<or> (0xfc00 * 2 ^ 112 \<le> n \<and> n < 0xfe00 * 2 ^ 112) \<or>
                  (0xfe80 * 2 ^ 112 \<le> n \<and> n < 0xfec0 * 2 ^ 112)))"

lemma div_interval: "0 < k \<Longrightarrow> (n::nat) div k = q \<longleftrightarrow> q * k \<le> n \<and> n < (q + 1) * k"
  by (metis Suc_eq_plus1 div_nat_eqI dividend_less_div_times div_times_less_eq_dividend mult.commute mult_Suc_right add.commute)

lemma isBlocked_reserved: "isBlocked a \<longleftrightarrow> reserved a"
proof (cases a)
  case (V4 w)
  have "contains (P4 (ip4 a' b' 0 0) k) (V4 w) \<longleftrightarrow>
      (16777216 * a' + 65536 * b') div 2 ^ (32 - k) = unat w div 2 ^ (32 - k)"
    if "a' < 256" "b' < 256" for a' b' k
    using that by (simp add: drop_bit_eq_div_iff unat_ip4)
  then have "isBlocked (V4 w) \<longleftrightarrow> unat w div 2 ^ 24 = 10 \<or> unat w div 2 ^ 20 = 172 * 16 + 1 \<or>
      unat w div 2 ^ 16 = 192 * 256 + 168 \<or> unat w div 2 ^ 24 = 127 \<or> unat w div 2 ^ 16 = 169 * 256 + 254 \<or>
      unat w div 2 ^ 24 = 0 \<or> unat w div 2 ^ 22 = 100 * 4 + 1"
    by (auto simp: isBlocked_def blockedPrefixNets_def simp del: contains.simps(1))
  then show ?thesis by (auto simp: V4 div_interval Let_def)
next
  case (V6 w z)
  have "w = 1 \<longleftrightarrow> unat w = 1" by (simp add: word_unat_eq_iff)
  then show ?thesis by (auto simp: V6 isBlocked_V6 div_interval Let_def)
qed

text \<open>
  C38. Which URLs a webhook may be delivered to: a URL is accepted exactly when it parses, its scheme
  is http or https in any case, its host is not empty, and the address it names, or every one of the at
  least one addresses its name resolves to, lies outside the reserved intervals of the
  address space; one reserved address among others is enough to refuse it.
  (C39 shows what these intervals leave open.)
\<close>

theorem ValidateURL_accepts:
  "ValidateURL n rawURL = None \<longleftrightarrow>
   (\<exists>scheme host. parse_url n rawURL = Some (scheme, host) \<and>
      to_lower scheme \<in> {''http'', ''https''} \<and> host \<noteq> '''' \<and>
      (case parse_addr n host of
         Some a \<Rightarrow> \<not> reserved a
       | None \<Rightarrow> (\<exists>ips. lookup_ip n host = Some ips \<and> ips \<noteq> [] \<and>
                    (\<forall>a. Some a \<in> set ips \<longrightarrow> \<not> reserved a))))"
  unfolding isBlocked_reserved [symmetric]
  by (auto simp: ValidateURL_def check_ips_None Let_def split: option.splits prod.splits if_splits)

theorem ValidateURL_accepts_witness:
  "ValidateURL \<lparr>parse_url = (\<lambda>u. Some (''https'', u)), parse_addr = (\<lambda>h. None),
     lookup_ip = (\<lambda>h. Some [Some (V4 (ip4 93 184 216 34)), Some (V4 (ip4 10 0 0 7))])\<rparr> ''intra'' \<noteq> None"
  by (auto simp: ValidateURL_accepts unat_ip4 Let_def)

text \<open>
  For IPv4 the blocked addresses are exactly 0/8, 10/8, 127/8, 172.16/12, 192.168/16,
  169.254/16 (the metadata service) and 100.64/10, and the loopback exemption of the test
  mode reopens 127/8 and nothing else of them.
\<close>

theorem ssrf_blocks_private_v4:
  assumes "a < 256" "b < 256" "c < 256" "d < 256"
  shows "(isBlocked (V4 (ip4 a b c d)) \<longleftrightarrow> private_octets a b) \<and>
         (loopback_check (V4 (ip4 a b c d)) = None \<longleftrightarrow> a = 127 \<or> \<not> private_octets a b)"
proof -
  have "drop_bit 24 (ip4 127 0 0 0) = drop_bit 24 (ip4 a b c d) \<longleftrightarrow> a = 127"
    using assms by (auto simp: drop_bit_eq_div_iff unat_ip4 octet_div)
  then have "isLoopback (V4 (ip4 a b c d)) \<longleftrightarrow> a = 127"
    by (simp add: isLoopback_def loopbackPrefixNets_def)
  with isBlocked_V4 [OF assms] show ?thesis by (simp add: loopback_check_def)
qed

theorem ssrf_blocks_private_v4_witness:
  "isBlocked (V4 (ip4 169 254 169 254)) \<and> loopback_check (V4 (ip4 169 254 169 254)) \<noteq> None"
  using ssrf_blocks_private_v4 [of 169 254 169 254] by (simp add: private_octets_def)

text \<open>The IPv4-mapped IPv6 address \<open>::ffff:a.b.c.d\<close> of an IPv4 address.\<close>

definition mapped :: "32 word \<Rightarrow> string \<Rightarrow> addr" where
  "mapped v z = V6 (of_nat (0xffff * 2 ^ 32 + unat v)) z"

text \<open>
  C39. No IPv4-mapped IPv6 address is blocked, whatever private or metadata address it maps,
  neither is the unspecified address \<open>::\<close>, and a zone lifts the block of every IPv6
  address.
\<close>

theorem ssrf_mapped_not_blocked:
  "\<not> isBlocked (mapped v z) \<and> \<not> isBlocked (V6 0 z) \<and> (z \<noteq> '''' \<longrightarrow> \<not> isBlocked (V6 a z))"
proof -
  have v: "unat v < 2 ^ 32" using unsigned_less [of v] by simp
  then obtain w :: "128 word" where w: "of_nat (0xffff * 2 ^ 32 + unat v) = w"
    "unat w = 0xffff * 2 ^ 32 + unat v"
    using unat_of_nat_small [of "0xffff * 2 ^ 32 + unat v"] by simp
  then have "w \<noteq> 1" by auto
  with v w show ?thesis unfolding mapped_def w(1) by (simp add: isBlocked_V6)
qed

theorem ssrf_mapped_not_blocked_witness:
  "\<not> isBlocked (V6 (of_nat (0xfe80 * 2 ^ 112 + 1)) ''eth0'')"
  using ssrf_mapped_not_blocked [of 0 "''eth0''" "of_nat (0xfe80 * 2 ^ 112 + 1)"] by simp

end
