(* ===== verification/Crypto.thy ===== *)
theory Crypto
  imports Go_Prelude
begin

text \<open>
  \<open>internal/crypto/crypto.go\<close>: the credential encryptor with master-key rotation. The
  primitives of the standard library (hexadecimal and base64 coding, AES-GCM) and the
  nonces drawn from the random source are arguments; byte slices are strings. The fallback
  observer is a flag in the encryptor and a notification in the result.
\<close>

record aead =
  Seal :: "string \<Rightarrow> string \<Rightarrow> string"
  Open :: "string \<Rightarrow> string \<Rightarrow> string option"

record primitives =
  hex_decode :: "string \<Rightarrow> string option"
  b64_encode :: "string \<Rightarrow> string"
  b64_decode :: "string \<Rightarrow> string option"
  aes_gcm :: "string \<Rightarrow> aead"

record Encryptor =
  active :: aead
  previous :: "aead list"
  observed :: bool

abbreviation NonceSize :: nat where "NonceSize \<equiv> 12"

definition newAEAD :: "primitives \<Rightarrow> string \<Rightarrow> aead result" where
  "newAEAD P keyHex =
     (case hex_decode P keyHex of
        None \<Rightarrow> Inl (ErrOther ''decode master key'')
      | Some key \<Rightarrow> if length key \<noteq> 32 then Inl (ErrOther ''master key must be 32 bytes'')
                    else Inr (aes_gcm P key))"

fun add_previous :: "primitives \<Rightarrow> string list \<Rightarrow> Encryptor \<Rightarrow> Encryptor result" where
  "add_previous P [] e = Inr e"
| "add_previous P (k # ks) e =
     (case newAEAD P k of Inl err \<Rightarrow> Inl err
      | Inr a \<Rightarrow> add_previous P ks (e\<lparr>previous := previous e @ [a]\<rparr>))"

definition NewEncryptorWithPrevious :: "primitives \<Rightarrow> string \<Rightarrow> string list \<Rightarrow> Encryptor result" where
  "NewEncryptorWithPrevious P masterKeyHex previousKeys =
     (case newAEAD P masterKeyHex of Inl err \<Rightarrow> Inl err
      | Inr a \<Rightarrow> add_previous P previousKeys \<lparr>active = a, previous = [], observed = False\<rparr>)"

definition NewEncryptor :: "primitives \<Rightarrow> string \<Rightarrow> Encryptor result" where
  "NewEncryptor P masterKeyHex = NewEncryptorWithPrevious P masterKeyHex []"

definition SetFallbackObserver :: "bool \<Rightarrow> Encryptor \<Rightarrow> Encryptor" where
  "SetFallbackObserver b e = e\<lparr>observed := b\<rparr>"

definition Encrypt :: "primitives \<Rightarrow> Encryptor \<Rightarrow> string \<Rightarrow> string \<Rightarrow> string" where
  "Encrypt P e nonce plaintext = b64_encode P (nonce @ Seal (active e) nonce plaintext)"

fun open_previous :: "aead list \<Rightarrow> string \<Rightarrow> string \<Rightarrow> string option" where
  "open_previous [] nonce sealed = None"
| "open_previous (a # as) nonce sealed =
     (case Open a nonce sealed of Some pt \<Rightarrow> Some pt | None \<Rightarrow> open_previous as nonce sealed)"

text \<open>The result and whether the fallback observer was called.\<close>

definition decrypt :: "primitives \<Rightarrow> Encryptor \<Rightarrow> string \<Rightarrow> bool \<Rightarrow> string result \<times> bool" where
  "decrypt P e ciphertext notify =
     (case b64_decode P ciphertext of
        None \<Rightarrow> (Inl (ErrOther ''decode ciphertext''), False)
      | Some data \<Rightarrow>
          (if length data < NonceSize then (Inl (ErrOther ''ciphertext too short''), False)
           else (let nonce = take NonceSize data; sealed = drop NonceSize data
                 in case Open (active e) nonce sealed of
                      Some plaintext \<Rightarrow> (Inr plaintext, False)
                    | None \<Rightarrow>
                        (case open_previous (previous e) nonce sealed of
                           Some pt \<Rightarrow> (Inr pt, notify \<and> observed e)
                         | None \<Rightarrow> (Inl (ErrOther ''decrypt''), False)))))"

definition Decrypt :: "primitives \<Rightarrow> Encryptor \<Rightarrow> string \<Rightarrow> string result \<times> bool" where
  "Decrypt P e ciphertext = decrypt P e ciphertext True"

definition DecryptWithoutFallback :: "primitives \<Rightarrow> Encryptor \<Rightarrow> string \<Rightarrow> string result \<times> bool" where
  "DecryptWithoutFallback P e ciphertext = decrypt P e ciphertext False"

definition NeedsReencryption :: "primitives \<Rightarrow> Encryptor \<Rightarrow> string \<Rightarrow> bool result" where
  "NeedsReencryption P e ciphertext =
     (case b64_decode P ciphertext of
        None \<Rightarrow> Inl (ErrOther ''decode ciphertext'')
      | Some data \<Rightarrow>
          (if length data < NonceSize then Inl (ErrOther ''ciphertext too short'')
           else (let nonce = take NonceSize data; sealed = drop NonceSize data
                 in case Open (active e) nonce sealed of
                      Some _ \<Rightarrow> Inr False
                    | None \<Rightarrow>
                        (case open_previous (previous e) nonce sealed of
                           Some _ \<Rightarrow> Inr True
                         | None \<Rightarrow> Inl (ErrOther ''open'')))))"

section \<open>Rotation\<close>

text \<open>What the code relies on: base64 decodes what it encoded, and authenticated
  encryption opens a sealed message under the key that sealed it and under no other.\<close>

definition primitive_laws :: "primitives \<Rightarrow> bool" where
  "primitive_laws P \<longleftrightarrow>
     (\<forall>x. b64_decode P (b64_encode P x) = Some x) \<and>
     (\<forall>k k' n m. length k = 32 \<longrightarrow> length k' = 32 \<longrightarrow>
        Open (aes_gcm P k') n (Seal (aes_gcm P k) n m) = (if k' = k then Some m else None))"

lemma newAEAD_Inr:
  "newAEAD P kh = Inr a \<longleftrightarrow> (\<exists>k. hex_decode P kh = Some k \<and> length k = 32 \<and> a = aes_gcm P k)"
  by (auto simp: newAEAD_def split: option.splits if_splits)

lemma add_previous_Inr:
  "add_previous P ks e = Inr e' \<Longrightarrow>
   \<exists>raw. map (hex_decode P) ks = map Some raw \<and> (\<forall>k\<in>set raw. length k = 32) \<and>
         e' = e\<lparr>previous := previous e @ map (aes_gcm P) raw\<rparr>"
proof (induction ks arbitrary: e)
  case (Cons kh ks)
  then obtain a where a: "newAEAD P kh = Inr a"
    "add_previous P ks (e\<lparr>previous := previous e @ [a]\<rparr>) = Inr e'"
    by (auto split: sum.splits)
  then obtain k where k: "hex_decode P kh = Some k" "length k = 32" "a = aes_gcm P k"
    by (auto simp: newAEAD_Inr)
  from Cons.IH [OF a(2)] obtain raw where "map (hex_decode P) ks = map Some raw"
    "\<forall>k\<in>set raw. length k = 32" "e' = e\<lparr>previous := (previous e @ [a]) @ map (aes_gcm P) raw\<rparr>"
    by auto
  with k show ?case by (intro exI [of _ "k # raw"]) simp
qed simp

lemma open_previous_sealed:
  "primitive_laws P \<Longrightarrow> length k = 32 \<Longrightarrow> \<forall>k'\<in>set raw. length k' = 32 \<Longrightarrow>
   open_previous (map (aes_gcm P) raw) n (Seal (aes_gcm P k) n m) = (if k \<in> set raw then Some m else None)"
  by (induction raw) (auto simp: primitive_laws_def)

text \<open>
  C27. A message sealed by any encryptor whose active key is \<open>k\<close> is read back by an encryptor
  built from an active and previous keys exactly when \<open>k\<close> is among them; the observer is
  called and re-encryption asked for exactly when \<open>k\<close> is only a previous key; with none of
  the keys both operations fail. So a rotation that keeps the old key in the list orphans
  nothing, and re-encrypting with the new active key converges.
\<close>

theorem encryptor_rotation:
  assumes "primitive_laws P" "length nonce = NonceSize"
    and "NewEncryptorWithPrevious P new olds = Inr e"
    and "NewEncryptorWithPrevious P kh others = Inr e0" "hex_decode P kh = Some k"
    and "hex_decode P new = Some a"
  shows "let c = Encrypt P e0 nonce m;
             stale = (k \<noteq> a \<and> Some k \<in> set (map (hex_decode P) olds))
         in decrypt P (SetFallbackObserver ob e) c notify =
              (if k = a \<or> stale then (Inr m, stale \<and> notify \<and> ob) else (Inl (ErrOther ''decrypt''), False)) \<and>
            NeedsReencryption P e c = (if k = a \<or> stale then Inr stale else Inl (ErrOther ''open''))"
proof -
  from assms(3,6) obtain raw where e: "map (hex_decode P) olds = map Some raw"
      "\<forall>k\<in>set raw. length k = 32" "active e = aes_gcm P a" "previous e = map (aes_gcm P) raw"
      "length a = 32"
    by (auto simp: NewEncryptorWithPrevious_def newAEAD_Inr dest!: add_previous_Inr split: sum.splits)
  from assms(4,5) have k: "active e0 = aes_gcm P k" "length k = 32"
    by (auto simp: NewEncryptorWithPrevious_def newAEAD_Inr dest!: add_previous_Inr split: sum.splits)
  have "Open (aes_gcm P a) nonce (Seal (aes_gcm P k) nonce m) = (if a = k then Some m else None)"
    "b64_decode P (b64_encode P x) = Some x" for x
    using assms(1) e(5) k(2) by (auto simp: primitive_laws_def)
  moreover have "Some k \<in> set (map (hex_decode P) olds) \<longleftrightarrow> k \<in> set raw" using e(1) by auto
  ultimately show ?thesis
    using assms(2) open_previous_sealed [OF assms(1) k(2) e(2), of nonce m]
    by (auto simp: Let_def decrypt_def NeedsReencryption_def Encrypt_def SetFallbackObserver_def e k)
qed

text \<open>A toy instance: the key is the authenticator.\<close>

definition toy_primitives :: primitives where
  "toy_primitives = \<lparr>hex_decode = Some, b64_encode = (\<lambda>x. x), b64_decode = Some,
     aes_gcm = (\<lambda>k. \<lparr>Seal = (\<lambda>n m. k @ m),
                     Open = (\<lambda>n s. if take 32 s = k then Some (drop 32 s) else None)\<rparr>)\<rparr>"

lemma toy_laws: "primitive_laws toy_primitives"
  by (auto simp: primitive_laws_def toy_primitives_def)

theorem encryptor_rotation_witness:
  "let e0 = projr (NewEncryptor toy_primitives (replicate 32 CHR ''a''));
       e = projr (NewEncryptorWithPrevious toy_primitives (replicate 32 CHR ''b'') [replicate 32 CHR ''a'']);
       c = Encrypt toy_primitives e0 (replicate 12 CHR ''0'') ''secret''
   in Decrypt toy_primitives (SetFallbackObserver True e) c = (Inr ''secret'', True) \<and>
      NeedsReencryption toy_primitives e c = Inr True"
proof -
  let ?a = "replicate 32 CHR ''a''" and ?b = "replicate 32 CHR ''b''"
  have n: "newAEAD toy_primitives ?a = Inr (aes_gcm toy_primitives ?a)"
    "newAEAD toy_primitives ?b = Inr (aes_gcm toy_primitives ?b)"
    by (simp_all add: newAEAD_def toy_primitives_def)
  have h: "hex_decode toy_primitives x = Some x" for x by (simp add: toy_primitives_def)
  have "?a \<noteq> ?b" by (simp add: replicate_eq_replicate)
  then show ?thesis
    using encryptor_rotation [OF toy_laws, of "replicate 12 CHR ''0''" ?b "[?a]" _ ?a "[]" _ ?a ?b
        "''secret''" True True]
    by (simp add: NewEncryptor_def NewEncryptorWithPrevious_def n h Let_def Decrypt_def
        del: replicate.simps)
qed

end
