(* ===== verification/Keys.thy ===== *)
theory Keys
  imports Domain_Lifecycle
begin

text \<open>
  \<open>internal/keys/keys.go\<close> (API keys), \<open>internal/tenant/tenant.go\<close> (the tenant context a
  key stands for) and \<open>internal/portal/token.go\<close> (portal tokens). The 24 random bytes of a
  key are an argument, as is the SHA-256 function; the JWT library is a parameter of the
  token functions, a record of its signing and parsing entry points. A \<open>uuid.UUID\<close> is
  its canonical text.
\<close>

type_synonym uuid = string

section \<open>API keys\<close>

abbreviation PrefixTest :: string where "PrefixTest \<equiv> ''pk_test_''"
abbreviation PrefixLive :: string where "PrefixLive \<equiv> ''pk_live_''"
abbreviation PrefixLen :: nat where "PrefixLen \<equiv> 12"
abbreviation randomBytes :: nat where "randomBytes \<equiv> 24"

text \<open>\<open>base64.RawURLEncoding\<close>: three bytes to four characters; a rest of one or two bytes
  gives two or three characters and no padding.\<close>

definition b64url_alphabet :: string where
  "b64url_alphabet = ''ABCDEFGHIJKLMNOPQRSTUVWXYZabcdefghijklmnopqrstuvwxyz0123456789-_''"

definition b64url_char :: "nat \<Rightarrow> char" where
  "b64url_char i = b64url_alphabet ! (i mod 64)"

fun RawURLEncode :: "nat list \<Rightarrow> string" where
  "RawURLEncode [] = []"
| "RawURLEncode [a] = [b64url_char (a div 4), b64url_char (a mod 4 * 16)]"
| "RawURLEncode [a, b] =
     [b64url_char (a div 4), b64url_char (a mod 4 * 16 + b div 16), b64url_char (b mod 16 * 4)]"
| "RawURLEncode (a # b # c # bs) =
     b64url_char (a div 4) # b64url_char (a mod 4 * 16 + b div 16) #
     b64url_char (b mod 16 * 4 + c div 64) # b64url_char (c mod 64) # RawURLEncode bs"

definition Generate :: "string \<Rightarrow> nat list \<Rightarrow> string result" where
  "Generate envKind buf =
     (if envKind = EnvKindTest then Inr (PrefixTest @ RawURLEncode buf)
      else if envKind = EnvKindLive then Inr (PrefixLive @ RawURLEncode buf)
      else Inl (ErrOther ''unknown environment kind''))"

fun hex_digit :: "nat \<Rightarrow> char" where
  "hex_digit n = ''0123456789abcdef'' ! (n mod 16)"

definition hex_encode :: "nat list \<Rightarrow> string" where
  "hex_encode bs = concat (map (\<lambda>b. [hex_digit (b div 16), hex_digit b]) bs)"

definition Hash :: "(string \<Rightarrow> nat list) \<Rightarrow> string \<Rightarrow> string" where
  "Hash sha256 key = hex_encode (sha256 key)"

definition Prefix :: "string \<Rightarrow> string" where
  "Prefix key = (if length key \<le> PrefixLen then key else take PrefixLen key)"

lemma b64url_distinct: "distinct b64url_alphabet" "length b64url_alphabet = 64"
  by (simp_all add: b64url_alphabet_def)

lemma b64url_char_eq: "i < 64 \<Longrightarrow> j < 64 \<Longrightarrow> b64url_char i = b64url_char j \<longleftrightarrow> i = j"
  by (simp add: b64url_char_def nth_eq_iff_index_eq b64url_distinct)

lemma sextets_eq:
  fixes a b c a' b' c' :: nat
  assumes "a div 4 = a' div 4" "a mod 4 * 16 + b div 16 = a' mod 4 * 16 + b' div 16"
    "b mod 16 * 4 + c div 64 = b' mod 16 * 4 + c' div 64" "c mod 64 = c' mod 64"
    "b < 256" "b' < 256" "c < 256" "c' < 256"
  shows "a = a' \<and> b = b' \<and> c = c'"
proof -
  have "b div 16 < 16" "b' div 16 < 16" "c div 64 < 4" "c' div 64 < 4"
    using assms(5-8) by (simp_all add: less_mult_imp_div_less)
  with assms(2,3) have "a mod 4 = a' mod 4" "b div 16 = b' div 16" "b mod 16 = b' mod 16"
    "c div 64 = c' div 64"
    using digits_eq [of "b div 16" 16 "b' div 16" "a mod 4" "a' mod 4"]
      digits_eq [of "c div 64" 4 "c' div 64" "b mod 16" "b' mod 16"] by blast+
  with assms(1,4) show ?thesis by (metis div_mult_mod_eq)
qed

lemma RawURLEncode_inj:
  "\<forall>x\<in>set xs. x < 256 \<Longrightarrow> \<forall>y\<in>set ys. y < 256 \<Longrightarrow> length xs = 3 * n \<Longrightarrow> length ys = 3 * n \<Longrightarrow>
   RawURLEncode xs = RawURLEncode ys \<longleftrightarrow> xs = ys"
proof (induction n arbitrary: xs ys)
  case (Suc n)
  obtain a b c xs' where xs: "xs = a # b # c # xs'"
    using Suc.prems(3) by (auto simp: length_Suc_conv numeral_eq_Suc)
  obtain a' b' c' ys' where ys: "ys = a' # b' # c' # ys'"
    using Suc.prems(4) by (auto simp: length_Suc_conv numeral_eq_Suc)
  have r: "a < 256" "b < 256" "c < 256" "a' < 256" "b' < 256" "c' < 256"
    using Suc.prems(1,2) xs ys by auto
  have lt: "x div 4 < 64" "x mod 4 * 16 + y div 16 < 64" "y mod 16 * 4 + z div 64 < 64" "z mod 64 < 64"
    if "x < 256" "y < 256" "z < 256" for x y z :: nat
    using that by simp_all
  from Suc.IH [of xs' ys'] Suc.prems xs ys sextets_eq [of a a' b b' c c'] r show ?case
    by (auto simp: b64url_char_eq lt)
qed simp

lemma length_RawURLEncode: "length bs = 3 * n \<Longrightarrow> length (RawURLEncode bs) = 4 * n"
proof (induction n arbitrary: bs)
  case (Suc n)
  then obtain a b c bs' where "bs = a # b # c # bs'"
    by (auto simp: length_Suc_conv numeral_eq_Suc)
  with Suc show ?case by simp
qed simp

text \<open>
  An API key is 40 characters, its first eight tell its environment kind, keys of
  different random bytes or kinds differ, and the 12 stored characters of \<open>Prefix\<close> are the
  kind marker and the first three bytes' worth of the secret: no more of the key can be
  read off them.
\<close>

theorem api_key_format:
  assumes "length buf = randomBytes" "length buf' = randomBytes"
    and "\<forall>x\<in>set buf. x < 256" "\<forall>x\<in>set buf'. x < 256"
    and "Generate kind buf = Inr key" "Generate kind' buf' = Inr key'"
  shows "length key = 40 \<and> (key = key' \<longleftrightarrow> kind = kind' \<and> buf = buf') \<and>
         (has_prefix key PrefixLive \<longleftrightarrow> kind = EnvKindLive) \<and>
         Prefix key = (if kind = EnvKindLive then PrefixLive else PrefixTest) @ RawURLEncode (take 3 buf)"
proof -
  have l: "length (RawURLEncode buf) = 32" "length (RawURLEncode buf') = 32"
    using length_RawURLEncode [of buf 8] length_RawURLEncode [of buf' 8] assms(1,2) by simp_all
  have inj: "RawURLEncode buf = RawURLEncode buf' \<longleftrightarrow> buf = buf'"
    using RawURLEncode_inj [OF assms(3,4), of 8] assms(1,2) by simp
  obtain a b c bs where "buf = a # b # c # bs"
    using assms(1) by (auto simp: length_Suc_conv numeral_eq_Suc)
  then have p: "take 4 (RawURLEncode buf) = RawURLEncode (take 3 buf)" by simp
  from assms(5,6) l inj p show ?thesis
    by (auto simp: Generate_def Prefix_def has_prefix_def split: if_splits)
qed

theorem api_key_format_witness:
  "length (projr (Generate EnvKindLive (replicate 24 7))) = 40"
  using api_key_format [of "replicate 24 7" "replicate 24 7" EnvKindLive _ EnvKindLive]
  by (simp add: Generate_def)

section \<open>Tenant context\<close>

record Ctx =
  CredentialID :: uuid
  ProviderID :: uuid
  ProviderSlug :: string
  LifecycleState :: string
  EnvironmentID :: uuid
  EnvironmentKind :: string
  Ctx_Issuer :: string
  Scopes :: "string list"

fun has_scope :: "string list \<Rightarrow> string \<Rightarrow> bool" where
  "has_scope [] s = False"
| "has_scope (sc # scs) s = (if sc = s then True else has_scope scs s)"

definition HasScope :: "Ctx \<Rightarrow> string \<Rightarrow> bool" where
  "HasScope c s = has_scope (Scopes c) s"

definition ProviderNullUUID :: "Ctx \<Rightarrow> uuid option" where
  "ProviderNullUUID c = Some (ProviderID c)"

definition EnvironmentNullUUID :: "Ctx \<Rightarrow> uuid option" where
  "EnvironmentNullUUID c = Some (EnvironmentID c)"

text \<open>A Go context restricted to the two keys of this package.\<close>

record go_context =
  ctxKey :: "Ctx option"
  operatorKey :: "bool option"

definition WithContext :: "go_context \<Rightarrow> Ctx \<Rightarrow> go_context" where
  "WithContext ctx tc = ctx\<lparr>ctxKey := Some tc\<rparr>"

definition FromContext :: "go_context \<Rightarrow> Ctx option" where
  "FromContext ctx = ctxKey ctx"

definition WithOperator :: "go_context \<Rightarrow> go_context" where
  "WithOperator ctx = ctx\<lparr>operatorKey := Some True\<rparr>"

definition IsOperator :: "go_context \<Rightarrow> bool" where
  "IsOperator ctx = (case operatorKey ctx of None \<Rightarrow> False | Some v \<Rightarrow> v)"

lemma has_scope_iff: "has_scope scs s \<longleftrightarrow> s \<in> set scs"
  by (induction scs) auto

lemma HasScope_iff: "HasScope c s \<longleftrightarrow> s \<in> set (Scopes c)"
  by (simp add: HasScope_def has_scope_iff)

section \<open>Portal tokens\<close>

record Claims =
  cl_ProviderID :: string
  cl_EnvironmentID :: string
  cl_EnvironmentKind :: string
  cl_CustomerExternalID :: string
  cl_Issuer :: string
  cl_IssuedAt :: int
  cl_ExpiresAt :: int

record Issuer =
  secret :: string
  ttl :: int

text \<open>\<open>jwt_parse now raw keyfunc methods issuer\<close> is \<open>ParseWithClaims\<close> with the two options;
  the key function maps the token's algorithm to a key or an error.\<close>

record jwt =
  jwt_sign :: "string \<Rightarrow> string \<Rightarrow> Claims \<Rightarrow> string option"
  jwt_parse :: "int \<Rightarrow> string \<Rightarrow> (string \<Rightarrow> string option) \<Rightarrow> string list \<Rightarrow> string \<Rightarrow> (Claims \<times> bool) option"

definition NewIssuer :: "string \<Rightarrow> int \<Rightarrow> Issuer result" where
  "NewIssuer s t =
     (if length s < 32 then Inl (ErrOther ''portal token secret must be at least 32 bytes'')
      else Inr \<lparr>secret = s, ttl = (if t \<le> 0 then 24 * Hour else t)\<rparr>)"

text \<open>Numeric dates have a precision of one second.\<close>

definition NewNumericDate :: "int \<Rightarrow> int" where
  "NewNumericDate t = t - t mod Second"

definition Issue :: "jwt \<Rightarrow> int \<Rightarrow> Issuer \<Rightarrow> uuid \<Rightarrow> uuid \<Rightarrow> string \<Rightarrow> string \<Rightarrow> (string \<times> int) result" where
  "Issue J now i providerID environmentID environmentKind customerExternalID =
     (let expiresAt = now + ttl i;
          claims = \<lparr>cl_ProviderID = providerID, cl_EnvironmentID = environmentID,
                    cl_EnvironmentKind = environmentKind, cl_CustomerExternalID = customerExternalID,
                    cl_Issuer = ''vlogbin-portal'', cl_IssuedAt = NewNumericDate now,
                    cl_ExpiresAt = NewNumericDate expiresAt\<rparr>
      in case jwt_sign J ''HS256'' (secret i) claims of
           None \<Rightarrow> Inl (ErrOther ''sign portal token'')
         | Some tok \<Rightarrow> Inr (tok, expiresAt))"

definition Verify :: "jwt \<Rightarrow> int \<Rightarrow> Issuer \<Rightarrow> string \<Rightarrow> Claims result" where
  "Verify J now i raw =
     (case jwt_parse J now raw (\<lambda>alg. if alg \<noteq> ''HS256'' then None else Some (secret i))
             [''HS256''] ''vlogbin-portal'' of
        None \<Rightarrow> Inl (ErrOther ''invalid portal token'')
      | Some (claims, valid) \<Rightarrow>
          (if \<not> valid then Inl (ErrOther ''invalid portal token'')
           else if cl_ProviderID claims = '''' \<or> cl_EnvironmentID claims = '''' \<or>
                   cl_CustomerExternalID claims = ''''
           then Inl (ErrOther ''portal token missing data domain claims'')
           else Inr claims))"

text \<open>Of the library the code relies on the round trip: what a method signed with a key parses
  to its claims under that method and key, with the issuer it names and before its expiry.\<close>

definition jwt_roundtrip :: "jwt \<Rightarrow> Claims \<Rightarrow> bool" where
  "jwt_roundtrip J claims \<longleftrightarrow> (\<forall>alg s raw now kf methods.
     jwt_sign J alg s claims = Some raw \<longrightarrow> alg \<in> set methods \<longrightarrow> kf alg = Some s \<longrightarrow> now < cl_ExpiresAt claims \<longrightarrow>
     jwt_parse J now raw kf methods (cl_Issuer claims) = Some (claims, True))"

lemma Verify_names: "Verify J now i raw = Inr cl \<Longrightarrow>
  cl_ProviderID cl \<noteq> '''' \<and> cl_EnvironmentID cl \<noteq> '''' \<and> cl_CustomerExternalID cl \<noteq> ''''"
  by (auto simp: Verify_def split: option.splits prod.splits if_splits)

text \<open>A fresh token is refused when it was issued for an empty customer, which \<open>Issue\<close> does not
  check.\<close>

lemma portal_token_verifies:
  assumes "Issue J t0 i pid eid kind cust = Inr (raw, exp)" "t < NewNumericDate exp"
    and "jwt_roundtrip J \<lparr>cl_ProviderID = pid, cl_EnvironmentID = eid, cl_EnvironmentKind = kind,
       cl_CustomerExternalID = cust, cl_Issuer = ''vlogbin-portal'', cl_IssuedAt = NewNumericDate t0,
       cl_ExpiresAt = NewNumericDate (t0 + ttl i)\<rparr>"
  shows "is_ok (Verify J t i raw) \<longleftrightarrow> pid \<noteq> '''' \<and> eid \<noteq> '''' \<and> cust \<noteq> ''''"
  using assms by (auto simp: Issue_def Verify_def jwt_roundtrip_def Let_def is_ok_def split: option.splits)

end
