(* ===== verification/Schema.thy ===== *)
theory Schema
  imports Keys Domain_Catalog
begin

text \<open>
  The PostgreSQL tables the services use (\<open>db/migrations\<close>), reduced to the columns the
  modelled code reads or writes. A table is the list of its rows in insertion order, which
  is the order of \<open>created_at\<close>. With each table go its row level security policy, its
  unique and foreign keys, its CHECK constraints and whether its trigger reserves updates
  for operators; the queries of theory Store are generic in the table.
\<close>

section \<open>Rows\<close>

abbreviation uuid_Nil :: uuid where "uuid_Nil \<equiv> ''00000000-0000-0000-0000-000000000000''"

record Region =
  rg_id :: uuid
  rg_code :: string

record Cell =
  ce_id :: uuid
  ce_region :: uuid
  ce_code :: string
  ce_type :: string
  ce_status :: string
  ce_limits :: json

record Provider =
  pv_id :: uuid
  pv_slug :: string
  pv_name :: string
  pv_region :: "uuid option"
  pv_cell :: "uuid option"
  pv_state :: string

record Environment =
  en_id :: uuid
  en_provider :: uuid
  en_kind :: string
  en_issuer :: string

record Credential =
  cr_id :: uuid
  cr_provider :: uuid
  cr_env :: uuid
  cr_name :: string
  cr_prefix :: string
  cr_hash :: string
  cr_scopes :: "string list"
  cr_expires :: "int option"
  cr_revoked :: "int option"

record CommerceAccount =
  ca_id :: uuid
  ca_domain :: string
  ca_provider :: "uuid option"
  ca_env :: "uuid option"
  ca_name :: string

record RiskReview =
  rr_id :: uuid
  rr_provider :: uuid
  rr_score :: int
  rr_checks :: "(string \<times> bool) list"
  rr_decision :: string
  rr_reason :: string
  rr_by :: string
  rr_at :: int

record OutboxEvent =
  ob_id :: uuid
  ob_provider :: uuid
  ob_env :: uuid
  ob_agg_type :: string
  ob_agg_id :: string
  ob_type :: string
  ob_payload :: RawMessage
  ob_hash :: string
  ob_tx :: string
  ob_status :: string
  ob_attempts :: int
  ob_created :: int
  ob_published :: "int option"
  ob_next :: "int option"
  ob_error :: "string option"

record AuditEvent =
  au_id :: nat
  au_provider :: "uuid option"
  au_env :: "uuid option"
  au_actor_type :: string
  au_actor :: string
  au_action :: string
  au_target_type :: "string option"
  au_target :: "string option"
  au_request :: "string option"
  au_meta :: json
  au_created :: int

record WebhookEndpoint =
  we_id :: uuid
  we_provider :: uuid
  we_env :: uuid
  we_url :: string
  we_secret :: string
  we_enabled :: bool
  we_events :: "string list"

record WebhookDelivery =
  wd_id :: uuid
  wd_endpoint :: uuid
  wd_outbox :: uuid
  wd_provider :: uuid
  wd_env :: uuid
  wd_status :: string
  wd_attempts :: int
  wd_response_status :: "int option"
  wd_response_body :: "string option"
  wd_next :: "int option"
  wd_delivered :: "int option"
  wd_created :: int

record CustomerAccount =
  cu_id :: uuid
  cu_provider :: uuid
  cu_env :: uuid
  cu_external :: string
  cu_type :: string
  cu_name :: string

record CatalogVersion =
  cv_id :: uuid
  cv_provider :: uuid
  cv_env :: uuid
  cv_version :: int
  cv_state :: string
  cv_validated :: "int option"
  cv_published :: "int option"
  cv_retired :: "int option"

record Metric =
  mt_id :: uuid
  mt_version :: uuid
  mt_provider :: uuid
  mt_env :: uuid
  mt_code :: string
  mt_name :: string
  mt_aggregation :: string
  mt_field :: "string option"
  mt_billable :: bool

record Plan =
  pl_id :: uuid
  pl_version :: uuid
  pl_provider :: uuid
  pl_env :: uuid
  pl_code :: string
  pl_name :: string
  pl_interval :: string
  pl_currency :: string

record Price =
  px_id :: uuid
  px_plan :: uuid
  px_version :: uuid
  px_provider :: uuid
  px_env :: uuid
  px_metric :: "uuid option"
  px_model :: string
  px_properties :: json

record EntitlementGrant =
  eg_id :: uuid
  eg_plan :: uuid
  eg_version :: uuid
  eg_provider :: uuid
  eg_env :: uuid
  eg_key :: string
  eg_type :: string
  eg_value :: json

record Subscription =
  su_id :: uuid
  su_provider :: uuid
  su_env :: uuid
  su_external :: string
  su_customer :: uuid
  su_version :: uuid
  su_plan :: uuid
  su_status :: string
  su_terminated :: "int option"

record UsageEvent =
  us_id :: uuid
  us_provider :: uuid
  us_env :: uuid
  us_tx :: string
  us_kind :: string
  us_metric :: string
  us_customer :: uuid
  us_sub :: uuid
  us_at :: int
  us_properties :: json
  us_hash :: string
  us_reverses :: "uuid option"
  us_reason :: "string option"

text \<open>Dates are days since the epoch.\<close>

record Invoice =
  iv_id :: uuid
  iv_provider :: uuid
  iv_env :: uuid
  iv_lago :: string
  iv_number :: string
  iv_customer :: uuid
  iv_sub :: "uuid option"
  iv_version :: "uuid option"
  iv_issuing :: int
  iv_type :: string
  iv_status :: string
  iv_payment :: string
  iv_currency :: string
  iv_fees :: int
  iv_coupons :: int
  iv_credits :: int
  iv_subtotal_excl :: int
  iv_taxes :: int
  iv_subtotal_incl :: int
  iv_total :: int
  iv_file :: "string option"
  iv_web :: "string option"
  iv_lago_created :: "int option"
  iv_finalized :: "int option"
  iv_voided :: "int option"
  iv_synced :: int

record InvoiceLine =
  il_id :: uuid
  il_invoice :: uuid
  il_provider :: uuid
  il_env :: uuid
  il_fee :: string
  il_code :: string
  il_type :: string
  il_name :: string
  il_units :: string
  il_unit_amount :: string
  il_amount :: int
  il_taxes :: int
  il_total :: int
  il_currency :: string
  il_tx :: "string option"
  il_from :: "int option"
  il_to :: "int option"
  il_metric :: "uuid option"
  il_price :: "uuid option"

record EntitlementOverride =
  eo_id :: uuid
  eo_provider :: uuid
  eo_env :: uuid
  eo_sub :: uuid
  eo_key :: string
  eo_type :: string
  eo_value :: json
  eo_expires :: "int option"
  eo_reason :: string

record EntitlementSnapshot =
  es_id :: uuid
  es_provider :: uuid
  es_env :: uuid
  es_customer :: uuid
  es_sub :: uuid
  es_version :: uuid
  es_payload :: json
  es_computed :: int

record MigrationJob =
  mj_id :: uuid
  mj_provider :: uuid
  mj_env :: uuid
  mj_source :: string
  mj_status :: string
  mj_dry_run :: bool
  mj_total :: int
  mj_processed :: int
  mj_failed :: int
  mj_locked :: bool
  mj_started :: "int option"
  mj_completed :: "int option"
  mj_by :: string

text \<open>\<open>mr_provider\<close> and \<open>mr_env\<close> are those of its job, whose tenant is what the policy of
  the records asks for; they are no columns of the table.\<close>

record MigrationRecord =
  mr_id :: uuid
  mr_job :: uuid
  mr_provider :: uuid
  mr_env :: uuid
  mr_type :: string
  mr_external :: string
  mr_status :: string
  mr_data :: json
  mr_target :: "uuid option"
  mr_error :: "string option"

record QuotaLimit =
  ql_id :: uuid
  ql_provider :: uuid
  ql_env :: uuid
  ql_sub :: uuid
  ql_key :: string
  ql_limit :: int
  ql_period :: string

record QuotaReservation =
  qr_id :: uuid
  qr_provider :: uuid
  qr_env :: uuid
  qr_sub :: uuid
  qr_key :: string
  qr_amount :: int
  qr_status :: string
  qr_tx :: string
  qr_expires :: "int option"
  qr_committed :: "int option"
  qr_released :: "int option"

record SupportSession =
  ss_id :: uuid
  ss_provider :: uuid
  ss_env :: uuid
  ss_type :: string
  ss_status :: string
  ss_requested_by :: string
  ss_reason :: string
  ss_scopes :: "string list"
  ss_approved_by :: "string option"
  ss_second :: "string option"
  ss_granted :: "int option"
  ss_expires :: int
  ss_revoked :: "int option"
  ss_revoked_by :: "string option"
  ss_revoke_reason :: "string option"

record CellFailover =
  fo_id :: uuid
  fo_provider :: uuid
  fo_from :: uuid
  fo_to :: uuid
  fo_status :: string
  fo_reason :: string
  fo_by :: string
  fo_token :: string
  fo_usage :: int
  fo_outbox :: int
  fo_completed :: "int option"

record CellMigration =
  mg_id :: uuid
  mg_provider :: uuid
  mg_from :: uuid
  mg_to :: uuid
  mg_status :: string
  mg_scheduled :: "int option"
  mg_passed :: bool
  mg_hash :: "string option"
  mg_count :: int
  mg_reason :: string
  mg_by :: string
  mg_started :: "int option"
  mg_completed :: "int option"
  mg_error :: "string option"

section \<open>The database\<close>

text \<open>\<open>db_seq\<close> counts the draws from the sources of fresh values.\<close>

record db =
  db_regions :: "Region list"
  db_cells :: "Cell list"
  db_providers :: "Provider list"
  db_environments :: "Environment list"
  db_credentials :: "Credential list"
  db_commerce :: "CommerceAccount list"
  db_reviews :: "RiskReview list"
  db_outbox :: "OutboxEvent list"
  db_audit :: "AuditEvent list"
  db_endpoints :: "WebhookEndpoint list"
  db_deliveries :: "WebhookDelivery list"
  db_customers :: "CustomerAccount list"
  db_versions :: "CatalogVersion list"
  db_metrics :: "Metric list"
  db_plans :: "Plan list"
  db_prices :: "Price list"
  db_grants :: "EntitlementGrant list"
  db_subscriptions :: "Subscription list"
  db_usage :: "UsageEvent list"
  db_invoices :: "Invoice list"
  db_lines :: "InvoiceLine list"
  db_overrides :: "EntitlementOverride list"
  db_snapshots :: "EntitlementSnapshot list"
  db_jobs :: "MigrationJob list"
  db_records :: "MigrationRecord list"
  db_limits :: "QuotaLimit list"
  db_reservations :: "QuotaReservation list"
  db_sessions :: "SupportSession list"
  db_failovers :: "CellFailover list"
  db_migrations :: "CellMigration list"
  db_seq :: nat

text \<open>Whose transaction runs: \<open>WithOperator\<close> or \<open>WithTenant\<close> with its provider and
  environment.\<close>

datatype role = Operator | Tenant uuid uuid

definition vis_env :: "role \<Rightarrow> uuid \<Rightarrow> uuid \<Rightarrow> bool" where
  "vis_env r p e = (case r of Operator \<Rightarrow> True | Tenant p' e' \<Rightarrow> p = p' \<and> e = e')"

definition vis_provider :: "role \<Rightarrow> uuid \<Rightarrow> bool" where
  "vis_provider r p = (case r of Operator \<Rightarrow> True | Tenant p' e' \<Rightarrow> p = p')"

definition vis_opt :: "role \<Rightarrow> uuid option \<Rightarrow> uuid option \<Rightarrow> bool" where
  "vis_opt r p e = (case r of Operator \<Rightarrow> True
     | Tenant p' e' \<Rightarrow> p = Some p' \<and> (e = None \<or> e = Some e'))"

lemma vis_operator [simp]:
  "vis_env Operator p e" "vis_provider Operator p" "vis_opt Operator q f"
  by (simp_all add: vis_env_def vis_provider_def vis_opt_def)

lemma vis_tenant [simp]:
  "vis_env (Tenant p e) p' e' \<longleftrightarrow> p' = p \<and> e' = e"
  "vis_provider (Tenant p e) p' \<longleftrightarrow> p' = p"
  by (auto simp: vis_env_def vis_provider_def)

section \<open>Tables\<close>

text \<open>A table: where it lives, its policy, its conflicting pairs (primary and unique
  keys), its CHECK constraints and references, and its update trigger.\<close>

record 'r tbl =
  tb_get :: "db \<Rightarrow> 'r list"
  tb_put :: "'r list \<Rightarrow> db \<Rightarrow> db"
  tb_vis :: "role \<Rightarrow> 'r \<Rightarrow> bool"
  tb_clash :: "'r \<Rightarrow> 'r \<Rightarrow> bool"
  tb_check :: "db \<Rightarrow> 'r \<Rightarrow> bool"
  tb_trigger :: "role \<Rightarrow> bool"

definition regions :: "Region tbl" where
  "regions = \<lparr>tb_get = db_regions, tb_put = (\<lambda>v d. d\<lparr>db_regions := v\<rparr>),
     tb_vis = (\<lambda>r x. True), tb_clash = (\<lambda>x y. rg_id x = rg_id y \<or> rg_code x = rg_code y),
     tb_check = (\<lambda>d x. True), tb_trigger = (\<lambda>r. True)\<rparr>"

definition cells :: "Cell tbl" where
  "cells = \<lparr>tb_get = db_cells, tb_put = (\<lambda>v d. d\<lparr>db_cells := v\<rparr>),
     tb_vis = (\<lambda>r x. True), tb_clash = (\<lambda>x y. ce_id x = ce_id y \<or> ce_code x = ce_code y),
     tb_check = (\<lambda>d x. ce_type x \<in> {''shared'', ''dedicated''} \<and> ce_region x \<in> rg_id ` set (db_regions d)),
     tb_trigger = (\<lambda>r. True)\<rparr>"

definition providers :: "Provider tbl" where
  "providers = \<lparr>tb_get = db_providers, tb_put = (\<lambda>v d. d\<lparr>db_providers := v\<rparr>),
     tb_vis = (\<lambda>r x. vis_provider r (pv_id x)),
     tb_clash = (\<lambda>x y. pv_id x = pv_id y \<or> pv_slug x = pv_slug y),
     tb_check = (\<lambda>d x. pv_state x \<in> {StateRegistered, StateTestActive, StateLiveReview,
          StateLiveActive, StateRestricted, StateSuspended, StateOffboarding} \<and>
        (\<forall>r\<in>set_option (pv_region x). r \<in> rg_id ` set (db_regions d)) \<and>
        (\<forall>c\<in>set_option (pv_cell x). c \<in> ce_id ` set (db_cells d))),
     tb_trigger = (\<lambda>r. r = Operator)\<rparr>"

definition environments :: "Environment tbl" where
  "environments = \<lparr>tb_get = db_environments, tb_put = (\<lambda>v d. d\<lparr>db_environments := v\<rparr>),
     tb_vis = (\<lambda>r x. vis_provider r (en_provider x)),
     tb_clash = (\<lambda>x y. en_id x = en_id y \<or> en_issuer x = en_issuer y \<or>
        en_provider x = en_provider y \<and> en_kind x = en_kind y),
     tb_check = (\<lambda>d x. en_kind x \<in> {EnvKindTest, EnvKindLive} \<and>
        en_provider x \<in> pv_id ` set (db_providers d)),
     tb_trigger = (\<lambda>r. r = Operator)\<rparr>"

definition credentials :: "Credential tbl" where
  "credentials = \<lparr>tb_get = db_credentials, tb_put = (\<lambda>v d. d\<lparr>db_credentials := v\<rparr>),
     tb_vis = (\<lambda>r x. vis_env r (cr_provider x) (cr_env x)),
     tb_clash = (\<lambda>x y. cr_id x = cr_id y \<or> cr_hash x = cr_hash y),
     tb_check = (\<lambda>d x. cr_provider x \<in> pv_id ` set (db_providers d) \<and>
        cr_env x \<in> en_id ` set (db_environments d)),
     tb_trigger = (\<lambda>r. True)\<rparr>"

definition commerce_accounts :: "CommerceAccount tbl" where
  "commerce_accounts = \<lparr>tb_get = db_commerce, tb_put = (\<lambda>v d. d\<lparr>db_commerce := v\<rparr>),
     tb_vis = (\<lambda>r x. r = Operator \<or> ca_domain x = CommerceDomainProvider \<and>
        vis_opt r (ca_provider x) (ca_env x)),
     tb_clash = (\<lambda>x y. ca_id x = ca_id y),
     tb_check = (\<lambda>d x. ca_domain x \<in> {CommerceDomainPlatform, CommerceDomainProvider} \<and>
        (\<forall>p\<in>set_option (ca_provider x). p \<in> pv_id ` set (db_providers d)) \<and>
        (\<forall>e\<in>set_option (ca_env x). e \<in> en_id ` set (db_environments d))),
     tb_trigger = (\<lambda>r. True)\<rparr>"

definition risk_reviews :: "RiskReview tbl" where
  "risk_reviews = \<lparr>tb_get = db_reviews, tb_put = (\<lambda>v d. d\<lparr>db_reviews := v\<rparr>),
     tb_vis = (\<lambda>r x. r = Operator), tb_clash = (\<lambda>x y. rr_id x = rr_id y),
     tb_check = (\<lambda>d x. 0 \<le> rr_score x \<and> rr_score x \<le> 100 \<and>
        rr_decision x \<in> {RiskDecisionApproved, RiskDecisionRejected} \<and>
        rr_provider x \<in> pv_id ` set (db_providers d)),
     tb_trigger = (\<lambda>r. True)\<rparr>"

definition outbox_events :: "OutboxEvent tbl" where
  "outbox_events = \<lparr>tb_get = db_outbox, tb_put = (\<lambda>v d. d\<lparr>db_outbox := v\<rparr>),
     tb_vis = (\<lambda>r x. vis_env r (ob_provider x) (ob_env x)),
     tb_clash = (\<lambda>x y. ob_id x = ob_id y \<or>
        ob_provider x = ob_provider y \<and> ob_env x = ob_env y \<and> ob_tx x = ob_tx y),
     tb_check = (\<lambda>d x. ob_status x \<in> {''pending'', ''published'', ''failed'', ''dead_letter''}),
     tb_trigger = (\<lambda>r. True)\<rparr>"

text \<open>Audit events are append-only: their trigger rejects every update.\<close>

definition audit_events :: "AuditEvent tbl" where
  "audit_events = \<lparr>tb_get = db_audit, tb_put = (\<lambda>v d. d\<lparr>db_audit := v\<rparr>),
     tb_vis = (\<lambda>r x. vis_opt r (au_provider x) (au_env x)),
     tb_clash = (\<lambda>x y. au_id x = au_id y), tb_check = (\<lambda>d x. True), tb_trigger = (\<lambda>r. False)\<rparr>"

definition webhook_endpoints :: "WebhookEndpoint tbl" where
  "webhook_endpoints = \<lparr>tb_get = db_endpoints, tb_put = (\<lambda>v d. d\<lparr>db_endpoints := v\<rparr>),
     tb_vis = (\<lambda>r x. vis_env r (we_provider x) (we_env x)),
     tb_clash = (\<lambda>x y. we_id x = we_id y \<or>
        we_provider x = we_provider y \<and> we_env x = we_env y \<and> we_url x = we_url y),
     tb_check = (\<lambda>d x. True), tb_trigger = (\<lambda>r. True)\<rparr>"

definition webhook_deliveries :: "WebhookDelivery tbl" where
  "webhook_deliveries = \<lparr>tb_get = db_deliveries, tb_put = (\<lambda>v d. d\<lparr>db_deliveries := v\<rparr>),
     tb_vis = (\<lambda>r x. vis_env r (wd_provider x) (wd_env x)),
     tb_clash = (\<lambda>x y. wd_id x = wd_id y \<or>
        wd_endpoint x = wd_endpoint y \<and> wd_outbox x = wd_outbox y),
     tb_check = (\<lambda>d x. wd_status x \<in> {''pending'', ''delivered'', ''failed'', ''dead_letter''} \<and>
        wd_endpoint x \<in> we_id ` set (db_endpoints d)),
     tb_trigger = (\<lambda>r. True)\<rparr>"

definition customer_accounts :: "CustomerAccount tbl" where
  "customer_accounts = \<lparr>tb_get = db_customers, tb_put = (\<lambda>v d. d\<lparr>db_customers := v\<rparr>),
     tb_vis = (\<lambda>r x. vis_env r (cu_provider x) (cu_env x)),
     tb_clash = (\<lambda>x y. cu_id x = cu_id y \<or>
        cu_provider x = cu_provider y \<and> cu_env x = cu_env y \<and> cu_external x = cu_external y),
     tb_check = (\<lambda>d x. cu_type x \<in> {''individual'', ''business''}), tb_trigger = (\<lambda>r. True)\<rparr>"

text \<open>The triggers of catalog versions and subscriptions reject changes of columns that no
  query changes; the content tables are also guarded by the draft trigger of theory
  \<open>Catalog_Service\<close>.\<close>

definition catalog_versions :: "CatalogVersion tbl" where
  "catalog_versions = \<lparr>tb_get = db_versions, tb_put = (\<lambda>v d. d\<lparr>db_versions := v\<rparr>),
     tb_vis = (\<lambda>r x. vis_env r (cv_provider x) (cv_env x)),
     tb_clash = (\<lambda>x y. cv_id x = cv_id y \<or> cv_provider x = cv_provider y \<and>
        cv_env x = cv_env y \<and> cv_version x = cv_version y),
     tb_check = (\<lambda>d x. cv_state x \<in> {CatalogDraft, CatalogValidated, CatalogPublished, CatalogRetired}),
     tb_trigger = (\<lambda>r. True)\<rparr>"

text \<open>\<open>char_length\<close> counts the code points of a UTF-8 text: its bytes that do not continue one.\<close>

definition char_length :: "string \<Rightarrow> nat" where
  "char_length s = length (filter (\<lambda>c. \<not> (128 \<le> (of_char c :: nat) \<and> (of_char c :: nat) < 192)) s)"

definition metrics :: "Metric tbl" where
  "metrics = \<lparr>tb_get = db_metrics, tb_put = (\<lambda>v d. d\<lparr>db_metrics := v\<rparr>),
     tb_vis = (\<lambda>r x. vis_env r (mt_provider x) (mt_env x)),
     tb_clash = (\<lambda>x y. mt_id x = mt_id y \<or> mt_version x = mt_version y \<and> mt_code x = mt_code y),
     tb_check = (\<lambda>d x. validAggregationType (mt_aggregation x) \<and>
        mt_version x \<in> cv_id ` set (db_versions d)),
     tb_trigger = (\<lambda>r. True)\<rparr>"

definition plans :: "Plan tbl" where
  "plans = \<lparr>tb_get = db_plans, tb_put = (\<lambda>v d. d\<lparr>db_plans := v\<rparr>),
     tb_vis = (\<lambda>r x. vis_env r (pl_provider x) (pl_env x)),
     tb_clash = (\<lambda>x y. pl_id x = pl_id y \<or> pl_version x = pl_version y \<and> pl_code x = pl_code y),
     tb_check = (\<lambda>d x. validInterval (pl_interval x) \<and> char_length (pl_currency x) = 3 \<and>
        pl_version x \<in> cv_id ` set (db_versions d)),
     tb_trigger = (\<lambda>r. True)\<rparr>"

definition prices :: "Price tbl" where
  "prices = \<lparr>tb_get = db_prices, tb_put = (\<lambda>v d. d\<lparr>db_prices := v\<rparr>),
     tb_vis = (\<lambda>r x. vis_env r (px_provider x) (px_env x)),
     tb_clash = (\<lambda>x y. px_id x = px_id y),
     tb_check = (\<lambda>d x. validChargeModel (px_model x) \<and> px_plan x \<in> pl_id ` set (db_plans d) \<and>
        px_version x \<in> cv_id ` set (db_versions d) \<and>
        (\<forall>m\<in>set_option (px_metric x). m \<in> mt_id ` set (db_metrics d))),
     tb_trigger = (\<lambda>r. True)\<rparr>"

definition entitlement_grants :: "EntitlementGrant tbl" where
  "entitlement_grants = \<lparr>tb_get = db_grants, tb_put = (\<lambda>v d. d\<lparr>db_grants := v\<rparr>),
     tb_vis = (\<lambda>r x. vis_env r (eg_provider x) (eg_env x)),
     tb_clash = (\<lambda>x y. eg_id x = eg_id y \<or> eg_plan x = eg_plan y \<and> eg_key x = eg_key y),
     tb_check = (\<lambda>d x. ValidValueType (eg_type x) \<and> eg_plan x \<in> pl_id ` set (db_plans d) \<and>
        eg_version x \<in> cv_id ` set (db_versions d)),
     tb_trigger = (\<lambda>r. True)\<rparr>"

definition subscriptions :: "Subscription tbl" where
  "subscriptions = \<lparr>tb_get = db_subscriptions, tb_put = (\<lambda>v d. d\<lparr>db_subscriptions := v\<rparr>),
     tb_vis = (\<lambda>r x. vis_env r (su_provider x) (su_env x)),
     tb_clash = (\<lambda>x y. su_id x = su_id y \<or>
        su_provider x = su_provider y \<and> su_env x = su_env y \<and> su_external x = su_external y),
     tb_check = (\<lambda>d x. su_status x \<in> {SubscriptionActive, SubscriptionTerminated} \<and>
        su_customer x \<in> cu_id ` set (db_customers d) \<and>
        su_version x \<in> cv_id ` set (db_versions d) \<and> su_plan x \<in> pl_id ` set (db_plans d)),
     tb_trigger = (\<lambda>r. True)\<rparr>"

text \<open>Usage events are append-only, with at most one reversal per original.\<close>

definition usage_events :: "UsageEvent tbl" where
  "usage_events = \<lparr>tb_get = db_usage, tb_put = (\<lambda>v d. d\<lparr>db_usage := v\<rparr>),
     tb_vis = (\<lambda>r x. vis_env r (us_provider x) (us_env x)),
     tb_clash = (\<lambda>x y. us_id x = us_id y \<or>
        us_provider x = us_provider y \<and> us_env x = us_env y \<and> us_tx x = us_tx y \<or>
        us_reverses x \<noteq> None \<and> us_reverses x = us_reverses y),
     tb_check = (\<lambda>d x. us_kind x \<in> {UsageKindIngestion, UsageKindReversal} \<and>
        us_customer x \<in> cu_id ` set (db_customers d) \<and>
        us_sub x \<in> su_id ` set (db_subscriptions d) \<and>
        (\<forall>i\<in>set_option (us_reverses x). i \<in> us_id ` set (db_usage d))),
     tb_trigger = (\<lambda>r. False)\<rparr>"

text \<open>The triggers that keep finalized and voided invoices and their lines as they are look
  at the rows; theory \<open>Invoicing\<close> has them.\<close>

definition invoices :: "Invoice tbl" where
  "invoices = \<lparr>tb_get = db_invoices, tb_put = (\<lambda>v d. d\<lparr>db_invoices := v\<rparr>),
     tb_vis = (\<lambda>r x. vis_env r (iv_provider x) (iv_env x)),
     tb_clash = (\<lambda>x y. iv_id x = iv_id y \<or>
        iv_provider x = iv_provider y \<and> iv_env x = iv_env y \<and> iv_lago x = iv_lago y),
     tb_check = (\<lambda>d x. iv_type x \<in> {''subscription'', ''add_on'', ''credit'', ''one_off'', ''progressive_billing''} \<and>
        iv_status x \<in> {''draft'', ''finalized'', ''voided'', ''pending'', ''failed''} \<and>
        iv_payment x \<in> {''pending'', ''succeeded'', ''failed''} \<and> char_length (iv_currency x) = 3 \<and>
        iv_customer x \<in> cu_id ` set (db_customers d) \<and>
        (\<forall>s\<in>set_option (iv_sub x). s \<in> su_id ` set (db_subscriptions d))),
     tb_trigger = (\<lambda>r. True)\<rparr>"

definition invoice_lines :: "InvoiceLine tbl" where
  "invoice_lines = \<lparr>tb_get = db_lines, tb_put = (\<lambda>v d. d\<lparr>db_lines := v\<rparr>),
     tb_vis = (\<lambda>r x. vis_env r (il_provider x) (il_env x)),
     tb_clash = (\<lambda>x y. il_id x = il_id y \<or> il_invoice x = il_invoice y \<and> il_fee x = il_fee y),
     tb_check = (\<lambda>d x. il_invoice x \<in> iv_id ` set (db_invoices d) \<and> char_length (il_currency x) = 3 \<and>
        (\<forall>m\<in>set_option (il_metric x). m \<in> mt_id ` set (db_metrics d)) \<and>
        (\<forall>p\<in>set_option (il_price x). p \<in> px_id ` set (db_prices d))),
     tb_trigger = (\<lambda>r. True)\<rparr>"

definition entitlement_overrides :: "EntitlementOverride tbl" where
  "entitlement_overrides = \<lparr>tb_get = db_overrides, tb_put = (\<lambda>v d. d\<lparr>db_overrides := v\<rparr>),
     tb_vis = (\<lambda>r x. vis_env r (eo_provider x) (eo_env x)),
     tb_clash = (\<lambda>x y. eo_id x = eo_id y \<or> eo_sub x = eo_sub y \<and> eo_key x = eo_key y),
     tb_check = (\<lambda>d x. ValidValueType (eo_type x) \<and> eo_sub x \<in> su_id ` set (db_subscriptions d)),
     tb_trigger = (\<lambda>r. True)\<rparr>"

definition entitlement_snapshots :: "EntitlementSnapshot tbl" where
  "entitlement_snapshots = \<lparr>tb_get = db_snapshots, tb_put = (\<lambda>v d. d\<lparr>db_snapshots := v\<rparr>),
     tb_vis = (\<lambda>r x. vis_env r (es_provider x) (es_env x)),
     tb_clash = (\<lambda>x y. es_id x = es_id y),
     tb_check = (\<lambda>d x. es_customer x \<in> cu_id ` set (db_customers d) \<and>
        es_sub x \<in> su_id ` set (db_subscriptions d)),
     tb_trigger = (\<lambda>r. True)\<rparr>"

definition migration_jobs :: "MigrationJob tbl" where
  "migration_jobs = \<lparr>tb_get = db_jobs, tb_put = (\<lambda>v d. d\<lparr>db_jobs := v\<rparr>),
     tb_vis = (\<lambda>r x. vis_env r (mj_provider x) (mj_env x)),
     tb_clash = (\<lambda>x y. mj_id x = mj_id y),
     tb_check = (\<lambda>d x. mj_status x \<in> {MigrationStatusDraft, MigrationStatusValidating,
        MigrationStatusValidated, MigrationStatusImporting, MigrationStatusCompleted,
        MigrationStatusFailed, MigrationStatusRolledBack}),
     tb_trigger = (\<lambda>r. True)\<rparr>"

definition migration_records :: "MigrationRecord tbl" where
  "migration_records = \<lparr>tb_get = db_records, tb_put = (\<lambda>v d. d\<lparr>db_records := v\<rparr>),
     tb_vis = (\<lambda>r x. vis_env r (mr_provider x) (mr_env x)),
     tb_clash = (\<lambda>x y. mr_id x = mr_id y \<or>
        mr_job x = mr_job y \<and> mr_type x = mr_type y \<and> mr_external x = mr_external y),
     tb_check = (\<lambda>d x. ValidMigrationRecordType (mr_type x) \<and>
        mr_status x \<in> {MigrationRecordPending, MigrationRecordValid, MigrationRecordInvalid,
          MigrationRecordImported, MigrationRecordFailed, MigrationRecordRolledBack}),
     tb_trigger = (\<lambda>r. True)\<rparr>"

definition quota_limits :: "QuotaLimit tbl" where
  "quota_limits = \<lparr>tb_get = db_limits, tb_put = (\<lambda>v d. d\<lparr>db_limits := v\<rparr>),
     tb_vis = (\<lambda>r x. vis_env r (ql_provider x) (ql_env x)),
     tb_clash = (\<lambda>x y. ql_id x = ql_id y \<or> ql_sub x = ql_sub y \<and> ql_key x = ql_key y),
     tb_check = (\<lambda>d x. 0 \<le> ql_limit x \<and>
        ql_period x \<in> {QuotaPeriodDaily, QuotaPeriodMonthly, QuotaPeriodTotal}),
     tb_trigger = (\<lambda>r. True)\<rparr>"

definition quota_reservations :: "QuotaReservation tbl" where
  "quota_reservations = \<lparr>tb_get = db_reservations, tb_put = (\<lambda>v d. d\<lparr>db_reservations := v\<rparr>),
     tb_vis = (\<lambda>r x. vis_env r (qr_provider x) (qr_env x)),
     tb_clash = (\<lambda>x y. qr_id x = qr_id y \<or>
        qr_provider x = qr_provider y \<and> qr_env x = qr_env y \<and> qr_tx x = qr_tx y),
     tb_check = (\<lambda>d x. 0 < qr_amount x \<and>
        qr_status x \<in> {QuotaReserved, QuotaCommitted, QuotaReleased, QuotaExpired}),
     tb_trigger = (\<lambda>r. True)\<rparr>"

definition support_sessions :: "SupportSession tbl" where
  "support_sessions = \<lparr>tb_get = db_sessions, tb_put = (\<lambda>v d. d\<lparr>db_sessions := v\<rparr>),
     tb_vis = (\<lambda>r x. vis_env r (ss_provider x) (ss_env x)),
     tb_clash = (\<lambda>x y. ss_id x = ss_id y),
     tb_check = (\<lambda>d x. ss_type x \<in> {SupportAccessStandard, SupportAccessEmergency} \<and>
        ss_status x \<in> {SupportStatusRequested, SupportStatusActive, SupportStatusExpired,
                       SupportStatusRevoked, SupportStatusDenied} \<and>
        (ss_type x = SupportAccessEmergency \<longrightarrow> ss_approved_by x \<noteq> Some (ss_requested_by x))),
     tb_trigger = (\<lambda>r. True)\<rparr>"

definition cell_failovers :: "CellFailover tbl" where
  "cell_failovers = \<lparr>tb_get = db_failovers, tb_put = (\<lambda>v d. d\<lparr>db_failovers := v\<rparr>),
     tb_vis = (\<lambda>r x. vis_provider r (fo_provider x)),
     tb_clash = (\<lambda>x y. fo_id x = fo_id y \<or> fo_provider x = fo_provider y \<and>
        fo_from x = fo_from y \<and> fo_to x = fo_to y \<and> fo_token x = fo_token y),
     tb_check = (\<lambda>d x. fo_status x \<in> {FailoverStatusInitiated, FailoverStatusFenced,
        FailoverStatusSwitched, FailoverStatusReplaying, FailoverStatusCompleted, FailoverStatusAborted}),
     tb_trigger = (\<lambda>r. True)\<rparr>"

definition cell_migrations :: "CellMigration tbl" where
  "cell_migrations = \<lparr>tb_get = db_migrations, tb_put = (\<lambda>v d. d\<lparr>db_migrations := v\<rparr>),
     tb_vis = (\<lambda>r x. vis_provider r (mg_provider x)),
     tb_clash = (\<lambda>x y. mg_id x = mg_id y),
     tb_check = (\<lambda>d x. mg_status x \<in> {CellMigrationPlanned, CellMigrationPrechecking,
        CellMigrationReady, CellMigrationMigrating, CellMigrationCompleted, CellMigrationFailed,
        CellMigrationCancelled}),
     tb_trigger = (\<lambda>r. True)\<rparr>"

text \<open>The parts of a table, for rewriting without unfolding the whole record.\<close>

lemma tbl_parts:
  assumes "t = \<lparr>tb_get = g, tb_put = p, tb_vis = v, tb_clash = c, tb_check = k, tb_trigger = tr\<rparr>"
  shows "tb_get t = g" "tb_put t = p" "tb_vis t = v" "tb_clash t = c" "tb_check t = k" "tb_trigger t = tr"
  by (simp_all add: assms)

lemmas regions_tb = tbl_parts [OF regions_def]
lemmas cells_tb = tbl_parts [OF cells_def]
lemmas providers_tb = tbl_parts [OF providers_def]
lemmas environments_tb = tbl_parts [OF environments_def]
lemmas credentials_tb = tbl_parts [OF credentials_def]
lemmas commerce_accounts_tb = tbl_parts [OF commerce_accounts_def]
lemmas risk_reviews_tb = tbl_parts [OF risk_reviews_def]
lemmas outbox_events_tb = tbl_parts [OF outbox_events_def]
lemmas audit_events_tb = tbl_parts [OF audit_events_def]
lemmas webhook_endpoints_tb = tbl_parts [OF webhook_endpoints_def]
lemmas webhook_deliveries_tb = tbl_parts [OF webhook_deliveries_def]
lemmas customer_accounts_tb = tbl_parts [OF customer_accounts_def]
lemmas catalog_versions_tb = tbl_parts [OF catalog_versions_def]
lemmas metrics_tb = tbl_parts [OF metrics_def]
lemmas plans_tb = tbl_parts [OF plans_def]
lemmas prices_tb = tbl_parts [OF prices_def]
lemmas entitlement_grants_tb = tbl_parts [OF entitlement_grants_def]
lemmas subscriptions_tb = tbl_parts [OF subscriptions_def]
lemmas usage_events_tb = tbl_parts [OF usage_events_def]
lemmas invoices_tb = tbl_parts [OF invoices_def]
lemmas invoice_lines_tb = tbl_parts [OF invoice_lines_def]
lemmas entitlement_overrides_tb = tbl_parts [OF entitlement_overrides_def]
lemmas entitlement_snapshots_tb = tbl_parts [OF entitlement_snapshots_def]
lemmas migration_jobs_tb = tbl_parts [OF migration_jobs_def]
lemmas migration_records_tb = tbl_parts [OF migration_records_def]
lemmas quota_limits_tb = tbl_parts [OF quota_limits_def]
lemmas quota_reservations_tb = tbl_parts [OF quota_reservations_def]
lemmas support_sessions_tb = tbl_parts [OF support_sessions_def]
lemmas cell_failovers_tb = tbl_parts [OF cell_failovers_def]
lemmas cell_migrations_tb = tbl_parts [OF cell_migrations_def]

lemmas table_tb = regions_tb cells_tb providers_tb environments_tb credentials_tb commerce_accounts_tb
  risk_reviews_tb outbox_events_tb audit_events_tb webhook_endpoints_tb webhook_deliveries_tb
  customer_accounts_tb catalog_versions_tb metrics_tb plans_tb prices_tb entitlement_grants_tb
  subscriptions_tb usage_events_tb invoices_tb invoice_lines_tb entitlement_overrides_tb
  entitlement_snapshots_tb migration_jobs_tb migration_records_tb quota_limits_tb
  quota_reservations_tb support_sessions_tb cell_failovers_tb cell_migrations_tb

end
