(* ===== verification/Store.thy ===== *)
theory Store
  imports Schema
begin

text \<open>
  Transactions (\<open>internal/store/store.go\<close>: \<open>WithTenant\<close>, \<open>WithOperator\<close>), the query
  forms the generated \<open>storegen\<close> package offers over a table (sqlc's \<open>:one\<close>, \<open>:many\<close>,
  \<open>:exec\<close> and \<open>:execrows\<close>), and the helpers every service shares at the end of
  \<open>internal/service/service.go\<close>.

  A transaction is a function on sessions that fails with an error or returns a value and
  the next session. Transactions run one after the other; an error rolls back. A PostgreSQL
  error that the code catches leaves the transaction aborted: later queries fail and the
  commit fails too. The locale \<open>lawful_table\<close> is the contract of a table; every fact about
  queries that the services need (what an insert adds, what an update changes, that rows
  the role cannot see stay as they are) is proved once from it.
\<close>

section \<open>Environment and sessions\<close>

text \<open>What the process gets from outside: the clock, fresh UUIDs, random bytes, SHA-256,
  the hash of an encoded payload, the texts of a time and of an error, the float64 a decimal literal is read as, the value a jsonb column keeps of a JSON text, the request id of the context, and the configured base
  domain. The \<open>n\<close>-th draw of a fresh value is \<open>rt_gen n\<close> or \<open>rt_bytes n\<close>.\<close>

record rt =
  rt_now :: int
  rt_gen :: "nat \<Rightarrow> uuid"
  rt_bytes :: "nat \<Rightarrow> nat list"
  rt_sha256 :: "string \<Rightarrow> nat list"
  rt_json_hash :: "json \<Rightarrow> string"
  rt_rfc3339 :: "int \<Rightarrow> string"
  rt_rfc3339nano :: "int \<Rightarrow> string"
  rt_float :: "string \<Rightarrow> json"
  rt_error_text :: "goerr \<Rightarrow> string"
  rt_request :: string
  rt_base :: string
  rt_jsonb :: "json \<Rightarrow> json"

record sess =
  s_db :: db
  s_rt :: rt
  s_role :: role
  s_aborted :: bool

type_synonym 'a tx = "sess \<Rightarrow> goerr + ('a \<times> sess)"

section \<open>Sequencing\<close>

definition ret :: "'a \<Rightarrow> 'a tx" where
  "ret x = (\<lambda>s. Inr (x, s))"

definition throw :: "goerr \<Rightarrow> 'a tx" where
  "throw e = (\<lambda>s. Inl e)"

definition bnd :: "'a tx \<Rightarrow> ('a \<Rightarrow> 'b tx) \<Rightarrow> 'b tx" where
  "bnd m f = (\<lambda>s. case m s of Inl e \<Rightarrow> Inl e | Inr (x, s') \<Rightarrow> f x s')"

text \<open>\<open>check c e\<close> is an early return of \<open>e\<close> unless \<open>c\<close>.\<close>

definition check :: "bool \<Rightarrow> goerr \<Rightarrow> unit tx" where
  "check c e = (if c then ret () else throw e)"

definition lift_res :: "'a result \<Rightarrow> 'a tx" where
  "lift_res r = (case r of Inl e \<Rightarrow> throw e | Inr x \<Rightarrow> ret x)"

definition is_pg :: "goerr \<Rightarrow> bool" where
  "is_pg e = (case e of PgError _ \<Rightarrow> True | _ \<Rightarrow> False)"

text \<open>Looking at the error of a call instead of returning it.\<close>

definition try_tx :: "'a tx \<Rightarrow> 'a result tx" where
  "try_tx m = (\<lambda>s. case m s of
     Inr (x, s') \<Rightarrow> Inr (Inr x, s')
   | Inl e \<Rightarrow> Inr (Inl e, if is_pg e then s\<lparr>s_aborted := True\<rparr> else s))"

definition map_err :: "(goerr \<Rightarrow> goerr) \<Rightarrow> 'a tx \<Rightarrow> 'a tx" where
  "map_err f m = (\<lambda>s. case m s of Inl e \<Rightarrow> Inl (f e) | Inr r \<Rightarrow> Inr r)"

definition get_rt :: "(rt \<Rightarrow> 'a) \<Rightarrow> 'a tx" where
  "get_rt f = (\<lambda>s. Inr (f (s_rt s), s))"

definition now_tx :: "int tx" where
  "now_tx = get_rt rt_now"

definition draw :: "(rt \<Rightarrow> nat \<Rightarrow> 'a) \<Rightarrow> 'a tx" where
  "draw f = (\<lambda>s. Inr (f (s_rt s) (db_seq (s_db s)), s\<lparr>s_db := (s_db s)\<lparr>db_seq := db_seq (s_db s) + 1\<rparr>\<rparr>))"

section \<open>Queries\<close>

definition in_failed_transaction :: goerr where
  "in_failed_transaction = PgError ''25P02''"

definition live_tx :: "'a tx \<Rightarrow> 'a tx" where
  "live_tx m = (\<lambda>s. if s_aborted s then Inl in_failed_transaction else m s)"

definition rows :: "'r tbl \<Rightarrow> sess \<Rightarrow> 'r list" where
  "rows tb s = filter (tb_vis tb (s_role s)) (tb_get tb (s_db s))"

definition q_many :: "'r tbl \<Rightarrow> ('r \<Rightarrow> bool) \<Rightarrow> 'r list tx" where
  "q_many tb p = live_tx (\<lambda>s. Inr (filter p (rows tb s), s))"

definition q_one :: "'r tbl \<Rightarrow> ('r \<Rightarrow> bool) \<Rightarrow> 'r tx" where
  "q_one tb p = live_tx (\<lambda>s. case select_one p (rows tb s) of Inl e \<Rightarrow> Inl e | Inr r \<Rightarrow> Inr (r, s))"

text \<open>\<open>ORDER BY created_at DESC LIMIT 1\<close>: the last row.\<close>

definition q_last :: "'r tbl \<Rightarrow> ('r \<Rightarrow> bool) \<Rightarrow> 'r tx" where
  "q_last tb p = live_tx (\<lambda>s. case select_one p (rev (rows tb s)) of Inl e \<Rightarrow> Inl e | Inr r \<Rightarrow> Inr (r, s))"

text \<open>An insert fails on a row outside the policy, a violated check or reference, or a
  conflict with any row of the table, visible or not.\<close>

definition q_insert :: "'r tbl \<Rightarrow> 'r \<Rightarrow> 'r tx" where
  "q_insert tb r = live_tx (\<lambda>s.
     if \<not> tb_vis tb (s_role s) r then Inl (PgError ''42501'')
     else if \<not> tb_check tb (s_db s) r then Inl (PgError ''23514'')
     else if \<exists>r'\<in>set (tb_get tb (s_db s)). tb_clash tb r r' then Inl unique_violation
     else Inr (r, s\<lparr>s_db := tb_put tb (tb_get tb (s_db s) @ [r]) (s_db s)\<rparr>))"

text \<open>An update changes the visible rows that satisfy the condition and returns them as
  changed; no changed row may leave the policy or violate a check.\<close>

definition q_update :: "'r tbl \<Rightarrow> ('r \<Rightarrow> bool) \<Rightarrow> ('r \<Rightarrow> 'r) \<Rightarrow> 'r list tx" where
  "q_update tb p f = live_tx (\<lambda>s.
     let hit = (\<lambda>r. tb_vis tb (s_role s) r \<and> p r); old = filter hit (tb_get tb (s_db s)) in
     if old \<noteq> [] \<and> \<not> tb_trigger tb (s_role s) then Inl (PgError ''P0001'')
     else if \<exists>r\<in>set old. \<not> tb_vis tb (s_role s) (f r) then Inl (PgError ''42501'')
     else if \<exists>r\<in>set old. \<not> tb_check tb (s_db s) (f r) then Inl (PgError ''23514'')
     else Inr (map f old, s\<lparr>s_db := tb_put tb (update_where hit f (tb_get tb (s_db s))) (s_db s)\<rparr>))"

definition q_update_one :: "'r tbl \<Rightarrow> ('r \<Rightarrow> bool) \<Rightarrow> ('r \<Rightarrow> 'r) \<Rightarrow> 'r tx" where
  "q_update_one tb p f =
     bnd (q_update tb p f) (\<lambda>rs. case rs of [] \<Rightarrow> throw ErrNoRows | r # _ \<Rightarrow> ret r)"

definition q_exec :: "'r tbl \<Rightarrow> ('r \<Rightarrow> bool) \<Rightarrow> ('r \<Rightarrow> 'r) \<Rightarrow> unit tx" where
  "q_exec tb p f = bnd (q_update tb p f) (\<lambda>_. ret ())"

definition q_execrows :: "'r tbl \<Rightarrow> ('r \<Rightarrow> bool) \<Rightarrow> ('r \<Rightarrow> 'r) \<Rightarrow> int tx" where
  "q_execrows tb p f = bnd (q_update tb p f) (\<lambda>rs. ret (int (length rs)))"

definition q_delete :: "'r tbl \<Rightarrow> ('r \<Rightarrow> bool) \<Rightarrow> int tx" where
  "q_delete tb p = live_tx (\<lambda>s.
     let hit = (\<lambda>r. tb_vis tb (s_role s) r \<and> p r) in
     if filter hit (tb_get tb (s_db s)) \<noteq> [] \<and> \<not> tb_trigger tb (s_role s) then Inl (PgError ''P0001'')
     else Inr (int (length (filter hit (tb_get tb (s_db s)))),
               s\<lparr>s_db := tb_put tb (filter (\<lambda>r. \<not> hit r) (tb_get tb (s_db s))) (s_db s)\<rparr>))"

text \<open>\<open>INSERT ... ON CONFLICT ... DO NOTHING\<close>, \<open>None\<close> when the row was there, and \<open>DO UPDATE\<close>,
  where a conflicting row that the policy hides is an error.
  The proposed row has to satisfy the policy and the checks also when another row is updated.\<close>

definition q_insert_new :: "'r tbl \<Rightarrow> ('r \<Rightarrow> 'r \<Rightarrow> bool) \<Rightarrow> 'r \<Rightarrow> 'r option tx" where
  "q_insert_new tb same r = live_tx (\<lambda>s.
     if \<not> tb_vis tb (s_role s) r then Inl (PgError ''42501'')
     else if \<not> tb_check tb (s_db s) r then Inl (PgError ''23514'')
     else if \<exists>r'\<in>set (tb_get tb (s_db s)). same r r' then Inr (None, s)
     else bnd (q_insert tb r) (\<lambda>x. ret (Some x)) s)"

definition q_upsert :: "'r tbl \<Rightarrow> ('r \<Rightarrow> 'r \<Rightarrow> bool) \<Rightarrow> ('r \<Rightarrow> 'r) \<Rightarrow> 'r \<Rightarrow> 'r tx" where
  "q_upsert tb same f r = live_tx (\<lambda>s.
     if \<not> tb_vis tb (s_role s) r then Inl (PgError ''42501'')
     else if \<not> tb_check tb (s_db s) r then Inl (PgError ''23514'')
     else if \<exists>r'\<in>set (tb_get tb (s_db s)). same r r' \<and> \<not> tb_vis tb (s_role s) r' then Inl (PgError ''42501'')
     else if \<exists>r'\<in>set (tb_get tb (s_db s)). same r r' then q_update_one tb (same r) f s
     else q_insert tb r s)"

text \<open>Writing a JSON text into a \<open>jsonb\<close> column.\<close>

definition q_jsonb :: "RawMessage \<Rightarrow> json tx" where
  "q_jsonb raw = (case raw of
     RawJson j \<Rightarrow> get_rt (\<lambda>e. rt_jsonb e j) | _ \<Rightarrow> throw (PgError ''22P02''))"

section \<open>Running a transaction\<close>

definition run_tx :: "role \<Rightarrow> 'a tx \<Rightarrow> rt \<Rightarrow> db \<Rightarrow> 'a result \<times> db" where
  "run_tx r m e d =
     (case m \<lparr>s_db = d, s_rt = e, s_role = r, s_aborted = False\<rparr> of
        Inl err \<Rightarrow> (Inl err, d)
      | Inr (x, s) \<Rightarrow> if s_aborted s then (Inl (ErrOther ''commit unexpectedly resulted in rollback''), d)
                     else (Inr x, s_db s))"

definition WithTenant :: "Ctx \<Rightarrow> 'a tx \<Rightarrow> rt \<Rightarrow> db \<Rightarrow> 'a result \<times> db" where
  "WithTenant tc m = run_tx (Tenant (ProviderID tc) (EnvironmentID tc)) m"

definition WithOperator :: "'a tx \<Rightarrow> rt \<Rightarrow> db \<Rightarrow> 'a result \<times> db" where
  "WithOperator m = run_tx Operator m"

text \<open>A call that fails its validation before a transaction starts.\<close>

definition fail_early :: "goerr \<Rightarrow> db \<Rightarrow> 'a result \<times> db" where
  "fail_early e d = (Inl e, d)"

section \<open>Helpers of the services\<close>

definition ClassifyError :: "goerr \<Rightarrow> string" where
  "ClassifyError err =
     (case err of
        ErrNoRows \<Rightarrow> ''not_found''
      | PgError c \<Rightarrow> if has_prefix c ''23'' then ''conflict'' else ''other''
      | _ \<Rightarrow> ''other'')"

definition mapErr :: "goerr \<Rightarrow> goerr" where
  "mapErr err =
     (case err of
        ErrNoRows \<Rightarrow> ErrNotFound
      | PgError c \<Rightarrow> if c = ''23505'' then ErrConflict else err
      | _ \<Rightarrow> err)"

definition isNoRows :: "goerr \<Rightarrow> bool" where
  "isNoRows err = (err = ErrNoRows)"

abbreviation mapped_err :: "'a tx \<Rightarrow> 'a tx" where
  "mapped_err \<equiv> map_err mapErr"

definition checkTenantOwnership :: "uuid \<Rightarrow> uuid \<Rightarrow> Ctx \<Rightarrow> unit tx" where
  "checkTenantOwnership providerID environmentID tc =
     check (\<not> (providerID \<noteq> ProviderID tc \<or> environmentID \<noteq> EnvironmentID tc)) ErrNotFound"

definition requireStatus :: "string \<Rightarrow> string list \<Rightarrow> unit tx" where
  "requireStatus current allowed = check (\<exists>s\<in>set allowed. current = s) ErrConflict"

abbreviation q_InsertOutboxEvent ::
  "int \<Rightarrow> uuid \<Rightarrow> uuid \<Rightarrow> uuid \<Rightarrow> string \<Rightarrow> string \<Rightarrow> string \<Rightarrow> RawMessage \<Rightarrow> string \<Rightarrow> string \<Rightarrow> OutboxEvent tx" where
  "q_InsertOutboxEvent now i p en agg_type agg_id ty payload hash txid \<equiv> q_insert outbox_events
     \<lparr>ob_id = i, ob_provider = p, ob_env = en, ob_agg_type = agg_type, ob_agg_id = agg_id,
      ob_type = ty, ob_payload = payload, ob_hash = hash, ob_tx = txid, ob_status = ''pending'',
      ob_attempts = 0, ob_created = now, ob_published = None, ob_next = None, ob_error = None\<rparr>"

abbreviation q_InsertAuditEvent ::
  "int \<Rightarrow> nat \<Rightarrow> uuid option \<Rightarrow> uuid option \<Rightarrow> string \<Rightarrow> string \<Rightarrow> string \<Rightarrow> string option \<Rightarrow>
   string option \<Rightarrow> json \<Rightarrow> string option \<Rightarrow> AuditEvent tx" where
  "q_InsertAuditEvent now i p en actor_type actor action target_type target meta req \<equiv>
     q_insert audit_events
     \<lparr>au_id = i, au_provider = p, au_env = en, au_actor_type = actor_type, au_actor = actor,
      au_action = action, au_target_type = target_type, au_target = target, au_request = req,
      au_meta = meta, au_created = now\<rparr>"

text \<open>An object payload stands for its set of entries: a Go map has no order.\<close>

definition emitOutboxTx ::
  "uuid \<Rightarrow> uuid \<Rightarrow> string \<Rightarrow> string \<Rightarrow> string \<Rightarrow> json \<Rightarrow> unit tx" where
  "emitOutboxTx providerID envID aggregateType aggregateID eventType payload =
     bnd (draw rt_gen) (\<lambda>txid.
     bnd (draw rt_gen) (\<lambda>id.
     bnd now_tx (\<lambda>now.
     bnd (get_rt (\<lambda>e. rt_json_hash e payload)) (\<lambda>h.
     bnd (q_InsertOutboxEvent now id providerID envID aggregateType aggregateID eventType
            (RawJson payload) h txid) (\<lambda>_.
     ret ())))))"

text \<open>An event under a transaction id of the caller: a row that is there already stays.\<close>

definition same_transaction :: "OutboxEvent \<Rightarrow> OutboxEvent \<Rightarrow> bool" where
  "same_transaction x y \<longleftrightarrow> ob_provider x = ob_provider y \<and> ob_env x = ob_env y \<and> ob_tx x = ob_tx y"

abbreviation q_InsertOutboxEventIdempotent ::
  "int \<Rightarrow> uuid \<Rightarrow> uuid \<Rightarrow> uuid \<Rightarrow> string \<Rightarrow> string \<Rightarrow> string \<Rightarrow> RawMessage \<Rightarrow> string \<Rightarrow> string \<Rightarrow>
   OutboxEvent option tx" where
  "q_InsertOutboxEventIdempotent now i p en agg_type agg_id ty payload hash txid \<equiv>
     q_insert_new outbox_events same_transaction
     \<lparr>ob_id = i, ob_provider = p, ob_env = en, ob_agg_type = agg_type, ob_agg_id = agg_id,
      ob_type = ty, ob_payload = payload, ob_hash = hash, ob_tx = txid, ob_status = ''pending'',
      ob_attempts = 0, ob_created = now, ob_published = None, ob_next = None, ob_error = None\<rparr>"

definition emitOutboxWithTxIDTx ::
  "uuid \<Rightarrow> uuid \<Rightarrow> string \<Rightarrow> string \<Rightarrow> string \<Rightarrow> string \<Rightarrow> json \<Rightarrow> unit tx" where
  "emitOutboxWithTxIDTx providerID envID aggregateType aggregateID eventType txID payload =
     bnd (draw rt_gen) (\<lambda>id.
     bnd now_tx (\<lambda>now.
     bnd (get_rt (\<lambda>e. rt_json_hash e payload)) (\<lambda>h.
     bnd (q_InsertOutboxEventIdempotent now id providerID envID aggregateType aggregateID eventType
            (RawJson payload) h txID) (\<lambda>_.
     ret ()))))"

definition opt_text :: "string \<Rightarrow> string option" where
  "opt_text s = (if s = '''' then None else Some s)"

definition insertAuditTx ::
  "uuid option \<Rightarrow> uuid option \<Rightarrow> string \<Rightarrow> string \<Rightarrow> string \<Rightarrow> string \<Rightarrow> string \<Rightarrow> json option \<Rightarrow> unit tx" where
  "insertAuditTx providerID envID actorType actorID action targetType targetID metadata =
     bnd (draw (\<lambda>e n. n)) (\<lambda>id.
     bnd (get_rt rt_request) (\<lambda>req.
     bnd now_tx (\<lambda>now.
     bnd (q_InsertAuditEvent now id providerID envID actorType actorID action
            (opt_text targetType) (opt_text targetID)
            (case metadata of None \<Rightarrow> JObj [] | Some m \<Rightarrow> m) (opt_text req)) (\<lambda>_.
     ret ()))))"

end
