(* ===== verification/Store_Laws.thy ===== *)
theory Store_Laws
  imports Store
begin

text \<open>
  The proof kit of the transactions. \<open>wp m Q s\<close> says that if \<open>m\<close> succeeds from \<open>s\<close> its
  result and final session satisfy \<open>Q\<close>; its introduction rules walk through the body of
  an operation and leave one goal per path. \<open>lawful_table\<close> is the contract of a table,
  interpreted on every table of the schema.
\<close>

named_theorems wp_intros \<open>rules for the successful runs of a transaction\<close>
named_theorems isolated_intros \<open>rules for transactions that keep hidden rows\<close>

section \<open>Successful runs\<close>

definition wp :: "'a tx \<Rightarrow> ('a \<Rightarrow> sess \<Rightarrow> bool) \<Rightarrow> sess \<Rightarrow> bool" where
  "wp m Q s = (case m s of Inl _ \<Rightarrow> True | Inr (x, s') \<Rightarrow> Q x s')"

lemma wpD: "wp m Q s \<Longrightarrow> m s = Inr (x, s') \<Longrightarrow> Q x s'"
  by (simp add: wp_def)

lemma wpI: "(\<And>x s'. m s = Inr (x, s') \<Longrightarrow> Q x s') \<Longrightarrow> wp m Q s"
  by (auto simp: wp_def split: sum.splits)

lemma wp_ret [wp_intros]: "Q x s \<Longrightarrow> wp (ret x) Q s"
  by (simp add: wp_def ret_def)

lemma wp_throw [wp_intros]: "wp (throw e) Q s"
  by (simp add: wp_def throw_def)

lemma wp_bnd [wp_intros]: "wp m (\<lambda>x. wp (f x) Q) s \<Longrightarrow> wp (bnd m f) Q s"
  by (auto simp: wp_def bnd_def split: sum.splits prod.splits)

lemma wp_if [wp_intros]:
  "(c \<Longrightarrow> wp m Q s) \<Longrightarrow> (\<not> c \<Longrightarrow> wp m' Q s) \<Longrightarrow> wp (if c then m else m') Q s"
  by simp

lemma wp_case_sum [wp_intros]:
  "(\<And>e. r = Inl e \<Longrightarrow> wp (f e) Q s) \<Longrightarrow> (\<And>x. r = Inr x \<Longrightarrow> wp (g x) Q s) \<Longrightarrow>
   wp (case r of Inl e \<Rightarrow> f e | Inr x \<Rightarrow> g x) Q s"
  by (cases r) simp_all

lemma wp_case_prod [wp_intros]:
  "(\<And>a b. r = (a, b) \<Longrightarrow> wp (f a b) Q s) \<Longrightarrow> wp (case r of (a, b) \<Rightarrow> f a b) Q s"
  by (cases r) simp

lemma wp_case_option [wp_intros]:
  "(x = None \<Longrightarrow> wp m Q s) \<Longrightarrow> (\<And>y. x = Some y \<Longrightarrow> wp (f y) Q s) \<Longrightarrow>
   wp (case x of None \<Rightarrow> m | Some y \<Rightarrow> f y) Q s"
  by (cases x) simp_all

lemma wp_check [wp_intros]: "(c \<Longrightarrow> Q () s) \<Longrightarrow> wp (check c e) Q s"
  by (simp add: check_def wp_def ret_def throw_def)

lemma wp_lift_res [wp_intros]: "(\<And>x. r = Inr x \<Longrightarrow> Q x s) \<Longrightarrow> wp (lift_res r) Q s"
  by (cases r) (simp_all add: lift_res_def wp_def ret_def throw_def)

lemma wp_map_err [wp_intros]: "wp m Q s \<Longrightarrow> wp (map_err f m) Q s"
  by (auto simp: wp_def map_err_def split: sum.splits)

lemma wp_try_tx [wp_intros]:
  "wp m (\<lambda>x. Q (Inr x)) s \<Longrightarrow>
   (\<And>e. m s = Inl e \<Longrightarrow> Q (Inl e) (if is_pg e then s\<lparr>s_aborted := True\<rparr> else s)) \<Longrightarrow>
   wp (try_tx m) Q s"
  by (auto simp: wp_def try_tx_def split: sum.splits)

lemma wp_get_rt [wp_intros]: "Q (f (s_rt s)) s \<Longrightarrow> wp (get_rt f) Q s"
  by (simp add: wp_def get_rt_def)

lemma wp_now [wp_intros]: "Q (rt_now (s_rt s)) s \<Longrightarrow> wp now_tx Q s"
  by (simp add: now_tx_def wp_get_rt)

definition bump :: "sess \<Rightarrow> sess" where
  "bump s = s\<lparr>s_db := (s_db s)\<lparr>db_seq := db_seq (s_db s) + 1\<rparr>\<rparr>"

lemma wp_draw [wp_intros]: "Q (f (s_rt s) (db_seq (s_db s))) (bump s) \<Longrightarrow> wp (draw f) Q s"
  by (simp add: wp_def draw_def bump_def)

lemma wp_q_many [wp_intros]: "Q (filter p (rows tb s)) s \<Longrightarrow> wp (q_many tb p) Q s"
  by (simp add: wp_def q_many_def live_tx_def)

lemma wp_q_one [wp_intros]:
  "(\<And>r. r \<in> set (tb_get tb (s_db s)) \<Longrightarrow> tb_vis tb (s_role s) r \<Longrightarrow> p r \<Longrightarrow> Q r s) \<Longrightarrow>
   wp (q_one tb p) Q s"
  by (auto simp: wp_def q_one_def live_tx_def rows_def table_simps split: sum.splits
      dest!: find_Some_mem)

lemma wp_q_last [wp_intros]:
  "(\<And>r. r \<in> set (tb_get tb (s_db s)) \<Longrightarrow> tb_vis tb (s_role s) r \<Longrightarrow> p r \<Longrightarrow> Q r s) \<Longrightarrow>
   wp (q_last tb p) Q s"
  by (auto simp: wp_def q_last_def live_tx_def rows_def table_simps split: sum.splits
      dest!: find_Some_mem)

definition put_rows :: "'r tbl \<Rightarrow> 'r list \<Rightarrow> sess \<Rightarrow> sess" where
  "put_rows tb v s = s\<lparr>s_db := tb_put tb v (s_db s)\<rparr>"

lemma wp_q_insert [wp_intros]:
  "(\<not> s_aborted s \<Longrightarrow> tb_vis tb (s_role s) r \<Longrightarrow> tb_check tb (s_db s) r \<Longrightarrow>
    \<forall>r'\<in>set (tb_get tb (s_db s)). \<not> tb_clash tb r r' \<Longrightarrow>
    Q r (put_rows tb (tb_get tb (s_db s) @ [r]) s)) \<Longrightarrow> wp (q_insert tb r) Q s"
  by (auto simp: wp_def q_insert_def live_tx_def put_rows_def split: if_splits)

definition hit_rows :: "'r tbl \<Rightarrow> ('r \<Rightarrow> bool) \<Rightarrow> sess \<Rightarrow> 'r list" where
  "hit_rows tb p s = filter (\<lambda>r. tb_vis tb (s_role s) r \<and> p r) (tb_get tb (s_db s))"

definition upd_rows :: "'r tbl \<Rightarrow> ('r \<Rightarrow> bool) \<Rightarrow> ('r \<Rightarrow> 'r) \<Rightarrow> sess \<Rightarrow> sess" where
  "upd_rows tb p f s =
     put_rows tb (update_where (\<lambda>r. tb_vis tb (s_role s) r \<and> p r) f (tb_get tb (s_db s))) s"

lemma wp_q_update [wp_intros]:
  "(\<not> s_aborted s \<Longrightarrow> \<forall>r\<in>set (hit_rows tb p s). tb_vis tb (s_role s) (f r) \<and> tb_check tb (s_db s) (f r) \<Longrightarrow>
    Q (map f (hit_rows tb p s)) (upd_rows tb p f s)) \<Longrightarrow> wp (q_update tb p f) Q s"
proof -
  assume Q: "\<not> s_aborted s \<Longrightarrow>
    \<forall>r\<in>set (hit_rows tb p s). tb_vis tb (s_role s) (f r) \<and> tb_check tb (s_db s) (f r) \<Longrightarrow>
    Q (map f (hit_rows tb p s)) (upd_rows tb p f s)"
  have q: "q_update tb p f s =
    (if s_aborted s then Inl in_failed_transaction
     else if hit_rows tb p s \<noteq> [] \<and> \<not> tb_trigger tb (s_role s) then Inl (PgError ''P0001'')
     else if \<exists>r\<in>set (hit_rows tb p s). \<not> tb_vis tb (s_role s) (f r) then Inl (PgError ''42501'')
     else if \<exists>r\<in>set (hit_rows tb p s). \<not> tb_check tb (s_db s) (f r) then Inl (PgError ''23514'')
     else Inr (map f (hit_rows tb p s), upd_rows tb p f s))"
    by (simp only: q_update_def live_tx_def Let_def hit_rows_def upd_rows_def put_rows_def)
  show ?thesis unfolding q wp_def using Q by (cases "hit_rows tb p s") (auto split: if_splits)
qed

lemma wp_q_update_one [wp_intros]:
  "(\<And>r rs. \<not> s_aborted s \<Longrightarrow> hit_rows tb p s = r # rs \<Longrightarrow>
     \<forall>r\<in>set (hit_rows tb p s). tb_vis tb (s_role s) (f r) \<and> tb_check tb (s_db s) (f r) \<Longrightarrow>
     Q (f r) (upd_rows tb p f s)) \<Longrightarrow> wp (q_update_one tb p f) Q s"
  unfolding q_update_one_def
  by (intro wp_intros) (auto split: list.splits intro!: wp_intros)

text \<open>The rules that forget what was read, and the update rule without its facts about the
  rows hit.\<close>

lemma wp_many_any: "(\<And>xs. Q xs s) \<Longrightarrow> wp (q_many tb p) Q s"
  by (simp add: wp_q_many)

lemma wp_rt_any: "(\<And>x. Q x s) \<Longrightarrow> wp (get_rt f) Q s"
  by (simp add: wp_get_rt)

lemma wp_update_any: "(\<And>r. Q (f r) (upd_rows tb p f s)) \<Longrightarrow> wp (q_update_one tb p f) Q s"
  by (rule wp_q_update_one) blast

lemma update_where_twice:
  "(\<And>x. p (h x) = p x) \<Longrightarrow> update_where p g (update_where p h xs) = update_where p (\<lambda>x. g (h x)) xs"
  by (simp add: update_where_def)

lemma wp_q_exec [wp_intros]:
  "(\<not> s_aborted s \<Longrightarrow> Q () (upd_rows tb p f s)) \<Longrightarrow> wp (q_exec tb p f) Q s"
  unfolding q_exec_def by (auto intro!: wp_intros)

lemma wp_q_execrows [wp_intros]:
  "(\<not> s_aborted s \<Longrightarrow> Q (int (length (hit_rows tb p s))) (upd_rows tb p f s)) \<Longrightarrow>
   wp (q_execrows tb p f) Q s"
  unfolding q_execrows_def by (auto intro!: wp_intros)

lemma wp_q_delete [wp_intros]:
  "(\<not> s_aborted s \<Longrightarrow> Q (int (length (hit_rows tb p s)))
      (put_rows tb (filter (\<lambda>r. \<not> (tb_vis tb (s_role s) r \<and> p r)) (tb_get tb (s_db s))) s)) \<Longrightarrow>
   wp (q_delete tb p) Q s"
  by (auto simp: wp_def q_delete_def live_tx_def put_rows_def hit_rows_def Let_def split: if_splits)

lemma wp_live_tx: "(\<not> s_aborted s \<Longrightarrow> wp m Q s) \<Longrightarrow> wp (live_tx m) Q s"
  by (simp add: wp_def live_tx_def)

lemma wp_q_insert_new [wp_intros]:
  assumes "\<And>r'. r' \<in> set (tb_get tb (s_db s)) \<Longrightarrow> same r r' \<Longrightarrow> Q None s"
    and "\<not> s_aborted s \<Longrightarrow> tb_vis tb (s_role s) r \<Longrightarrow> tb_check tb (s_db s) r \<Longrightarrow>
      \<forall>r'\<in>set (tb_get tb (s_db s)). \<not> tb_clash tb r r' \<Longrightarrow>
      Q (Some r) (put_rows tb (tb_get tb (s_db s) @ [r]) s)"
  shows "wp (q_insert_new tb same r) Q s"
  using assms wp_q_insert [of s tb r "\<lambda>x. Q (Some x)"]
  by (auto simp: q_insert_new_def wp_def live_tx_def bnd_def ret_def split: sum.splits prod.splits)

lemma wp_q_upsert [wp_intros]:
  assumes "\<And>x xs. \<not> s_aborted s \<Longrightarrow> hit_rows tb (same r) s = x # xs \<Longrightarrow>
      \<forall>x\<in>set (hit_rows tb (same r) s). tb_vis tb (s_role s) (f x) \<and> tb_check tb (s_db s) (f x) \<Longrightarrow>
      Q (f x) (upd_rows tb (same r) f s)"
    and "\<not> s_aborted s \<Longrightarrow> tb_vis tb (s_role s) r \<Longrightarrow> tb_check tb (s_db s) r \<Longrightarrow>
      \<forall>r'\<in>set (tb_get tb (s_db s)). \<not> tb_clash tb r r' \<Longrightarrow>
      Q r (put_rows tb (tb_get tb (s_db s) @ [r]) s)"
  shows "wp (q_upsert tb same f r) Q s"
proof -
  have "wp (q_update_one tb (same r) f) Q s" by (rule wp_q_update_one) (rule assms(1))
  moreover have "wp (q_insert tb r) Q s" by (rule wp_q_insert) (rule assms(2))
  ultimately show ?thesis by (auto simp: q_upsert_def wp_def live_tx_def)
qed

lemma wp_q_jsonb [wp_intros]:
  "(\<And>j. raw = RawJson j \<Longrightarrow> Q (rt_jsonb (s_rt s) j) s) \<Longrightarrow> wp (q_jsonb raw) Q s"
  by (cases raw) (simp_all add: q_jsonb_def wp_get_rt wp_throw)

lemma wp_conj: "wp m Q s \<Longrightarrow> wp m R s \<Longrightarrow> wp m (\<lambda>x s'. Q x s' \<and> R x s') s"
  by (auto simp: wp_def split: sum.splits prod.splits)

lemma wp_mono: "wp m Q s \<Longrightarrow> (\<And>x s'. Q x s' \<Longrightarrow> R x s') \<Longrightarrow> wp m R s"
  by (auto simp: wp_def split: sum.splits prod.splits)

lemma q_one_hit:
  "\<not> s_aborted s \<Longrightarrow> x \<in> set (tb_get tb (s_db s)) \<Longrightarrow> tb_vis tb (s_role s) x \<Longrightarrow> p x \<Longrightarrow>
   \<exists>y. q_one tb p s = Inr (y, s) \<and> y \<in> set (tb_get tb (s_db s)) \<and> tb_vis tb (s_role s) y \<and> p y"
  by (auto simp: q_one_def live_tx_def rows_def select_one_def find_None_iff
      split: option.splits dest!: find_Some_mem)

lemma q_one_miss:
  "\<not> s_aborted s \<Longrightarrow> (\<And>x. x \<in> set (tb_get tb (s_db s)) \<Longrightarrow> tb_vis tb (s_role s) x \<Longrightarrow> \<not> p x) \<Longrightarrow>
   q_one tb p s = Inl ErrNoRows"
proof -
  assume "\<not> s_aborted s" "\<And>x. x \<in> set (tb_get tb (s_db s)) \<Longrightarrow> tb_vis tb (s_role s) x \<Longrightarrow> \<not> p x"
  moreover from this(2) have "select_one p (rows tb s) = Inl ErrNoRows"
    by (auto simp: rows_def table_simps)
  ultimately show ?thesis by (simp add: q_one_def live_tx_def)
qed

lemma q_one_InlD:
  "q_one tb p s = Inl e \<Longrightarrow> \<not> s_aborted s \<Longrightarrow> e = ErrNoRows \<and> (\<forall>x\<in>set (rows tb s). \<not> p x)"
  by (auto simp: q_one_def live_tx_def table_simps split: sum.splits)

lemma q_update_one_hit:
  assumes "\<not> s_aborted s" "tb_trigger tb (s_role s)" "hit_rows tb p s \<noteq> []"
    and "\<And>r. r \<in> set (hit_rows tb p s) \<Longrightarrow> tb_vis tb (s_role s) (f r) \<and> tb_check tb (s_db s) (f r)"
  shows "q_update_one tb p f s = Inr (f (hd (hit_rows tb p s)), upd_rows tb p f s)"
proof -
  have "q_update tb p f s = Inr (map f (hit_rows tb p s), upd_rows tb p f s)"
    using assms by (auto simp: q_update_def live_tx_def Let_def hit_rows_def upd_rows_def put_rows_def)
  with assms(3) show ?thesis
    by (cases "hit_rows tb p s") (simp_all add: q_update_one_def bnd_def ret_def)
qed

lemma wp_q_one_find: "(\<And>r. find p (rows tb s) = Some r \<Longrightarrow> Q r s) \<Longrightarrow> wp (q_one tb p) Q s"
  by (auto simp: wp_def q_one_def live_tx_def table_simps split: sum.splits)

lemma find_snoc: "\<forall>x\<in>set xs. \<not> p x \<Longrightarrow> p r \<Longrightarrow> find p (xs @ [r]) = Some r"
  by (induction xs) auto

section \<open>Whole transactions\<close>

text \<open>An outcome either changes nothing or satisfies \<open>Q\<close>.\<close>

definition outcome :: "('a \<Rightarrow> db \<Rightarrow> bool) \<Rightarrow> db \<Rightarrow> 'a result \<times> db \<Rightarrow> bool" where
  "outcome Q d r = (case r of (Inl _, d') \<Rightarrow> d' = d | (Inr x, d') \<Rightarrow> Q x d')"

lemma outcome_run_tx [wp_intros]:
  "wp m (\<lambda>x s. Q x (s_db s)) \<lparr>s_db = d, s_rt = e, s_role = r, s_aborted = False\<rparr> \<Longrightarrow>
   outcome Q d (run_tx r m e d)"
  by (auto simp: outcome_def run_tx_def wp_def split: sum.splits prod.splits if_splits)

lemma outcome_WithTenant [wp_intros]:
  "wp m (\<lambda>x s. Q x (s_db s))
     \<lparr>s_db = d, s_rt = e, s_role = Tenant (ProviderID tc) (EnvironmentID tc), s_aborted = False\<rparr> \<Longrightarrow>
   outcome Q d (WithTenant tc m e d)"
  unfolding WithTenant_def by (rule outcome_run_tx)

lemma outcome_WithOperator [wp_intros]:
  "wp m (\<lambda>x s. Q x (s_db s)) \<lparr>s_db = d, s_rt = e, s_role = Operator, s_aborted = False\<rparr> \<Longrightarrow>
   outcome Q d (WithOperator m e d)"
  unfolding WithOperator_def by (rule outcome_run_tx)

lemma outcome_if [wp_intros]:
  "(c \<Longrightarrow> outcome Q d m) \<Longrightarrow> (\<not> c \<Longrightarrow> outcome Q d m') \<Longrightarrow> outcome Q d (if c then m else m')"
  by simp

lemma outcome_fail_early [wp_intros]: "outcome Q d (fail_early e d)"
  by (simp add: outcome_def fail_early_def)

lemma outcomeD: "outcome Q d (Inr x, d') \<Longrightarrow> Q x d'"
  by (simp add: outcome_def)

lemma outcome_unchanged: "outcome Q d (r, d') \<Longrightarrow> \<not> is_ok r \<Longrightarrow> d' = d"
  by (cases r) (auto simp: outcome_def)

lemma outcome_mono:
  "outcome Q d r \<Longrightarrow> (\<And>x d'. Q x d' \<Longrightarrow> R x d') \<Longrightarrow> outcome R d r"
  by (auto simp: outcome_def split: prod.splits sum.splits)

lemma outcome_snd: "outcome (\<lambda>x d'. P d') d r \<Longrightarrow> P d \<Longrightarrow> P (snd r)"
  by (auto simp: outcome_def split: prod.splits sum.splits)

section \<open>Tables\<close>

definition hidden :: "'r tbl \<Rightarrow> role \<Rightarrow> db \<Rightarrow> 'r list" where
  "hidden tb r d = filter (\<lambda>x. \<not> tb_vis tb r x) (tb_get tb d)"

text \<open>Both databases have the same rows outside the role's sight, in every table.\<close>

definition same_hidden :: "role \<Rightarrow> db \<Rightarrow> db \<Rightarrow> bool" where
  "same_hidden r d d' \<longleftrightarrow>
     hidden regions r d' = hidden regions r d \<and> hidden cells r d' = hidden cells r d \<and>
     hidden providers r d' = hidden providers r d \<and>
     hidden environments r d' = hidden environments r d \<and>
     hidden credentials r d' = hidden credentials r d \<and>
     hidden commerce_accounts r d' = hidden commerce_accounts r d \<and>
     hidden risk_reviews r d' = hidden risk_reviews r d \<and>
     hidden outbox_events r d' = hidden outbox_events r d \<and>
     hidden audit_events r d' = hidden audit_events r d \<and>
     hidden webhook_endpoints r d' = hidden webhook_endpoints r d \<and>
     hidden webhook_deliveries r d' = hidden webhook_deliveries r d \<and>
     hidden customer_accounts r d' = hidden customer_accounts r d \<and>
     hidden subscriptions r d' = hidden subscriptions r d \<and>
     hidden catalog_versions r d' = hidden catalog_versions r d \<and>
     hidden metrics r d' = hidden metrics r d \<and>
     hidden plans r d' = hidden plans r d \<and>
     hidden prices r d' = hidden prices r d \<and>
     hidden entitlement_grants r d' = hidden entitlement_grants r d \<and>
     hidden invoices r d' = hidden invoices r d \<and>
     hidden invoice_lines r d' = hidden invoice_lines r d \<and>
     hidden entitlement_overrides r d' = hidden entitlement_overrides r d \<and>
     hidden entitlement_snapshots r d' = hidden entitlement_snapshots r d \<and>
     hidden migration_jobs r d' = hidden migration_jobs r d \<and>
     hidden migration_records r d' = hidden migration_records r d \<and>
     hidden usage_events r d' = hidden usage_events r d \<and>
     hidden quota_limits r d' = hidden quota_limits r d \<and>
     hidden quota_reservations r d' = hidden quota_reservations r d \<and>
     hidden support_sessions r d' = hidden support_sessions r d \<and>
     hidden cell_failovers r d' = hidden cell_failovers r d \<and>
     hidden cell_migrations r d' = hidden cell_migrations r d"

lemma same_hidden_refl [simp]: "same_hidden r d d"
  by (simp add: same_hidden_def)

lemma same_hidden_trans: "same_hidden r a b \<Longrightarrow> same_hidden r b c \<Longrightarrow> same_hidden r a c"
  by (simp add: same_hidden_def)

text \<open>A transaction is isolated when its successful runs keep role, environment and
  hidden rows.\<close>

definition isolated :: "'a tx \<Rightarrow> bool" where
  "isolated m \<longleftrightarrow> (\<forall>s. wp m (\<lambda>x s'. s_role s' = s_role s \<and> s_rt s' = s_rt s \<and>
                              same_hidden (s_role s) (s_db s) (s_db s')) s)"

lemma isolatedD:
  "isolated m \<Longrightarrow> m s = Inr (x, s') \<Longrightarrow>
   s_role s' = s_role s \<and> s_rt s' = s_rt s \<and> same_hidden (s_role s) (s_db s) (s_db s')"
  unfolding isolated_def by (blast dest: wpD)

lemma isolatedI:
  "(\<And>s x s'. m s = Inr (x, s') \<Longrightarrow>
      s_role s' = s_role s \<and> s_rt s' = s_rt s \<and> same_hidden (s_role s) (s_db s) (s_db s')) \<Longrightarrow>
   isolated m"
  unfolding isolated_def by (blast intro: wpI)

lemma isolated_ret [isolated_intros]: "isolated (ret x)"
  by (simp add: isolated_def wp_def ret_def)

lemma isolated_throw [isolated_intros]: "isolated (throw e)"
  by (simp add: isolated_def wp_def throw_def)

lemma isolated_bnd [isolated_intros]:
  assumes "isolated m" "\<And>x. isolated (f x)"
  shows "isolated (bnd m f)"
proof (rule isolatedI)
  fix s y s'
  assume "bnd m f s = Inr (y, s')"
  then obtain x s1 where 1: "m s = Inr (x, s1)" "f x s1 = Inr (y, s')"
    by (auto simp: bnd_def split: sum.splits prod.splits)
  from isolatedD [OF assms(1) 1(1)] isolatedD [OF assms(2) 1(2)]
  show "s_role s' = s_role s \<and> s_rt s' = s_rt s \<and> same_hidden (s_role s) (s_db s) (s_db s')"
    by (auto intro: same_hidden_trans)
qed

lemma isolated_if [isolated_intros]: "isolated m \<Longrightarrow> isolated m' \<Longrightarrow> isolated (if c then m else m')"
  by simp

lemma isolated_case_sum [isolated_intros]:
  "(\<And>e. isolated (f e)) \<Longrightarrow> (\<And>x. isolated (g x)) \<Longrightarrow> isolated (case r of Inl e \<Rightarrow> f e | Inr x \<Rightarrow> g x)"
  by (cases r) simp_all

lemma isolated_case_prod [isolated_intros]:
  "(\<And>a b. isolated (f a b)) \<Longrightarrow> isolated (case r of (a, b) \<Rightarrow> f a b)"
  by (cases r) simp

lemma isolated_case_option [isolated_intros]:
  "isolated m \<Longrightarrow> (\<And>y. isolated (f y)) \<Longrightarrow> isolated (case x of None \<Rightarrow> m | Some y \<Rightarrow> f y)"
  by (cases x) simp_all

lemma isolated_check [isolated_intros]: "isolated (check c e)"
  by (simp add: check_def isolated_intros)

lemma isolated_lift_res [isolated_intros]: "isolated (lift_res r)"
  by (cases r) (simp_all add: lift_res_def isolated_intros)

lemma isolated_map_err [isolated_intros]: "isolated m \<Longrightarrow> isolated (map_err f m)"
  by (simp add: isolated_def wp_map_err)

lemma isolated_try_tx [isolated_intros]: "isolated m \<Longrightarrow> isolated (try_tx m)"
  by (simp add: isolated_def wp_try_tx)

lemma isolated_get_rt [isolated_intros]: "isolated (get_rt f)"
  by (simp add: isolated_def wp_def get_rt_def)

lemma isolated_now [isolated_intros]: "isolated now_tx"
  by (simp add: now_tx_def isolated_get_rt)

lemma isolated_draw [isolated_intros]: "isolated (draw f)"
  by (simp add: isolated_def wp_def draw_def same_hidden_def hidden_def table_tb)

lemma isolated_q_jsonb [isolated_intros]: "isolated (q_jsonb raw)"
  by (simp add: isolated_def wp_q_jsonb)

lemma isolated_q_many [isolated_intros]: "isolated (q_many tb p)"
  by (simp add: isolated_def wp_q_many)

lemma isolated_q_one [isolated_intros]: "isolated (q_one tb p)"
  by (simp add: isolated_def wp_q_one)

lemma isolated_q_last [isolated_intros]: "isolated (q_last tb p)"
  by (simp add: isolated_def wp_q_last)

locale lawful_table =
  fixes tb :: "'r tbl"
  assumes get_put [simp]: "tb_get tb (tb_put tb v d) = v"
    and put_hidden: "filter (\<lambda>x. \<not> tb_vis tb r x) v = hidden tb r d \<Longrightarrow> same_hidden r d (tb_put tb v d)"
begin

lemma isolated_put:
  "filter (\<lambda>x. \<not> tb_vis tb (s_role s) x) v = hidden tb (s_role s) (s_db s) \<Longrightarrow>
   s_role (put_rows tb v s) = s_role s \<and> s_rt (put_rows tb v s) = s_rt s \<and>
   same_hidden (s_role s) (s_db s) (s_db (put_rows tb v s))"
  by (simp add: put_rows_def put_hidden)

lemma isolated_insert: "isolated (q_insert tb r)"
  unfolding isolated_def by (intro allI wp_q_insert isolated_put) (simp add: hidden_def)

lemma isolated_update: "isolated (q_update tb p f)"
  unfolding isolated_def
proof (intro allI wp_q_update)
  fix s
  assume "\<forall>r\<in>set (hit_rows tb p s). tb_vis tb (s_role s) (f r) \<and> tb_check tb (s_db s) (f r)"
  then have "filter (\<lambda>x. \<not> tb_vis tb (s_role s) x)
      (update_where (\<lambda>r. tb_vis tb (s_role s) r \<and> p r) f rs) =
      filter (\<lambda>x. \<not> tb_vis tb (s_role s) x) rs"
    if "set rs \<subseteq> set (tb_get tb (s_db s))" for rs
    using that by (induction rs) (auto simp: update_where_def hit_rows_def)
  then show "s_role (upd_rows tb p f s) = s_role s \<and> s_rt (upd_rows tb p f s) = s_rt s \<and>
      same_hidden (s_role s) (s_db s) (s_db (upd_rows tb p f s))"
    unfolding upd_rows_def by (intro isolated_put) (simp add: hidden_def)
qed

lemma isolated_update_one: "isolated (q_update_one tb p f)"
  unfolding q_update_one_def
  by (intro isolated_bnd isolated_update) (auto split: list.splits intro: isolated_intros)

lemma isolated_exec: "isolated (q_exec tb p f)"
  unfolding q_exec_def by (intro isolated_bnd isolated_update isolated_ret)

lemma isolated_execrows: "isolated (q_execrows tb p f)"
  unfolding q_execrows_def by (intro isolated_bnd isolated_update isolated_ret)

lemma isolated_delete: "isolated (q_delete tb p)"
  unfolding isolated_def
  by (intro allI wp_q_delete isolated_put) (auto simp: hidden_def intro: filter_cong)

lemma isolated_insert_new: "isolated (q_insert_new tb same r)"
  unfolding isolated_def by (intro allI wp_q_insert_new isolated_put) (simp_all add: hidden_def)

lemma isolated_upsert: "isolated (q_upsert tb same f r)"
proof -
  have "wp (q_upsert tb same f r) (\<lambda>x s'. s_role s' = s_role s \<and> s_rt s' = s_rt s \<and>
      same_hidden (s_role s) (s_db s) (s_db s')) s" for s
    using isolated_insert [of r] isolated_update_one [of "same r" f]
    by (auto simp: isolated_def q_upsert_def wp_def live_tx_def)
  then show ?thesis by (simp add: isolated_def)
qed

lemmas isolated_queries = isolated_insert_new isolated_upsert isolated_insert isolated_update isolated_update_one isolated_exec
  isolated_execrows isolated_delete

text \<open>What the table holds after a successful query.\<close>

lemma get_put_rows: "tb_get tb (s_db (put_rows tb v s)) = v"
  by (simp add: put_rows_def)

lemma get_upd_rows:
  "tb_get tb (s_db (upd_rows tb p f s)) =
   update_where (\<lambda>r. tb_vis tb (s_role s) r \<and> p r) f (tb_get tb (s_db s))"
  by (simp add: upd_rows_def get_put_rows)

lemmas table_after = get_put_rows get_upd_rows

end

lemmas hidden_unfold = same_hidden_def hidden_def

interpretation t_regions: lawful_table regions
  by unfold_locales (simp_all add: hidden_unfold table_tb)
interpretation t_cells: lawful_table cells
  by unfold_locales (simp_all add: hidden_unfold table_tb)
interpretation t_providers: lawful_table providers
  by unfold_locales (simp_all add: hidden_unfold table_tb)
interpretation t_environments: lawful_table environments
  by unfold_locales (simp_all add: hidden_unfold table_tb)
interpretation t_credentials: lawful_table credentials
  by unfold_locales (simp_all add: hidden_unfold table_tb)
interpretation t_commerce: lawful_table commerce_accounts
  by unfold_locales (simp_all add: hidden_unfold table_tb)
interpretation t_reviews: lawful_table risk_reviews
  by unfold_locales (simp_all add: hidden_unfold table_tb)
interpretation t_outbox: lawful_table outbox_events
  by unfold_locales (simp_all add: hidden_unfold table_tb)
interpretation t_audit: lawful_table audit_events
  by unfold_locales (simp_all add: hidden_unfold table_tb)
interpretation t_endpoints: lawful_table webhook_endpoints
  by unfold_locales (simp_all add: hidden_unfold table_tb)
interpretation t_deliveries: lawful_table webhook_deliveries
  by unfold_locales (simp_all add: hidden_unfold table_tb)
interpretation t_customers: lawful_table customer_accounts
  by unfold_locales (simp_all add: hidden_unfold table_tb)
interpretation t_subscriptions: lawful_table subscriptions
  by unfold_locales (simp_all add: hidden_unfold table_tb)
interpretation t_usage: lawful_table usage_events
  by unfold_locales (simp_all add: hidden_unfold table_tb)
interpretation t_versions: lawful_table catalog_versions
  by unfold_locales (simp_all add: hidden_unfold table_tb)
interpretation t_metrics: lawful_table metrics
  by unfold_locales (simp_all add: hidden_unfold table_tb)
interpretation t_plans: lawful_table plans
  by unfold_locales (simp_all add: hidden_unfold table_tb)
interpretation t_prices: lawful_table prices
  by unfold_locales (simp_all add: hidden_unfold table_tb)
interpretation t_grants: lawful_table entitlement_grants
  by unfold_locales (simp_all add: hidden_unfold table_tb)
interpretation t_invoices: lawful_table invoices
  by unfold_locales (simp_all add: hidden_unfold table_tb)
interpretation t_lines: lawful_table invoice_lines
  by unfold_locales (simp_all add: hidden_unfold table_tb)
interpretation t_overrides: lawful_table entitlement_overrides
  by unfold_locales (simp_all add: hidden_unfold table_tb)
interpretation t_snapshots: lawful_table entitlement_snapshots
  by unfold_locales (simp_all add: hidden_unfold table_tb)
interpretation t_jobs: lawful_table migration_jobs
  by unfold_locales (simp_all add: hidden_unfold table_tb)
interpretation t_records: lawful_table migration_records
  by unfold_locales (simp_all add: hidden_unfold table_tb)
interpretation t_limits: lawful_table quota_limits
  by unfold_locales (simp_all add: hidden_unfold table_tb)
interpretation t_reservations: lawful_table quota_reservations
  by unfold_locales (simp_all add: hidden_unfold table_tb)
interpretation t_sessions: lawful_table support_sessions
  by unfold_locales (simp_all add: hidden_unfold table_tb)
interpretation t_failovers: lawful_table cell_failovers
  by unfold_locales (simp_all add: hidden_unfold table_tb)
interpretation t_migrations: lawful_table cell_migrations
  by unfold_locales (simp_all add: hidden_unfold table_tb)

lemmas isolated_tables [isolated_intros] =
  t_regions.isolated_queries t_cells.isolated_queries t_providers.isolated_queries
  t_environments.isolated_queries t_credentials.isolated_queries t_commerce.isolated_queries
  t_reviews.isolated_queries t_outbox.isolated_queries t_audit.isolated_queries
  t_endpoints.isolated_queries t_deliveries.isolated_queries t_customers.isolated_queries
  t_subscriptions.isolated_queries t_usage.isolated_queries t_limits.isolated_queries
  t_reservations.isolated_queries t_sessions.isolated_queries t_failovers.isolated_queries
  t_migrations.isolated_queries
  t_versions.isolated_queries t_metrics.isolated_queries t_plans.isolated_queries
  t_prices.isolated_queries t_grants.isolated_queries t_invoices.isolated_queries t_lines.isolated_queries
  t_overrides.isolated_queries t_snapshots.isolated_queries t_jobs.isolated_queries
  t_records.isolated_queries

lemma isolated_emitOutboxTx [isolated_intros]: "isolated (emitOutboxTx p e at ai et payload)"
  unfolding emitOutboxTx_def by (intro isolated_intros)

lemma isolated_emitOutboxWithTxIDTx [isolated_intros]:
  "isolated (emitOutboxWithTxIDTx p e at ai et tx payload)"
  unfolding emitOutboxWithTxIDTx_def by (intro isolated_intros)

lemma isolated_insertAuditTx [isolated_intros]: "isolated (insertAuditTx p e at ai ac tt ti m)"
  unfolding insertAuditTx_def by (intro isolated_intros)

lemma isolated_checkTenantOwnership [isolated_intros]: "isolated (checkTenantOwnership p e tc)"
  unfolding checkTenantOwnership_def by (intro isolated_intros)

lemma isolated_requireStatus [isolated_intros]: "isolated (requireStatus c allowed)"
  unfolding requireStatus_def by (intro isolated_intros)

lemma isolated_WithTenant:
  "isolated m \<Longrightarrow>
   same_hidden (Tenant (ProviderID tc) (EnvironmentID tc)) d (snd (WithTenant tc m e d))"
  by (auto simp: WithTenant_def run_tx_def split: sum.splits prod.splits dest: isolatedD)

section \<open>The two records of a business fact\<close>

lemma wp_emitOutboxTx [wp_intros]:
  assumes "\<And>ev n. ob_provider ev = p \<Longrightarrow> ob_env ev = e \<Longrightarrow> ob_agg_type ev = at \<Longrightarrow> ob_agg_id ev = ai \<Longrightarrow>
    ob_type ev = et \<Longrightarrow> ob_payload ev = RawJson payload \<Longrightarrow> ob_status ev = ''pending'' \<Longrightarrow>
    Q () (s\<lparr>s_db := (s_db s)\<lparr>db_seq := n, db_outbox := db_outbox (s_db s) @ [ev]\<rparr>\<rparr>)"
  shows "wp (emitOutboxTx p e at ai et payload) Q s"
  unfolding emitOutboxTx_def
  by (intro wp_intros, simp add: put_rows_def bump_def outbox_events_tb, rule assms) simp_all

lemma wp_emitOutboxWithTxIDTx [wp_intros]:
  assumes "\<And>ev n. ob_provider ev = p \<Longrightarrow> ob_env ev = e \<Longrightarrow> ob_agg_type ev = at \<Longrightarrow> ob_agg_id ev = ai \<Longrightarrow>
      ob_type ev = et \<Longrightarrow> ob_tx ev = tx \<Longrightarrow> ob_status ev = ''pending'' \<Longrightarrow>
      Q () (s\<lparr>s_db := (s_db s)\<lparr>db_seq := n, db_outbox := db_outbox (s_db s) @ [ev]\<rparr>\<rparr>)"
    and "\<And>ev n. ev \<in> set (db_outbox (s_db s)) \<Longrightarrow> ob_provider ev = p \<Longrightarrow> ob_env ev = e \<Longrightarrow> ob_tx ev = tx \<Longrightarrow>
      Q () (s\<lparr>s_db := (s_db s)\<lparr>db_seq := n\<rparr>\<rparr>)"
  shows "wp (emitOutboxWithTxIDTx p e at ai et tx payload) Q s"
  unfolding emitOutboxWithTxIDTx_def
proof (intro wp_intros, goal_cases)
  case (1 r')
  then show ?case using assms(2) [of r' "db_seq (s_db s) + 1"]
    by (simp add: bump_def outbox_events_tb same_transaction_def)
next
  case 2
  show ?case by (simp add: put_rows_def bump_def outbox_events_tb, rule assms(1)) simp_all
qed

lemma wp_insertAuditTx [wp_intros]:
  assumes "\<And>ev n. au_provider ev = p \<Longrightarrow> au_env ev = e \<Longrightarrow> au_actor_type ev = aty \<Longrightarrow> au_actor ev = ai \<Longrightarrow>
    au_action ev = ac \<Longrightarrow> au_target ev = opt_text ti \<Longrightarrow>
    Q () (s\<lparr>s_db := (s_db s)\<lparr>db_seq := n, db_audit := db_audit (s_db s) @ [ev]\<rparr>\<rparr>)"
  shows "wp (insertAuditTx p e aty ai ac tt ti m) Q s"
  unfolding insertAuditTx_def
  by (intro wp_intros, simp add: put_rows_def bump_def audit_events_tb, rule assms) simp_all

text \<open>A committed operation leaves exactly one pending event of a type for a provider in
  the outbox and exactly one audit event of an action.\<close>

definition records :: "uuid \<Rightarrow> string \<Rightarrow> string \<Rightarrow> db \<Rightarrow> db \<Rightarrow> bool" where
  "records p et ac d d' \<longleftrightarrow>
     (\<exists>ev. db_outbox d' = db_outbox d @ [ev] \<and> ob_provider ev = p \<and> ob_type ev = et \<and>
           ob_status ev = ''pending'') \<and>
     (\<exists>au. db_audit d' = db_audit d @ [au] \<and> au_action au = ac)"

section \<open>Tables whose rows are state machines\<close>

text \<open>The rows of a table moved on: every old row stayed or took a step, new rows are
  fresh.\<close>

definition evolves :: "('r \<Rightarrow> 'r \<Rightarrow> bool) \<Rightarrow> ('r \<Rightarrow> bool) \<Rightarrow> 'r list \<Rightarrow> 'r list \<Rightarrow> bool" where
  "evolves step fresh rs rs' \<longleftrightarrow>
     (\<exists>old new. rs' = old @ new \<and> list_all2 (\<lambda>x y. y = x \<or> step x y) rs old \<and> (\<forall>x\<in>set new. fresh x))"

lemma list_all2_stay: "list_all2 (\<lambda>x y. y = x \<or> step x y) rs rs"
  by (simp add: list_all2_same)

lemma evolves_refl [simp]: "evolves step fresh rs rs"
  unfolding evolves_def by (intro exI [of _ rs] exI [of _ "[]"]) (simp add: list_all2_stay)

lemma evolves_insert: "fresh r \<Longrightarrow> evolves step fresh rs (rs @ [r])"
  unfolding evolves_def by (intro exI [of _ rs] exI [of _ "[r]"]) (simp add: list_all2_stay)

lemma evolves_update:
  assumes "\<And>r. r \<in> set rs \<Longrightarrow> p r \<Longrightarrow> f r = r \<or> step r (f r)"
  shows "evolves step fresh rs (update_where p f rs)"
proof -
  have "list_all2 (\<lambda>x y. y = x \<or> step x y) rs (update_where p f rs)"
    using assms by (simp add: list_all2_conv_all_nth update_where_def)
  then show ?thesis
    unfolding evolves_def by (intro exI [of _ "update_where p f rs"] exI [of _ "[]"]) simp
qed

locale row_machine =
  fixes step :: "'r \<Rightarrow> 'r \<Rightarrow> bool"
    and fresh :: "'r \<Rightarrow> bool"
    and ok :: "'r \<Rightarrow> bool"
    and final :: "'r \<Rightarrow> bool"
    and key :: "'r \<Rightarrow> 'k"
  assumes fresh_ok: "fresh x \<Longrightarrow> ok x"
    and step_ok: "ok x \<Longrightarrow> step x y \<Longrightarrow> ok y"
    and final_stays: "final x \<Longrightarrow> step x y \<Longrightarrow> y = x"
    and step_key: "step x y \<Longrightarrow> key y = key x"
begin

lemma evolves_ok: "evolves step fresh rs rs' \<Longrightarrow> \<forall>x\<in>set rs. ok x \<Longrightarrow> \<forall>x\<in>set rs'. ok x"
  by (auto simp: evolves_def list_all2_conv_all_nth in_set_conv_nth nth_append)
     (metis fresh_ok nth_mem step_ok)+

lemma evolves_final: "evolves step fresh rs rs' \<Longrightarrow> x \<in> set rs \<Longrightarrow> final x \<Longrightarrow> x \<in> set rs'"
  by (auto simp: evolves_def list_all2_conv_all_nth in_set_conv_nth nth_append)
     (metis final_stays trans_less_add1)

lemma evolves_keys:
  "evolves step fresh rs rs' \<Longrightarrow> \<exists>new. map key rs' = map key rs @ map key new \<and> (\<forall>x\<in>set new. fresh x)"
proof -
  assume "evolves step fresh rs rs'"
  then obtain old new where e: "rs' = old @ new" "list_all2 (\<lambda>x y. y = x \<or> step x y) rs old"
    "\<forall>x\<in>set new. fresh x" by (auto simp: evolves_def)
  from e(2) have "map key old = map key rs"
    by (induction rule: list_all2_induct) (auto simp: step_key)
  with e show ?thesis by auto
qed

lemma chain_ok:
  "(\<And>d d'. R d d' \<Longrightarrow> evolves step fresh (get d) (get d')) \<Longrightarrow> R\<^sup>*\<^sup>* d d' \<Longrightarrow>
   \<forall>x\<in>set (get d). ok x \<Longrightarrow> \<forall>x\<in>set (get d'). ok x"
proof -
  assume R: "\<And>d d'. R d d' \<Longrightarrow> evolves step fresh (get d) (get d')"
  assume "R\<^sup>*\<^sup>* d d'" "\<forall>x\<in>set (get d). ok x"
  then show ?thesis by (induction rule: rtranclp_induct) (auto dest: evolves_ok [OF R])
qed

end

end
