(* ===== verification/Fixtures.thy ===== *)
theory Fixtures
  imports Store_Laws
begin

text \<open>
  A small concrete database and environment: two live providers with their environments in
  one shared cell, a second active cell of the same region, and one customer subscribed
  to the only plan of a published catalog. The
  witnesses of the components run on it.
\<close>

definition demo_rt :: "int \<Rightarrow> rt" where
  "demo_rt now = \<lparr>rt_now = now, rt_gen = (\<lambda>n. replicate n CHR ''g''),
     rt_bytes = (\<lambda>n. replicate 24 (n mod 256)), rt_sha256 = map of_char,
     rt_json_hash = (\<lambda>j. ''hash''), rt_rfc3339 = (\<lambda>t. ''time''),
     rt_rfc3339nano = (\<lambda>t. ''time''), rt_float = JDec, rt_error_text = (\<lambda>err. ''error''),
     rt_request = ''req'', rt_base = ''vlogbin.test'', rt_jsonb = id\<rparr>"

definition demo_provider :: "uuid \<Rightarrow> string \<Rightarrow> string \<Rightarrow> Provider" where
  "demo_provider i slug st = \<lparr>pv_id = i, pv_slug = slug, pv_name = slug, pv_region = Some ''r1'',
     pv_cell = Some ''c1'', pv_state = st\<rparr>"

definition demo_db :: db where
  "demo_db = \<lparr>db_regions = [\<lparr>rg_id = ''r1'', rg_code = ''cn''\<rparr>],
     db_cells = [\<lparr>ce_id = ''c1'', ce_region = ''r1'', ce_code = ''cn-1'', ce_type = ''shared'',
                  ce_status = CellStatusActive, ce_limits = JObj []\<rparr>,
                 \<lparr>ce_id = ''c2'', ce_region = ''r1'', ce_code = ''cn-2'', ce_type = ''dedicated'',
                  ce_status = CellStatusActive, ce_limits = JObj []\<rparr>],
     db_providers = [demo_provider ''p1'' ''acme'' StateLiveActive,
                     demo_provider ''p2'' ''bolt'' StateTestActive],
     db_environments = [\<lparr>en_id = ''e1'', en_provider = ''p1'', en_kind = EnvKindTest, en_issuer = ''i1''\<rparr>,
                        \<lparr>en_id = ''e2'', en_provider = ''p2'', en_kind = EnvKindTest, en_issuer = ''i2''\<rparr>],
     db_credentials = [], db_commerce = [], db_reviews = [], db_outbox = [], db_audit = [],
     db_endpoints = [], db_deliveries = [],
     db_customers = [\<lparr>cu_id = ''k1'', cu_provider = ''p1'', cu_env = ''e1'', cu_external = ''cust'',
                      cu_type = ''individual'', cu_name = ''Cust''\<rparr>],
     db_versions = [\<lparr>cv_id = ''v1'', cv_provider = ''p1'', cv_env = ''e1'', cv_version = 1,
                     cv_state = CatalogPublished, cv_validated = Some 0, cv_published = Some 0,
                     cv_retired = None\<rparr>],
     db_metrics = [\<lparr>mt_id = ''m1'', mt_version = ''v1'', mt_provider = ''p1'', mt_env = ''e1'',
                    mt_code = ''calls'', mt_name = ''Calls'', mt_aggregation = ''count'',
                    mt_field = None, mt_billable = True\<rparr>],
     db_plans = [\<lparr>pl_id = ''l1'', pl_version = ''v1'', pl_provider = ''p1'', pl_env = ''e1'',
                  pl_code = ''basic'', pl_name = ''Basic'', pl_interval = ''monthly'',
                  pl_currency = ''EUR''\<rparr>],
     db_prices = [\<lparr>px_id = ''x1'', px_plan = ''l1'', px_version = ''v1'', px_provider = ''p1'',
                   px_env = ''e1'', px_metric = Some ''m1'', px_model = ChargeModelPerUnit,
                   px_properties = JObj [(''unit_amount_cents'', JInt 5)]\<rparr>],
     db_grants = [\<lparr>eg_id = ''t1'', eg_plan = ''l1'', eg_version = ''v1'', eg_provider = ''p1'',
                   eg_env = ''e1'', eg_key = ''seats'', eg_type = ''numeric'', eg_value = JInt 3\<rparr>],
     db_subscriptions = [\<lparr>su_id = ''s1'', su_provider = ''p1'', su_env = ''e1'', su_external = ''sub'',
                          su_customer = ''k1'', su_version = ''v1'', su_plan = ''l1'',
                          su_status = SubscriptionActive, su_terminated = None\<rparr>],
     db_usage = [], db_invoices = [], db_lines = [], db_overrides = [], db_snapshots = [], db_jobs = [],
     db_records = [], db_limits = [], db_reservations = [], db_sessions = [],
     db_failovers = [], db_migrations = [], db_seq = 1\<rparr>"

definition demo_ctx :: "uuid \<Rightarrow> uuid \<Rightarrow> Ctx" where
  "demo_ctx p e = \<lparr>CredentialID = ''cred'', ProviderID = p, ProviderSlug = ''slug'',
     LifecycleState = StateLiveActive, EnvironmentID = e, EnvironmentKind = EnvKindTest,
     Ctx_Issuer = ''i'', Scopes = AllScopes\<rparr>"

lemmas demo_defs = demo_rt_def demo_provider_def demo_db_def demo_ctx_def

end
