(* ===== verification/Providers.thy ===== *)
theory Providers
  imports Fixtures
begin

text \<open>
  The provider operations of \<open>internal/service/service.go\<close> and the go-live review of
  \<open>internal/service/risk_review.go\<close>: creation, activation and lifecycle transitions with
  the environments, API keys and commerce accounts they provision, and the management of
  API keys by tenants and operators. The queries of the generated package come first, then
  the shared transaction helpers, then the operations in the order of the files.
\<close>

section \<open>Queries\<close>

abbreviation q_GetRegionByCode :: "string \<Rightarrow> Region tx" where
  "q_GetRegionByCode c \<equiv> q_one regions (\<lambda>x. rg_code x = c)"

abbreviation q_GetSharedCellByRegion :: "uuid \<Rightarrow> Cell tx" where
  "q_GetSharedCellByRegion r \<equiv> q_one cells (\<lambda>x. ce_region x = r \<and> ce_type x = ''shared'')"

abbreviation q_CreateProvider ::
  "uuid \<Rightarrow> string \<Rightarrow> string \<Rightarrow> uuid option \<Rightarrow> uuid option \<Rightarrow> string \<Rightarrow> Provider tx" where
  "q_CreateProvider i slug name region cell st \<equiv> q_insert providers
     \<lparr>pv_id = i, pv_slug = slug, pv_name = name, pv_region = region, pv_cell = cell, pv_state = st\<rparr>"

abbreviation q_CreateRegisteredProvider :: "uuid \<Rightarrow> string \<Rightarrow> string \<Rightarrow> Provider tx" where
  "q_CreateRegisteredProvider i slug name \<equiv> q_insert providers
     \<lparr>pv_id = i, pv_slug = slug, pv_name = name, pv_region = None, pv_cell = None, pv_state = StateRegistered\<rparr>"

abbreviation q_GetProviderByID :: "uuid \<Rightarrow> Provider tx" where
  "q_GetProviderByID i \<equiv> q_one providers (\<lambda>x. pv_id x = i)"

abbreviation q_ListProviders :: "Provider list tx" where
  "q_ListProviders \<equiv> bnd (q_many providers (\<lambda>x. True)) (\<lambda>ps. ret (rev ps))"

abbreviation q_UpdateProviderLifecycle :: "uuid \<Rightarrow> string \<Rightarrow> string \<Rightarrow> int tx" where
  "q_UpdateProviderLifecycle i from to \<equiv> q_execrows providers
     (\<lambda>x. pv_id x = i \<and> pv_state x = from) (\<lambda>x. x\<lparr>pv_state := to\<rparr>)"

abbreviation q_ActivateProvider :: "uuid \<Rightarrow> uuid option \<Rightarrow> uuid option \<Rightarrow> string \<Rightarrow> Provider tx" where
  "q_ActivateProvider i region cell st \<equiv> q_update_one providers
     (\<lambda>x. pv_id x = i \<and> pv_state x = StateRegistered)
     (\<lambda>x. x\<lparr>pv_region := region, pv_cell := cell, pv_state := st\<rparr>)"

abbreviation q_CreateEnvironment :: "uuid \<Rightarrow> uuid \<Rightarrow> string \<Rightarrow> string \<Rightarrow> Environment tx" where
  "q_CreateEnvironment i p kind iss \<equiv> q_insert environments
     \<lparr>en_id = i, en_provider = p, en_kind = kind, en_issuer = iss\<rparr>"

abbreviation q_ListEnvironmentsByProvider :: "uuid \<Rightarrow> Environment list tx" where
  "q_ListEnvironmentsByProvider p \<equiv> q_many environments (\<lambda>x. en_provider x = p)"

abbreviation q_CreateCredential ::
  "uuid \<Rightarrow> uuid \<Rightarrow> uuid \<Rightarrow> string \<Rightarrow> string \<Rightarrow> string \<Rightarrow> string list \<Rightarrow> int option \<Rightarrow> Credential tx" where
  "q_CreateCredential i p en name pre hash scopes expires \<equiv> q_insert credentials
     \<lparr>cr_id = i, cr_provider = p, cr_env = en, cr_name = name, cr_prefix = pre, cr_hash = hash,
      cr_scopes = scopes, cr_expires = expires, cr_revoked = None\<rparr>"

abbreviation q_GetCredentialByID :: "uuid \<Rightarrow> Credential tx" where
  "q_GetCredentialByID i \<equiv> q_one credentials (\<lambda>x. cr_id x = i)"

abbreviation q_RevokeCredential :: "int \<Rightarrow> uuid \<Rightarrow> Credential tx" where
  "q_RevokeCredential now i \<equiv> q_update_one credentials (\<lambda>x. cr_id x = i)
     (\<lambda>x. x\<lparr>cr_revoked := Some now\<rparr>)"

abbreviation q_ListCredentialsByEnvironment :: "uuid \<Rightarrow> uuid \<Rightarrow> Credential list tx" where
  "q_ListCredentialsByEnvironment p en \<equiv>
     bnd (q_many credentials (\<lambda>x. cr_provider x = p \<and> cr_env x = en)) (\<lambda>cs. ret (rev cs))"

text \<open>The joins with the environment: a credential without one is not selected.\<close>

definition q_GetCredentialByProvider :: "uuid \<Rightarrow> uuid \<Rightarrow> (Credential \<times> Environment) tx" where
  "q_GetCredentialByProvider i p =
     bnd (q_one credentials (\<lambda>x. cr_id x = i \<and> cr_provider x = p)) (\<lambda>c.
     bnd (q_one environments (\<lambda>v. en_id v = cr_env c)) (\<lambda>v. ret (c, v)))"

abbreviation q_InsertCommerceAccount ::
  "uuid \<Rightarrow> string \<Rightarrow> uuid option \<Rightarrow> uuid option \<Rightarrow> string \<Rightarrow> CommerceAccount tx" where
  "q_InsertCommerceAccount i dmn p en name \<equiv> q_insert commerce_accounts
     \<lparr>ca_id = i, ca_domain = dmn, ca_provider = p, ca_env = en, ca_name = name\<rparr>"

abbreviation q_CreateProviderRiskReview ::
  "int \<Rightarrow> uuid \<Rightarrow> uuid \<Rightarrow> int \<Rightarrow> (string \<times> bool) list \<Rightarrow> string \<Rightarrow> string \<Rightarrow> string \<Rightarrow> RiskReview tx" where
  "q_CreateProviderRiskReview now i p score checks decision reason by \<equiv> q_insert risk_reviews
     \<lparr>rr_id = i, rr_provider = p, rr_score = score, rr_checks = checks, rr_decision = decision,
      rr_reason = reason, rr_by = by, rr_at = now\<rparr>"

text \<open>Reviews get their time when they are inserted, so the latest is the last row.\<close>

abbreviation q_LatestProviderRiskReview :: "uuid \<Rightarrow> RiskReview tx" where
  "q_LatestProviderRiskReview p \<equiv> q_last risk_reviews (\<lambda>x. rr_provider x = p)"

abbreviation q_ListProviderRiskReviews :: "uuid \<Rightarrow> RiskReview list tx" where
  "q_ListProviderRiskReviews p \<equiv>
     bnd (q_many risk_reviews (\<lambda>x. rr_provider x = p)) (\<lambda>rs. ret (rev rs))"

section \<open>Shared transaction helpers\<close>

definition issuer :: "string \<Rightarrow> string \<Rightarrow> string \<Rightarrow> string" where
  "issuer base slug envKind = ''https://'' @ slug @ ''.'' @ envKind @ ''.'' @ base"

definition createCredentialTx ::
  "uuid \<Rightarrow> uuid \<Rightarrow> string \<Rightarrow> string \<Rightarrow> string list \<Rightarrow> int option \<Rightarrow> string tx" where
  "createCredentialTx providerID envID envKind name scopes expiresAt =
     bnd (draw rt_bytes) (\<lambda>buf.
     bnd (lift_res (Generate envKind buf)) (\<lambda>plaintext.
     bnd (get_rt (\<lambda>e. Hash (rt_sha256 e) plaintext)) (\<lambda>h.
     bnd (draw rt_gen) (\<lambda>i.
     bnd (q_CreateCredential i providerID envID name (Prefix plaintext) h scopes expiresAt) (\<lambda>_.
     ret plaintext)))))"

fun first_kind :: "string \<Rightarrow> Environment list \<Rightarrow> Environment option" where
  "first_kind k [] = None"
| "first_kind k (v # vs) = (if en_kind v = k then Some v else first_kind k vs)"

text \<open>An error of the lookup is dropped.\<close>

definition envOrTest :: "uuid \<Rightarrow> uuid option \<Rightarrow> uuid tx" where
  "envOrTest providerID env =
     (case env of
        Some e \<Rightarrow> ret e
      | None \<Rightarrow> bnd (try_tx (q_ListEnvironmentsByProvider providerID)) (\<lambda>envs. ret
          (case envs of
             Inl err \<Rightarrow> uuid_Nil
           | Inr vs \<Rightarrow> (case first_kind EnvKindTest vs of
                Some v \<Rightarrow> en_id v
              | None \<Rightarrow> (case vs of v # _ \<Rightarrow> en_id v | [] \<Rightarrow> uuid_Nil)))))"

definition getOrCreateLiveEnvironment :: "uuid \<Rightarrow> string \<Rightarrow> Environment tx" where
  "getOrCreateLiveEnvironment providerID slug =
     bnd (q_ListEnvironmentsByProvider providerID) (\<lambda>envs.
     case first_kind EnvKindLive envs of
       Some v \<Rightarrow> ret v
     | None \<Rightarrow>
         bnd (draw rt_gen) (\<lambda>i.
         bnd (get_rt (\<lambda>e. issuer (rt_base e) slug EnvKindLive)) (\<lambda>iss.
         q_CreateEnvironment i providerID EnvKindLive iss)))"

text \<open>The shared cell of the region, if there is one.\<close>

definition shared_cell :: "uuid \<Rightarrow> uuid option tx" where
  "shared_cell region =
     bnd (try_tx (q_GetSharedCellByRegion region)) (\<lambda>c.
     case c of
       Inr cell \<Rightarrow> ret (Some (ce_id cell))
     | Inl err \<Rightarrow> if err \<noteq> ErrNoRows then throw err else ret None)"

text \<open>The test environment, first key and commerce account of a provider that enters
  TEST_ACTIVE; both paths run the same calls.\<close>

definition provision_test :: "Provider \<Rightarrow> string \<Rightarrow> (Environment \<times> string) tx" where
  "provision_test provider slug =
     bnd (draw rt_gen) (\<lambda>i.
     bnd (get_rt (\<lambda>e. issuer (rt_base e) slug EnvKindTest)) (\<lambda>iss.
     bnd (q_CreateEnvironment i (pv_id provider) EnvKindTest iss) (\<lambda>env.
     bnd (createCredentialTx (pv_id provider) (en_id env) (en_kind env) ''initial-test-key'' AllScopes None) (\<lambda>plaintext.
     bnd (draw rt_gen) (\<lambda>a.
     bnd (q_InsertCommerceAccount a CommerceDomainPlatform (Some (pv_id provider)) None slug) (\<lambda>_.
     ret (env, plaintext)))))))"

section \<open>Creation and activation\<close>

record CreatedProvider =
  cp_Provider :: Provider
  cp_Environments :: "Environment list"
  cp_TestAPIKey :: string

definition CreateProvider :: "string \<Rightarrow> string \<Rightarrow> string \<Rightarrow> rt \<Rightarrow> db \<Rightarrow> CreatedProvider result \<times> db" where
  "CreateProvider slug name homeRegionCode e d =
     (if slug = '''' \<or> name = '''' \<or> homeRegionCode = '''' then fail_early ErrValidation d
      else WithOperator
        (bnd (mapped_err (q_GetRegionByCode homeRegionCode)) (\<lambda>region.
         bnd (shared_cell (rg_id region)) (\<lambda>cellID.
         bnd (draw rt_gen) (\<lambda>i.
         bnd (mapped_err (q_CreateProvider i slug name (Some (rg_id region)) cellID StateTestActive)) (\<lambda>provider.
         bnd (provision_test provider slug) (\<lambda>(env, plaintext).
         bnd (emitOutboxTx (pv_id provider) (en_id env) ''provider'' (pv_id provider) ''provider.created'' (JObj
                [(''provider_id'', JStr (pv_id provider)), (''slug'', JStr slug),
                 (''lifecycle_state'', JStr StateTestActive)])) (\<lambda>_.
         bnd (insertAuditTx (Some (pv_id provider)) (Some (en_id env)) ''operator'' ''operator''
                ''provider.create'' ''provider'' (pv_id provider) None) (\<lambda>_.
         ret \<lparr>cp_Provider = provider, cp_Environments = [env], cp_TestAPIKey = plaintext\<rparr>)))))))) e d)"

definition reason_entry :: "string \<Rightarrow> (string \<times> json) list" where
  "reason_entry reason = (if reason \<noteq> '''' then [(''reason'', JStr reason)] else [])"

definition ActivateProvider ::
  "uuid \<Rightarrow> string \<Rightarrow> string \<Rightarrow> string \<Rightarrow> rt \<Rightarrow> db \<Rightarrow> CreatedProvider result \<times> db" where
  "ActivateProvider providerID homeRegionCode reason actor0 e d =
     (let actor = (if actor0 = '''' then ''operator'' else actor0) in
      if homeRegionCode = '''' then fail_early ErrValidation d
      else WithOperator
        (bnd (mapped_err (q_GetRegionByCode homeRegionCode)) (\<lambda>region.
         bnd (shared_cell (rg_id region)) (\<lambda>cellID.
         bnd (try_tx (q_ActivateProvider providerID (Some (rg_id region)) cellID StateTestActive)) (\<lambda>updated.
         case updated of
           Inl err \<Rightarrow>
             if err = ErrNoRows then
               bnd (mapped_err (q_GetProviderByID providerID)) (\<lambda>_. throw ErrConflict)
             else throw err
         | Inr provider \<Rightarrow>
             bnd (provision_test provider (pv_slug provider)) (\<lambda>(env, plaintext).
             bnd (emitOutboxTx (pv_id provider) (en_id env) ''provider'' (pv_id provider) ''provider.activated'' (JObj
                    ([(''provider_id'', JStr (pv_id provider)), (''slug'', JStr (pv_slug provider)),
                      (''lifecycle_state'', JStr StateTestActive)] @ reason_entry reason))) (\<lambda>_.
             bnd (insertAuditTx (Some (pv_id provider)) (Some (en_id env)) ''operator'' actor
                    ''provider.activate'' ''provider'' (pv_id provider)
                    (if reason \<noteq> '''' then Some (JObj (reason_entry reason)) else None)) (\<lambda>_.
             ret \<lparr>cp_Provider = provider, cp_Environments = [env], cp_TestAPIKey = plaintext\<rparr>))))))) e d)"

section \<open>Reading\<close>

record ProviderDetail =
  pd_Provider :: Provider
  pd_Environments :: "Environment list"

definition GetProvider :: "uuid \<Rightarrow> rt \<Rightarrow> db \<Rightarrow> ProviderDetail result \<times> db" where
  "GetProvider i = WithOperator
     (bnd (mapped_err (q_GetProviderByID i)) (\<lambda>p.
      bnd (q_ListEnvironmentsByProvider i) (\<lambda>envs.
      ret \<lparr>pd_Provider = p, pd_Environments = envs\<rparr>)))"

definition ListProviders :: "rt \<Rightarrow> db \<Rightarrow> Provider list result \<times> db" where
  "ListProviders = WithOperator q_ListProviders"

section \<open>The go-live review\<close>

definition RiskReviewChecks :: "string list" where
  "RiskReviewChecks = [''email_and_company_domain'', ''tos_dpa'', ''custom_domain_ownership'',
     ''payment_tax_connection'', ''webhook_destination'', ''initial_quota'', ''security_contact'']"

record RiskReviewInput =
  ri_RiskScore :: int
  ri_Checks :: "(string \<times> bool) list"
  ri_Decision :: string
  ri_Reason :: string
  ri_ReviewedBy :: string

text \<open>Reading a key a Go map does not have gives false.\<close>

definition checked :: "(string \<times> bool) list \<Rightarrow> string \<Rightarrow> bool" where
  "checked m k = (map_of m k = Some True)"

definition validateRiskReview :: "RiskReviewInput \<Rightarrow> goerr option" where
  "validateRiskReview inp =
     (if ri_ReviewedBy inp = '''' then Some ErrValidation
      else if ri_RiskScore inp < 0 \<or> ri_RiskScore inp > 100 then Some ErrValidation
      else if ri_Decision inp = RiskDecisionApproved then
        (if \<exists>k\<in>set RiskReviewChecks. \<not> checked (ri_Checks inp) k then Some ErrValidation else None)
      else if ri_Decision inp = RiskDecisionRejected then None
      else Some ErrValidation)"

definition checks_json :: "(string \<times> bool) list \<Rightarrow> json" where
  "checks_json m = JObj (map (\<lambda>(k, b). (k, JBool b)) m)"

definition SubmitRiskReview :: "uuid \<Rightarrow> RiskReviewInput \<Rightarrow> rt \<Rightarrow> db \<Rightarrow> RiskReview result \<times> db" where
  "SubmitRiskReview providerID inp e d =
     (case validateRiskReview inp of
        Some err \<Rightarrow> fail_early err d
      | None \<Rightarrow> WithOperator
          (bnd (mapped_err (q_GetProviderByID providerID)) (\<lambda>p.
           bnd (check (pv_state p = StateLiveReview) ErrRiskReviewConflict) (\<lambda>_.
           bnd now_tx (\<lambda>now.
           bnd (draw rt_gen) (\<lambda>i.
           bnd (mapped_err (q_CreateProviderRiskReview now i providerID (ri_RiskScore inp)
                  (ri_Checks inp) (ri_Decision inp) (ri_Reason inp) (ri_ReviewedBy inp))) (\<lambda>row.
           bnd (envOrTest providerID None) (\<lambda>envID.
           bnd (emitOutboxTx providerID envID ''provider'' providerID ''provider.risk_reviewed'' (JObj
                  ([(''provider_id'', JStr providerID), (''decision'', JStr (ri_Decision inp)),
                    (''risk_score'', JInt (ri_RiskScore inp))] @ reason_entry (ri_Reason inp)))) (\<lambda>_.
           bnd (insertAuditTx (Some providerID) None ''operator'' (ri_ReviewedBy inp)
                  ''provider.risk_review'' ''provider'' providerID (Some (JObj
                  ([(''decision'', JStr (ri_Decision inp)), (''risk_score'', JInt (ri_RiskScore inp)),
                    (''checks'', checks_json (ri_Checks inp))] @ reason_entry (ri_Reason inp))))) (\<lambda>_.
           ret row))))))))) e d)"

definition ListRiskReviews :: "uuid \<Rightarrow> rt \<Rightarrow> db \<Rightarrow> RiskReview list result \<times> db" where
  "ListRiskReviews providerID = WithOperator
     (bnd (mapped_err (q_GetProviderByID providerID)) (\<lambda>_. q_ListProviderRiskReviews providerID))"

definition requireApprovedReview :: "uuid \<Rightarrow> unit tx" where
  "requireApprovedReview providerID =
     bnd (try_tx (q_LatestProviderRiskReview providerID)) (\<lambda>r.
     case r of
       Inl err \<Rightarrow> if mapErr err = ErrNotFound then throw ErrLiveReviewRequired else throw err
     | Inr row \<Rightarrow> check (rr_decision row = RiskDecisionApproved) ErrLiveReviewRequired)"

section \<open>Lifecycle transitions\<close>

record LifecycleResult =
  lr_Provider :: Provider
  lr_LiveAPIKey :: string
  lr_LiveEnvironment :: "Environment option"

record LifecycleTransitionInput =
  lt_To :: LifecycleState
  lt_Reason :: string
  lt_Actor :: string

text \<open>What entering LIVE_ACTIVE adds: the environment, created or reused, and a new key.\<close>

definition go_live :: "uuid \<Rightarrow> string \<Rightarrow> (string \<times> Environment) tx" where
  "go_live providerID slug =
     bnd (mapped_err (getOrCreateLiveEnvironment providerID slug)) (\<lambda>env.
     bnd (createCredentialTx providerID (en_id env) (en_kind env) ''initial-live-key'' AllScopes None) (\<lambda>plaintext.
     ret (plaintext, env)))"

definition TransitionLifecycle ::
  "uuid \<Rightarrow> LifecycleTransitionInput \<Rightarrow> rt \<Rightarrow> db \<Rightarrow> LifecycleResult result \<times> db" where
  "TransitionLifecycle providerID inp = WithOperator
     (bnd (mapped_err (q_GetProviderByID providerID)) (\<lambda>p.
      let from = pv_state p in
      bnd (lift_res (Transition from (lt_To inp))) (\<lambda>next_state.
      bnd (if from = StateLiveReview \<and> next_state = StateLiveActive
           then requireApprovedReview providerID else ret ()) (\<lambda>_.
      let actor = (if lt_Actor inp = '''' then ''operator'' else lt_Actor inp) in
      bnd (q_UpdateProviderLifecycle providerID from next_state) (\<lambda>affected.
      if affected = 0 then
        bnd (mapped_err (q_GetProviderByID providerID)) (\<lambda>_. throw ErrLifecycleConflict)
      else
      let p' = p\<lparr>pv_state := next_state\<rparr> in
      bnd (if next_state = StateLiveActive
           then bnd (go_live providerID (pv_slug p')) (\<lambda>(key, env). ret (key, Some env))
           else ret ('''', None)) (\<lambda>(key, live).
      let auditEnv = map_option en_id live;
          entries = [(''from'', JStr from), (''to'', JStr next_state)] @ reason_entry (lt_Reason inp) in
      bnd (envOrTest providerID auditEnv) (\<lambda>envID.
      bnd (emitOutboxTx providerID envID ''provider'' providerID ''provider.lifecycle_changed''
             (JObj ((''provider_id'', JStr providerID) # entries))) (\<lambda>_.
      bnd (insertAuditTx (Some providerID) auditEnv ''operator'' actor ''provider.lifecycle''
             ''provider'' providerID (Some (JObj entries))) (\<lambda>_.
      ret \<lparr>lr_Provider = p', lr_LiveAPIKey = key, lr_LiveEnvironment = live\<rparr>)))))))))"

section \<open>API keys of a tenant\<close>

record CreatedCredential =
  cc_Credential :: Credential
  cc_APIKey :: string

fun scopes_error :: "Ctx \<Rightarrow> string list \<Rightarrow> goerr option" where
  "scopes_error tc [] = None"
| "scopes_error tc (sc # scs) =
     (if \<not> ValidScope sc then Some ErrValidation
      else if \<not> HasScope tc sc then Some ErrValidation
      else scopes_error tc scs)"

definition CreateCredential ::
  "Ctx \<Rightarrow> string \<Rightarrow> string list \<Rightarrow> int option \<Rightarrow> rt \<Rightarrow> db \<Rightarrow> CreatedCredential result \<times> db" where
  "CreateCredential tc name scopes expiresAt e d =
     (if name = '''' then fail_early ErrValidation d
      else if scopes = [] then fail_early ErrValidation d
      else case scopes_error tc scopes of
        Some err \<Rightarrow> fail_early err d
      | None \<Rightarrow> WithTenant tc
          (bnd (draw rt_bytes) (\<lambda>buf.
           bnd (lift_res (Generate (EnvironmentKind tc) buf)) (\<lambda>plaintext.
           bnd (get_rt (\<lambda>e. Hash (rt_sha256 e) plaintext)) (\<lambda>h.
           bnd (draw rt_gen) (\<lambda>i.
           bnd (q_CreateCredential i (ProviderID tc) (EnvironmentID tc) name (Prefix plaintext) h
                  scopes expiresAt) (\<lambda>cred.
           bnd (emitOutboxTx (ProviderID tc) (EnvironmentID tc) ''credential'' (cr_id cred)
                  ''credential.created'' (JObj
                  [(''credential_id'', JStr (cr_id cred)), (''name'', JStr name),
                   (''scopes'', JArr (map JStr scopes))])) (\<lambda>_.
           bnd (insertAuditTx (ProviderNullUUID tc) (EnvironmentNullUUID tc) ''credential''
                  (CredentialID tc) ''credential.create'' ''credential'' (cr_id cred) None) (\<lambda>_.
           ret \<lparr>cc_Credential = cred, cc_APIKey = plaintext\<rparr>)))))))) e d)"

definition RevokeCredential :: "Ctx \<Rightarrow> uuid \<Rightarrow> rt \<Rightarrow> db \<Rightarrow> Credential result \<times> db" where
  "RevokeCredential tc credentialID = WithTenant tc
     (bnd (mapped_err (q_GetCredentialByID credentialID)) (\<lambda>cred.
      bnd (check (cr_revoked cred = None) ErrConflict) (\<lambda>_.
      bnd now_tx (\<lambda>now.
      bnd (q_RevokeCredential now credentialID) (\<lambda>cred.
      bnd (emitOutboxTx (ProviderID tc) (EnvironmentID tc) ''credential'' (cr_id cred)
             ''credential.revoked'' (JObj [(''credential_id'', JStr (cr_id cred))])) (\<lambda>_.
      bnd (insertAuditTx (ProviderNullUUID tc) (EnvironmentNullUUID tc) ''credential''
             (CredentialID tc) ''credential.revoke'' ''credential'' (cr_id cred) None) (\<lambda>_.
      ret cred)))))))"

definition ListCredentials :: "Ctx \<Rightarrow> rt \<Rightarrow> db \<Rightarrow> Credential list result \<times> db" where
  "ListCredentials tc = WithTenant tc
     (q_ListCredentialsByEnvironment (ProviderID tc) (EnvironmentID tc))"

section \<open>API keys under the operator\<close>

definition RevokeProviderCredential ::
  "uuid \<Rightarrow> uuid \<Rightarrow> string \<Rightarrow> rt \<Rightarrow> db \<Rightarrow> (Credential \<times> Environment) result \<times> db" where
  "RevokeProviderCredential providerID credentialID revokedBy e d =
     (if revokedBy = '''' then fail_early ErrValidation d
      else WithOperator
        (bnd (mapped_err (q_GetProviderByID providerID)) (\<lambda>_.
         bnd (mapped_err (q_GetCredentialByProvider credentialID providerID)) (\<lambda>(cred, env).
         bnd (check (cr_revoked cred = None) ErrConflict) (\<lambda>_.
         bnd now_tx (\<lambda>now.
         bnd (mapped_err (q_RevokeCredential now credentialID)) (\<lambda>_.
         bnd (emitOutboxTx providerID (cr_env cred) ''credential'' credentialID
                ''credential.revoked'' (JObj [(''credential_id'', JStr credentialID)])) (\<lambda>_.
         bnd (insertAuditTx (Some providerID) (Some (cr_env cred)) ''operator'' revokedBy
                ''credential.revoke'' ''credential'' credentialID (Some (JObj
                [(''credential_name'', JStr (cr_name cred)), (''key_prefix'', JStr (cr_prefix cred))]))) (\<lambda>_.
         q_GetCredentialByProvider credentialID providerID)))))))) e d)"

section \<open>Rules for the helpers\<close>

lemma wp_shared_cell [wp_intros]: "(\<And>c. Q c s) \<Longrightarrow> wp (shared_cell r) Q s"
  unfolding shared_cell_def
  by (intro wp_intros) (auto split: sum.split if_splits intro!: wp_intros simp: is_pg_def)

lemma wp_envOrTest [wp_intros]: "(\<And>x. Q x s) \<Longrightarrow> wp (envOrTest p en) Q s"
proof -
  assume Q: "\<And>x. Q x s"
  have "wp (try_tx (q_ListEnvironmentsByProvider p)) (\<lambda>r s'. s' = s) s"
    by (intro wp_intros)
       (auto simp: q_many_def live_tx_def in_failed_transaction_def is_pg_def split: if_splits)
  then show ?thesis
    unfolding envOrTest_def
    by (auto split: option.split intro!: wp_intros Q elim!: wp_mono)
qed

lemma first_kind_Some: "first_kind k vs = Some v \<Longrightarrow> v \<in> set vs \<and> en_kind v = k"
  by (induction vs) (auto split: if_splits)

lemma wp_getOrCreateLiveEnvironment [wp_intros]:
  assumes "\<And>v. v \<in> set (db_environments (s_db s)) \<Longrightarrow> en_provider v = p \<Longrightarrow> en_kind v = EnvKindLive \<Longrightarrow> Q v s"
    and "\<And>v n. en_provider v = p \<Longrightarrow> en_kind v = EnvKindLive \<Longrightarrow> tb_check environments (s_db s) v \<Longrightarrow>
      \<forall>w\<in>set (db_environments (s_db s)). \<not> tb_clash environments v w \<Longrightarrow>
      Q v (s\<lparr>s_db := (s_db s)\<lparr>db_seq := n, db_environments := db_environments (s_db s) @ [v]\<rparr>\<rparr>)"
  shows "wp (getOrCreateLiveEnvironment p slug) Q s"
  unfolding getOrCreateLiveEnvironment_def
  apply (intro wp_intros)
  apply (auto split: option.split simp: rows_def environments_tb dest!: first_kind_Some
      intro!: wp_intros assms)
   apply (auto simp: put_rows_def bump_def environments_tb intro!: assms(2))
  done

definition key_kind :: "Credential \<Rightarrow> string" where
  "key_kind c = (if has_prefix (cr_prefix c) PrefixLive then EnvKindLive else EnvKindTest)"

lemma Generate_prefix:
  "Generate kind buf = Inr key \<Longrightarrow>
   kind \<in> {EnvKindTest, EnvKindLive} \<and> (has_prefix (Prefix key) PrefixLive \<longleftrightarrow> kind = EnvKindLive)"
  by (auto simp: Generate_def Prefix_def has_prefix_def split: if_splits)

lemma wp_createCredentialTx [wp_intros]:
  assumes "\<And>c n key. cr_provider c = p \<Longrightarrow> cr_env c = en \<Longrightarrow> key_kind c = kind \<Longrightarrow> cr_scopes c = scopes \<Longrightarrow>
      tb_check credentials (s_db s) c \<Longrightarrow>
      Q key (s\<lparr>s_db := (s_db s)\<lparr>db_seq := n, db_credentials := db_credentials (s_db s) @ [c]\<rparr>\<rparr>)"
  shows "wp (createCredentialTx p en kind name scopes ex) Q s"
  unfolding createCredentialTx_def
  apply (intro wp_intros)
  apply (simp add: put_rows_def bump_def credentials_tb)
  apply (rule assms)
  apply (auto simp: key_kind_def credentials_tb dest: Generate_prefix)
  done

lemma wp_q_last_find: "(\<And>r. find p (rev (rows tb s)) = Some r \<Longrightarrow> Q r s) \<Longrightarrow> wp (q_last tb p) Q s"
  by (auto simp: wp_def q_last_def live_tx_def table_simps split: sum.splits)

definition latest_review :: "uuid \<Rightarrow> db \<Rightarrow> RiskReview option" where
  "latest_review p d = find (\<lambda>x. rr_provider x = p) (rev (db_reviews d))"

lemma wp_requireApprovedReview [wp_intros]:
  assumes "\<And>r. s_role s = Operator \<Longrightarrow> latest_review p (s_db s) = Some r \<Longrightarrow>
             rr_decision r = RiskDecisionApproved \<Longrightarrow> Q () s"
    and "s_role s = Operator"
  shows "wp (requireApprovedReview p) Q s"
  unfolding requireApprovedReview_def
  apply (intro wp_bnd wp_try_tx wp_q_last_find)
  using assms by (auto split: sum.split intro!: wp_intros simp: latest_review_def rows_def risk_reviews_tb)

lemma wp_q_GetCredentialByProvider [wp_intros]:
  "(\<And>c v. c \<in> set (db_credentials (s_db s)) \<Longrightarrow> cr_id c = i \<Longrightarrow> cr_provider c = p \<Longrightarrow> en_id v = cr_env c \<Longrightarrow> Q (c, v) s) \<Longrightarrow>
   wp (q_GetCredentialByProvider i p) Q s"
  unfolding q_GetCredentialByProvider_def
  by (intro wp_intros) (auto simp: credentials_tb)

section \<open>The invariant\<close>

inductive provider_step :: "Provider \<Rightarrow> Provider \<Rightarrow> bool" where
  activate: "pv_state x = StateRegistered \<Longrightarrow>
    provider_step x (x\<lparr>pv_region := r, pv_cell := c, pv_state := StateTestActive\<rparr>)"
| transition: "CanTransition (pv_state x) t \<Longrightarrow> provider_step x (x\<lparr>pv_state := t\<rparr>)"
| relocate: "provider_step x (x\<lparr>pv_cell := c\<rparr>)"

definition provider_fresh :: "Provider \<Rightarrow> bool" where
  "provider_fresh x \<longleftrightarrow> pv_state x = StateRegistered \<or> pv_state x = StateTestActive"

definition provider_ok :: "Provider \<Rightarrow> bool" where
  "provider_ok x \<longleftrightarrow> pv_state x \<in> {StateRegistered, StateTestActive, StateLiveReview} \<union> LiveStates"

lemma provider_step_id: "provider_step x y \<Longrightarrow> pv_id y = pv_id x \<and> pv_slug y = pv_slug x"
  by (erule provider_step.cases) simp_all

lemma provider_step_ok: "provider_ok x \<Longrightarrow> provider_step x y \<Longrightarrow> provider_ok y"
  by (erule provider_step.cases)
     (auto simp: provider_ok_def CanTransition_def allowedTransitions_def LiveStates_def split: if_splits)

interpretation provider: row_machine provider_step provider_fresh provider_ok "\<lambda>x. False" pv_id
  by unfold_locales
     (simp_all add: provider_step_ok provider_step_id, auto simp: provider_fresh_def provider_ok_def)

definition has_env :: "db \<Rightarrow> uuid \<Rightarrow> string \<Rightarrow> bool" where
  "has_env d p k \<longleftrightarrow> (\<exists>v\<in>set (db_environments d). en_provider v = p \<and> en_kind v = k)"

text \<open>An approved review has its whole checklist, a score in range and a reviewer.\<close>

definition review_ok :: "RiskReview \<Rightarrow> bool" where
  "review_ok r \<longleftrightarrow> 0 \<le> rr_score r \<and> rr_score r \<le> 100 \<and> rr_by r \<noteq> '''' \<and>
     (rr_decision r = RiskDecisionApproved \<longrightarrow> (\<forall>k\<in>set RiskReviewChecks. checked (rr_checks r) k))"

definition credential_ok :: "db \<Rightarrow> Credential \<Rightarrow> bool" where
  "credential_ok d c \<longleftrightarrow> (\<exists>v\<in>set (db_environments d). en_id v = cr_env c \<and>
     en_provider v = cr_provider c \<and> en_kind v = key_kind c)"

definition providers_wf :: "db \<Rightarrow> bool" where
  "providers_wf d \<longleftrightarrow>
     distinct (map pv_id (db_providers d)) \<and> distinct (map en_id (db_environments d)) \<and>
     distinct (map (\<lambda>v. (en_provider v, en_kind v)) (db_environments d)) \<and>
     (\<forall>p\<in>set (db_providers d). provider_ok p \<and>
        (pv_state p \<noteq> StateRegistered \<longrightarrow> has_env d (pv_id p) EnvKindTest) \<and>
        (pv_state p = StateLiveActive \<longrightarrow> has_env d (pv_id p) EnvKindLive)) \<and>
     (\<forall>v\<in>set (db_environments d). en_kind v = EnvKindLive \<longrightarrow>
        (\<exists>p\<in>set (db_providers d). pv_id p = en_provider v \<and> pv_state p \<in> LiveStates)) \<and>
     (\<forall>r\<in>set (db_reviews d). review_ok r) \<and>
     (\<forall>c\<in>set (db_credentials d). credential_ok d c)"

lemma has_env_mono:
  "set (db_environments d) \<subseteq> set (db_environments d') \<Longrightarrow> has_env d p k \<Longrightarrow> has_env d' p k"
  by (auto simp: has_env_def)

lemma credential_ok_mono:
  "set (db_environments d) \<subseteq> set (db_environments d') \<Longrightarrow> credential_ok d c \<Longrightarrow> credential_ok d' c"
  by (auto simp: credential_ok_def)

text \<open>No environment clashes with a new one that passed the unique keys.\<close>

lemma env_insert:
  assumes "distinct (map en_id vs)" "distinct (map (\<lambda>v. (en_provider v, en_kind v)) vs)"
    and "\<forall>w\<in>set vs. \<not> tb_clash environments v w"
  shows "distinct (map en_id (vs @ [v]))" "distinct (map (\<lambda>v. (en_provider v, en_kind v)) (vs @ [v]))"
  using assms by (auto simp: environments_tb)

lemma wf_provision:
  assumes wf: "providers_wf d"
    and ids: "distinct (map pv_id (db_providers d'))"
    and new: "\<And>x. x \<in> set (db_providers d') \<Longrightarrow> x \<in> set (db_providers d) \<or> x = p"
    and old: "\<And>x. x \<in> set (db_providers d) \<Longrightarrow> x \<in> set (db_providers d') \<or> pv_state x = StateRegistered"
    and p: "pv_state p = StateTestActive"
    and envs: "db_environments d' = db_environments d @ [v]" "en_provider v = pv_id p" "en_kind v = EnvKindTest"
      "\<forall>w\<in>set (db_environments d). \<not> tb_clash environments v w"
    and creds: "db_credentials d' = db_credentials d @ [c]" "cr_provider c = pv_id p" "cr_env c = en_id v"
      "key_kind c = EnvKindTest"
    and reviews: "db_reviews d' = db_reviews d"
  shows "providers_wf d'"
proof -
  have m: "set (db_environments d) \<subseteq> set (db_environments d')" by (auto simp: envs)
  have "has_env d' (pv_id p) EnvKindTest" by (auto simp: has_env_def envs)
  have P: "provider_ok x \<and>
      (pv_state x \<noteq> StateRegistered \<longrightarrow> has_env d' (pv_id x) EnvKindTest) \<and>
      (pv_state x = StateLiveActive \<longrightarrow> has_env d' (pv_id x) EnvKindLive)"
    if "x \<in> set (db_providers d')" for x
    using new [OF that]
  proof
    assume "x \<in> set (db_providers d)"
    with wf show ?thesis using has_env_mono [OF m] by (auto simp: providers_wf_def)
  next
    assume "x = p"
    with p \<open>has_env d' (pv_id p) EnvKindTest\<close> show ?thesis by (simp add: provider_ok_def)
  qed
  have V: "\<exists>x\<in>set (db_providers d'). pv_id x = en_provider w \<and> pv_state x \<in> LiveStates"
    if "w \<in> set (db_environments d')" "en_kind w = EnvKindLive" for w
  proof -
    have "w \<in> set (db_environments d)" using that envs by auto
    with wf that(2) obtain x where "x \<in> set (db_providers d)" "pv_id x = en_provider w" "pv_state x \<in> LiveStates"
      by (auto simp: providers_wf_def)
    moreover from this old [of x] have "x \<in> set (db_providers d')" by (auto simp: LiveStates_def)
    ultimately show ?thesis by blast
  qed
  have C: "\<forall>c\<in>set (db_credentials d'). credential_ok d' c"
    using wf credential_ok_mono [OF m] creds by (auto simp: providers_wf_def credential_ok_def envs)
  show ?thesis
    using wf ids P V C reviews env_insert [OF _ _ envs(4)] envs(1) by (simp add: providers_wf_def)
qed

lemma wf_transition:
  assumes wf: "providers_wf d" and can: "CanTransition from to"
    and provs: "db_providers d' = update_where (\<lambda>x. pv_id x = i \<and> pv_state x = from) (\<lambda>x. x\<lparr>pv_state := to\<rparr>) (db_providers d)"
    and envs: "db_environments d' = db_environments d \<or>
      to = StateLiveActive \<and> (\<exists>v. db_environments d' = db_environments d @ [v] \<and> en_provider v = i \<and>
        (\<forall>w\<in>set (db_environments d). \<not> tb_clash environments v w))"
    and p: "p \<in> set (db_providers d)" "pv_id p = i" "pv_state p = from"
    and live: "to = StateLiveActive \<Longrightarrow> has_env d' i EnvKindLive"
    and creds: "\<And>c. c \<in> set (db_credentials d') \<Longrightarrow> c \<in> set (db_credentials d) \<or> credential_ok d' c"
    and reviews: "db_reviews d' = db_reviews d"
  shows "providers_wf d'"
proof -
  have m: "set (db_environments d) \<subseteq> set (db_environments d')" using envs by auto
  have st: "from \<noteq> StateRegistered" "provider_ok (q\<lparr>pv_state := to\<rparr>)" for q :: Provider
    using can by (auto simp: CanTransition_def allowedTransitions_def provider_ok_def LiveStates_def split: if_splits)
  have pp: "\<exists>x\<in>set (db_providers d). pv_id q = pv_id x \<and>
      (q = x \<or> pv_id x = i \<and> pv_state x = from \<and> pv_state q = to)" if "q \<in> set (db_providers d')" for q
    using that unfolding provs set_update_where by auto
  have P: "provider_ok q \<and> (pv_state q \<noteq> StateRegistered \<longrightarrow> has_env d' (pv_id q) EnvKindTest) \<and>
      (pv_state q = StateLiveActive \<longrightarrow> has_env d' (pv_id q) EnvKindLive)" if q: "q \<in> set (db_providers d')" for q
  proof -
    obtain x where x: "x \<in> set (db_providers d)" "pv_id q = pv_id x"
      "q = x \<or> pv_id x = i \<and> pv_state x = from \<and> pv_state q = to" using pp [OF q] by blast
    have "provider_ok q" using wf x st(2) [of q] by (auto simp: providers_wf_def provider_ok_def)
    then show ?thesis
      using wf x st(1) live has_env_mono [OF m] by (auto simp: providers_wf_def)
  qed
  have V: "\<exists>x\<in>set (db_providers d'). pv_id x = en_provider w \<and> pv_state x \<in> LiveStates"
    if w: "w \<in> set (db_environments d')" "en_kind w = EnvKindLive" for w
  proof (cases "w \<in> set (db_environments d)")
    case True
    with wf w(2) obtain x where x: "x \<in> set (db_providers d)" "pv_id x = en_provider w" "pv_state x \<in> LiveStates"
      by (auto simp: providers_wf_def)
    let ?x = "if pv_id x = i \<and> pv_state x = from then x\<lparr>pv_state := to\<rparr> else x"
    have "?x \<in> set (db_providers d')" using x(1) unfolding provs set_update_where by auto
    moreover have "pv_state ?x \<in> LiveStates"
      using x(3) can allowed_live_closed by (auto simp: CanTransition_def)
    ultimately show ?thesis using x(2) by (intro bexI [of _ ?x]) auto
  next
    case False
    with w envs have e: "to = StateLiveActive" "en_provider w = i" by auto
    have "p\<lparr>pv_state := to\<rparr> \<in> set (db_providers d')" using p unfolding provs set_update_where by auto
    with p e show ?thesis by (intro bexI [of _ "p\<lparr>pv_state := to\<rparr>"]) (simp_all add: LiveStates_def)
  qed
  have ids: "map pv_id (db_providers d') = map pv_id (db_providers d)"
    unfolding provs by (rule map_update_where) simp
  have C: "\<forall>c\<in>set (db_credentials d'). credential_ok d' c"
    using wf credential_ok_mono [OF m] creds unfolding providers_wf_def by metis
  have E: "distinct (map en_id (db_environments d'))"
    "distinct (map (\<lambda>v. (en_provider v, en_kind v)) (db_environments d'))"
    using envs wf env_insert by (auto simp: providers_wf_def simp del: map_append)
  show ?thesis using wf ids P V C E reviews by (simp add: providers_wf_def)
qed

lemma wf_other:
  assumes "providers_wf d" "db_providers d' = db_providers d" "db_environments d' = db_environments d"
    and "\<And>r. r \<in> set (db_reviews d') \<Longrightarrow> r \<in> set (db_reviews d) \<or> review_ok r"
    and "\<And>c. c \<in> set (db_credentials d') \<Longrightarrow> c \<in> set (db_credentials d) \<or> credential_ok d c"
  shows "providers_wf d'"
proof -
  have "\<forall>c\<in>set (db_credentials d'). credential_ok d c" "\<forall>r\<in>set (db_reviews d'). review_ok r"
    using assms(1,4,5) unfolding providers_wf_def by metis+
  moreover have "credential_ok d' c = credential_ok d c" "has_env d' q k = has_env d q k" for c q k
    by (simp_all add: credential_ok_def has_env_def assms(3))
  ultimately show ?thesis using assms(1-3) by (simp add: providers_wf_def)
qed

section \<open>What the operations keep\<close>

definition provider_moves :: "db \<Rightarrow> db \<Rightarrow> bool" where
  "provider_moves d d' \<longleftrightarrow> providers_wf d' \<and>
     evolves provider_step provider_fresh (db_providers d) (db_providers d')"

definition ctx_ok :: "db \<Rightarrow> Ctx \<Rightarrow> bool" where
  "ctx_ok d tc \<longleftrightarrow> (\<exists>v\<in>set (db_environments d). en_id v = EnvironmentID tc \<and>
     en_provider v = ProviderID tc \<and> en_kind v = EnvironmentKind tc)"

definition provider_op :: "('a \<Rightarrow> uuid) \<Rightarrow> string \<Rightarrow> string \<Rightarrow> db \<Rightarrow> 'a result \<times> db \<Rightarrow> bool" where
  "provider_op pid et ac d = outcome (\<lambda>x d'. provider_moves d d' \<and> records (pid x) et ac d d') d"

lemmas provider_tables = put_rows_def upd_rows_def bump_def providers_tb environments_tb
  credentials_tb commerce_accounts_tb risk_reviews_tb outbox_events_tb audit_events_tb rows_def

lemma wp_provision_test [wp_intros]:
  assumes "\<And>v c a n key. en_provider v = pv_id p \<Longrightarrow> en_kind v = EnvKindTest \<Longrightarrow>
      \<forall>w\<in>set (db_environments (s_db s)). \<not> tb_clash environments v w \<Longrightarrow>
      cr_provider c = pv_id p \<Longrightarrow> cr_env c = en_id v \<Longrightarrow> key_kind c = EnvKindTest \<Longrightarrow>
      Q (v, key) (s\<lparr>s_db := (s_db s)\<lparr>db_environments := db_environments (s_db s) @ [v],
        db_credentials := db_credentials (s_db s) @ [c], db_seq := n,
        db_commerce := db_commerce (s_db s) @ [a]\<rparr>\<rparr>)"
  shows "wp (provision_test p slug) Q s"
  unfolding provision_test_def
  apply (intro wp_intros)
  apply (simp add: provider_tables)
  apply (rule assms)
  apply (simp_all add: provider_tables)
  done

lemma evolves_same: "xs = ys \<Longrightarrow> evolves step fresh xs ys"
  by simp

lemma CreateProvider_op:
  assumes "providers_wf d"
  shows "provider_op (\<lambda>x. pv_id (cp_Provider x)) ''provider.created'' ''provider.create'' d
           (CreateProvider slug name reg e d)"
  unfolding provider_op_def CreateProvider_def
  apply (simp only: split: if_split)
  apply (intro conjI impI wp_intros)
   apply (simp_all add: provider_tables records_def)
  apply (simp add: provider_moves_def)
  apply (intro conjI evolves_insert)
   apply (rule wf_provision [OF assms])
             apply (use assms in \<open>auto simp: provider_fresh_def providers_wf_def environments_tb\<close>)
  done

lemma evolves_activate:
  "evolves provider_step provider_fresh rs
     (update_where (\<lambda>x. pv_id x = i \<and> pv_state x = StateRegistered)
        (\<lambda>x. x\<lparr>pv_region := r, pv_cell := c, pv_state := StateTestActive\<rparr>) rs)"
  by (intro evolves_update) (auto intro: provider_step.activate)

lemma ActivateProvider_op:
  assumes "providers_wf d"
  shows "provider_op (\<lambda>x. pv_id (cp_Provider x)) ''provider.activated'' ''provider.activate'' d
           (ActivateProvider pid reg reason a e d)"
proof -
  let ?set = "\<lambda>r c x. x\<lparr>pv_region := r, pv_cell := c, pv_state := StateTestActive\<rparr>"
  have m: "provider_moves d (d\<lparr>db_providers := update_where (\<lambda>x. pv_id x = pid \<and> pv_state x = StateRegistered)
        (?set r c) (db_providers d), db_environments := db_environments d @ [v],
        db_credentials := db_credentials d @ [k], db_commerce := cm, db_outbox := ob, db_seq := n,
        db_audit := au\<rparr>)" (is "provider_moves d ?d")
    if "filter (\<lambda>x. pv_id x = pid \<and> pv_state x = StateRegistered) (db_providers d) = x # xs"
      "en_provider v = pv_id x" "en_kind v = EnvKindTest"
      "\<forall>w\<in>set (db_environments d). \<not> tb_clash environments v w"
      "cr_provider k = pv_id x" "cr_env k = en_id v" "key_kind k = EnvKindTest"
    for x xs r c v k cm ob n au
  proof -
    have x: "x \<in> set (db_providers d)" "pv_id x = pid" "pv_state x = StateRegistered"
      using that(1) by (auto simp: filter_eq_Cons_iff)
    have same: "y = x" if "y \<in> set (db_providers d)" "pv_id y = pid" for y
      using distinct_keys_unique [of pv_id "db_providers d" y x] assms x that by (simp add: providers_wf_def)
    have "providers_wf ?d"
    proof (rule wf_provision [OF assms, of _ "?set r c x" v k])
      show "distinct (map pv_id (db_providers ?d))"
        using assms by (simp add: map_update_where providers_wf_def)
      show "y \<in> set (db_providers d) \<or> y = ?set r c x" if "y \<in> set (db_providers ?d)" for y
        using that same by (auto simp: set_update_where)
      show "y \<in> set (db_providers ?d) \<or> pv_state y = StateRegistered" if "y \<in> set (db_providers d)" for y
        using that by (auto simp: set_update_where)
    qed (use that x in simp_all)
    then show ?thesis by (simp add: provider_moves_def evolves_activate)
  qed
  show ?thesis
    unfolding provider_op_def ActivateProvider_def Let_def
    apply (simp only: split: if_split)
    apply (intro conjI impI wp_intros)
    apply (simp_all add: provider_tables records_def hit_rows_def)
    apply (rule m, assumption; force simp: environments_tb)+
    done
qed

lemma moves_transition:
  assumes "providers_wf d" "r \<in> set (db_providers d)" "pv_id r = pid" "Transition f t = Inr x" "pv_state r = f"
    and "db_providers d' = update_where (\<lambda>y. pv_id y = pid \<and> pv_state y = f)
      (pv_state_update (\<lambda>_. x)) (db_providers d)"
    and "db_environments d' = db_environments d \<or>
      x = StateLiveActive \<and> (\<exists>v. db_environments d' = db_environments d @ [v] \<and> en_provider v = pid \<and>
        (\<forall>w\<in>set (db_environments d). \<not> tb_clash environments v w))"
    and "x = StateLiveActive \<longrightarrow> has_env d' pid EnvKindLive"
    and "\<forall>c\<in>set (db_credentials d'). c \<in> set (db_credentials d) \<or> credential_ok d' c"
    and "db_reviews d' = db_reviews d"
  shows "provider_moves d d'"
proof -
  have can: "CanTransition f x" using assms(4) by (auto simp: Transition_def split: if_splits)
  have "providers_wf d'"
    by (rule wf_transition [OF assms(1) can assms(6,7,2,3,5) _ _ assms(10)]) (use assms(8,9) in auto)
  moreover have "evolves provider_step provider_fresh (db_providers d) (db_providers d')"
    unfolding assms(6) by (intro evolves_update) (use can in \<open>auto intro: provider_step.transition\<close>)
  ultimately show ?thesis by (simp add: provider_moves_def)
qed

lemma TransitionLifecycle_op:
  assumes "providers_wf d"
  shows "provider_op (\<lambda>x. pv_id (lr_Provider x)) ''provider.lifecycle_changed'' ''provider.lifecycle'' d
           (TransitionLifecycle pid inp e d)"
  unfolding provider_op_def TransitionLifecycle_def Let_def go_live_def
  apply (intro conjI impI wp_intros)
  apply (simp_all add: provider_tables records_def hit_rows_def)
  apply (rule moves_transition [OF assms], assumption, assumption, assumption;
      auto simp: has_env_def credential_ok_def environments_tb)+
  done

lemma moves_other:
  "providers_wf d \<Longrightarrow> db_providers d' = db_providers d \<Longrightarrow> db_environments d' = db_environments d \<Longrightarrow>
   \<forall>r\<in>set (db_reviews d'). r \<in> set (db_reviews d) \<or> review_ok r \<Longrightarrow>
   \<forall>c\<in>set (db_credentials d'). c \<in> set (db_credentials d) \<or> credential_ok d c \<Longrightarrow> provider_moves d d'"
  by (simp add: provider_moves_def wf_other)

lemma validateRiskReview_ok:
  "validateRiskReview inp = None \<Longrightarrow> rr_score r = ri_RiskScore inp \<Longrightarrow> rr_by r = ri_ReviewedBy inp \<Longrightarrow>
   rr_decision r = ri_Decision inp \<Longrightarrow> rr_checks r = ri_Checks inp \<Longrightarrow> review_ok r"
  by (auto simp: validateRiskReview_def review_ok_def
      split: if_splits)

lemma SubmitRiskReview_op:
  assumes "providers_wf d"
  shows "provider_op rr_provider ''provider.risk_reviewed'' ''provider.risk_review'' d
           (SubmitRiskReview pid inp e d)"
  unfolding provider_op_def SubmitRiskReview_def
  apply (simp only: split: option.split if_split)
  apply (intro conjI impI allI wp_intros)
  apply (simp_all add: provider_tables records_def)
  apply (rule moves_other [OF assms]; simp add: validateRiskReview_ok)
  done

lemma CreateCredential_op:
  assumes "providers_wf d" "ctx_ok d tc"
  shows "provider_op (\<lambda>x. ProviderID tc) ''credential.created'' ''credential.create'' d
           (CreateCredential tc name scopes ex e d)"
  unfolding provider_op_def CreateCredential_def
  apply (simp only: split: option.split if_split)
  apply (intro conjI impI allI wp_intros)
  apply (simp_all add: provider_tables records_def)
  apply (rule moves_other [OF assms(1)]; use assms(2) in
      \<open>auto simp: credential_ok_def ctx_ok_def key_kind_def dest: Generate_prefix\<close>)
  done

lemma revoke_ok:
  assumes "providers_wf d"
  shows "\<forall>c\<in>set (update_where p (cr_revoked_update f) (db_credentials d)). c \<in> set (db_credentials d) \<or> credential_ok d c"
  using assms by (auto simp: set_update_where providers_wf_def credential_ok_def key_kind_def)

lemma RevokeCredential_op:
  assumes "providers_wf d"
  shows "provider_op (\<lambda>x. ProviderID tc) ''credential.revoked'' ''credential.revoke'' d
           (RevokeCredential tc i e d)"
  unfolding provider_op_def RevokeCredential_def
  apply (intro conjI impI wp_intros)
  apply (simp_all add: provider_tables records_def)
  apply (rule moves_other [OF assms]; simp add: revoke_ok [OF assms])
  done

lemma RevokeProviderCredential_op:
  assumes "providers_wf d"
  shows "provider_op (\<lambda>x. pid) ''credential.revoked'' ''credential.revoke'' d
           (RevokeProviderCredential pid i rb e d)"
  unfolding provider_op_def RevokeProviderCredential_def
  apply (simp only: split: if_split)
  apply (intro conjI impI wp_intros)
  apply (simp_all add: provider_tables records_def)
  apply (rule moves_other [OF assms]; simp add: revoke_ok [OF assms])
  done

section \<open>Runs\<close>

datatype provider_call =
    PCreate string string string
  | PActivate uuid string string string
  | PReview uuid RiskReviewInput
  | PTransition uuid LifecycleTransitionInput
  | PCreateCredential Ctx string "string list" "int option"
  | PRevokeCredential Ctx uuid
  | PRevokeProviderCredential uuid uuid string

fun provider_call_db :: "provider_call \<Rightarrow> rt \<Rightarrow> db \<Rightarrow> db" where
  "provider_call_db (PCreate slug name reg) e d = snd (CreateProvider slug name reg e d)"
| "provider_call_db (PActivate p reg reason a) e d = snd (ActivateProvider p reg reason a e d)"
| "provider_call_db (PReview p inp) e d = snd (SubmitRiskReview p inp e d)"
| "provider_call_db (PTransition p inp) e d = snd (TransitionLifecycle p inp e d)"
| "provider_call_db (PCreateCredential tc name scopes ex) e d = snd (CreateCredential tc name scopes ex e d)"
| "provider_call_db (PRevokeCredential tc i) e d = snd (RevokeCredential tc i e d)"
| "provider_call_db (PRevokeProviderCredential p i rb) e d = snd (RevokeProviderCredential p i rb e d)"

text \<open>A tenant's requests carry the context that authentication read from the database.\<close>

fun provider_call_ok :: "provider_call \<Rightarrow> db \<Rightarrow> bool" where
  "provider_call_ok (PCreateCredential tc name scopes ex) d = ctx_ok d tc"
| "provider_call_ok _ d = True"

inductive provider_run :: "db \<Rightarrow> db \<Rightarrow> bool" for d where
  start: "provider_run d d"
| call: "provider_run d d' \<Longrightarrow> provider_call_ok c d' \<Longrightarrow> provider_run d (provider_call_db c e d')"

lemma provider_moves_refl: "providers_wf d \<Longrightarrow> provider_moves d d"
  by (simp add: provider_moves_def)

lemma provider_op_moves: "provider_op pid et ac d r \<Longrightarrow> providers_wf d \<Longrightarrow> provider_moves d (snd r)"
  unfolding provider_op_def
  by (rule outcome_snd, erule outcome_mono) (simp_all add: provider_moves_refl)

lemma provider_call_moves:
  "providers_wf d \<Longrightarrow> provider_call_ok c d \<Longrightarrow> provider_moves d (provider_call_db c e d)"
  by (cases c)
     (simp_all add: provider_op_moves [OF CreateProvider_op] provider_op_moves [OF ActivateProvider_op]
       provider_op_moves [OF SubmitRiskReview_op] provider_op_moves [OF TransitionLifecycle_op]
       provider_op_moves [OF CreateCredential_op] provider_op_moves [OF RevokeCredential_op]
       provider_op_moves [OF RevokeProviderCredential_op])

text \<open>
  C4. The invariant of the tenants survives every sequence of provider operations, whatever
  the requests and whether they succeed: provider and environment keys stay unique, a
  provider has at most one environment of a kind, every activated provider has its test
  environment and every live one a live environment, a live environment exists only for a
  provider that has been live, every API key belongs to an environment of its provider of
  the kind its prefix says, and every approved review has its whole checklist. No provider
  is ever removed or renumbered.
\<close>

theorem providers_invariant:
  assumes "provider_run d d'" "providers_wf d"
  shows "providers_wf d' \<and> (\<exists>new. map pv_id (db_providers d') = map pv_id (db_providers d) @ new)"
  using assms
proof (induction rule: provider_run.induct)
  case (call d' c e)
  then have m: "provider_moves d' (provider_call_db c e d')" by (simp add: provider_call_moves)
  then show ?case
    using call provider.evolves_keys by (fastforce simp: provider_moves_def)
qed simp

definition demo_review :: RiskReviewInput where
  "demo_review = \<lparr>ri_RiskScore = 10, ri_Checks = map (\<lambda>k. (k, True)) RiskReviewChecks,
     ri_Decision = RiskDecisionApproved, ri_Reason = '''', ri_ReviewedBy = ''ann''\<rparr>"

definition demo_to :: "LifecycleState \<Rightarrow> LifecycleTransitionInput" where
  "demo_to s = \<lparr>lt_To = s, lt_Reason = '''', lt_Actor = ''''\<rparr>"

definition demo_empty :: db where
  "demo_empty = demo_db\<lparr>db_providers := [], db_environments := []\<rparr>"

definition demo_live :: "provider_call list \<Rightarrow> db" where
  "demo_live cs = fold (\<lambda>c. provider_call_db c (demo_rt 5)) cs demo_empty"

definition demo_created :: uuid where
  "demo_created = rt_gen (demo_rt 5) 1"

definition demo_path :: "provider_call list" where
  "demo_path = [PCreate ''acme'' ''Acme'' ''cn'', PTransition demo_created (demo_to StateLiveReview),
     PReview demo_created demo_review, PTransition demo_created (demo_to StateLiveActive)]"

theorem providers_invariant_witness:
  "providers_wf (demo_live demo_path)"
proof -
  have "provider_run demo_empty (demo_live demo_path)"
    unfolding demo_live_def demo_path_def list.map fold_simps
    by (intro provider_run.intros provider_call_ok.simps [THEN iffD2] TrueI)
  moreover have "providers_wf demo_empty" by (simp add: providers_wf_def demo_empty_def demo_db_def)
  ultimately show ?thesis using providers_invariant by blast
qed

section \<open>The go-live gate\<close>

lemma Transition_to: "Transition f t = Inr x \<Longrightarrow> x = t"
  by (auto simp: Transition_def split: if_splits)

text \<open>
  C15. A provider in LIVE_REVIEW becomes LIVE_ACTIVE only when its latest review is an
  approval, and then that review has every check of the checklist, a score between 0 and 100
  and a named reviewer; without such a review the request fails and changes nothing.
\<close>

theorem go_live_needs_review:
  assumes "providers_wf d" "p \<in> set (db_providers d)" "pv_id p = pid" "pv_state p = StateLiveReview"
    and "lt_To inp = StateLiveActive"
  shows "(case TransitionLifecycle pid inp e d of
      (Inl err, d') \<Rightarrow> d' = d
    | (Inr r, d') \<Rightarrow> pv_state (lr_Provider r) = StateLiveActive \<and> has_env d' pid EnvKindLive \<and>
        (\<exists>rv. latest_review pid d = Some rv \<and> rr_decision rv = RiskDecisionApproved \<and>
              (\<forall>k\<in>set RiskReviewChecks. checked (rr_checks rv) k) \<and>
              0 \<le> rr_score rv \<and> rr_score rv \<le> 100 \<and> rr_by rv \<noteq> ''''))"
proof -
  have p: "x = p" if "x \<in> set (db_providers d)" "pv_id x = pid" for x
    using distinct_keys_unique [of pv_id "db_providers d" x p] assms(1-3) that by (simp add: providers_wf_def)
  have rv: "review_ok rv" if "latest_review pid d = Some rv" for rv
    using that assms(1) by (auto simp: latest_review_def providers_wf_def dest: find_Some_mem)
  have "outcome (\<lambda>r d'. pv_state (lr_Provider r) = StateLiveActive \<and> has_env d' pid EnvKindLive \<and>
      (\<exists>rv. latest_review pid d = Some rv \<and> rr_decision rv = RiskDecisionApproved)) d
      (TransitionLifecycle pid inp e d)"
    unfolding TransitionLifecycle_def Let_def go_live_def
    apply (intro conjI impI wp_intros)
    apply (simp_all add: provider_tables hit_rows_def has_env_def)
    apply (drule (1) p, use assms(4,5) in \<open>force dest: Transition_to\<close>)+
    done
  then show ?thesis
    using rv by (fastforce simp: outcome_def review_ok_def split: prod.splits sum.splits)
qed

definition demo_stage :: "LifecycleState \<Rightarrow> db" where
  "demo_stage st = demo_db\<lparr>db_providers := [demo_provider ''p1'' ''a'' st],
     db_environments := take 1 (db_environments demo_db), db_customers := [], db_subscriptions := []\<rparr>"

lemma demo_stage_wf: "providers_wf (demo_stage StateLiveReview)"
  by (simp add: providers_wf_def demo_stage_def demo_defs provider_ok_def has_env_def)

theorem go_live_needs_review_witness:
  "\<exists>err. TransitionLifecycle ''p1'' (demo_to StateLiveActive) (demo_rt 5) (demo_stage StateLiveReview) =
     (Inl err, demo_stage StateLiveReview)"
  using go_live_needs_review [OF demo_stage_wf, of "demo_provider ''p1'' ''a'' StateLiveReview" "''p1''"
      "demo_to StateLiveActive" "demo_rt 5"]
  by (simp add: latest_review_def demo_stage_def demo_defs demo_to_def split: prod.splits sum.splits)

text \<open>
  The gate looks at the step from LIVE_REVIEW only. A provider that is restricted while it is
  under review can be made live from there, with no review on record: the comment in
  TransitionLifecycle takes for granted that a restricted provider was approved before.
\<close>

definition demo_quick :: rt where
  "demo_quick = (demo_rt 5)\<lparr>rt_bytes := (\<lambda>n. [1, 2, 3]), rt_sha256 := (\<lambda>k. [7])\<rparr>"

lemma reviewless_go_live:
  "let d = snd (TransitionLifecycle ''p1'' (demo_to StateRestricted) demo_quick (demo_stage StateLiveReview)) in
   db_reviews d = [] \<and>
   (case fst (TransitionLifecycle ''p1'' (demo_to StateLiveActive) demo_quick d) of
      Inl err \<Rightarrow> False | Inr r \<Rightarrow> pv_state (lr_Provider r) = StateLiveActive)"
  by code_simp

section \<open>API keys\<close>

text \<open>
  C21. A tenant's API key never hands out more than it has: a key created through the API has
  only valid scopes that the caller's own key has, belongs to the caller's provider and
  environment, and is of the kind of that environment; only its hash and prefix are stored.
\<close>

theorem credential_attenuates:
  assumes "CreateCredential tc name scopes ex e d = (Inr c, d')"
  shows "scopes \<noteq> [] \<and> set scopes \<subseteq> set (Scopes tc) \<and> list_all ValidScope scopes \<and>
    db_credentials d' = db_credentials d @ [cc_Credential c] \<and>
    cr_scopes (cc_Credential c) = scopes \<and> cr_provider (cc_Credential c) = ProviderID tc \<and>
    cr_env (cc_Credential c) = EnvironmentID tc \<and> cr_revoked (cc_Credential c) = None \<and>
    key_kind (cc_Credential c) = EnvironmentKind tc \<and>
    cr_hash (cc_Credential c) = Hash (rt_sha256 e) (cc_APIKey c) \<and>
    cr_prefix (cc_Credential c) = Prefix (cc_APIKey c)"
proof -
  have sc: "scopes_error tc scopes = None \<Longrightarrow> set scopes \<subseteq> set (Scopes tc) \<and> list_all ValidScope scopes"
    by (induction scopes) (auto simp: HasScope_iff split: if_splits)
  have "outcome (\<lambda>c d'. scopes \<noteq> [] \<and> scopes_error tc scopes = None \<and>
    db_credentials d' = db_credentials d @ [cc_Credential c] \<and>
    cr_scopes (cc_Credential c) = scopes \<and> cr_provider (cc_Credential c) = ProviderID tc \<and>
    cr_env (cc_Credential c) = EnvironmentID tc \<and> cr_revoked (cc_Credential c) = None \<and>
    key_kind (cc_Credential c) = EnvironmentKind tc \<and>
    cr_hash (cc_Credential c) = Hash (rt_sha256 e) (cc_APIKey c) \<and>
    cr_prefix (cc_Credential c) = Prefix (cc_APIKey c)) d (CreateCredential tc name scopes ex e d)"
    unfolding CreateCredential_def
    apply (simp only: split: option.split if_split)
    apply (intro conjI impI allI wp_intros)
    apply (simp_all add: provider_tables)
    apply (auto simp: key_kind_def dest: Generate_prefix)
    done
  then show ?thesis using sc by (simp add: assms outcome_def)
qed

definition demo_key :: "CreatedCredential result \<times> db" where
  "demo_key = CreateCredential (demo_ctx ''p1'' ''e1'') ''k'' [ScopeWrite] None demo_quick demo_db"

lemma demo_key_ok: "is_ok (fst demo_key)"
  by code_simp

theorem credential_attenuates_witness:
  "\<exists>c. fst demo_key = Inr c \<and> cr_scopes (cc_Credential c) = [ScopeWrite] \<and>
       cr_env (cc_Credential c) = ''e1'' \<and> cr_hash (cc_Credential c) = ''07''"
proof -
  obtain c d where r: "demo_key = (Inr c, d)"
    using demo_key_ok by (metis is_ok_iff prod.collapse)
  from credential_attenuates [OF r [unfolded demo_key_def]]
  have "cr_scopes (cc_Credential c) = [ScopeWrite]" "cr_env (cc_Credential c) = ''e1''"
    "cr_hash (cc_Credential c) = ''07''"
    by (simp_all add: demo_ctx_def demo_quick_def Hash_def hex_encode_def)
  moreover from r have "fst demo_key = Inr c" by (metis fst_conv)
  ultimately show ?thesis by blast
qed

end
