(* ===== verification/Audit_Log.thy ===== *)
theory Audit_Log
  imports Fixtures "HOL-Library.Product_Lexorder"
begin

text \<open>
  Reading and purging the audit trail (\<open>internal/service/service.go\<close>): the filtered,
  keyset-paginated listing for tenants and operators, the export that walks all pages, and
  the retention purge. The listing query of \<open>storegen/audit.sql.go\<close> comes first.
\<close>

section \<open>The listing query\<close>

text \<open>The bounds on the time are optional; the source passes them as text, empty for none.\<close>

record ListAuditEventsFilteredParams =
  lp_ProviderID :: "uuid option"
  lp_CursorID :: int
  lp_Action :: string
  lp_ActorType :: string
  lp_ActorID :: string
  lp_TargetType :: string
  lp_TargetID :: string
  lp_FromTime :: "int option"
  lp_ToTime :: "int option"
  lp_PageLimit :: int

text \<open>A comparison with NULL selects nothing.\<close>

definition audit_matches :: "ListAuditEventsFilteredParams \<Rightarrow> AuditEvent \<Rightarrow> bool" where
  "audit_matches a x \<longleftrightarrow>
     lp_ProviderID a \<noteq> None \<and> au_provider x = lp_ProviderID a \<and>
     (lp_Action a = '''' \<or> au_action x = lp_Action a) \<and>
     (lp_ActorType a = '''' \<or> au_actor_type x = lp_ActorType a) \<and>
     (lp_ActorID a = '''' \<or> au_actor x = lp_ActorID a) \<and>
     (lp_TargetType a = '''' \<or> au_target_type x = Some (lp_TargetType a)) \<and>
     (lp_TargetID a = '''' \<or> au_target x = Some (lp_TargetID a)) \<and>
     (case lp_FromTime a of None \<Rightarrow> True | Some t \<Rightarrow> t \<le> au_created x) \<and>
     (case lp_ToTime a of None \<Rightarrow> True | Some t \<Rightarrow> au_created x \<le> t)"

definition audit_key :: "AuditEvent \<Rightarrow> int \<times> nat" where
  "audit_key x = (au_created x, au_id x)"

text \<open>The rows before the cursor's row; an unknown cursor selects nothing.\<close>

definition before_cursor :: "AuditEvent list \<Rightarrow> int \<Rightarrow> AuditEvent \<Rightarrow> bool" where
  "before_cursor vs c x \<longleftrightarrow> c = 0 \<or>
     (case find (\<lambda>y. int (au_id y) = c) vs of None \<Rightarrow> False | Some y \<Rightarrow> audit_key x < audit_key y)"

definition newest_first :: "AuditEvent list \<Rightarrow> AuditEvent list" where
  "newest_first xs = rev (sort_key audit_key xs)"

definition q_ListAuditEventsFiltered :: "ListAuditEventsFilteredParams \<Rightarrow> AuditEvent list tx" where
  "q_ListAuditEventsFiltered a = live_tx (\<lambda>s.
     if lp_PageLimit a < 0 then Inl (PgError ''2201W'')
     else let vs = rows audit_events s in
       Inr (take (nat (lp_PageLimit a)) (newest_first
              (filter (\<lambda>x. audit_matches a x \<and> before_cursor vs (lp_CursorID a) x) vs)), s))"

section \<open>Pages\<close>

record AuditQuery =
  aq_Limit :: int
  aq_Cursor :: int
  aq_Action :: string
  aq_ActorType :: string
  aq_ActorID :: string
  aq_TargetType :: string
  aq_TargetID :: string
  aq_From :: "int option"
  aq_To :: "int option"

definition auditParams :: "AuditQuery \<Rightarrow> uuid option \<Rightarrow> ListAuditEventsFilteredParams" where
  "auditParams q providerID = \<lparr>lp_ProviderID = providerID, lp_CursorID = aq_Cursor q,
     lp_Action = aq_Action q, lp_ActorType = aq_ActorType q, lp_ActorID = aq_ActorID q,
     lp_TargetType = aq_TargetType q, lp_TargetID = aq_TargetID q,
     lp_FromTime = aq_From q, lp_ToTime = aq_To q, lp_PageLimit = wrap32 (aq_Limit q + 1)\<rparr>"

definition trimAuditPage :: "AuditEvent list \<Rightarrow> int \<Rightarrow> AuditEvent list \<times> int option" where
  "trimAuditPage rs limit =
     (if limit \<le> 0 \<or> wrap32 (int (length rs)) \<le> limit then (rs, None)
      else (take (nat limit) rs, Some (int (au_id (rs ! nat (limit - 1))))))"

definition ListAuditEvents ::
  "Ctx \<Rightarrow> AuditQuery \<Rightarrow> rt \<Rightarrow> db \<Rightarrow> (AuditEvent list \<times> int option) result \<times> db" where
  "ListAuditEvents tc q = WithTenant tc
     (bnd (q_ListAuditEventsFiltered (auditParams q (ProviderNullUUID tc))) (\<lambda>evs.
      ret (trimAuditPage evs (aq_Limit q))))"

definition ListProviderAuditEvents ::
  "uuid \<Rightarrow> AuditQuery \<Rightarrow> rt \<Rightarrow> db \<Rightarrow> (AuditEvent list \<times> int option) result \<times> db" where
  "ListProviderAuditEvents providerID q = WithOperator
     (bnd (mapped_err (q_one providers (\<lambda>x. pv_id x = providerID))) (\<lambda>_.
      bnd (q_ListAuditEventsFiltered (auditParams q (Some providerID))) (\<lambda>evs.
      ret (trimAuditPage evs (aq_Limit q)))))"

section \<open>Export\<close>

record AuditExportQuery =
  ax_Action :: string
  ax_ActorType :: string
  ax_ActorID :: string
  ax_TargetType :: string
  ax_TargetID :: string
  ax_From :: "int option"
  ax_To :: "int option"

definition auditExportPageSize :: int where
  "auditExportPageSize = 1000"

definition export_params :: "AuditExportQuery \<Rightarrow> uuid option \<Rightarrow> int \<Rightarrow> ListAuditEventsFilteredParams" where
  "export_params q providerID cursor = \<lparr>lp_ProviderID = providerID, lp_CursorID = cursor,
     lp_Action = ax_Action q, lp_ActorType = ax_ActorType q, lp_ActorID = ax_ActorID q,
     lp_TargetType = ax_TargetType q, lp_TargetID = ax_TargetID q,
     lp_FromTime = ax_From q, lp_ToTime = ax_To q, lp_PageLimit = auditExportPageSize + 1\<rparr>"

text \<open>
  The caller's \<open>emit\<close> answers with an error or nil and may look at what it has been given so
  far. The stream is the list of the events emitted and how it ended.
\<close>

type_synonym emit = "AuditEvent list \<Rightarrow> AuditEvent \<Rightarrow> goerr option"

fun emit_page :: "emit \<Rightarrow> AuditEvent list \<Rightarrow> AuditEvent list \<Rightarrow> AuditEvent list \<times> goerr option" where
  "emit_page emit sent [] = (sent, None)"
| "emit_page emit sent (ev # evs) =
     (case emit sent ev of
        Some err \<Rightarrow> (sent, Some err)
      | None \<Rightarrow> emit_page emit (sent @ [ev]) evs)"

text \<open>The loop of streamAuditEvents; \<open>None\<close> would be a loop that never ends.\<close>

partial_function (option) stream_pages ::
  "uuid option \<Rightarrow> AuditExportQuery \<Rightarrow> emit \<Rightarrow> sess \<Rightarrow> int \<Rightarrow> AuditEvent list \<Rightarrow>
   (AuditEvent list \<times> unit result) option" where
  "stream_pages providerID q emit s cursor sent =
     (case q_ListAuditEventsFiltered (export_params q providerID cursor) s of
        Inl err \<Rightarrow> Some (sent, Inl err)
      | Inr (rs, s') \<Rightarrow>
          (case emit_page emit sent (fst (trimAuditPage rs auditExportPageSize)) of
             (sent', Some err) \<Rightarrow> Some (sent', Inl err)
           | (sent', None) \<Rightarrow>
               (case snd (trimAuditPage rs auditExportPageSize) of
                  None \<Rightarrow> Some (sent', Inr ())
                | Some c \<Rightarrow> stream_pages providerID q emit s' c sent')))"

definition streamAuditEvents ::
  "uuid option \<Rightarrow> AuditExportQuery \<Rightarrow> emit \<Rightarrow> sess \<Rightarrow> (AuditEvent list \<times> unit result) option" where
  "streamAuditEvents providerID q emit s = stream_pages providerID q emit s 0 []"

definition start_sess :: "role \<Rightarrow> rt \<Rightarrow> db \<Rightarrow> sess" where
  "start_sess r e d = \<lparr>s_db = d, s_rt = e, s_role = r, s_aborted = False\<rparr>"

text \<open>The export writes nothing, so the end of its transaction cannot undo anything.\<close>

definition ExportAuditEvents ::
  "Ctx \<Rightarrow> AuditExportQuery \<Rightarrow> emit \<Rightarrow> rt \<Rightarrow> db \<Rightarrow> (AuditEvent list \<times> unit result) option" where
  "ExportAuditEvents tc q emit e d =
     streamAuditEvents (ProviderNullUUID tc) q emit
       (start_sess (Tenant (ProviderID tc) (EnvironmentID tc)) e d)"

definition ExportProviderAuditEvents ::
  "uuid \<Rightarrow> AuditExportQuery \<Rightarrow> emit \<Rightarrow> rt \<Rightarrow> db \<Rightarrow> (AuditEvent list \<times> unit result) option" where
  "ExportProviderAuditEvents providerID q emit e d =
     (case mapped_err (q_one providers (\<lambda>x. pv_id x = providerID)) (start_sess Operator e d) of
        Inl err \<Rightarrow> Some ([], Inl err)
      | Inr (_, s) \<Rightarrow> streamAuditEvents (Some providerID) q emit s)"

section \<open>Retention\<close>

text \<open>\<open>purge_audit_events\<close> of migration 0030: the oldest rows before the cutoff, at most
  \<open>max_rows\<close> of them. Rows of the same time are taken in their order in the table.\<close>

definition doomed :: "int \<Rightarrow> nat \<Rightarrow> AuditEvent list \<Rightarrow> nat set" where
  "doomed cutoff n xs = set (map au_id (take n (sort_key au_created (filter (\<lambda>x. au_created x < cutoff) xs))))"

definition q_PurgeExpiredAuditEvents :: "int \<Rightarrow> int \<Rightarrow> int tx" where
  "q_PurgeExpiredAuditEvents cutoff maxRows = live_tx (\<lambda>s.
     if s_role s \<noteq> Operator then Inl (PgError ''P0001'')
     else if maxRows < 0 then Inl (PgError ''2201W'')
     else let xs = db_audit (s_db s); dead = doomed cutoff (nat maxRows) xs;
              keep = filter (\<lambda>x. au_id x \<notin> dead) xs in
       Inr (int (length xs) - int (length keep), s\<lparr>s_db := (s_db s)\<lparr>db_audit := keep\<rparr>\<rparr>))"

partial_function (option) PurgeExpiredAuditEvents_loop ::
  "int \<Rightarrow> int \<Rightarrow> rt \<Rightarrow> int \<Rightarrow> db \<Rightarrow> (int \<times> unit result \<times> db) option" where
  "PurgeExpiredAuditEvents_loop cutoff batchSize e tot d =
     (case WithOperator (q_PurgeExpiredAuditEvents cutoff batchSize) e d of
        (Inl err, d') \<Rightarrow> Some (tot, Inl err, d')
      | (Inr deleted, d') \<Rightarrow>
          if deleted < batchSize then Some (wrap64 (tot + deleted), Inr (), d')
          else PurgeExpiredAuditEvents_loop cutoff batchSize e (wrap64 (tot + deleted)) d')"

definition PurgeExpiredAuditEvents :: "int \<Rightarrow> int \<Rightarrow> rt \<Rightarrow> db \<Rightarrow> (int \<times> unit result \<times> db) option" where
  "PurgeExpiredAuditEvents cutoff batchSize e d = PurgeExpiredAuditEvents_loop cutoff batchSize e 0 d"

definition auditPurgeBatchSize :: int where
  "auditPurgeBatchSize = 50000"

text \<open>The retention sweep of a worker: the cutoff is a 64-bit duration before now.\<close>

definition retention_sweep :: "int \<Rightarrow> rt \<Rightarrow> db \<Rightarrow> (int \<times> unit result \<times> db) option" where
  "retention_sweep retentionDays e d =
     PurgeExpiredAuditEvents (rt_now e + wrap64 (wrap64 (wrap64 (- retentionDays) * 24) * Hour))
       auditPurgeBatchSize e d"

section \<open>Cursors are positions\<close>

lemma filter_sorted_drop:
  assumes "sorted_wrt (\<lambda>x y. k y < k x) xs" "i < length xs"
  shows "filter (\<lambda>x. k x < (k (xs ! i) :: 'b::linorder)) xs = drop (Suc i) xs"
proof -
  have xs: "xs = take i xs @ xs ! i # drop (Suc i) xs" using assms(2) by (rule id_take_nth_drop)
  have "sorted_wrt (\<lambda>x y. k y < k x) (take i xs @ xs ! i # drop (Suc i) xs)"
    using assms(1) xs by metis
  then have "\<forall>x\<in>set (take i xs). k (xs ! i) < k x" "\<forall>x\<in>set (drop (Suc i) xs). k x < k (xs ! i)"
    by (auto simp: sorted_wrt_append)
  then have "filter (\<lambda>x. k x < k (xs ! i)) (take i xs @ xs ! i # drop (Suc i) xs) = drop (Suc i) xs"
    by (auto simp: filter_empty_conv filter_id_conv)
  then show ?thesis using xs by metis
qed

lemma set_newest_first [simp]: "set (newest_first xs) = set xs"
  by (simp add: newest_first_def)

lemma length_newest_first [simp]: "length (newest_first xs) = length xs"
  by (simp add: newest_first_def)

lemma filter_newest_first: "newest_first (filter p xs) = filter p (newest_first xs)"
  by (simp add: newest_first_def filter_sort flip: rev_filter)

lemma newest_first_sorted:
  assumes "distinct (map au_id xs)"
  shows "sorted_wrt (\<lambda>x y. audit_key y < audit_key x) (newest_first xs)"
proof -
  have inj: "inj_on audit_key (set xs)"
    using assms by (auto simp: distinct_map inj_on_def audit_key_def)
  then have "distinct (map audit_key (sort_key audit_key xs))"
    using assms by (simp add: distinct_map)
  then have "sorted_wrt (<) (map audit_key (sort_key audit_key xs))"
    by (simp add: strict_sorted_iff)
  then show ?thesis by (simp add: newest_first_def sorted_wrt_rev sorted_wrt_map)
qed

text \<open>The events a query without a cursor and without a limit selects.\<close>

definition trail :: "ListAuditEventsFilteredParams \<Rightarrow> role \<Rightarrow> db \<Rightarrow> AuditEvent list" where
  "trail a r d = newest_first (filter (\<lambda>x. audit_matches a x \<and> tb_vis audit_events r x) (db_audit d))"

text \<open>The table numbers its rows from 1 and never reuses a number.\<close>

definition audit_numbered :: "db \<Rightarrow> bool" where
  "audit_numbered d \<longleftrightarrow> distinct (map au_id (db_audit d)) \<and> (\<forall>x\<in>set (db_audit d). 0 < au_id x)"

text \<open>What is left after a cursor: everything after its row.\<close>

definition after_cursor :: "AuditEvent list \<Rightarrow> int \<Rightarrow> AuditEvent list \<Rightarrow> bool" where
  "after_cursor es c rest \<longleftrightarrow> (c = 0 \<and> rest = es) \<or>
     (\<exists>i<length es. c = int (au_id (es ! i)) \<and> rest = drop (Suc i) es)"

lemma before_cursor_rest:
  assumes "audit_numbered d" "after_cursor (trail a r d) c rest"
  shows "newest_first (filter (\<lambda>x. audit_matches a x \<and> before_cursor (filter (tb_vis audit_events r) (db_audit d)) c x)
           (filter (tb_vis audit_events r) (db_audit d))) = rest"
proof -
  let ?vs = "filter (tb_vis audit_events r) (db_audit d)"
  let ?S = "trail a r d"
  have S: "?S = newest_first (filter (audit_matches a) ?vs)" by (simp add: trail_def conj_commute)
  have dist: "distinct (map au_id ?vs)" using assms(1) by (simp add: audit_numbered_def distinct_map_filter)
  show ?thesis
  proof (cases "c = 0")
    case True
    have "\<forall>x\<in>set ?S. 0 < au_id x" using assms(1) by (simp add: audit_numbered_def trail_def)
    then have "\<forall>i<length ?S. 0 < au_id (?S ! i)" by (metis nth_mem)
    with True assms(2) have "rest = ?S" by (auto simp: after_cursor_def)
    with True S show ?thesis by (simp add: before_cursor_def)
  next
    case False
    with assms(2) obtain i where i: "i < length ?S" "c = int (au_id (?S ! i))" "rest = drop (Suc i) ?S"
      by (auto simp: after_cursor_def)
    have mem: "?S ! i \<in> set ?vs" using nth_mem [OF i(1)] by (simp add: S)
    then obtain y where y: "find (\<lambda>z. int (au_id z) = c) ?vs = Some y"
      using i(2) by (cases "find (\<lambda>z. int (au_id z) = c) ?vs") (auto simp: find_None_iff)
    then have "y = ?S ! i"
      using find_Some_mem [OF y] mem i(2) distinct_keys_unique [OF dist] by auto
    then have "filter (\<lambda>x. audit_matches a x \<and> before_cursor ?vs c x) ?vs =
        filter (\<lambda>x. audit_key x < audit_key (?S ! i)) (filter (audit_matches a) ?vs)"
      using y False by (auto simp: before_cursor_def intro: filter_cong)
    moreover have "filter (\<lambda>x. audit_key x < audit_key (?S ! i)) ?S = drop (Suc i) ?S"
      unfolding S by (rule filter_sorted_drop [OF _ i(1) [unfolded S]])
        (intro newest_first_sorted distinct_map_filter dist)
    ultimately show ?thesis by (simp add: filter_newest_first S i(3))
  qed
qed

lemma query_page:
  assumes "audit_numbered d" "after_cursor (trail a r d) c rest" "0 \<le> lp_PageLimit a" "lp_CursorID a = c"
  shows "q_ListAuditEventsFiltered a \<lparr>s_db = d, s_rt = e, s_role = r, s_aborted = False\<rparr> =
    Inr (take (nat (lp_PageLimit a)) rest, \<lparr>s_db = d, s_rt = e, s_role = r, s_aborted = False\<rparr>)"
  using before_cursor_rest [OF assms(1,2)] assms(3,4)
  by (simp add: q_ListAuditEventsFiltered_def live_tx_def rows_def audit_events_tb)

text \<open>Trimming the peeked row leaves a page and the cursor of what follows it.\<close>

lemma trim_page:
  assumes "after_cursor es c rest" "0 < n" "n < 2 ^ 31 - 1" "trimAuditPage (take (nat (n + 1)) rest) n = (page, next)"
  shows "page = take (nat n) rest"
    and "next = None \<longrightarrow> page = rest"
    and "next = Some c' \<longrightarrow> nat n < length rest \<and> after_cursor es c' (drop (nat n) rest)"
proof -
  have w: "wrap32 (int (min (length rest) (nat (n + 1)))) = int (min (length rest) (nat (n + 1)))"
    using assms(2,3) by (simp add: wrap32_def)
  have np: "nat (n + 1) = Suc (nat n)" "nat (n - 1) = nat n - 1" "nat n > 0" using assms(2) by simp_all
  have le: "int (min (length rest) (nat (n + 1))) \<le> n \<longleftrightarrow> length rest \<le> nat n" using assms(2) by linarith
  note t = assms(4) [unfolded trimAuditPage_def length_take w le]
  show "page = take (nat n) rest" "next = None \<longrightarrow> page = rest"
    using t assms(2) by (auto simp: np split: if_splits)
  show "next = Some c' \<longrightarrow> nat n < length rest \<and> after_cursor es c' (drop (nat n) rest)"
  proof
    assume "next = Some c'"
    with t assms(2) np have n: "nat n < length rest" "c' = int (au_id (rest ! (nat n - 1)))"
      by (auto split: if_splits)
    have "\<exists>j<length es. au_id (es ! j) = au_id (rest ! (nat n - 1)) \<and> drop (Suc j) es = drop (nat n) rest"
      using assms(1) unfolding after_cursor_def
    proof
      assume "c = 0 \<and> rest = es"
      with n np show ?thesis by (intro exI [of _ "nat n - 1"]) (auto simp: less_imp_diff_less)
    next
      assume "\<exists>i<length es. c = int (au_id (es ! i)) \<and> rest = drop (Suc i) es"
      then obtain i where "i < length es" "rest = drop (Suc i) es" by auto
      with n np show ?thesis by (intro exI [of _ "i + nat n"]) (auto simp: algebra_simps)
    qed
    with n show "nat n < length rest \<and> after_cursor es c' (drop (nat n) rest)"
      unfolding after_cursor_def by metis
  qed
qed

section \<open>The export visits every event once\<close>

lemma emit_page_append:
  "emit_page emit sent (xs @ ys) =
     (case emit_page emit sent xs of
        (sent', Some err) \<Rightarrow> (sent', Some err)
      | (sent', None) \<Rightarrow> emit_page emit sent' ys)"
  by (induction xs arbitrary: sent) (auto split: option.splits)

definition ended :: "AuditEvent list \<times> goerr option \<Rightarrow> AuditEvent list \<times> unit result" where
  "ended x = (fst x, case snd x of None \<Rightarrow> Inr () | Some err \<Rightarrow> Inl err)"

lemma stream_pages_rest:
  assumes "audit_numbered d"
    and "\<And>c. trail (export_params q p c) r d = es"
    and "after_cursor es c rest"
  shows "stream_pages p q emit \<lparr>s_db = d, s_rt = e, s_role = r, s_aborted = False\<rparr> c sent =
    Some (ended (emit_page emit sent rest))"
  using assms(3)
proof (induction "length rest" arbitrary: c rest sent rule: less_induct)
  case less
  let ?n = auditExportPageSize
  let ?s = "\<lparr>s_db = d, s_rt = e, s_role = r, s_aborted = False\<rparr>"
  obtain page nxt where t: "trimAuditPage (take (nat (?n + 1)) rest) ?n = (page, nxt)" by force
  have page: "q_ListAuditEventsFiltered (export_params q p c) ?s = Inr (take (nat (?n + 1)) rest, ?s)"
    using query_page [OF assms(1), of "export_params q p c" r c rest] less.prems assms(2)
    by (simp add: export_params_def auditExportPageSize_def)
  have n: "0 < ?n" "?n < 2 ^ 31 - 1" by (simp_all add: auditExportPageSize_def)
  note trim = trim_page [OF less.prems n t]
  show ?case
  proof (cases nxt)
    case None
    with trim(2) have "page = rest" by simp
    with None show ?thesis
      by (subst stream_pages.simps) (simp add: page t ended_def split: prod.split option.split)
  next
    case (Some c')
    with trim(3) have nx: "nat ?n < length rest" "after_cursor es c' (drop (nat ?n) rest)" by auto
    have ih: "stream_pages p q emit ?s c' sent' = Some (ended (emit_page emit sent' (drop (nat ?n) rest)))" for sent'
      by (rule less.hyps [OF _ nx(2)]) (use nx(1) n in simp)
    have "emit_page emit sent rest = emit_page emit sent (page @ drop (nat ?n) rest)"
      by (simp add: trim(1))
    with Some show ?thesis
      by (subst stream_pages.simps)
         (auto simp: page t ih ended_def emit_page_append split: prod.split option.split)
  qed
qed

lemma trail_export: "trail (export_params q p c) r d = trail (export_params q p 0) r d"
proof -
  have "audit_matches (export_params q p c) = audit_matches (export_params q p 0)"
    by (simp add: audit_matches_def export_params_def fun_eq_iff)
  then show ?thesis by (simp add: trail_def)
qed

text \<open>
  C16. An export always ends, and however many pages it walks it gives the caller what a
  single unpaginated pass over the trail would: every event of the tenant's provider that
  the tenant may see and that matches the filters, newest first and each exactly once, up to
  the first event at which the caller reports an error, which is the error of the export.
\<close>

theorem export_is_one_pass:
  assumes "audit_numbered d"
  shows "ExportAuditEvents tc q emit e d =
    Some (ended (emit_page emit []
      (newest_first (filter (\<lambda>x. audit_matches (export_params q (Some (ProviderID tc)) 0) x \<and>
         (au_env x = None \<or> au_env x = Some (EnvironmentID tc))) (db_audit d)))))"
proof -
  let ?r = "Tenant (ProviderID tc) (EnvironmentID tc)" and ?a = "export_params q (Some (ProviderID tc)) 0"
  have "tb_vis audit_events ?r x \<longleftrightarrow> au_env x = None \<or> au_env x = Some (EnvironmentID tc)"
    if "audit_matches ?a x" for x
    using that by (auto simp: audit_events_tb vis_opt_def audit_matches_def export_params_def)
  then have "trail ?a ?r d = newest_first (filter (\<lambda>x. audit_matches ?a x \<and>
      (au_env x = None \<or> au_env x = Some (EnvironmentID tc))) (db_audit d))"
    unfolding trail_def by (metis (no_types, lifting))
  moreover have "ExportAuditEvents tc q emit e d = Some (ended (emit_page emit [] (trail ?a ?r d)))"
    unfolding ExportAuditEvents_def streamAuditEvents_def start_sess_def ProviderNullUUID_def
    by (rule stream_pages_rest [OF assms trail_export]) (simp add: after_cursor_def)
  ultimately show ?thesis by simp
qed

definition demo_event :: "nat \<Rightarrow> int \<Rightarrow> AuditEvent" where
  "demo_event i t = \<lparr>au_id = i, au_provider = Some ''p1'', au_env = Some ''e1'', au_actor_type = ''operator'',
     au_actor = ''ann'', au_action = ''provider.create'', au_target_type = None, au_target = None,
     au_request = None, au_meta = JObj [], au_created = t\<rparr>"

definition demo_audit :: db where
  "demo_audit = demo_db\<lparr>db_audit := [demo_event 1 5, demo_event 2 9, demo_event 3 7]\<rparr>"

definition demo_query :: AuditQuery where
  "demo_query = \<lparr>aq_Limit = 2, aq_Cursor = 0, aq_Action = '''', aq_ActorType = '''', aq_ActorID = '''',
     aq_TargetType = '''', aq_TargetID = '''', aq_From = None, aq_To = None\<rparr>"

definition demo_export :: AuditExportQuery where
  "demo_export = \<lparr>ax_Action = '''', ax_ActorType = '''', ax_ActorID = '''',
     ax_TargetType = '''', ax_TargetID = '''', ax_From = None, ax_To = None\<rparr>"

theorem export_is_one_pass_witness:
  "ExportAuditEvents (demo_ctx ''p1'' ''e1'') demo_export
     (\<lambda>sent ev. if length sent = 2 then Some ErrNotFound else None) (demo_rt 0) demo_audit =
   Some ([demo_event 2 9, demo_event 3 7], Inl ErrNotFound)"
  by (subst export_is_one_pass)
     (simp_all add: audit_numbered_def demo_audit_def demo_event_def demo_ctx_def newest_first_def
       audit_key_def audit_matches_def export_params_def demo_export_def ended_def)

text \<open>
  C20. Listing with a limit gives the next events of the trail, newest first, and a cursor
  exactly when some remain; the cursor then stands for precisely those that remain. Following
  the cursors from 0 therefore neither skips nor repeats an event.
\<close>

theorem list_pages:
  assumes "audit_numbered d" "0 < aq_Limit q" "aq_Limit q < 2 ^ 31 - 1"
    and "es = trail (auditParams q (Some (ProviderID tc))) (Tenant (ProviderID tc) (EnvironmentID tc)) d"
    and "after_cursor es (aq_Cursor q) rest"
  shows "\<exists>next. ListAuditEvents tc q e d = (Inr (take (nat (aq_Limit q)) rest, next), d) \<and>
    (case next of
       None \<Rightarrow> length rest \<le> nat (aq_Limit q)
     | Some c \<Rightarrow> after_cursor es c (drop (nat (aq_Limit q)) rest) \<and> nat (aq_Limit q) < length rest)"
proof -
  let ?a = "auditParams q (Some (ProviderID tc))" and ?r = "Tenant (ProviderID tc) (EnvironmentID tc)"
  have lim: "lp_PageLimit ?a = aq_Limit q + 1" "lp_CursorID ?a = aq_Cursor q"
    using assms(2,3) by (simp_all add: auditParams_def wrap32_def)
  obtain page nxt where t: "trimAuditPage (take (nat (aq_Limit q + 1)) rest) (aq_Limit q) = (page, nxt)" by force
  note trim = trim_page [OF assms(5,2,3) t]
  have "ListAuditEvents tc q e d = (Inr (page, nxt), d)"
    using query_page [OF assms(1), of ?a ?r "aq_Cursor q" rest e] assms(2,4,5) lim t
    by (simp add: ListAuditEvents_def WithTenant_def run_tx_def bnd_def ret_def ProviderNullUUID_def)
  moreover have "length rest \<le> nat (aq_Limit q)" if "nxt = None"
    using that trim(1,2) by (metis length_take min.cobounded2)
  ultimately show ?thesis using trim by (cases nxt) auto
qed

theorem list_pages_witness:
  "\<exists>next. ListAuditEvents (demo_ctx ''p1'' ''e1'') demo_query (demo_rt 0) demo_audit =
     (Inr ([demo_event 2 9, demo_event 3 7], next), demo_audit) \<and> next \<noteq> None"
proof -
  have t: "trail (auditParams demo_query (Some ''p1'')) (Tenant ''p1'' ''e1'') demo_audit =
      [demo_event 2 9, demo_event 3 7, demo_event 1 5]"
    by (simp add: trail_def demo_audit_def demo_event_def newest_first_def audit_key_def audit_matches_def
        auditParams_def demo_query_def audit_events_tb vis_opt_def)
  have "audit_numbered demo_audit" by (simp add: audit_numbered_def demo_audit_def demo_event_def)
  from list_pages [OF this, of demo_query _ "demo_ctx ''p1'' ''e1''"
      "[demo_event 2 9, demo_event 3 7, demo_event 1 5]"] t
  show ?thesis by (fastforce simp: demo_query_def demo_ctx_def after_cursor_def split: option.splits)
qed

section \<open>The purge\<close>

lemma filter_out_ids:
  assumes "distinct (map au_id xs)" "A \<subseteq> au_id ` set xs"
  shows "length (filter (\<lambda>x. au_id x \<notin> A) xs) + card A = length xs"
proof -
  have "au_id ` set (filter (\<lambda>x. au_id x \<in> A) xs) = A" using assms(2) by auto
  moreover have "distinct (map au_id (filter (\<lambda>x. au_id x \<in> A) xs))"
    using assms(1) by (simp add: distinct_map_filter)
  ultimately have "length (filter (\<lambda>x. au_id x \<in> A) xs) = card A"
    by (metis distinct_card length_map list.set_map)
  then show ?thesis using sum_length_filter_compl [of "\<lambda>x. au_id x \<in> A" xs] by simp
qed

lemma doomed_facts:
  fixes cutoff n xs
  defines "old \<equiv> filter (\<lambda>x. au_created x < cutoff) xs"
  assumes "distinct (map au_id xs)"
  shows "doomed cutoff n xs \<subseteq> au_id ` set old" "card (doomed cutoff n xs) = min n (length old)"
    "length old \<le> n \<Longrightarrow> doomed cutoff n xs = au_id ` set old"
proof -
  have "distinct (map au_id old)" unfolding old_def by (rule distinct_map_filter [OF assms(2)])
  then have "distinct (map au_id (sort_key au_created old))" by (simp add: distinct_map)
  then have "distinct (take n (map au_id (sort_key au_created old)))" by (rule distinct_take)
  then show "card (doomed cutoff n xs) = min n (length old)"
    by (simp add: doomed_def flip: old_def take_map) (simp add: distinct_card)
  show "doomed cutoff n xs \<subseteq> au_id ` set old"
    by (auto simp: doomed_def simp flip: old_def dest!: in_set_takeD)
  show "doomed cutoff n xs = au_id ` set old" if "length old \<le> n"
    using that by (simp add: doomed_def flip: old_def)
qed

text \<open>One batch: it deletes only old events, as many as the batch and the backlog allow.\<close>

lemma purge_batch:
  fixes d cutoff batch
  defines "old \<equiv> \<lambda>xs. filter (\<lambda>x. au_created x < cutoff) xs"
    and "recent \<equiv> \<lambda>xs. filter (\<lambda>x. cutoff \<le> au_created x) xs"
  assumes "distinct (map au_id (db_audit d))" "0 \<le> batch"
  shows "\<exists>keep. WithOperator (q_PurgeExpiredAuditEvents cutoff batch) e d =
      (Inr (int (min (nat batch) (length (old (db_audit d))))), d\<lparr>db_audit := keep\<rparr>) \<and>
    distinct (map au_id keep) \<and> recent keep = recent (db_audit d) \<and>
    length (old keep) + min (nat batch) (length (old (db_audit d))) = length (old (db_audit d))"
proof -
  let ?xs = "db_audit d" and ?D = "doomed cutoff (nat batch) (db_audit d)"
  let ?keep = "filter (\<lambda>x. au_id x \<notin> ?D) ?xs"
  note facts = doomed_facts [OF assms(3), of cutoff "nat batch", folded old_def]
  have uniq: "au_created x < cutoff" if "x \<in> set ?xs" "au_id x \<in> ?D" for x
    using that facts(1) distinct_keys_unique [OF assms(3)] by (auto simp: old_def)
  have "length ?keep + card ?D = length ?xs"
    by (rule filter_out_ids [OF assms(3)]) (use facts(1) in \<open>auto simp: old_def\<close>)
  then have n: "int (length ?xs) - int (length ?keep) = int (min (nat batch) (length (old ?xs)))"
    using facts(2) by linarith
  have rec: "recent ?keep = recent ?xs"
    unfolding recent_def filter_filter by (rule filter_cong) (use uniq in force)+
  have "length (old ys) + length (recent ys) = length ys" for ys
    using sum_length_filter_compl [of "\<lambda>x. au_created x < cutoff" ys] by (simp add: old_def recent_def not_less)
  from this [of ?xs] this [of ?keep, unfolded rec] have "length (old ?keep) + min (nat batch) (length (old ?xs)) = length (old ?xs)"
    using n by linarith
  moreover have run: "WithOperator (q_PurgeExpiredAuditEvents cutoff batch) e d =
      (Inr (int (min (nat batch) (length (old ?xs)))), d\<lparr>db_audit := ?keep\<rparr>)"
    using assms(4) n
    by (simp add: WithOperator_def run_tx_def q_PurgeExpiredAuditEvents_def live_tx_def Let_def)
  ultimately show ?thesis
    using rec distinct_map_filter [OF assms(3)] by blast
qed

lemma purge_loop:
  assumes "distinct (map au_id (db_audit d))" "0 < batch"
    and "0 \<le> tot" "in64 (tot + int (length (filter (\<lambda>x. au_created x < cutoff) (db_audit d))))"
  shows "PurgeExpiredAuditEvents_loop cutoff batch e tot d =
    Some (tot + int (length (filter (\<lambda>x. au_created x < cutoff) (db_audit d))), Inr (),
      d\<lparr>db_audit := filter (\<lambda>x. cutoff \<le> au_created x) (db_audit d)\<rparr>)"
  using assms(1,3,4)
proof (induction "length (filter (\<lambda>x. au_created x < cutoff) (db_audit d))" arbitrary: d tot rule: less_induct)
  case less
  let ?old = "\<lambda>xs. filter (\<lambda>x. au_created x < cutoff) xs"
  let ?recent = "\<lambda>xs. filter (\<lambda>x. cutoff \<le> au_created x) xs"
  obtain keep where run: "WithOperator (q_PurgeExpiredAuditEvents cutoff batch) e d =
      (Inr (int (min (nat batch) (length (?old (db_audit d))))), d\<lparr>db_audit := keep\<rparr>)"
    and keep: "distinct (map au_id keep)" "?recent keep = ?recent (db_audit d)"
      "length (?old keep) + min (nat batch) (length (?old (db_audit d))) = length (?old (db_audit d))"
    using purge_batch [OF less.prems(1), of batch cutoff e] assms(2) by auto
  let ?k = "int (min (nat batch) (length (?old (db_audit d))))"
  have w: "wrap64 (tot + ?k) = tot + ?k"
    using less.prems(2,3) by (intro wrap64_id) (auto simp: in64_def)
  show ?case
  proof (cases "?k < batch")
    case True
    then have k: "?k = int (length (?old (db_audit d)))" using assms(2) by auto
    with keep(3) have "?old keep = []" by auto
    then have "?recent keep = keep" by (auto simp: filter_empty_conv filter_id_conv not_less)
    with True k keep(2) show ?thesis
      by (subst PurgeExpiredAuditEvents_loop.simps) (simp add: run w [unfolded k])
  next
    case False
    then have k: "?k = batch" "length (?old keep) < length (?old (db_audit d))"
      using keep(3) assms(2) by (auto simp: min_def split: if_splits)
    have sum: "tot + batch + int (length (?old keep)) = tot + int (length (?old (db_audit d)))"
      using keep(3) k(1) by linarith
    have "PurgeExpiredAuditEvents_loop cutoff batch e (tot + batch) (d\<lparr>db_audit := keep\<rparr>) =
        Some (tot + batch + int (length (?old keep)), Inr (), d\<lparr>db_audit := ?recent keep\<rparr>)"
      using less.hyps [of "d\<lparr>db_audit := keep\<rparr>" "tot + batch"] k(2) keep(1) less.prems(2,3) assms(2)
      by (simp add: sum)
    with sum keep(2) show ?thesis
      by (subst PurgeExpiredAuditEvents_loop.simps) (simp add: run [unfolded k(1)] w [unfolded k(1)])
  qed
qed

text \<open>
  C19. The retention sweep ends, and for any number of days up to 106751 it deletes exactly
  the events older than that many days, whatever the backlog, and reports how many it
  deleted. (Beyond 106751 days the 64-bit duration overflows, see the next lemma.)
\<close>

theorem retention_deletes_old:
  assumes "audit_numbered d" "0 \<le> days" "days \<le> 106751" "length (db_audit d) < 2 ^ 63"
  shows "retention_sweep days e d =
    Some (int (length (filter (\<lambda>x. au_created x < rt_now e - days * 24 * Hour) (db_audit d))), Inr (),
      d\<lparr>db_audit := filter (\<lambda>x. rt_now e - days * 24 * Hour \<le> au_created x) (db_audit d)\<rparr>)"
proof -
  have "wrap64 (wrap64 (wrap64 (- days) * 24) * Hour) = - (days * 24 * Hour)"
    using assms(2,3) by (simp add: wrap64_id in64_def)
  moreover have "in64 (0 + int (length (filter p (db_audit d))))" for p
    using assms(4) le_less_trans [OF length_filter_le [of p "db_audit d"]] by (simp add: in64_def)
  ultimately show ?thesis
    using assms(1) purge_loop [of d auditPurgeBatchSize 0]
    by (simp add: retention_sweep_def PurgeExpiredAuditEvents_def audit_numbered_def auditPurgeBatchSize_def)
qed

text \<open>A longer retention period, which the configuration accepts, moves the cutoff into the
  future: the sweep then deletes the whole trail.\<close>

lemma retention_overflow:
  assumes "audit_numbered d" "length (db_audit d) < 2 ^ 63" "\<forall>x\<in>set (db_audit d). au_created x \<le> rt_now e"
  shows "retention_sweep 106752 e d = Some (int (length (db_audit d)), Inr (), d\<lparr>db_audit := []\<rparr>)"
proof -
  have w: "wrap64 (wrap64 (wrap64 (- 106752) * 24) * Hour) = 9223371273709551616"
    by (simp add: wrap64_def)
  have "filter (\<lambda>x. au_created x < rt_now e + 9223371273709551616) (db_audit d) = db_audit d"
    "filter (\<lambda>x. rt_now e + 9223371273709551616 \<le> au_created x) (db_audit d) = []"
    using assms(3) by (auto simp: filter_id_conv filter_empty_conv not_le)
  then show ?thesis
    using assms(1,2) purge_loop [of d auditPurgeBatchSize 0 "rt_now e + 9223371273709551616"]
    by (simp add: retention_sweep_def PurgeExpiredAuditEvents_def audit_numbered_def auditPurgeBatchSize_def
        w in64_def)
qed

theorem retention_deletes_old_witness:
  "retention_sweep 1 (demo_rt (24 * Hour + 7)) demo_audit =
     Some (1, Inr (), demo_audit\<lparr>db_audit := [demo_event 2 9, demo_event 3 7]\<rparr>)"
  by (subst retention_deletes_old)
     (simp_all add: audit_numbered_def demo_audit_def demo_event_def demo_rt_def)

end
