(* ===== verification/Audit_Chain.thy ===== *)
theory Audit_Chain
  imports Audit_Log Keys "HOL-Library.Sublist"
begin

text \<open>
  The tamper-evident hash chain over the audit trail: the append trigger, the verification
  and the anchors of \<open>db/migrations/0031_audit_hash_chain.sql\<close>, and the service calls
  of \<open>internal/service/service.go\<close> that run them. The two chain columns of a row are
  kept here; the rest of the row is the \<open>AuditEvent\<close> of the schema. The digest and
  PostgreSQL's text formats of numbers, JSON and times are parameters.
\<close>

section \<open>Rows and their hashes\<close>

record pg_text =
  pg_sha256 :: "string \<Rightarrow> nat list"
  pg_num :: "nat \<Rightarrow> string"
  pg_json :: "json \<Rightarrow> string"
  pg_time :: "int \<Rightarrow> string"

record ChainRow =
  xr_event :: AuditEvent
  xr_prev :: "string option"
  xr_hash :: "string option"

record AuditAnchor =
  an_id :: nat
  an_tail_event :: nat
  an_tail_hash :: string
  an_operator :: string

record chain =
  ch_rows :: "ChainRow list"
  ch_tail_hash :: "string option"
  ch_tail_event :: "nat option"
  ch_pruned :: "nat option"
  ch_anchors :: "AuditAnchor list"

abbreviation xr_id :: "ChainRow \<Rightarrow> nat" where
  "xr_id x \<equiv> au_id (xr_event x)"

definition coalesce :: "'a option \<Rightarrow> 'a \<Rightarrow> 'a" where
  "coalesce x y = (case x of None \<Rightarrow> y | Some v \<Rightarrow> v)"

definition unit_separator :: char where
  "unit_separator = CHR 0x1F"

definition hash_fields :: "pg_text \<Rightarrow> string option \<Rightarrow> AuditEvent \<Rightarrow> string list" where
  "hash_fields pg prev ev =
     [coalesce prev '''', pg_num pg (au_id ev), coalesce (au_provider ev) '''', coalesce (au_env ev) '''',
      au_actor_type ev, au_actor ev, au_action ev, coalesce (au_target_type ev) '''',
      coalesce (au_target ev) '''', pg_json pg (au_meta ev), coalesce (au_request ev) '''',
      pg_time pg (au_created ev)]"

fun joined :: "string list \<Rightarrow> string" where
  "joined [] = ''''"
| "joined [x] = x"
| "joined (x # xs) = x @ unit_separator # joined xs"

definition audit_event_hash :: "pg_text \<Rightarrow> string option \<Rightarrow> AuditEvent \<Rightarrow> string" where
  "audit_event_hash pg prev ev = hex_encode (pg_sha256 pg (joined (hash_fields pg prev ev)))"

section \<open>Appending\<close>

text \<open>The trigger on INSERT; it holds the lock of the tail row until the commit.\<close>

definition audit_events_hash_trigger :: "pg_text \<Rightarrow> AuditEvent \<Rightarrow> chain \<Rightarrow> chain" where
  "audit_events_hash_trigger pg ev ch =
     (let prev = ch_tail_hash ch; h = audit_event_hash pg prev ev in
      ch\<lparr>ch_tail_hash := Some h, ch_tail_event := Some (au_id ev),
         ch_rows := ch_rows ch @ [\<lparr>xr_event = ev, xr_prev = prev, xr_hash = Some h\<rparr>]\<rparr>)"

section \<open>Pruning\<close>

text \<open>The purge of the audit log with the update of the pruned head.\<close>

definition purge_audit_events :: "int \<Rightarrow> nat \<Rightarrow> chain \<Rightarrow> nat \<times> chain" where
  "purge_audit_events cutoff n ch =
     (let dead = doomed cutoff n (map xr_event (ch_rows ch));
          keep = filter (\<lambda>x. xr_id x \<notin> dead) (ch_rows ch);
          deleted = length (ch_rows ch) - length keep in
      (deleted, ch\<lparr>ch_rows := keep,
         ch_pruned := (if 0 < deleted then Some (max (coalesce (ch_pruned ch) 0) (Max (insert 0 dead)))
                       else ch_pruned ch)\<rparr>))"

section \<open>Verification\<close>

record verify_row =
  vr_ok :: bool
  vr_from :: int
  vr_to :: int
  vr_count :: int
  vr_broken :: "int option"
  vr_reason :: string

fun verify_loop :: "pg_text \<Rightarrow> int \<Rightarrow> ChainRow list \<Rightarrow> string \<Rightarrow> int \<Rightarrow> verify_row + int" where
  "verify_loop pg start [] prev count = Inr count"
| "verify_loop pg start (r # rs) prev count =
     (if xr_prev r \<noteq> Some prev then
        Inl \<lparr>vr_ok = False, vr_from = start, vr_to = int (xr_id r), vr_count = count,
             vr_broken = Some (int (xr_id r)), vr_reason = ''link broken: prev_hash mismatch''\<rparr>
      else if xr_hash r \<noteq> Some (audit_event_hash pg (Some prev) (xr_event r)) then
        Inl \<lparr>vr_ok = False, vr_from = start, vr_to = int (xr_id r), vr_count = count,
             vr_broken = Some (int (xr_id r)), vr_reason = ''event hash mismatch (row modified)''\<rparr>
      else verify_loop pg start rs (audit_event_hash pg (Some prev) (xr_event r)) (count + 1))"

definition verify_to :: "chain \<Rightarrow> int \<Rightarrow> int" where
  "verify_to ch to = (if to \<le> 0 then int (coalesce (ch_tail_event ch) 0) else to)"

definition verify_start :: "chain \<Rightarrow> int \<Rightarrow> int" where
  "verify_start ch from =
     (let pruned = int (coalesce (ch_pruned ch) 0) in if from \<le> pruned then pruned + 1 else from)"

definition segment :: "int \<Rightarrow> int \<Rightarrow> chain \<Rightarrow> ChainRow list" where
  "segment start to ch =
     sort_key xr_id (filter (\<lambda>x. start < int (xr_id x) \<and> int (xr_id x) \<le> to) (ch_rows ch))"

definition audit_chain_verify :: "pg_text \<Rightarrow> int \<Rightarrow> int \<Rightarrow> chain \<Rightarrow> verify_row" where
  "audit_chain_verify pg from to0 ch =
     (let to = verify_to ch to0; start = verify_start ch from in
      case (case find (\<lambda>x. int (xr_id x) = start) (ch_rows ch) of None \<Rightarrow> None | Some r \<Rightarrow> xr_hash r) of
        None \<Rightarrow> \<lparr>vr_ok = True, vr_from = start, vr_to = start, vr_count = 0, vr_broken = None,
                 vr_reason = ''ok (no events after start)''\<rparr>
      | Some prev \<Rightarrow>
          (let seg = segment start to ch in
           case verify_loop pg start seg prev 0 of
             Inl res \<Rightarrow> res
           | Inr count \<Rightarrow> \<lparr>vr_ok = True, vr_from = start,
               vr_to = (if seg = [] then start else int (xr_id (last seg))),
               vr_count = count, vr_broken = None, vr_reason = ''ok''\<rparr>))"

text \<open>The service reports a broken row only for a positive id, and none when it is intact.\<close>

definition VerifyAuditChain :: "pg_text \<Rightarrow> int \<Rightarrow> int \<Rightarrow> chain \<Rightarrow> verify_row result" where
  "VerifyAuditChain pg fromID toID ch =
     (if fromID < 0 \<or> toID < 0 then Inl ErrValidation
      else let row = audit_chain_verify pg fromID toID ch in
        Inr (row\<lparr>vr_broken := (if coalesce (vr_broken row) 0 > 0 then vr_broken row else None)\<rparr>))"

section \<open>Anchors\<close>

record AuditChainAnchor =
  ac_AnchorID :: int
  ac_TailEventID :: int
  ac_TailHash :: string
  ac_EventsCovered :: int

definition AnchorAuditChain :: "string \<Rightarrow> chain \<Rightarrow> AuditChainAnchor \<times> chain" where
  "AnchorAuditChain operator ch =
     (case ch_tail_event ch of
        None \<Rightarrow> (\<lparr>ac_AnchorID = 0, ac_TailEventID = 0, ac_TailHash = '''', ac_EventsCovered = 0\<rparr>, ch)
      | Some ev \<Rightarrow>
          (let prev_anchor = (case ch_anchors ch of [] \<Rightarrow> 0 | as \<Rightarrow> int (an_tail_event (last as)));
               a = \<lparr>an_id = Suc (length (ch_anchors ch)), an_tail_event = ev,
                    an_tail_hash = coalesce (ch_tail_hash ch) '''',
                    an_operator = (if operator = '''' then ''manual'' else operator)\<rparr> in
           (\<lparr>ac_AnchorID = int (an_id a), ac_TailEventID = int ev, ac_TailHash = an_tail_hash a,
             ac_EventsCovered = max (int ev - prev_anchor) 0\<rparr>,
            ch\<lparr>ch_anchors := ch_anchors ch @ [a]\<rparr>)))"

record AuditChainState =
  as_TotalEvents :: int
  as_TailHash :: "string option"
  as_TailEventID :: "int option"
  as_LastAnchorID :: int
  as_LastAnchorEventID :: int
  as_LastAnchorHash :: string

definition audit_chain_state :: "chain \<Rightarrow> AuditChainState" where
  "audit_chain_state ch =
     (let out = \<lparr>as_TotalEvents = int (length (ch_rows ch)), as_TailHash = ch_tail_hash ch,
            as_TailEventID = map_option int (ch_tail_event ch), as_LastAnchorID = 0,
            as_LastAnchorEventID = 0, as_LastAnchorHash = ''''\<rparr> in
      case ch_anchors ch of
        [] \<Rightarrow> out
      | as \<Rightarrow> out\<lparr>as_LastAnchorID := int (an_id (last as)),
                 as_LastAnchorEventID := int (an_tail_event (last as)),
                 as_LastAnchorHash := an_tail_hash (last as)\<rparr>)"

section \<open>An untouched chain verifies\<close>

definition hash_ok :: "pg_text \<Rightarrow> ChainRow \<Rightarrow> bool" where
  "hash_ok pg x \<longleftrightarrow> xr_hash x = Some (audit_event_hash pg (xr_prev x) (xr_event x))"

fun linked :: "pg_text \<Rightarrow> ChainRow list \<Rightarrow> bool" where
  "linked pg [] = True"
| "linked pg [x] = hash_ok pg x"
| "linked pg (x # y # zs) = (hash_ok pg x \<and> xr_prev y = xr_hash x \<and> linked pg (y # zs))"

lemma linked_append:
  "linked pg (xs @ ys) \<longleftrightarrow> linked pg xs \<and> linked pg ys \<and>
     (xs \<noteq> [] \<longrightarrow> ys \<noteq> [] \<longrightarrow> xr_prev (hd ys) = xr_hash (last xs))"
proof (induction pg xs rule: linked.induct)
  case (2 pg x)
  then show ?case by (cases ys) auto
qed auto

text \<open>Rows in the order of their ids and of their times, linked from one to the next, behind
  the pruned head and up to the tail.\<close>

definition chain_ok :: "pg_text \<Rightarrow> chain \<Rightarrow> bool" where
  "chain_ok pg ch \<longleftrightarrow>
     sorted_wrt (\<lambda>x y. xr_id x < xr_id y \<and> au_created (xr_event x) \<le> au_created (xr_event y)) (ch_rows ch) \<and>
     linked pg (ch_rows ch) \<and>
     (\<forall>x\<in>set (ch_rows ch). coalesce (ch_pruned ch) 0 < xr_id x) \<and>
     (ch_rows ch \<noteq> [] \<longrightarrow> ch_tail_hash ch = xr_hash (last (ch_rows ch)) \<and>
        ch_tail_event ch = Some (xr_id (last (ch_rows ch))))"

lemma verify_loop_linked:
  "linked pg (x # seg) \<Longrightarrow> xr_hash x = Some prev \<Longrightarrow> verify_loop pg start seg prev c = Inr (c + int (length seg))"
proof (induction seg arbitrary: x prev c)
  case (Cons y seg)
  then have y: "xr_prev y = Some prev" "xr_hash y = Some (audit_event_hash pg (Some prev) (xr_event y))"
    by (cases seg; simp add: hash_ok_def)+
  with Cons.prems have "linked pg (y # seg)" by simp
  with Cons.IH [OF this y(2)] y show ?case by simp
qed simp

lemma sort_sorted_ids: "sorted_wrt (\<lambda>x y. xr_id x < xr_id y) xs \<Longrightarrow> sort_key xr_id xs = xs"
  by (rule sort_key_id_if_sorted) (auto simp: sorted_wrt_map elim: sorted_wrt_mono_rel [rotated])

lemma filter_takeWhile_sorted:
  "sorted_wrt (\<lambda>x y. k x \<le> (k y :: 'b::linorder)) xs \<Longrightarrow> filter (\<lambda>x. k x \<le> c) xs = takeWhile (\<lambda>x. k x \<le> c) xs"
proof (induction xs)
  case (Cons a xs)
  then have "\<forall>x\<in>set xs. k a \<le> k x" by simp
  then have "filter (\<lambda>x. k x \<le> c) xs = []" if "c < k a"
    using that by (auto simp: filter_empty_conv not_le intro: less_le_trans)
  with Cons show ?case by auto
qed simp

lemma segment_split:
  assumes "sorted_wrt (\<lambda>x y. xr_id x < xr_id y) (xs @ x # ys)" "ch_rows ch = xs @ x # ys" "int (xr_id x) = start"
  shows "segment start to ch = takeWhile (\<lambda>y. int (xr_id y) \<le> to) ys"
proof -
  have s: "\<forall>y\<in>set xs. xr_id y < xr_id x" "\<forall>y\<in>set ys. xr_id x < xr_id y" "sorted_wrt (\<lambda>x y. xr_id x < xr_id y) ys"
    using assms(1) by (auto simp: sorted_wrt_append)
  have "filter (\<lambda>x. start < int (xr_id x) \<and> int (xr_id x) \<le> to) (ch_rows ch) = filter (\<lambda>y. int (xr_id y) \<le> to) ys"
  proof -
    have "filter (\<lambda>y. start < int (xr_id y) \<and> int (xr_id y) \<le> to) xs = []"
      using s(1) assms(3) by (fastforce simp: filter_empty_conv)
    moreover have "filter (\<lambda>y. start < int (xr_id y) \<and> int (xr_id y) \<le> to) ys = filter (\<lambda>y. int (xr_id y) \<le> to) ys"
      using s(2) assms(3) by (intro filter_cong) auto
    ultimately show ?thesis by (simp add: assms(2,3))
  qed
  also have "\<dots> = takeWhile (\<lambda>y. int (xr_id y) \<le> to) ys"
    by (rule filter_takeWhile_sorted) (rule sorted_wrt_mono_rel [OF _ s(3)], simp)
  finally have f: "filter (\<lambda>x. start < int (xr_id x) \<and> int (xr_id x) \<le> to) (ch_rows ch) =
      takeWhile (\<lambda>y. int (xr_id y) \<le> to) ys" .
  have "ys = takeWhile (\<lambda>y. int (xr_id y) \<le> to) ys @ dropWhile (\<lambda>y. int (xr_id y) \<le> to) ys" by simp
  with s(3) have "sorted_wrt (\<lambda>x y. xr_id x < xr_id y) (takeWhile (\<lambda>y. int (xr_id y) \<le> to) ys)"
    by (metis sorted_wrt_append)
  then show ?thesis unfolding segment_def f by (rule sort_sorted_ids)
qed

lemma linked_verifies:
  assumes "linked pg (ch_rows ch)"
    and "sorted_wrt (\<lambda>x y. xr_id x < xr_id y \<and> au_created (xr_event x) \<le> au_created (xr_event y)) (ch_rows ch)"
  shows "vr_ok (audit_chain_verify pg from to ch) \<and> vr_broken (audit_chain_verify pg from to ch) = None \<and>
    (verify_start ch from \<in> int ` xr_id ` set (ch_rows ch) \<longrightarrow>
       vr_count (audit_chain_verify pg from to ch) =
         int (length (segment (verify_start ch from) (verify_to ch to) ch)))"
proof (cases "find (\<lambda>x. int (xr_id x) = verify_start ch from) (ch_rows ch)")
  case None
  then have "verify_start ch from \<notin> int ` xr_id ` set (ch_rows ch)" by (auto simp: find_None_iff)
  with None show ?thesis by (simp add: audit_chain_verify_def Let_def)
next
  case (Some x)
  then have x: "x \<in> set (ch_rows ch)" "int (xr_id x) = verify_start ch from" by (auto dest: find_Some_mem)
  then obtain xs ys where rows: "ch_rows ch = xs @ x # ys" by (auto simp: in_set_conv_decomp)
  have "sorted_wrt (\<lambda>x y. xr_id x < xr_id y) (xs @ x # ys)"
    by (rule sorted_wrt_mono_rel [OF _ assms(2) [unfolded rows]]) simp
  note seg = segment_split [OF this rows x(2), of "verify_to ch to"]
  let ?t = "takeWhile (\<lambda>y. int (xr_id y) \<le> verify_to ch to) ys"
  have "linked pg ((xs @ x # ?t) @ dropWhile (\<lambda>y. int (xr_id y) \<le> verify_to ch to) ys)"
    using assms(1) by (simp add: rows)
  then have l: "linked pg (x # ?t)" unfolding linked_append by blast
  then obtain prev where prev: "xr_hash x = Some prev" by (cases ?t) (auto simp: hash_ok_def)
  show ?thesis
    using verify_loop_linked [OF l prev] Some prev
    by (simp add: audit_chain_verify_def Let_def seg)
qed

section \<open>Runs of the chain\<close>

inductive chain_run :: "pg_text \<Rightarrow> chain \<Rightarrow> bool" for pg where
  empty: "chain_run pg \<lparr>ch_rows = [], ch_tail_hash = None, ch_tail_event = None, ch_pruned = None, ch_anchors = []\<rparr>"
| append: "chain_run pg ch \<Longrightarrow>
    (\<And>x. x \<in> set (ch_rows ch) \<Longrightarrow> xr_id x < au_id ev \<and> au_created (xr_event x) \<le> au_created ev) \<Longrightarrow>
    coalesce (ch_tail_event ch) 0 < au_id ev \<Longrightarrow> chain_run pg (audit_events_hash_trigger pg ev ch)"
| purge: "chain_run pg ch \<Longrightarrow> chain_run pg (snd (purge_audit_events cutoff n ch))"
| anchor: "chain_run pg ch \<Longrightarrow> chain_run pg (snd (AnchorAuditChain operator ch))"

lemma take_before_drop:
  assumes "sorted_wrt (\<lambda>x y. xr_id x < xr_id y \<and> au_created (xr_event x) \<le> au_created (xr_event y)) rs"
    and "x \<in> set (take k rs)" "y \<in> set (drop k rs)"
  shows "xr_id x < xr_id y"
proof -
  have "sorted_wrt (\<lambda>x y. xr_id x < xr_id y) (take k rs @ drop k rs)"
    unfolding append_take_drop_id by (rule sorted_wrt_mono_rel [OF _ assms(1)]) simp
  with assms(2,3) show ?thesis by (auto simp: sorted_wrt_append simp del: append_take_drop_id)
qed

lemma doomed_prefix:
  assumes "sorted_wrt (\<lambda>x y. xr_id x < xr_id y \<and> au_created (xr_event x) \<le> au_created (xr_event y)) rs"
  shows "\<exists>k. filter (\<lambda>x. xr_id x \<notin> doomed cutoff n (map xr_event rs)) rs = drop k rs \<and>
    doomed cutoff n (map xr_event rs) = xr_id ` set (take k rs)"
proof -
  let ?es = "map xr_event rs" and ?P = "\<lambda>x. au_created x < cutoff"
  have s: "sorted_wrt (\<lambda>x y. au_created x \<le> au_created y) ?es"
    unfolding sorted_wrt_map by (rule sorted_wrt_mono_rel [OF _ assms]) simp
  have "filter ?P ?es = filter (\<lambda>x. au_created x \<le> cutoff - 1) ?es" by (rule filter_cong) auto
  also have "\<dots> = takeWhile (\<lambda>x. au_created x \<le> cutoff - 1) ?es" by (rule filter_takeWhile_sorted [OF s])
  finally obtain m where m: "filter ?P ?es = take m ?es" by (metis takeWhile_eq_take)
  have "sort_key au_created (take m ?es) = take m ?es"
    using s by (intro sort_key_id_if_sorted) (simp add: sorted_wrt_map sorted_wrt_take flip: take_map)
  then have D: "doomed cutoff n ?es = xr_id ` set (take (min n m) rs)"
    unfolding doomed_def m by (simp add: take_map image_image)
  note lt = take_before_drop [OF assms, of _ "min n m"]
  have "filter (\<lambda>x. xr_id x \<notin> doomed cutoff n ?es) (take (min n m) rs @ drop (min n m) rs) = drop (min n m) rs"
    by (auto simp: D filter_empty_conv filter_id_conv simp del: append_take_drop_id dest: lt)
  with D show ?thesis by (metis append_take_drop_id)
qed

lemma linked_drop: "linked pg rs \<Longrightarrow> linked pg (drop k rs)"
  using linked_append [of pg "take k rs" "drop k rs"] by simp

lemma chain_run_ok: "chain_run pg ch \<Longrightarrow> chain_ok pg ch \<and>
  coalesce (ch_pruned ch) 0 \<le> coalesce (ch_tail_event ch) 0 \<and>
  (\<forall>x\<in>set (ch_rows ch). xr_id x \<le> coalesce (ch_tail_event ch) 0)"
proof (induction rule: chain_run.induct)
  case empty
  then show ?case by (simp add: chain_ok_def coalesce_def)
next
  case (append ch ev)
  let ?r = "\<lparr>xr_event = ev, xr_prev = ch_tail_hash ch, xr_hash = Some (audit_event_hash pg (ch_tail_hash ch) ev)\<rparr>"
  have "linked pg (ch_rows ch @ [?r])"
    using append.IH by (auto simp: linked_append hash_ok_def chain_ok_def)
  moreover have "coalesce (ch_pruned ch) 0 < au_id ev" using append.IH append.hyps(3) by linarith
  moreover have "sorted_wrt (\<lambda>x y. xr_id x < xr_id y \<and> au_created (xr_event x) \<le> au_created (xr_event y))
      (ch_rows ch @ [?r])"
    using append.IH append.hyps(2) by (simp add: chain_ok_def sorted_wrt_append)
  moreover have "\<forall>x\<in>set (ch_rows ch). coalesce (ch_pruned ch) 0 < xr_id x \<and> xr_id x \<le> au_id ev"
    using append.IH append.hyps(2) less_imp_le unfolding chain_ok_def by blast
  ultimately show ?case
    unfolding chain_ok_def audit_events_hash_trigger_def Let_def by (simp add: coalesce_def less_imp_le)
next
  case (purge ch cutoff n)
  let ?D = "doomed cutoff n (map xr_event (ch_rows ch))"
  obtain k where k: "filter (\<lambda>x. xr_id x \<notin> ?D) (ch_rows ch) = drop k (ch_rows ch)"
    "?D = xr_id ` set (take k (ch_rows ch))"
    using doomed_prefix [of "ch_rows ch" cutoff n] purge.IH unfolding chain_ok_def by blast
  have lt: "xr_id x < xr_id y" if "x \<in> set (take k (ch_rows ch))" "y \<in> set (drop k (ch_rows ch))" for x y
    using take_before_drop [OF _ that] purge.IH unfolding chain_ok_def by blast
  let ?m = "Max (insert 0 ?D)"
  have fin: "finite (insert 0 ?D)" by (simp add: k(2))
  have "?m < xr_id x" if "x \<in> set (drop k (ch_rows ch))" for x
    using fin that lt purge.IH in_set_dropD [OF that] by (fastforce simp: k(2) chain_ok_def)
  moreover have "?m \<le> coalesce (ch_tail_event ch) 0"
    using fin purge.IH by (auto simp: k(2) dest: in_set_takeD)
  moreover have "sorted_wrt (\<lambda>x y. xr_id x < xr_id y \<and> au_created (xr_event x) \<le> au_created (xr_event y)) (drop k (ch_rows ch))"
    using purge.IH unfolding chain_ok_def by (blast intro: sorted_wrt_drop)
  moreover have "linked pg (drop k (ch_rows ch))"
    using purge.IH linked_drop unfolding chain_ok_def by blast
  ultimately show ?case
    using purge.IH
    by (auto simp: purge_audit_events_def Let_def k(1) chain_ok_def coalesce_def last_drop dest: in_set_dropD)
next
  case (anchor ch operator)
  then show ?case
    by (auto simp: AnchorAuditChain_def chain_ok_def Let_def split: option.splits)
qed

text \<open>
  C18. Nothing the system does itself breaks the chain: after any sequence of appends in the
  order of their ids and times, retention purges and anchors, verification accepts every
  range; when it finds the row it starts from, it has checked every later row of the range.
\<close>

theorem chain_verifies:
  assumes "chain_run pg ch"
  shows "vr_ok (audit_chain_verify pg from to ch) \<and> vr_broken (audit_chain_verify pg from to ch) = None \<and>
    (verify_start ch from \<in> int ` xr_id ` set (ch_rows ch) \<longrightarrow>
       vr_count (audit_chain_verify pg from to ch) =
         int (length (segment (verify_start ch from) (verify_to ch to) ch)))"
  using chain_run_ok [OF assms] unfolding chain_ok_def by (intro linked_verifies) simp_all

definition demo_pg :: pg_text where
  "demo_pg = \<lparr>pg_sha256 = map of_char, pg_num = (\<lambda>n. replicate n CHR ''i''),
     pg_json = (\<lambda>j. ''meta''), pg_time = (\<lambda>t. replicate (nat t) CHR ''t'')\<rparr>"

definition demo_chain :: chain where
  "demo_chain = fold (audit_events_hash_trigger demo_pg) [demo_event 1 5, demo_event 2 7, demo_event 3 9]
     \<lparr>ch_rows = [], ch_tail_hash = None, ch_tail_event = None, ch_pruned = None, ch_anchors = []\<rparr>"

lemma demo_chain_run: "chain_run demo_pg demo_chain"
  unfolding demo_chain_def fold_simps
  by (intro chain_run.intros) (auto simp: audit_events_hash_trigger_def Let_def coalesce_def demo_event_def)

theorem chain_verifies_witness:
  "vr_ok (audit_chain_verify demo_pg 0 0 (snd (purge_audit_events 6 10 demo_chain)))"
  using chain_verifies [OF chain_run.purge [OF demo_chain_run], of 0 0 6 10] by simp

section \<open>What verification shows\<close>

lemma joined_inj:
  "length xs = length ys \<Longrightarrow> \<forall>x\<in>set xs \<union> set ys. unit_separator \<notin> set x \<Longrightarrow> joined xs = joined ys \<longleftrightarrow> xs = ys"
proof (induction xs ys rule: list_induct2)
  case (Cons x xs y ys)
  then show ?case by (cases xs; cases ys) (auto simp: split_first)
qed simp

text \<open>A row none of whose hashed columns has the separator in it.\<close>

definition separable :: "pg_text \<Rightarrow> AuditEvent \<Rightarrow> bool" where
  "separable pg ev \<longleftrightarrow> (\<forall>x\<in>set (hash_fields pg None ev). unit_separator \<notin> set x)"

text \<open>The digest is a sequence of bytes.\<close>

definition digest_bytes :: "pg_text \<Rightarrow> bool" where
  "digest_bytes pg \<longleftrightarrow> (\<forall>s. list_all (\<lambda>b. b < 256) (pg_sha256 pg s))"

lemma hex_digit_inj: "a < 16 \<Longrightarrow> b < 16 \<Longrightarrow> hex_digit a = hex_digit b \<longleftrightarrow> a = b"
  by (auto simp: nth_eq_iff_index_eq)

lemma hex_encode_inj:
  "\<forall>x\<in>set xs. x < 256 \<Longrightarrow> \<forall>y\<in>set ys. y < 256 \<Longrightarrow> hex_encode xs = hex_encode ys \<longleftrightarrow> xs = ys"
proof (induction xs arbitrary: ys)
  case Nil
  then show ?case by (cases ys) (simp_all add: hex_encode_def)
next
  case (Cons x xs)
  show ?case
  proof (cases ys)
    case (Cons y zs)
    have "hex_digit (x div 16) = hex_digit (y div 16) \<and> hex_digit x = hex_digit y \<longleftrightarrow> x = y"
    proof -
      have "hex_digit x = hex_digit y \<longleftrightarrow> x mod 16 = y mod 16"
        using hex_digit_inj [of "x mod 16" "y mod 16"] by simp
      moreover have "hex_digit (x div 16) = hex_digit (y div 16) \<longleftrightarrow> x div 16 = y div 16"
        using Cons.prems \<open>ys = y # zs\<close> by (intro hex_digit_inj) auto
      ultimately show ?thesis by (metis div_mult_mod_eq)
    qed
    with Cons.IH [of zs] Cons.prems \<open>ys = y # zs\<close> show ?thesis by (auto simp: hex_encode_def)
  qed (simp add: hex_encode_def)
qed

lemma hex_no_separator: "unit_separator \<notin> set (hex_encode bs)"
proof -
  have "unit_separator \<noteq> hex_digit n" for n
  proof -
    have "hex_digit n \<in> set ''0123456789abcdef''" by (simp del: set_simps)
    then show ?thesis by (auto simp: unit_separator_def)
  qed
  then show ?thesis by (induction bs) (auto simp: hex_encode_def)
qed

lemma hash_no_separator: "unit_separator \<notin> set (audit_event_hash pg prev ev)"
  by (simp add: audit_event_hash_def hex_no_separator)

text \<open>The rows that pass the loop, and the hash it ends with.\<close>

fun passes :: "pg_text \<Rightarrow> string \<Rightarrow> ChainRow list \<Rightarrow> bool" where
  "passes pg prev [] = True"
| "passes pg prev (r # rs) =
     (xr_prev r = Some prev \<and> xr_hash r = Some (audit_event_hash pg (Some prev) (xr_event r)) \<and>
      passes pg (audit_event_hash pg (Some prev) (xr_event r)) rs)"

lemma verify_loop_passes:
  "passes pg prev seg \<longleftrightarrow> (\<exists>n. verify_loop pg start seg prev c = Inr n)"
  by (induction seg arbitrary: prev c) auto

definition columns :: "pg_text \<Rightarrow> ChainRow \<Rightarrow> string list \<times> string option \<times> string option" where
  "columns pg r = (hash_fields pg None (xr_event r), xr_prev r, xr_hash r)"

text \<open>The texts whose digests make up a range, and two of them with the same digest.\<close>

definition hashed_text :: "pg_text \<Rightarrow> string \<Rightarrow> AuditEvent \<Rightarrow> string" where
  "hashed_text pg prev ev = joined (hash_fields pg (Some prev) ev)"

fun hashed :: "pg_text \<Rightarrow> string \<Rightarrow> ChainRow list \<Rightarrow> string list" where
  "hashed pg prev [] = []"
| "hashed pg prev (r # rs) =
     hashed_text pg prev (xr_event r) # hashed pg (audit_event_hash pg (Some prev) (xr_event r)) rs"

definition collide :: "pg_text \<Rightarrow> string list \<Rightarrow> string list \<Rightarrow> bool" where
  "collide pg xs ys \<longleftrightarrow> (\<exists>x\<in>set xs. \<exists>y\<in>set ys. x \<noteq> y \<and> pg_sha256 pg x = pg_sha256 pg y)"

lemma hash_fields_prev: "hash_fields pg (Some p) ev = p # tl (hash_fields pg None ev)"
  by (simp add: hash_fields_def coalesce_def)

lemma hashed_text_split: "hashed_text pg p ev = p @ unit_separator # joined (tl (hash_fields pg None ev))"
  by (simp add: hashed_text_def hash_fields_def coalesce_def)

lemma same_digest:
  assumes "digest_bytes pg" "audit_event_hash pg (Some p) ev = audit_event_hash pg (Some p') ev'"
  shows "pg_sha256 pg (hashed_text pg p ev) = pg_sha256 pg (hashed_text pg p' ev')"
  using assms hex_encode_inj by (simp add: digest_bytes_def list_all_iff audit_event_hash_def hashed_text_def)

lemma separable_columns:
  assumes "separable pg ev" "separable pg ev'"
    and "joined (tl (hash_fields pg None ev)) = joined (tl (hash_fields pg None ev'))"
  shows "hash_fields pg None ev = hash_fields pg None ev'"
proof -
  have "tl (hash_fields pg None ev) = tl (hash_fields pg None ev')"
    using assms joined_inj [of "tl (hash_fields pg None ev)" "tl (hash_fields pg None ev')"]
    by (simp add: separable_def hash_fields_def)
  then show ?thesis by (simp add: hash_fields_def coalesce_def)
qed

text \<open>Two ranges of one length that pass and end alike are alike, or show a collision.\<close>

lemma passes_same:
  assumes "digest_bytes pg" "length seg = length seg'" "passes pg prev seg" "passes pg prev' seg'"
    and "unit_separator \<notin> set prev" "unit_separator \<notin> set prev'"
    and "seg = [] \<longrightarrow> prev = prev'" "seg \<noteq> [] \<longrightarrow> xr_hash (last seg) = xr_hash (last seg')"
    and "\<not> collide pg (hashed pg prev seg) (hashed pg prev' seg')"
  shows "prev = prev' \<and> hashed pg prev seg = hashed pg prev' seg' \<and>
    (list_all (\<lambda>r. separable pg (xr_event r)) (seg @ seg') \<longrightarrow> map (columns pg) seg = map (columns pg) seg')"
  using assms(2-)
proof (induction seg seg' arbitrary: prev prev' rule: list_induct2)
  case (Cons r rs r' rs')
  let ?h = "audit_event_hash pg (Some prev) (xr_event r)"
  let ?h' = "audit_event_hash pg (Some prev') (xr_event r')"
  have sep: "unit_separator \<notin> set ?h" "unit_separator \<notin> set ?h'"
    by (rule hash_no_separator)+
  have "\<not> collide pg (hashed pg ?h rs) (hashed pg ?h' rs')"
    using Cons.prems(7) by (auto simp: collide_def)
  then have ih: "?h = ?h' \<and> hashed pg ?h rs = hashed pg ?h' rs' \<and>
      (list_all (\<lambda>r. separable pg (xr_event r)) (rs @ rs') \<longrightarrow> map (columns pg) rs = map (columns pg) rs')"
    using Cons.prems Cons.hyps sep by (intro Cons.IH) (auto split: if_splits)
  have "hashed_text pg prev (xr_event r) = hashed_text pg prev' (xr_event r')"
    using same_digest [OF assms(1), of prev "xr_event r" prev' "xr_event r'"] ih Cons.prems(7)
    by (auto simp: collide_def)
  then have t: "prev = prev'"
    "joined (tl (hash_fields pg None (xr_event r))) = joined (tl (hash_fields pg None (xr_event r')))"
    using Cons.prems(3,4) by (simp_all add: hashed_text_split split_first)
  have "columns pg r = columns pg r'" if "separable pg (xr_event r)" "separable pg (xr_event r')"
    using separable_columns [OF that t(2)] Cons.prems(1,2) ih t(1) by (simp add: columns_def)
  with ih t show ?case by (auto simp: hashed_text_split)
qed simp

lemma passes_append: "passes pg prev (us @ vs) \<Longrightarrow> unit_separator \<notin> set prev \<Longrightarrow>
  \<exists>p. passes pg p vs \<and> unit_separator \<notin> set p \<and> hashed pg prev (us @ vs) = hashed pg prev us @ hashed pg p vs"
  by (induction us arbitrary: prev) (auto simp: hash_no_separator)

text \<open>Without the lengths: the shorter range is the end of the longer one.\<close>

lemma passes_suffix:
  assumes "digest_bytes pg" "length seg \<le> length seg'" "passes pg prev seg" "passes pg prev' seg'"
    and "unit_separator \<notin> set prev" "unit_separator \<notin> set prev'"
    and "seg \<noteq> []" "xr_hash (last seg) = xr_hash (last seg')"
    and "\<not> collide pg (hashed pg prev seg) (hashed pg prev' seg')"
  shows "suffix (hashed pg prev seg) (hashed pg prev' seg') \<and>
    (list_all (\<lambda>r. separable pg (xr_event r)) (seg @ seg') \<longrightarrow> suffix (map (columns pg) seg) (map (columns pg) seg'))"
proof -
  obtain us vs where seg': "seg' = us @ vs" "length vs = length seg"
    using assms(2) by (metis append_take_drop_id diff_diff_cancel length_drop)
  obtain p where p: "passes pg p vs" "unit_separator \<notin> set p"
    "hashed pg prev' seg' = hashed pg prev' us @ hashed pg p vs"
    using passes_append assms(4,6) unfolding seg'(1) by blast
  have "vs \<noteq> []" using assms(7) seg'(2) by auto
  then have "xr_hash (last seg) = xr_hash (last vs)" using assms(8) by (simp add: seg'(1))
  moreover have "\<not> collide pg (hashed pg prev seg) (hashed pg p vs)"
    using assms(9) p(3) by (auto simp: collide_def)
  ultimately have "hashed pg prev seg = hashed pg p vs \<and>
      (list_all (\<lambda>r. separable pg (xr_event r)) (seg @ vs) \<longrightarrow> map (columns pg) seg = map (columns pg) vs)"
    using passes_same [OF assms(1) seg'(2) [symmetric] assms(3) p(1) assms(5) p(2)] assms(7) by blast
  then show ?thesis by (simp add: p(3) [unfolded seg'(1)] seg'(1) suffix_def)
qed

lemma verify_ok_passes:
  assumes "find (\<lambda>x. int (xr_id x) = verify_start ch from) (ch_rows ch) = Some x" "xr_hash x = Some prev"
  shows "vr_ok (audit_chain_verify pg from to ch) \<longleftrightarrow>
    passes pg prev (segment (verify_start ch from) (verify_to ch to) ch)"
proof -
  have v: "\<not> vr_ok res" if "verify_loop pg start seg p c = Inl res" for start seg p c res
    using that by (induction seg arbitrary: p c) (auto split: if_splits)
  show ?thesis
    using assms v verify_loop_passes [of pg prev "segment (verify_start ch from) (verify_to ch to) ch"
        "verify_start ch from" 0]
    by (auto simp: audit_chain_verify_def Let_def split: sum.split)
qed

text \<open>
  C17. The chain is tamper-evident. Take two states of the table in which the verification of
  a range is accepted, starting from a row that is present, and whose last rows carry the
  same hash (an anchored one, say). Then the two tables exhibit two different texts with the same
  SHA-256 digest, or the texts hashed for the rows of the range with fewer rows are the last ones
  hashed for the other: no row can have been changed, replaced, inserted or reordered among
  them. If moreover no hashed column contains the separator, these rows agree in every hashed
  column and in both chain columns; a column with the separator in it can be shifted into its
  neighbour (\<open>separator_ambiguous\<close>). The hash of each start row, from which verification
  begins, has no separator in it.
\<close>

theorem chain_tamper_evident:
  assumes "digest_bytes pg"
    and "vr_ok (audit_chain_verify pg from to ch)" "vr_ok (audit_chain_verify pg from' to' ch')"
    and "find (\<lambda>x. int (xr_id x) = verify_start ch from) (ch_rows ch) = Some x" "xr_hash x = Some h"
    and "find (\<lambda>x. int (xr_id x) = verify_start ch' from') (ch_rows ch') = Some x'" "xr_hash x' = Some h'"
    and "unit_separator \<notin> set h" "unit_separator \<notin> set h'"
    and "seg = segment (verify_start ch from) (verify_to ch to) ch"
    and "seg' = segment (verify_start ch' from') (verify_to ch' to') ch'"
    and "length seg \<le> length seg'" "seg \<noteq> []" "xr_hash (last seg) = xr_hash (last seg')"
  shows "collide pg (hashed pg h seg) (hashed pg h' seg') \<or>
    suffix (hashed pg h seg) (hashed pg h' seg') \<and>
    (list_all (\<lambda>r. separable pg (xr_event r)) (seg @ seg') \<longrightarrow> suffix (map (columns pg) seg) (map (columns pg) seg'))"
  using passes_suffix [OF assms(1,12), of h h'] verify_ok_passes [OF assms(4,5)]
    verify_ok_passes [OF assms(6,7)] assms
  by blast

definition demo_pruned :: chain where
  "demo_pruned = snd (purge_audit_events 6 10 demo_chain)"

theorem chain_tamper_evident_witness:
  "vr_ok (audit_chain_verify demo_pg 2 3 demo_chain) \<and>
   suffix (map (columns demo_pg) (segment 2 3 demo_chain)) (map (columns demo_pg) (segment 2 3 demo_pruned))"
proof -
  have "inj (of_char :: char \<Rightarrow> nat)" by (simp add: inj_on_def)
  then have inj: "inj (pg_sha256 demo_pg)" by (simp add: demo_pg_def inj_mapI)
  have bytes: "digest_bytes demo_pg" by (simp add: digest_bytes_def demo_pg_def list_all_iff)
  from inj have free: "\<not> collide demo_pg xs ys" for xs ys by (auto simp: collide_def dest: injD)
  let ?h1 = "audit_event_hash demo_pg None (demo_event 1 5)"
  let ?h2 = "audit_event_hash demo_pg (Some ?h1) (demo_event 2 7)"
  let ?h3 = "audit_event_hash demo_pg (Some ?h2) (demo_event 3 9)"
  let ?r1 = "\<lparr>xr_event = demo_event 1 5, xr_prev = None, xr_hash = Some ?h1\<rparr>"
  let ?r2 = "\<lparr>xr_event = demo_event 2 7, xr_prev = Some ?h1, xr_hash = Some ?h2\<rparr>"
  let ?r3 = "\<lparr>xr_event = demo_event 3 9, xr_prev = Some ?h2, xr_hash = Some ?h3\<rparr>"
  have rows: "ch_rows demo_chain = [?r1, ?r2, ?r3]" "ch_pruned demo_chain = None"
    "ch_tail_event demo_chain = Some (au_id (demo_event 3 9))"
    by (simp_all add: demo_chain_def audit_events_hash_trigger_def Let_def)
  have pruned: "ch_rows demo_pruned = [?r2, ?r3]" "ch_pruned demo_pruned = Some 1"
    "ch_tail_event demo_pruned = Some (au_id (demo_event 3 9))"
    by (simp_all add: demo_pruned_def purge_audit_events_def Let_def rows doomed_def demo_event_def coalesce_def)
  have range: "verify_start demo_chain 2 = 2" "verify_to demo_chain 3 = 3"
    "verify_start demo_pruned 0 = 2" "verify_to demo_pruned 0 = 3"
    by (simp_all add: rows pruned coalesce_def verify_start_def verify_to_def demo_event_def)
  have sep: "separable demo_pg (demo_event i t)" if "0 < i" "0 < t" for i t
    using that by (simp add: separable_def hash_fields_def demo_pg_def demo_event_def coalesce_def unit_separator_def)
  have runs: "chain_run demo_pg demo_chain" "chain_run demo_pg demo_pruned"
    unfolding demo_pruned_def by (intro chain_run.purge demo_chain_run)+
  note ok = chain_verifies [OF runs(1), of 2 3] chain_verifies [OF runs(2), of 0 0]
  let ?seg = "segment 2 3 demo_chain" and ?seg' = "segment 2 3 demo_pruned"
  have "collide demo_pg (hashed demo_pg ?h2 ?seg) (hashed demo_pg ?h2 ?seg') \<or>
      suffix (hashed demo_pg ?h2 ?seg) (hashed demo_pg ?h2 ?seg') \<and>
      (list_all (\<lambda>r. separable demo_pg (xr_event r)) (?seg @ ?seg') \<longrightarrow>
         suffix (map (columns demo_pg) ?seg) (map (columns demo_pg) ?seg'))"
    by (rule chain_tamper_evident [OF bytes, of 2 3 demo_chain 0 0 demo_pruned ?r2 ?h2 ?r2 ?h2])
       (use ok in \<open>simp_all add: range rows pruned segment_def demo_event_def hash_no_separator\<close>)
  moreover have "list_all (\<lambda>r. separable demo_pg (xr_event r)) (?seg @ ?seg')"
    by (simp add: segment_def rows pruned sep)
  ultimately show ?thesis using ok free by blast
qed

section \<open>What verification does not show\<close>

text \<open>
  Ids come from a sequence that leaves gaps and may be drawn in another order than the chain
  is locked. If no row has the first id of the range, nothing is compared and the answer is
  ok, whatever the other rows hold; rows removed from the end are not missed; and two
  transactions that lock the chain in the other order than they drew their ids make
  verification of an untouched chain fail.
\<close>

lemma verify_missing_start:
  "verify_start ch from \<notin> int ` xr_id ` set (ch_rows ch) \<Longrightarrow>
   vr_ok (audit_chain_verify pg from to ch) \<and> vr_count (audit_chain_verify pg from to ch) = 0"
proof -
  assume "verify_start ch from \<notin> int ` xr_id ` set (ch_rows ch)"
  then have "find (\<lambda>x. int (xr_id x) = verify_start ch from) (ch_rows ch) = None"
    unfolding find_None_iff by (metis image_eqI)
  then show ?thesis by (simp add: audit_chain_verify_def Let_def)
qed

definition forged :: "ChainRow list" where
  "forged = [\<lparr>xr_event = demo_event 2 0, xr_prev = None, xr_hash = Some ''forged''\<rparr>]"

lemma forged_chain_accepted:
  "vr_ok (audit_chain_verify demo_pg 0 0 (demo_chain\<lparr>ch_rows := forged\<rparr>))"
  by (rule conjunct1 [OF verify_missing_start])
     (simp add: forged_def demo_event_def verify_start_def demo_chain_def audit_events_hash_trigger_def
       Let_def coalesce_def)

lemma truncated_chain_accepted:
  "chain_ok pg ch \<Longrightarrow> vr_ok (audit_chain_verify pg from to (ch\<lparr>ch_rows := take n (ch_rows ch)\<rparr>))"
  using linked_append [of pg "take n (ch_rows ch)" "drop n (ch_rows ch)"]
  by (intro conjunct1 [OF linked_verifies]) (simp_all add: chain_ok_def sorted_wrt_take)

definition demo_lengths :: pg_text where
  "demo_lengths = demo_pg\<lparr>pg_sha256 := (\<lambda>s. [length s])\<rparr>"

lemma interleaved_appends_rejected:
  "\<not> vr_ok (audit_chain_verify demo_lengths 1 3 (fold (audit_events_hash_trigger demo_lengths)
     [demo_event 1 5, demo_event 3 5, demo_event 2 5] \<lparr>ch_rows = [], ch_tail_hash = None,
     ch_tail_event = None, ch_pruned = None, ch_anchors = []\<rparr>))"
  by (simp add: audit_events_hash_trigger_def audit_chain_verify_def Let_def demo_event_def coalesce_def
      verify_start_def verify_to_def segment_def audit_event_hash_def hash_fields_def hex_encode_def
      demo_lengths_def demo_pg_def)

text \<open>A separator inside a column makes different rows hash alike; actor and action labels
  reach the table unchecked.\<close>

lemma separator_ambiguous:
  "audit_event_hash pg prev (ev\<lparr>au_actor := a @ unit_separator # b, au_action := c\<rparr>) =
   audit_event_hash pg prev (ev\<lparr>au_actor := a, au_action := b @ unit_separator # c\<rparr>)"
  by (simp add: audit_event_hash_def hash_fields_def)

end
