(* ===== verification/Support.thy ===== *)
theory Support
  imports Fixtures
begin

text \<open>
  \<open>internal/service/support.go\<close>: time-limited operator access to a provider environment. A
  standard request is approved by the provider, an emergency request by two operators who
  are neither the requester nor each other. The operations come first, in the order of the
  file, then the life of a session as a step relation that they implement.
\<close>

section \<open>Queries\<close>

abbreviation q_CreateSupportSession ::
  "uuid \<Rightarrow> uuid \<Rightarrow> uuid \<Rightarrow> string \<Rightarrow> string \<Rightarrow> string \<Rightarrow> string list \<Rightarrow> int \<Rightarrow> SupportSession tx" where
  "q_CreateSupportSession i p en ty by reason scopes expires \<equiv> q_insert support_sessions
     \<lparr>ss_id = i, ss_provider = p, ss_env = en, ss_type = ty, ss_status = SupportStatusRequested,
      ss_requested_by = by, ss_reason = reason, ss_scopes = scopes, ss_approved_by = None,
      ss_second = None, ss_granted = None, ss_expires = expires, ss_revoked = None,
      ss_revoked_by = None, ss_revoke_reason = None\<rparr>"

abbreviation q_GetSupportSessionByID :: "uuid \<Rightarrow> SupportSession tx" where
  "q_GetSupportSessionByID i \<equiv> q_one support_sessions (\<lambda>x. ss_id x = i)"

abbreviation q_ApproveSupportSession :: "int \<Rightarrow> uuid \<Rightarrow> string \<Rightarrow> SupportSession tx" where
  "q_ApproveSupportSession now i by \<equiv> q_update_one support_sessions
     (\<lambda>x. ss_id x = i \<and> ss_status x = SupportStatusRequested \<and> ss_type x = SupportAccessStandard)
     (\<lambda>x. x\<lparr>ss_status := SupportStatusActive, ss_approved_by := Some by, ss_granted := Some now\<rparr>)"

abbreviation q_SetEmergencyFirstApprover :: "uuid \<Rightarrow> string \<Rightarrow> SupportSession tx" where
  "q_SetEmergencyFirstApprover i by \<equiv> q_update_one support_sessions
     (\<lambda>x. ss_id x = i \<and> ss_status x = SupportStatusRequested \<and>
          ss_type x = SupportAccessEmergency \<and> ss_approved_by x = None)
     (\<lambda>x. x\<lparr>ss_approved_by := Some by\<rparr>)"

abbreviation q_ApproveEmergencySupportSession :: "int \<Rightarrow> uuid \<Rightarrow> string \<Rightarrow> SupportSession tx" where
  "q_ApproveEmergencySupportSession now i by \<equiv> q_update_one support_sessions
     (\<lambda>x. ss_id x = i \<and> ss_status x = SupportStatusRequested \<and>
          ss_type x = SupportAccessEmergency \<and> ss_approved_by x \<noteq> None \<and> ss_approved_by x \<noteq> Some by)
     (\<lambda>x. x\<lparr>ss_status := SupportStatusActive, ss_second := Some by, ss_granted := Some now\<rparr>)"

abbreviation q_DenySupportSession :: "uuid \<Rightarrow> string option \<Rightarrow> SupportSession tx" where
  "q_DenySupportSession i reason \<equiv> q_update_one support_sessions
     (\<lambda>x. ss_id x = i \<and> ss_status x = SupportStatusRequested)
     (\<lambda>x. x\<lparr>ss_status := SupportStatusDenied, ss_revoke_reason := reason\<rparr>)"

abbreviation q_RevokeSupportSession :: "int \<Rightarrow> uuid \<Rightarrow> string \<Rightarrow> string option \<Rightarrow> SupportSession tx" where
  "q_RevokeSupportSession now i by reason \<equiv> q_update_one support_sessions
     (\<lambda>x. ss_id x = i \<and> ss_status x = SupportStatusActive)
     (\<lambda>x. x\<lparr>ss_status := SupportStatusRevoked, ss_revoked := Some now,
            ss_revoked_by := Some by, ss_revoke_reason := reason\<rparr>)"

abbreviation q_ExpireSupportSessions :: "int \<Rightarrow> int tx" where
  "q_ExpireSupportSessions now \<equiv> q_execrows support_sessions
     (\<lambda>x. ss_status x = SupportStatusActive \<and> ss_expires x \<le> now)
     (\<lambda>x. x\<lparr>ss_status := SupportStatusExpired\<rparr>)"

text \<open>\<open>ORDER BY created_at DESC LIMIT n\<close>: the newest rows; a negative limit is an error.\<close>

definition limit_rows :: "int \<Rightarrow> 'a list tx \<Rightarrow> 'a list tx" where
  "limit_rows n m = bnd m (\<lambda>xs. if n < 0 then throw (PgError ''2201W'') else ret (take (nat n) (rev xs)))"

abbreviation q_ListSupportSessionsByTenant :: "uuid \<Rightarrow> uuid \<Rightarrow> int \<Rightarrow> SupportSession list tx" where
  "q_ListSupportSessionsByTenant p en n \<equiv>
     limit_rows n (q_many support_sessions (\<lambda>x. ss_provider x = p \<and> ss_env x = en))"

abbreviation q_ListSupportSessionsByProvider :: "uuid \<Rightarrow> int \<Rightarrow> SupportSession list tx" where
  "q_ListSupportSessionsByProvider p n \<equiv>
     limit_rows n (q_many support_sessions (\<lambda>x. ss_provider x = p))"

abbreviation q_ListAllSupportSessions :: "int \<Rightarrow> SupportSession list tx" where
  "q_ListAllSupportSessions n \<equiv> limit_rows n (q_many support_sessions (\<lambda>x. True))"

section \<open>Operations\<close>

definition SupportSessionMaxDuration :: int where
  "SupportSessionMaxDuration = 4 * Hour"

definition SupportSessionEmergencyMaxDuration :: int where
  "SupportSessionEmergencyMaxDuration = 1 * Hour"

record RequestSupportSessionInput =
  rs_ProviderID :: uuid
  rs_EnvironmentID :: uuid
  rs_AccessType :: string
  rs_RequestedBy :: string
  rs_Reason :: string
  rs_RequestedScopes :: "string list"
  rs_Duration :: int

definition RequestSupportSession ::
  "RequestSupportSessionInput \<Rightarrow> rt \<Rightarrow> db \<Rightarrow> SupportSession result \<times> db" where
  "RequestSupportSession inp e d =
     (let maxDur = (if rs_AccessType inp = SupportAccessEmergency
                    then SupportSessionEmergencyMaxDuration else SupportSessionMaxDuration)
      in if rs_RequestedBy inp = '''' then fail_early ErrValidation d
         else if rs_Reason inp = '''' then fail_early ErrValidation d
         else if \<not> ValidSupportAccessType (rs_AccessType inp) then fail_early ErrValidation d
         else if rs_Duration inp \<le> 0 then fail_early ErrValidation d
         else if rs_Duration inp > maxDur then fail_early ErrValidation d
         else if \<exists>sc\<in>set (rs_RequestedScopes inp). \<not> ValidScope sc then fail_early ErrValidation d
         else WithOperator
           (bnd (mapped_err (q_one providers (\<lambda>p. pv_id p = rs_ProviderID inp))) (\<lambda>_.
            bnd (q_many environments (\<lambda>v. en_provider v = rs_ProviderID inp)) (\<lambda>envs.
            bnd (check (\<exists>v\<in>set envs. en_id v = rs_EnvironmentID inp) ErrNotFound) (\<lambda>_.
            bnd now_tx (\<lambda>now.
            let expiresAt = now + rs_Duration inp in
            bnd (draw rt_gen) (\<lambda>id.
            bnd (mapped_err (q_CreateSupportSession id (rs_ProviderID inp) (rs_EnvironmentID inp)
                   (rs_AccessType inp) (rs_RequestedBy inp) (rs_Reason inp) (rs_RequestedScopes inp)
                   expiresAt)) (\<lambda>ss.
            bnd (get_rt (\<lambda>e. rt_rfc3339nano e expiresAt)) (\<lambda>stamp.
            bnd (emitOutboxTx (rs_ProviderID inp) (rs_EnvironmentID inp) ''support_session'' (ss_id ss)
                   ''support.requested'' (JObj
                   [(''session_id'', JStr (ss_id ss)), (''access_type'', JStr (rs_AccessType inp)),
                    (''requested_by'', JStr (rs_RequestedBy inp)), (''reason'', JStr (rs_Reason inp)),
                    (''expires_at'', JStr stamp)])) (\<lambda>_.
            bnd (insertAuditTx (Some (rs_ProviderID inp)) (Some (rs_EnvironmentID inp)) ''operator''
                   (rs_RequestedBy inp) ''support.request'' ''support_session'' (ss_id ss) (Some (JObj
                   [(''access_type'', JStr (rs_AccessType inp)), (''reason'', JStr (rs_Reason inp)),
                    (''duration_seconds'', JInt (rs_Duration inp div Second))]))) (\<lambda>_.
            ret ss)))))))))) e d)"

definition ApproveSupportSession :: "Ctx \<Rightarrow> uuid \<Rightarrow> rt \<Rightarrow> db \<Rightarrow> SupportSession result \<times> db" where
  "ApproveSupportSession tc sessionID = WithTenant tc
     (bnd (mapped_err (q_GetSupportSessionByID sessionID)) (\<lambda>ss.
      bnd (checkTenantOwnership (ss_provider ss) (ss_env ss) tc) (\<lambda>_.
      bnd (check (ss_status ss = SupportStatusRequested) ErrConflict) (\<lambda>_.
      bnd (check (ss_type ss = SupportAccessStandard) ErrValidation) (\<lambda>_.
      bnd now_tx (\<lambda>now.
      bnd (mapped_err (q_ApproveSupportSession now sessionID (CredentialID tc))) (\<lambda>updated.
      bnd (emitOutboxTx (ProviderID tc) (EnvironmentID tc) ''support_session'' sessionID
             ''support.approved'' (JObj
             [(''session_id'', JStr sessionID), (''approved_by'', JStr (CredentialID tc)),
              (''access_type'', JStr (ss_type ss))])) (\<lambda>_.
      bnd (insertAuditTx (ProviderNullUUID tc) (EnvironmentNullUUID tc) ''credential''
             (CredentialID tc) ''support.approve'' ''support_session'' sessionID (Some (JObj
             [(''requested_by'', JStr (ss_requested_by ss)), (''access_type'', JStr (ss_type ss))]))) (\<lambda>_.
      ret updated)))))))))"

definition DenySupportSession :: "Ctx \<Rightarrow> uuid \<Rightarrow> string \<Rightarrow> rt \<Rightarrow> db \<Rightarrow> SupportSession result \<times> db" where
  "DenySupportSession tc sessionID reason = WithTenant tc
     (bnd (mapped_err (q_GetSupportSessionByID sessionID)) (\<lambda>ss.
      bnd (checkTenantOwnership (ss_provider ss) (ss_env ss) tc) (\<lambda>_.
      bnd (check (ss_status ss = SupportStatusRequested) ErrConflict) (\<lambda>_.
      bnd (mapped_err (q_DenySupportSession sessionID (opt_text reason))) (\<lambda>updated.
      bnd (emitOutboxTx (ProviderID tc) (EnvironmentID tc) ''support_session'' sessionID
             ''support.denied'' (JObj
             [(''session_id'', JStr sessionID), (''denied_by'', JStr (CredentialID tc)),
              (''deny_reason'', JStr reason)])) (\<lambda>_.
      bnd (insertAuditTx (ProviderNullUUID tc) (EnvironmentNullUUID tc) ''credential''
             (CredentialID tc) ''support.deny'' ''support_session'' sessionID (Some (JObj
             [(''requested_by'', JStr (ss_requested_by ss)), (''deny_reason'', JStr reason)]))) (\<lambda>_.
      ret updated)))))))"

definition EmergencyFirstApprove :: "uuid \<Rightarrow> string \<Rightarrow> rt \<Rightarrow> db \<Rightarrow> SupportSession result \<times> db" where
  "EmergencyFirstApprove sessionID approver e d =
     (if approver = '''' then fail_early ErrValidation d
      else WithOperator
        (bnd (mapped_err (q_GetSupportSessionByID sessionID)) (\<lambda>ss.
         bnd (check (ss_status ss = SupportStatusRequested) ErrConflict) (\<lambda>_.
         bnd (check (ss_type ss = SupportAccessEmergency) ErrValidation) (\<lambda>_.
         bnd (check (ss_approved_by ss = None) ErrConflict) (\<lambda>_.
         bnd (check (ss_requested_by ss \<noteq> approver) ErrValidation) (\<lambda>_.
         bnd (mapped_err (q_SetEmergencyFirstApprover sessionID approver)) (\<lambda>updated.
         bnd (emitOutboxTx (ss_provider ss) (ss_env ss) ''support_session'' sessionID
                ''support.first_approved'' (JObj
                [(''session_id'', JStr sessionID), (''first_approver'', JStr approver)])) (\<lambda>_.
         bnd (insertAuditTx (Some (ss_provider ss)) (Some (ss_env ss)) ''operator'' approver
                ''support.first_approve'' ''support_session'' sessionID (Some (JObj
                [(''requested_by'', JStr (ss_requested_by ss))]))) (\<lambda>_.
         ret updated))))))))) e d)"

definition EmergencySecondApprove :: "uuid \<Rightarrow> string \<Rightarrow> rt \<Rightarrow> db \<Rightarrow> SupportSession result \<times> db" where
  "EmergencySecondApprove sessionID approver e d =
     (if approver = '''' then fail_early ErrValidation d
      else WithOperator
        (bnd (mapped_err (q_GetSupportSessionByID sessionID)) (\<lambda>ss.
         bnd (check (ss_status ss = SupportStatusRequested) ErrConflict) (\<lambda>_.
         bnd (check (ss_type ss = SupportAccessEmergency) ErrValidation) (\<lambda>_.
         bnd (check (ss_approved_by ss \<noteq> None) ErrValidation) (\<lambda>_.
         bnd (check (ss_requested_by ss \<noteq> approver) ErrValidation) (\<lambda>_.
         bnd (check (the (ss_approved_by ss) \<noteq> approver) ErrValidation) (\<lambda>_.
         bnd now_tx (\<lambda>now.
         bnd (mapped_err (q_ApproveEmergencySupportSession now sessionID approver)) (\<lambda>updated.
         bnd (emitOutboxTx (ss_provider ss) (ss_env ss) ''support_session'' sessionID
                ''support.approved'' (JObj
                [(''session_id'', JStr sessionID), (''second_approver'', JStr approver),
                 (''first_approver'', JStr (the (ss_approved_by ss))),
                 (''access_type'', JStr (ss_type ss))])) (\<lambda>_.
         bnd (insertAuditTx (Some (ss_provider ss)) (Some (ss_env ss)) ''operator'' approver
                ''support.emergency_approve'' ''support_session'' sessionID (Some (JObj
                [(''requested_by'', JStr (ss_requested_by ss)),
                 (''first_approver'', JStr (the (ss_approved_by ss)))]))) (\<lambda>_.
         ret updated))))))))))) e d)"

definition RevokeSupportSession :: "uuid \<Rightarrow> string \<Rightarrow> string \<Rightarrow> rt \<Rightarrow> db \<Rightarrow> SupportSession result \<times> db" where
  "RevokeSupportSession sessionID revokedBy reason e d =
     (if revokedBy = '''' then fail_early ErrValidation d
      else WithOperator
        (bnd (mapped_err (q_GetSupportSessionByID sessionID)) (\<lambda>ss.
         bnd (check (ss_status ss = SupportStatusActive) ErrConflict) (\<lambda>_.
         bnd now_tx (\<lambda>now.
         bnd (mapped_err (q_RevokeSupportSession now sessionID revokedBy (opt_text reason))) (\<lambda>updated.
         bnd (emitOutboxTx (ss_provider ss) (ss_env ss) ''support_session'' sessionID
                ''support.revoked'' (JObj
                [(''session_id'', JStr sessionID), (''revoked_by'', JStr revokedBy),
                 (''revoke_reason'', JStr reason)])) (\<lambda>_.
         bnd (insertAuditTx (Some (ss_provider ss)) (Some (ss_env ss)) ''operator'' revokedBy
                ''support.revoke'' ''support_session'' sessionID
                (Some (JObj [(''reason'', JStr reason)]))) (\<lambda>_.
         ret updated))))))) e d)"

definition RevokeSupportSessionAsProvider ::
  "Ctx \<Rightarrow> uuid \<Rightarrow> string \<Rightarrow> rt \<Rightarrow> db \<Rightarrow> SupportSession result \<times> db" where
  "RevokeSupportSessionAsProvider tc sessionID reason = WithTenant tc
     (bnd (mapped_err (q_GetSupportSessionByID sessionID)) (\<lambda>ss.
      bnd (checkTenantOwnership (ss_provider ss) (ss_env ss) tc) (\<lambda>_.
      bnd (check (ss_status ss = SupportStatusActive) ErrConflict) (\<lambda>_.
      bnd now_tx (\<lambda>now.
      bnd (mapped_err (q_RevokeSupportSession now sessionID (CredentialID tc) (opt_text reason))) (\<lambda>updated.
      bnd (emitOutboxTx (ProviderID tc) (EnvironmentID tc) ''support_session'' sessionID
             ''support.revoked'' (JObj
             [(''session_id'', JStr sessionID), (''revoked_by'', JStr (CredentialID tc)),
              (''revoke_reason'', JStr reason)])) (\<lambda>_.
      bnd (insertAuditTx (ProviderNullUUID tc) (EnvironmentNullUUID tc) ''credential''
             (CredentialID tc) ''support.revoke'' ''support_session'' sessionID
             (Some (JObj [(''reason'', JStr reason)]))) (\<lambda>_.
      ret updated))))))))"

definition ListSupportSessions :: "Ctx \<Rightarrow> int \<Rightarrow> rt \<Rightarrow> db \<Rightarrow> SupportSession list result \<times> db" where
  "ListSupportSessions tc limit = WithTenant tc
     (q_ListSupportSessionsByTenant (ProviderID tc) (EnvironmentID tc) limit)"

definition ListSupportSessionsByProvider :: "uuid \<Rightarrow> int \<Rightarrow> rt \<Rightarrow> db \<Rightarrow> SupportSession list result \<times> db" where
  "ListSupportSessionsByProvider providerID limit = WithOperator
     (q_ListSupportSessionsByProvider providerID limit)"

definition ListAllSupportSessions :: "int \<Rightarrow> rt \<Rightarrow> db \<Rightarrow> SupportSession list result \<times> db" where
  "ListAllSupportSessions limit = WithOperator (q_ListAllSupportSessions limit)"

definition ExpireSupportSessions :: "rt \<Rightarrow> db \<Rightarrow> int result \<times> db" where
  "ExpireSupportSessions = WithOperator
     (bnd now_tx q_ExpireSupportSessions)"

section \<open>The life of a session\<close>

inductive support_step :: "SupportSession \<Rightarrow> SupportSession \<Rightarrow> bool" where
  approve: "ss_status x = SupportStatusRequested \<Longrightarrow> ss_type x = SupportAccessStandard \<Longrightarrow>
    support_step x (x\<lparr>ss_status := SupportStatusActive, ss_approved_by := Some c, ss_granted := Some t\<rparr>)"
| deny: "ss_status x = SupportStatusRequested \<Longrightarrow>
    support_step x (x\<lparr>ss_status := SupportStatusDenied, ss_revoke_reason := r\<rparr>)"
| first: "ss_status x = SupportStatusRequested \<Longrightarrow> ss_type x = SupportAccessEmergency \<Longrightarrow>
    ss_approved_by x = None \<Longrightarrow> a \<noteq> ss_requested_by x \<Longrightarrow>
    support_step x (x\<lparr>ss_approved_by := Some a\<rparr>)"
| second: "ss_status x = SupportStatusRequested \<Longrightarrow> ss_type x = SupportAccessEmergency \<Longrightarrow>
    ss_approved_by x = Some a \<Longrightarrow> b \<noteq> a \<Longrightarrow> b \<noteq> ss_requested_by x \<Longrightarrow>
    support_step x (x\<lparr>ss_status := SupportStatusActive, ss_second := Some b, ss_granted := Some t\<rparr>)"
| revoke: "ss_status x = SupportStatusActive \<Longrightarrow>
    support_step x (x\<lparr>ss_status := SupportStatusRevoked, ss_revoked := Some t,
                      ss_revoked_by := Some w, ss_revoke_reason := r\<rparr>)"
| expire: "ss_status x = SupportStatusActive \<Longrightarrow> ss_expires x \<le> t \<Longrightarrow>
    support_step x (x\<lparr>ss_status := SupportStatusExpired\<rparr>)"



definition session_fresh :: "SupportSession \<Rightarrow> bool" where
  "session_fresh x \<longleftrightarrow> ss_status x = SupportStatusRequested \<and> ss_approved_by x = None \<and>
     ss_second x = None \<and> ValidSupportAccessType (ss_type x) \<and> ss_requested_by x \<noteq> '''' \<and>
     (\<forall>sc\<in>set (ss_scopes x). ValidScope sc)"

text \<open>Whoever got access had it authorised: a standard session by an approver of the
  provider, an emergency session by two operators, all three people different.\<close>

definition authorised :: "SupportSession \<Rightarrow> bool" where
  "authorised x \<longleftrightarrow> ss_granted x \<noteq> None \<and>
     (if ss_type x = SupportAccessEmergency
      then \<exists>a b. ss_approved_by x = Some a \<and> ss_second x = Some b \<and>
                 a \<noteq> b \<and> a \<noteq> ss_requested_by x \<and> b \<noteq> ss_requested_by x
      else ss_approved_by x \<noteq> None)"

definition session_ok :: "SupportSession \<Rightarrow> bool" where
  "session_ok x \<longleftrightarrow>
     (ss_status x \<in> {SupportStatusActive, SupportStatusRevoked, SupportStatusExpired} \<longrightarrow> authorised x) \<and>
     (ss_type x = SupportAccessEmergency \<longrightarrow> ss_approved_by x \<noteq> Some (ss_requested_by x)) \<and>
     ValidSupportAccessType (ss_type x) \<and> (\<forall>sc\<in>set (ss_scopes x). ValidScope sc)"

definition session_final :: "SupportSession \<Rightarrow> bool" where
  "session_final x \<longleftrightarrow>
     ss_status x \<in> {SupportStatusDenied, SupportStatusRevoked, SupportStatusExpired}"

lemma session_fresh_ok: "session_fresh x \<Longrightarrow> session_ok x"
  by (simp add: session_fresh_def session_ok_def)

lemma session_step_ok: "session_ok x \<Longrightarrow> support_step x y \<Longrightarrow> session_ok y"
  by (erule support_step.cases) (auto simp: session_ok_def authorised_def ValidSupportAccessType_def)

lemma session_final_stays: "session_final x \<Longrightarrow> support_step x y \<Longrightarrow> y = x"
  by (erule support_step.cases) (simp_all add: session_final_def)

lemma session_step_id: "support_step x y \<Longrightarrow> ss_id y = ss_id x"
  by (erule support_step.cases) simp_all

interpretation support: row_machine support_step session_fresh session_ok session_final ss_id
  by unfold_locales
     (simp_all add: session_step_ok session_final_stays session_step_id session_fresh_ok)

definition sessions_distinct :: "db \<Rightarrow> bool" where
  "sessions_distinct d \<longleftrightarrow> distinct (map ss_id (db_sessions d))"

definition support_moves :: "db \<Rightarrow> db \<Rightarrow> bool" where
  "support_moves d d' \<longleftrightarrow>
     evolves support_step session_fresh (db_sessions d) (db_sessions d') \<and> sessions_distinct d'"

lemma support_update:
  "sessions_distinct d \<Longrightarrow> db_sessions d' = update_where p f (db_sessions d) \<Longrightarrow>
   (\<And>r. r \<in> set (db_sessions d) \<Longrightarrow> p r \<Longrightarrow> support_step r (f r)) \<Longrightarrow>
   (\<And>r. ss_id (f r) = ss_id r) \<Longrightarrow> support_moves d d'"
  by (simp add: support_moves_def sessions_distinct_def map_update_where evolves_update)

lemma support_insert:
  "sessions_distinct d \<Longrightarrow> db_sessions d' = db_sessions d @ [r] \<Longrightarrow> session_fresh r \<Longrightarrow>
   \<forall>r'\<in>set (db_sessions d). ss_id r \<noteq> ss_id r' \<Longrightarrow> support_moves d d'"
  by (auto simp: support_moves_def sessions_distinct_def evolves_insert)

lemma same_session:
  "sessions_distinct d \<Longrightarrow> x \<in> set (db_sessions d) \<Longrightarrow> y \<in> set (db_sessions d) \<Longrightarrow>
   ss_id x = ss_id y \<Longrightarrow> x = y"
  unfolding sessions_distinct_def by (rule distinct_keys_unique)

lemmas session_tables = put_rows_def upd_rows_def bump_def support_sessions_tb outbox_events_tb
  audit_events_tb

text \<open>What a successful operation does: the sessions move on, and one event and one audit
  entry record it.\<close>

definition support_op :: "string \<Rightarrow> string \<Rightarrow> db \<Rightarrow> SupportSession result \<times> db \<Rightarrow> bool" where
  "support_op et ac d = outcome (\<lambda>x d'. support_moves d d' \<and> records (ss_provider x) et ac d d') d"

text \<open>The common end of the operations: the guarded update, its event and its audit entry.\<close>

lemma support_tail:
  assumes "s_db s = d" "sessions_distinct d"
    and "\<And>r. r \<in> set (db_sessions d) \<Longrightarrow> p r \<Longrightarrow> ss_provider r = pid \<and> support_step r (f r)"
    and "\<And>r. ss_id (f r) = ss_id r \<and> ss_provider (f r) = ss_provider r"
  shows "wp (bnd (mapped_err (q_update_one support_sessions p f)) (\<lambda>u.
         bnd (emitOutboxTx pid eid at ai et payload) (\<lambda>_.
         bnd (insertAuditTx ap ae aty aid ac tt ti m) (\<lambda>_. ret u))))
       (\<lambda>x s'. support_moves d (s_db s') \<and> records (ss_provider x) et ac d (s_db s')) s"
proof -
  have r: "r \<in> set (db_sessions d) \<and> p r" if "hit_rows support_sessions p s = r # rs" for r rs
    using that assms(1) by (auto simp: hit_rows_def support_sessions_tb filter_eq_Cons_iff)
  have m: "support_moves d d'"
    if "db_sessions d' = update_where (\<lambda>r. tb_vis support_sessions (s_role s) r \<and> p r) f (db_sessions d)" for d'
    using assms by (intro support_update [OF assms(2) that]) auto
  show ?thesis
    by (intro wp_intros conjI m)
       (use assms r in \<open>auto simp: records_def session_tables\<close>)
qed

lemma RequestSupportSession_op:
  assumes "sessions_distinct d"
  shows "support_op ''support.requested'' ''support.request'' d (RequestSupportSession inp e d)"
  unfolding support_op_def RequestSupportSession_def Let_def
  apply (simp only: split: if_split)
  apply (intro conjI impI wp_intros)
     apply (auto simp: session_tables records_def session_fresh_def intro!: support_insert [OF assms])
  done

lemma ApproveSupportSession_op:
  assumes "sessions_distinct d"
  shows "support_op ''support.approved'' ''support.approve'' d (ApproveSupportSession tc sid e d)"
  unfolding support_op_def ApproveSupportSession_def checkTenantOwnership_def
  apply (intro support_tail wp_intros)
  apply (simp_all add: assms support_sessions_tb)
  apply (auto intro!: support_step.approve dest: same_session [OF assms])
  done

lemma DenySupportSession_op:
  assumes "sessions_distinct d"
  shows "support_op ''support.denied'' ''support.deny'' d (DenySupportSession tc sid reason e d)"
  unfolding support_op_def DenySupportSession_def checkTenantOwnership_def
  apply (intro support_tail wp_intros)
  apply (simp_all add: assms support_sessions_tb)
  apply (auto intro!: support_step.deny dest: same_session [OF assms])
  done

lemma EmergencyFirstApprove_op:
  assumes "sessions_distinct d"
  shows "support_op ''support.first_approved'' ''support.first_approve'' d (EmergencyFirstApprove sid a e d)"
  unfolding support_op_def EmergencyFirstApprove_def
  apply (simp only: split: if_split)
  apply (intro conjI impI support_tail wp_intros)
  apply (simp_all add: assms support_sessions_tb)
  apply (auto intro!: support_step.first dest: same_session [OF assms])
  done

lemma EmergencySecondApprove_op:
  assumes "sessions_distinct d"
  shows "support_op ''support.approved'' ''support.emergency_approve'' d (EmergencySecondApprove sid b e d)"
  unfolding support_op_def EmergencySecondApprove_def
  apply (simp only: split: if_split)
  apply (intro conjI impI support_tail wp_intros)
  apply (simp_all add: assms support_sessions_tb)
  apply (auto intro!: support_step.second dest: same_session [OF assms])
  done

lemma RevokeSupportSession_op:
  assumes "sessions_distinct d"
  shows "support_op ''support.revoked'' ''support.revoke'' d (RevokeSupportSession sid w reason e d)"
  unfolding support_op_def RevokeSupportSession_def
  apply (simp only: split: if_split)
  apply (intro conjI impI support_tail wp_intros)
  apply (simp_all add: assms support_sessions_tb)
  apply (auto intro!: support_step.revoke dest: same_session [OF assms])
  done

lemma RevokeSupportSessionAsProvider_op:
  assumes "sessions_distinct d"
  shows "support_op ''support.revoked'' ''support.revoke'' d (RevokeSupportSessionAsProvider tc sid reason e d)"
  unfolding support_op_def RevokeSupportSessionAsProvider_def checkTenantOwnership_def
  apply (intro support_tail wp_intros)
  apply (simp_all add: assms support_sessions_tb)
  apply (auto intro!: support_step.revoke dest: same_session [OF assms])
  done

lemma ExpireSupportSessions_moves:
  assumes "sessions_distinct d"
  shows "outcome (\<lambda>n d'. support_moves d d' \<and> db_outbox d' = db_outbox d \<and> db_audit d' = db_audit d) d
           (ExpireSupportSessions e d)"
  unfolding ExpireSupportSessions_def
  apply (intro wp_intros)
  apply (simp add: session_tables)
  apply (rule support_update [OF assms], simp)
   apply (auto intro!: support_step.expire)
  done

section \<open>Runs\<close>

datatype support_request =
    SRequest RequestSupportSessionInput
  | SApprove Ctx uuid
  | SDeny Ctx uuid string
  | SFirst uuid string
  | SSecond uuid string
  | SRevoke uuid string string
  | SRevokeProvider Ctx uuid string
  | SExpire

fun support_exec :: "support_request \<Rightarrow> rt \<Rightarrow> db \<Rightarrow> db" where
  "support_exec (SRequest inp) e d = snd (RequestSupportSession inp e d)"
| "support_exec (SApprove tc sid) e d = snd (ApproveSupportSession tc sid e d)"
| "support_exec (SDeny tc sid r) e d = snd (DenySupportSession tc sid r e d)"
| "support_exec (SFirst sid a) e d = snd (EmergencyFirstApprove sid a e d)"
| "support_exec (SSecond sid a) e d = snd (EmergencySecondApprove sid a e d)"
| "support_exec (SRevoke sid w r) e d = snd (RevokeSupportSession sid w r e d)"
| "support_exec (SRevokeProvider tc sid r) e d = snd (RevokeSupportSessionAsProvider tc sid r e d)"
| "support_exec SExpire e d = snd (ExpireSupportSessions e d)"

fun support_run :: "(support_request \<times> rt) list \<Rightarrow> db \<Rightarrow> db" where
  "support_run [] d = d"
| "support_run ((q, e) # qs) d = support_run qs (support_exec q e d)"

lemma support_moves_refl: "sessions_distinct d \<Longrightarrow> support_moves d d"
  by (simp add: support_moves_def)

lemma support_op_moves: "sessions_distinct d \<Longrightarrow> support_op et ac d r \<Longrightarrow> support_moves d (snd r)"
  unfolding support_op_def
  by (rule outcome_snd [where P = "support_moves d"]) (auto elim: outcome_mono simp: support_moves_refl)

lemma support_exec_moves: "sessions_distinct d \<Longrightarrow> support_moves d (support_exec q e d)"
proof (cases q)
  case SExpire
  assume d: "sessions_distinct d"
  have "outcome (\<lambda>n. support_moves d) d (ExpireSupportSessions e d)"
    using ExpireSupportSessions_moves [OF d] by (rule outcome_mono) simp
  then show ?thesis using SExpire d by (simp add: outcome_snd support_moves_refl)
qed (auto intro: support_op_moves RequestSupportSession_op ApproveSupportSession_op DenySupportSession_op
      EmergencyFirstApprove_op EmergencySecondApprove_op RevokeSupportSession_op
      RevokeSupportSessionAsProvider_op)

definition sessions_wf :: "db \<Rightarrow> bool" where
  "sessions_wf d \<longleftrightarrow> sessions_distinct d \<and> (\<forall>x\<in>set (db_sessions d). session_ok x)"

lemma support_run_wf: "sessions_wf d \<Longrightarrow> sessions_wf (support_run qs d)"
proof (induction qs arbitrary: d)
  case (Cons q qs)
  obtain r e where q: "q = (r, e)" by (cases q)
  have "sessions_wf (support_exec r e d)"
    using support_exec_moves [of d r e] Cons.prems support.evolves_ok
    by (auto simp: sessions_wf_def support_moves_def)
  with Cons.IH q show ?case by simp
qed simp

lemma support_run_final:
  "sessions_distinct d \<Longrightarrow> x \<in> set (db_sessions d) \<Longrightarrow> session_final x \<Longrightarrow>
   x \<in> set (db_sessions (support_run qs d))"
proof (induction qs arbitrary: d)
  case (Cons q qs)
  obtain r e where q: "q = (r, e)" by (cases q)
  have m: "support_moves d (support_exec r e d)" using support_exec_moves Cons.prems(1) .
  then have "x \<in> set (db_sessions (support_exec r e d))"
    using support.evolves_final Cons.prems(2,3) by (auto simp: support_moves_def)
  with Cons.IH Cons.prems(3) m q show ?case by (simp add: support_moves_def)
qed simp

text \<open>
  C2. Whatever sequence of requests, approvals, denials, revocations and sweeps runs, by any
  operators and tenants, every session that is or ever was active had its authorisation: a
  standard session a provider approver, an emergency session two operators who differ from
  each other and from the requester. Scopes are always known ones.
\<close>

theorem support_two_person_rule:
  assumes "sessions_wf d" "x \<in> set (db_sessions (support_run qs d))"
  shows "(ss_status x \<in> {SupportStatusActive, SupportStatusRevoked, SupportStatusExpired} \<longrightarrow> authorised x) \<and>
         (\<forall>sc\<in>set (ss_scopes x). ValidScope sc)"
  using support_run_wf [OF assms(1), of qs] assms(2) by (auto simp: sessions_wf_def session_ok_def)

definition demo_emergency :: RequestSupportSessionInput where
  "demo_emergency = \<lparr>rs_ProviderID = ''p1'', rs_EnvironmentID = ''e1'', rs_AccessType = SupportAccessEmergency,
     rs_RequestedBy = ''ann'', rs_Reason = ''outage'', rs_RequestedScopes = [ScopeRead], rs_Duration = Minute\<rparr>"

definition demo_emergency_run :: "(support_request \<times> rt) list" where
  "demo_emergency_run = [(SRequest demo_emergency, demo_rt 0), (SFirst ''g'' ''ann'', demo_rt 1),
     (SFirst ''g'' ''bob'', demo_rt 2), (SSecond ''g'' ''bob'', demo_rt 3), (SSecond ''g'' ''cy'', demo_rt 4)]"

lemma demo_emergency_sessions: "map (\<lambda>x. (ss_id x, ss_status x, ss_approved_by x, ss_second x))
   (db_sessions (support_run demo_emergency_run demo_db)) =
   [(''g'', SupportStatusActive, Some ''bob'', Some ''cy'')]"
  by code_simp

lemma demo_wf: "sessions_wf demo_db"
  by (simp add: sessions_wf_def sessions_distinct_def demo_db_def)

theorem support_two_person_rule_witness:
  "\<exists>x\<in>set (db_sessions (support_run demo_emergency_run demo_db)).
     ss_status x = SupportStatusActive \<and> authorised x"
proof -
  from demo_emergency_sessions obtain x where
    x: "db_sessions (support_run demo_emergency_run demo_db) = [x]" "ss_status x = SupportStatusActive"
    by (auto simp: map_eq_Cons_conv)
  with support_two_person_rule [OF demo_wf, of x demo_emergency_run] show ?thesis by auto
qed

text \<open>
  A session that was denied, revoked or has expired stays in the table unchanged for
  good: no later request reopens, edits or removes it.
\<close>

theorem support_final_sessions_stay:
  assumes "sessions_wf d" "x \<in> set (db_sessions d)"
    and "ss_status x \<in> {SupportStatusDenied, SupportStatusRevoked, SupportStatusExpired}"
  shows "x \<in> set (db_sessions (support_run qs d))"
  using assms by (intro support_run_final) (auto simp: sessions_wf_def session_final_def)

definition demo_denied :: db where
  "demo_denied = support_run [(SRequest demo_emergency, demo_rt 0),
     (SDeny (demo_ctx ''p1'' ''e1'') ''g'' ''no'', demo_rt 1)] demo_db"

lemma demo_denied_sessions:
  "db_sessions demo_denied = [\<lparr>ss_id = ''g'', ss_provider = ''p1'', ss_env = ''e1'',
     ss_type = SupportAccessEmergency, ss_status = SupportStatusDenied, ss_requested_by = ''ann'',
     ss_reason = ''outage'', ss_scopes = [ScopeRead], ss_approved_by = None, ss_second = None,
     ss_granted = None, ss_expires = Minute, ss_revoked = None, ss_revoked_by = None,
     ss_revoke_reason = Some ''no''\<rparr>]"
  by code_simp

theorem support_final_sessions_stay_witness:
  "\<exists>x. x \<in> set (db_sessions (support_run [(SFirst ''g'' ''bob'', demo_rt 2)] demo_denied)) \<and>
       ss_status x = SupportStatusDenied"
proof -
  have "sessions_wf demo_denied" unfolding demo_denied_def by (rule support_run_wf [OF demo_wf])
  from support_final_sessions_stay [OF this, of _ "[(SFirst ''g'' ''bob'', demo_rt 2)]"]
  show ?thesis unfolding demo_denied_sessions by force
qed

section \<open>What the operations leave open\<close>

definition demo_standard :: RequestSupportSessionInput where
  "demo_standard = demo_emergency\<lparr>rs_AccessType := SupportAccessStandard\<rparr>"

text \<open>
  The sweeper expires active sessions only, and approval does not look at the expiry: a
  request is still approved an hour after its session has expired.
\<close>

lemma expired_request_approved:
  "map (\<lambda>x. (ss_status x, ss_expires x))
     (db_sessions (support_run [(SRequest demo_standard, demo_rt 0), (SExpire, demo_rt Hour),
        (SApprove (demo_ctx ''p1'' ''e1'') ''g'', demo_rt Hour)] demo_db)) =
   [(SupportStatusActive, Minute)]"
  by code_simp

end
