(* ===== verification/Customers.thy ===== *)
theory Customers
  imports Fixtures
begin

text \<open>
  \<open>internal/service/customers.go\<close>: customer accounts. The customers of a tenant have
  distinct external ids, which is what the import, the metering and the invoices look them
  up by.
\<close>

section \<open>Queries\<close>

abbreviation q_InsertCustomerAccount ::
  "uuid \<Rightarrow> uuid \<Rightarrow> uuid \<Rightarrow> string \<Rightarrow> string \<Rightarrow> string \<Rightarrow> CustomerAccount tx" where
  "q_InsertCustomerAccount i p en ext ty name \<equiv> q_insert customer_accounts
     \<lparr>cu_id = i, cu_provider = p, cu_env = en, cu_external = ext, cu_type = ty, cu_name = name\<rparr>"

abbreviation q_GetCustomerByExternalID :: "uuid \<Rightarrow> uuid \<Rightarrow> string \<Rightarrow> CustomerAccount tx" where
  "q_GetCustomerByExternalID p en ext \<equiv> q_one customer_accounts
     (\<lambda>x. cu_provider x = p \<and> cu_env x = en \<and> cu_external x = ext)"

abbreviation q_GetCustomerByID :: "uuid \<Rightarrow> CustomerAccount tx" where
  "q_GetCustomerByID i \<equiv> q_one customer_accounts (\<lambda>x. cu_id x = i)"

abbreviation q_ListCustomerAccounts :: "uuid \<Rightarrow> uuid \<Rightarrow> int \<Rightarrow> CustomerAccount list tx" where
  "q_ListCustomerAccounts p en n \<equiv>
     bnd (q_many customer_accounts (\<lambda>x. cu_provider x = p \<and> cu_env x = en)) (\<lambda>xs.
     ret (take (nat n) (rev xs)))"

text \<open>\<open>JOIN ... ON\<close>: the pairs of rows that satisfy the condition.\<close>

definition joined :: "('a \<Rightarrow> 'b \<Rightarrow> bool) \<Rightarrow> 'a list \<Rightarrow> 'b list \<Rightarrow> ('a \<times> 'b) list" where
  "joined on xs ys = concat (map (\<lambda>x. map (Pair x) (filter (on x) ys)) xs)"

abbreviation q_ListCustomersByProvider :: "uuid \<Rightarrow> (CustomerAccount \<times> string) list tx" where
  "q_ListCustomersByProvider p \<equiv>
     bnd (q_many customer_accounts (\<lambda>x. cu_provider x = p)) (\<lambda>xs.
     bnd (q_many environments (\<lambda>_. True)) (\<lambda>es.
     ret (map (\<lambda>(x, en). (x, en_kind en)) (joined (\<lambda>x en. en_id en = cu_env x) (rev xs) es))))"

section \<open>Operations\<close>

definition CreateCustomer ::
  "Ctx \<Rightarrow> string \<Rightarrow> string \<Rightarrow> string \<Rightarrow> rt \<Rightarrow> db \<Rightarrow> CustomerAccount result \<times> db" where
  "CreateCustomer tc externalID accountType displayName e d =
     (if externalID = '''' then fail_early ErrValidation d
      else if \<not> ValidAccountType accountType then fail_early ErrValidation d
      else WithTenant tc
        (bnd (draw rt_gen) (\<lambda>id.
         bnd (mapped_err (q_InsertCustomerAccount id (ProviderID tc) (EnvironmentID tc)
                externalID accountType displayName)) (\<lambda>customer.
         bnd (emitOutboxTx (ProviderID tc) (EnvironmentID tc) ''customer_account'' (cu_id customer)
                ''customer.created'' (JObj
                [(''customer_account_id'', JStr (cu_id customer)), (''external_id'', JStr externalID),
                 (''account_type'', JStr accountType)])) (\<lambda>_.
         bnd (insertAuditTx (ProviderNullUUID tc) (EnvironmentNullUUID tc) ''credential''
                (CredentialID tc) ''customer.create'' ''customer_account'' (cu_id customer) (Some (JObj
                [(''external_id'', JStr externalID), (''account_type'', JStr accountType)]))) (\<lambda>_.
         ret customer))))) e d)"

definition ListCustomers :: "Ctx \<Rightarrow> int \<Rightarrow> rt \<Rightarrow> db \<Rightarrow> CustomerAccount list result \<times> db" where
  "ListCustomers tc limit = WithTenant tc
     (q_ListCustomerAccounts (ProviderID tc) (EnvironmentID tc) limit)"

definition ListCustomersByProvider :: "uuid \<Rightarrow> rt \<Rightarrow> db \<Rightarrow> (CustomerAccount \<times> string) list result \<times> db" where
  "ListCustomersByProvider providerID = WithOperator (q_ListCustomersByProvider providerID)"

section \<open>What a creation does\<close>

text \<open>It appends one customer of the tenant under the external id, and fails when there is
  one already.\<close>

definition customer_added :: "Ctx \<Rightarrow> string \<Rightarrow> CustomerAccount \<Rightarrow> db \<Rightarrow> db \<Rightarrow> bool" where
  "customer_added tc ext c d d' \<longleftrightarrow>
     cu_provider c = ProviderID tc \<and> cu_env c = EnvironmentID tc \<and> cu_external c = ext \<and>
     (\<exists>n ev au. d' = d\<lparr>db_customers := db_customers d @ [c],
        db_outbox := db_outbox d @ [ev], db_seq := n, db_audit := db_audit d @ [au]\<rparr>)"

lemma customer_addedI:
  "cu_provider c = ProviderID tc \<Longrightarrow> cu_env c = EnvironmentID tc \<Longrightarrow> cu_external c = ext \<Longrightarrow>
   customer_added tc ext c d (d\<lparr>db_customers := db_customers d @ [c],
     db_outbox := db_outbox d @ [ev], db_seq := n, db_audit := db_audit d @ [au]\<rparr>)"
  unfolding customer_added_def by blast

lemma CreateCustomer_adds:
  "outcome (\<lambda>c d'. customer_added tc ext c d d') d (CreateCustomer tc ext ty name e d)"
  unfolding CreateCustomer_def
  by (intro wp_intros, simp_all add: put_rows_def bump_def customer_accounts_tb)
     (rule customer_addedI, simp_all)

lemma CreateCustomer_conflict:
  assumes "c \<in> set (db_customers d)" "cu_provider c = ProviderID tc" "cu_env c = EnvironmentID tc"
    "cu_external c = ext"
  shows "\<exists>err. CreateCustomer tc ext ty name e d = (Inl err, d)"
proof (cases "CreateCustomer tc ext ty name e d")
  case (Pair r d')
  have "outcome (\<lambda>_ _. False) d (CreateCustomer tc ext ty name e d)"
    unfolding CreateCustomer_def
    by (intro wp_intros) (use assms in \<open>fastforce simp: bump_def customer_accounts_tb\<close>)+
  with Pair show ?thesis by (cases r) (auto simp: outcome_def)
qed

end
