(* ===== verification/Billing_Migration.thy ===== *)
theory Billing_Migration
  imports Customers
begin

text \<open>
  \<open>internal/service/migration.go\<close>: jobs that import customers from another billing system,
  with validation, a resumable import loop that commits each record on its own, the cutover
  lock that stops billing operations meanwhile, and a soft rollback.
\<close>

section \<open>Queries\<close>

abbreviation q_CreateMigrationJob :: "uuid \<Rightarrow> uuid \<Rightarrow> uuid \<Rightarrow> string \<Rightarrow> bool \<Rightarrow> string \<Rightarrow> MigrationJob tx" where
  "q_CreateMigrationJob i p en src dry by \<equiv> q_insert migration_jobs
     \<lparr>mj_id = i, mj_provider = p, mj_env = en, mj_source = src, mj_status = MigrationStatusDraft,
      mj_dry_run = dry, mj_total = 0, mj_processed = 0, mj_failed = 0, mj_locked = False,
      mj_started = None, mj_completed = None, mj_by = by\<rparr>"

abbreviation q_GetMigrationJobByIDForTenant :: "uuid \<Rightarrow> uuid \<Rightarrow> uuid \<Rightarrow> MigrationJob tx" where
  "q_GetMigrationJobByIDForTenant i p en \<equiv> q_one migration_jobs
     (\<lambda>x. mj_id x = i \<and> mj_provider x = p \<and> mj_env x = en)"

abbreviation q_ListMigrationJobs :: "uuid \<Rightarrow> uuid \<Rightarrow> int \<Rightarrow> MigrationJob list tx" where
  "q_ListMigrationJobs p en n \<equiv>
     bnd (q_many migration_jobs (\<lambda>x. mj_provider x = p \<and> mj_env x = en)) (\<lambda>xs.
     ret (take (nat n) (rev xs)))"

abbreviation q_UpdateMigrationJobStatus :: "uuid \<Rightarrow> string \<Rightarrow> MigrationJob tx" where
  "q_UpdateMigrationJobStatus i st \<equiv> q_update_one migration_jobs (\<lambda>x. mj_id x = i)
     (\<lambda>x. x\<lparr>mj_status := st\<rparr>)"

abbreviation q_SetMigrationJobStarted :: "int \<Rightarrow> uuid \<Rightarrow> MigrationJob tx" where
  "q_SetMigrationJobStarted now i \<equiv> q_update_one migration_jobs
     (\<lambda>x. mj_id x = i \<and> mj_status x \<in> {MigrationStatusValidated, MigrationStatusImporting})
     (\<lambda>x. x\<lparr>mj_status := MigrationStatusImporting, mj_started := Some now\<rparr>)"

abbreviation q_CompleteMigrationJob :: "int \<Rightarrow> uuid \<Rightarrow> MigrationJob tx" where
  "q_CompleteMigrationJob now i \<equiv> q_update_one migration_jobs
     (\<lambda>x. mj_id x = i \<and> mj_status x = MigrationStatusImporting)
     (\<lambda>x. x\<lparr>mj_status := MigrationStatusCompleted, mj_completed := Some now\<rparr>)"

abbreviation q_RollbackMigrationJob :: "uuid \<Rightarrow> MigrationJob tx" where
  "q_RollbackMigrationJob i \<equiv> q_update_one migration_jobs
     (\<lambda>x. mj_id x = i \<and> mj_status x \<in>
        {MigrationStatusImporting, MigrationStatusCompleted, MigrationStatusFailed})
     (\<lambda>x. x\<lparr>mj_status := MigrationStatusRolledBack\<rparr>)"

abbreviation q_SetCutoverLock :: "uuid \<Rightarrow> bool \<Rightarrow> MigrationJob tx" where
  "q_SetCutoverLock i b \<equiv> q_update_one migration_jobs (\<lambda>x. mj_id x = i) (\<lambda>x. x\<lparr>mj_locked := b\<rparr>)"

abbreviation q_HasActiveCutoverLock :: "uuid \<Rightarrow> uuid \<Rightarrow> bool tx" where
  "q_HasActiveCutoverLock p en \<equiv>
     bnd (q_many migration_jobs (\<lambda>x. mj_provider x = p \<and> mj_env x = en \<and> mj_locked x \<and>
            mj_status x \<noteq> MigrationStatusRolledBack)) (\<lambda>xs. ret (xs \<noteq> []))"

abbreviation q_UpdateMigrationJobProgress :: "uuid \<Rightarrow> int \<Rightarrow> int \<Rightarrow> unit tx" where
  "q_UpdateMigrationJobProgress i processed failed \<equiv> q_exec migration_jobs (\<lambda>x. mj_id x = i)
     (\<lambda>x. x\<lparr>mj_processed := processed, mj_failed := failed\<rparr>)"

abbreviation q_SetMigrationJobTotalRecords :: "uuid \<Rightarrow> int \<Rightarrow> unit tx" where
  "q_SetMigrationJobTotalRecords i n \<equiv> q_exec migration_jobs (\<lambda>x. mj_id x = i)
     (\<lambda>x. x\<lparr>mj_total := mj_total x + n\<rparr>)"

definition same_record :: "MigrationRecord \<Rightarrow> MigrationRecord \<Rightarrow> bool" where
  "same_record x y \<longleftrightarrow> mr_job x = mr_job y \<and> mr_type x = mr_type y \<and> mr_external x = mr_external y"

abbreviation q_CreateMigrationRecord ::
  "uuid \<Rightarrow> MigrationJob \<Rightarrow> string \<Rightarrow> string \<Rightarrow> json \<Rightarrow> MigrationRecord tx" where
  "q_CreateMigrationRecord i job ty ext data \<equiv>
     bnd (q_insert_new migration_records same_record
       \<lparr>mr_id = i, mr_job = mj_id job, mr_provider = mj_provider job, mr_env = mj_env job,
        mr_type = ty, mr_external = ext, mr_status = MigrationRecordPending, mr_data = data,
        mr_target = None, mr_error = None\<rparr>) (\<lambda>r.
     case r of None \<Rightarrow> throw ErrNoRows | Some x \<Rightarrow> ret x)"

abbreviation q_ListMigrationRecords :: "uuid \<Rightarrow> int \<Rightarrow> MigrationRecord list tx" where
  "q_ListMigrationRecords job n \<equiv>
     bnd (q_many migration_records (\<lambda>x. mr_job x = job)) (\<lambda>xs. ret (take (nat n) xs))"

definition pending_record :: "uuid \<Rightarrow> MigrationRecord \<Rightarrow> bool" where
  "pending_record job x \<longleftrightarrow>
     mr_job x = job \<and> (mr_status x = MigrationRecordPending \<or> mr_status x = MigrationRecordValid)"

abbreviation q_ListPendingMigrationRecords :: "uuid \<Rightarrow> int \<Rightarrow> MigrationRecord list tx" where
  "q_ListPendingMigrationRecords job n \<equiv>
     bnd (q_many migration_records (pending_record job)) (\<lambda>xs. ret (take (nat n) xs))"

abbreviation q_ListInvalidMigrationRecords :: "uuid \<Rightarrow> int \<Rightarrow> MigrationRecord list tx" where
  "q_ListInvalidMigrationRecords job n \<equiv>
     bnd (q_many migration_records (\<lambda>x. mr_job x = job \<and> mr_status x = MigrationRecordInvalid))
       (\<lambda>xs. ret (take (nat n) xs))"

abbreviation q_SetMigrationRecordStatus :: "uuid \<Rightarrow> string \<Rightarrow> string option \<Rightarrow> MigrationRecord tx" where
  "q_SetMigrationRecordStatus i st err \<equiv> q_update_one migration_records (\<lambda>x. mr_id x = i)
     (\<lambda>x. x\<lparr>mr_status := st, mr_error := err\<rparr>)"

abbreviation q_SetMigrationRecordImported :: "uuid \<Rightarrow> uuid \<Rightarrow> MigrationRecord tx" where
  "q_SetMigrationRecordImported i target \<equiv> q_update_one migration_records (\<lambda>x. mr_id x = i)
     (\<lambda>x. x\<lparr>mr_status := MigrationRecordImported, mr_target := Some target\<rparr>)"

abbreviation q_RollbackMigrationRecords :: "uuid \<Rightarrow> int tx" where
  "q_RollbackMigrationRecords job \<equiv> q_execrows migration_records
     (\<lambda>x. mr_job x = job \<and> mr_status x = MigrationRecordImported)
     (\<lambda>x. x\<lparr>mr_status := MigrationRecordRolledBack\<rparr>)"

text \<open>The counts of imported and failed records; the code reads no other.\<close>

abbreviation q_CountMigrationRecordsByStatus :: "uuid \<Rightarrow> (int \<times> int) tx" where
  "q_CountMigrationRecordsByStatus job \<equiv>
     bnd (q_many migration_records (\<lambda>x. mr_job x = job)) (\<lambda>xs.
     ret (int (length (filter (\<lambda>x. mr_status x = MigrationRecordImported) xs)),
          int (length (filter (\<lambda>x. mr_status x = MigrationRecordFailed) xs))))"

section \<open>Jobs and records\<close>

record CreateMigrationJobInput =
  cj_SourceSystem :: string
  cj_DryRun :: bool
  cj_CreatedBy :: string

definition CreateMigrationJob ::
  "Ctx \<Rightarrow> CreateMigrationJobInput \<Rightarrow> rt \<Rightarrow> db \<Rightarrow> MigrationJob result \<times> db" where
  "CreateMigrationJob tc inp e d =
     (if cj_SourceSystem inp = '''' then fail_early ErrValidation d
      else WithTenant tc
        (bnd (draw rt_gen) (\<lambda>id.
         bnd (mapped_err (q_CreateMigrationJob id (ProviderID tc) (EnvironmentID tc)
                (cj_SourceSystem inp) (cj_DryRun inp) (cj_CreatedBy inp))) (\<lambda>j.
         bnd (emitOutboxTx (ProviderID tc) (EnvironmentID tc) ''migration_job'' (mj_id j)
                ''migration.job_created'' (JObj [(''source_system'', JStr (cj_SourceSystem inp)),
                 (''dry_run'', JBool (cj_DryRun inp))])) (\<lambda>_.
         bnd (insertAuditTx (ProviderNullUUID tc) (EnvironmentNullUUID tc) ''credential''
                (CredentialID tc) ''migration.job_create'' ''migration_job'' (mj_id j)
                (Some (JObj [(''source_system'', JStr (cj_SourceSystem inp)),
                 (''dry_run'', JBool (cj_DryRun inp))]))) (\<lambda>_.
         ret j))))) e d)"

record MigrationRecordInput =
  ri_RecordType :: string
  ri_ExternalID :: string
  ri_SourceData :: json

text \<open>Any error of the insert is skipped like a duplicate.\<close>

fun add_records :: "MigrationJob \<Rightarrow> MigrationRecordInput list \<Rightarrow> int \<Rightarrow> int tx" where
  "add_records job [] added = ret added"
| "add_records job (r # rs) added =
     bnd (check (ValidMigrationRecordType (ri_RecordType r)) ErrValidation) (\<lambda>_.
     bnd (check (ri_ExternalID r \<noteq> '''') ErrValidation) (\<lambda>_.
     bnd (draw rt_gen) (\<lambda>id.
     bnd (get_rt (\<lambda>e. rt_jsonb e (ri_SourceData r))) (\<lambda>data.
     bnd (try_tx (q_CreateMigrationRecord id job (ri_RecordType r) (ri_ExternalID r) data)) (\<lambda>res.
     add_records job rs (case res of Inl _ \<Rightarrow> added
       | Inr created \<Rightarrow> if mr_id created \<noteq> uuid_Nil then added + 1 else added))))))"

definition AddMigrationRecords ::
  "Ctx \<Rightarrow> uuid \<Rightarrow> MigrationRecordInput list \<Rightarrow> rt \<Rightarrow> db \<Rightarrow> int result \<times> db" where
  "AddMigrationRecords tc jobID recs = WithTenant tc
     (bnd (mapped_err (q_GetMigrationJobByIDForTenant jobID (ProviderID tc) (EnvironmentID tc))) (\<lambda>job.
      bnd (check (mj_status job = MigrationStatusDraft) ErrConflict) (\<lambda>_.
      bnd (add_records job recs 0) (\<lambda>added.
      bnd (q_SetMigrationJobTotalRecords jobID added) (\<lambda>_.
      bnd (emitOutboxTx (ProviderID tc) (EnvironmentID tc) ''migration_job'' jobID
             ''migration.records_added'' (JObj [(''added'', JInt added)])) (\<lambda>_.
      ret added))))))"

section \<open>Validation\<close>

text \<open>\<open>strings.TrimSpace\<close> leaves nothing: the UTF-8 text consists of white space.\<close>

fun blank :: "nat list \<Rightarrow> bool" where
  "blank [] = True"
| "blank (c # cs) =
     (if 9 \<le> c \<and> c \<le> 13 \<or> c = 32 then blank cs
      else if c = 194 then (case cs of b # r \<Rightarrow> (b = 133 \<or> b = 160) \<and> blank r | _ \<Rightarrow> False)
      else if c = 225 then (case cs of b # b' # r \<Rightarrow> b = 154 \<and> b' = 128 \<and> blank r | _ \<Rightarrow> False)
      else if c = 226 then
        (case cs of b # b' # r \<Rightarrow> (b = 128 \<and> (128 \<le> b' \<and> b' \<le> 138 \<or> b' = 168 \<or> b' = 169 \<or> b' = 175) \<or>
                              b = 129 \<and> b' = 159) \<and> blank r | _ \<Rightarrow> False)
      else if c = 227 then (case cs of b # b' # r \<Rightarrow> b = 128 \<and> b' = 128 \<and> blank r | _ \<Rightarrow> False)
      else False)"

definition trimmed_empty :: "string \<Rightarrow> bool" where
  "trimmed_empty s = blank (map of_char s)"

record source_customer =
  sc_Name :: string
  sc_Email :: string
  sc_Type :: string
  sc_ExternalCode :: string

definition dec_source :: "json \<Rightarrow> source_customer option" where
  "dec_source = dec_struct (\<lambda>k v p.
     if fold_eq k ''name'' then map_option (\<lambda>a. p\<lparr>sc_Name := a\<rparr>) (dec_string v (sc_Name p))
     else if fold_eq k ''email'' then map_option (\<lambda>a. p\<lparr>sc_Email := a\<rparr>) (dec_string v (sc_Email p))
     else if fold_eq k ''type'' then map_option (\<lambda>a. p\<lparr>sc_Type := a\<rparr>) (dec_string v (sc_Type p))
     else if fold_eq k ''external_code''
     then map_option (\<lambda>a. p\<lparr>sc_ExternalCode := a\<rparr>) (dec_string v (sc_ExternalCode p))
     else Some p) \<lparr>sc_Name = '''', sc_Email = '''', sc_Type = '''', sc_ExternalCode = ''''\<rparr>"

text \<open>The message of a decoding error is left without the decoder's detail.\<close>

definition validateCustomerRecord :: "json \<Rightarrow> string" where
  "validateCustomerRecord sourceData =
     (case dec_source sourceData of
        None \<Rightarrow> ''invalid JSON''
      | Some d \<Rightarrow>
          if trimmed_empty (sc_Name d) then ''name is required''
          else if trimmed_empty (sc_Email d) then ''email is required''
          else if sc_Type d \<noteq> ''individual'' \<and> sc_Type d \<noteq> ''business''
          then ''type must be individual or business''
          else if trimmed_empty (sc_ExternalCode d) then ''external_code is required''
          else '''')"

definition textOrNil :: "string \<Rightarrow> string option" where
  "textOrNil s = (if s = '''' then None else Some s)"

fun validate_records :: "MigrationRecord list \<Rightarrow> int \<Rightarrow> int \<Rightarrow> (int \<times> int) tx" where
  "validate_records [] validCount invalidCount = ret (validCount, invalidCount)"
| "validate_records (r # rs) validCount invalidCount =
     (let errMsg = validateCustomerRecord (mr_data r) in
      bnd (mapped_err (q_SetMigrationRecordStatus (mr_id r)
             (if errMsg \<noteq> '''' then MigrationRecordInvalid else MigrationRecordValid)
             (textOrNil errMsg))) (\<lambda>_.
      if errMsg \<noteq> '''' then validate_records rs validCount (invalidCount + 1)
      else validate_records rs (validCount + 1) invalidCount))"

definition ValidateMigrationJob :: "Ctx \<Rightarrow> uuid \<Rightarrow> rt \<Rightarrow> db \<Rightarrow> MigrationJob result \<times> db" where
  "ValidateMigrationJob tc jobID = WithTenant tc
     (bnd (mapped_err (q_GetMigrationJobByIDForTenant jobID (ProviderID tc) (EnvironmentID tc))) (\<lambda>j.
      bnd (check (\<not> (mj_status j \<noteq> MigrationStatusDraft \<and> mj_status j \<noteq> MigrationStatusValidated))
             ErrConflict) (\<lambda>_.
      bnd (mapped_err (q_UpdateMigrationJobStatus jobID MigrationStatusValidating)) (\<lambda>_.
      bnd (mapped_err (q_ListMigrationRecords jobID 10000)) (\<lambda>records.
      bnd (validate_records records 0 0) (\<lambda>(validCount, invalidCount).
      bnd (mapped_err (q_UpdateMigrationJobStatus jobID MigrationStatusValidated)) (\<lambda>updated.
      bnd (emitOutboxTx (ProviderID tc) (EnvironmentID tc) ''migration_job'' jobID
             ''migration.validated'' (JObj [(''valid'', JInt validCount), (''invalid'', JInt invalidCount)])) (\<lambda>_.
      bnd (insertAuditTx (ProviderNullUUID tc) (EnvironmentNullUUID tc) ''credential''
             (CredentialID tc) ''migration.job_validate'' ''migration_job'' jobID
             (Some (JObj [(''valid'', JInt validCount), (''invalid'', JInt invalidCount)]))) (\<lambda>_.
      ret updated)))))))))"

section \<open>Import\<close>

text \<open>The transactions that mark a record commit on their own and their errors are dropped.\<close>

definition markRecordFailed :: "Ctx \<Rightarrow> uuid \<Rightarrow> string \<Rightarrow> rt \<Rightarrow> db \<Rightarrow> db" where
  "markRecordFailed tc recordID errMsg e d =
     snd (WithTenant tc (q_SetMigrationRecordStatus recordID MigrationRecordFailed (textOrNil errMsg)) e d)"

definition importSingleRecord :: "Ctx \<Rightarrow> MigrationRecord \<Rightarrow> rt \<Rightarrow> db \<Rightarrow> db" where
  "importSingleRecord tc r e d =
     (if mr_type r = MigrationRecordSubscription
      then markRecordFailed tc (mr_id r) (''subscription import is not yet supported; '' @
             ''import customers first, then create subscriptions via the API'') e d
      else case dec_source (mr_data r) of
        None \<Rightarrow> markRecordFailed tc (mr_id r) ''invalid source_data'' e d
      | Some source \<Rightarrow>
          (case CreateCustomer tc (sc_ExternalCode source) (sc_Type source) (sc_Name source) e d of
             (Inl err, d') \<Rightarrow> markRecordFailed tc (mr_id r) (rt_error_text e err) e d'
           | (Inr customer, d') \<Rightarrow>
               snd (WithTenant tc (q_SetMigrationRecordImported (mr_id r) (cu_id customer)) e d')))"

fun import_batch :: "Ctx \<Rightarrow> MigrationRecord list \<Rightarrow> rt \<Rightarrow> db \<Rightarrow> db" where
  "import_batch tc [] e d = d"
| "import_batch tc (r # rs) e d = import_batch tc rs e (importSingleRecord tc r e d)"

abbreviation batchSize :: int where "batchSize \<equiv> 100"

text \<open>The loop ends when no record is pending; \<open>None\<close> stands for a loop that does not end.\<close>

partial_function (option) import_loop :: "Ctx \<Rightarrow> uuid \<Rightarrow> rt \<Rightarrow> db \<Rightarrow> (unit result \<times> db) option" where
  "import_loop tc jobID e d =
     (case WithTenant tc (q_ListPendingMigrationRecords jobID batchSize) e d of
        (Inl err, d') \<Rightarrow> Some (Inl err, d')
      | (Inr batch, d') \<Rightarrow>
          if batch = [] then Some (Inr (), d') else import_loop tc jobID e (import_batch tc batch e d'))"

definition update_progress :: "uuid \<Rightarrow> unit tx" where
  "update_progress jobID =
     bnd (q_CountMigrationRecordsByStatus jobID) (\<lambda>(imported, failed).
     q_UpdateMigrationJobProgress jobID (wrap32 (imported + failed)) (wrap32 failed))"

definition processMigrationBatch :: "Ctx \<Rightarrow> uuid \<Rightarrow> rt \<Rightarrow> db \<Rightarrow> (unit result \<times> db) option" where
  "processMigrationBatch tc jobID e d =
     (case import_loop tc jobID e d of
        None \<Rightarrow> None
      | Some (Inl err, d') \<Rightarrow> Some (Inl err, d')
      | Some (Inr _, d') \<Rightarrow> Some (WithTenant tc (update_progress jobID) e d'))"

definition start_migration :: "Ctx \<Rightarrow> uuid \<Rightarrow> MigrationJob tx" where
  "start_migration tc jobID =
     bnd (mapped_err (q_GetMigrationJobByIDForTenant jobID (ProviderID tc) (EnvironmentID tc))) (\<lambda>j.
     bnd (check (\<not> (mj_status j \<noteq> MigrationStatusValidated \<and> mj_status j \<noteq> MigrationStatusImporting))
            ErrConflict) (\<lambda>_.
     bnd (mapped_err (q_SetCutoverLock jobID True)) (\<lambda>_.
     bnd now_tx (\<lambda>now.
     mapped_err (q_SetMigrationJobStarted now jobID)))))"

definition StartMigration :: "Ctx \<Rightarrow> uuid \<Rightarrow> rt \<Rightarrow> db \<Rightarrow> (MigrationJob result \<times> db) option" where
  "StartMigration tc jobID e d =
     (case WithTenant tc (start_migration tc jobID) e d of
        (Inl err, d') \<Rightarrow> Some (Inl err, d')
      | (Inr job, d') \<Rightarrow>
          (case processMigrationBatch tc jobID e d' of
             None \<Rightarrow> None
           | Some (Inl err, d'') \<Rightarrow> Some (Inl err, d'')
           | Some (Inr _, d'') \<Rightarrow> Some (Inr job, d'')))"

definition ResumeMigration :: "Ctx \<Rightarrow> uuid \<Rightarrow> rt \<Rightarrow> db \<Rightarrow> (unit result \<times> db) option" where
  "ResumeMigration = processMigrationBatch"

section \<open>Completion and rollback\<close>

definition CompleteMigration :: "Ctx \<Rightarrow> uuid \<Rightarrow> rt \<Rightarrow> db \<Rightarrow> MigrationJob result \<times> db" where
  "CompleteMigration tc jobID = WithTenant tc
     (bnd (mapped_err (q_GetMigrationJobByIDForTenant jobID (ProviderID tc) (EnvironmentID tc))) (\<lambda>j.
      bnd (check (mj_status j = MigrationStatusImporting) ErrConflict) (\<lambda>_.
      bnd (mapped_err (q_SetCutoverLock jobID False)) (\<lambda>_.
      bnd now_tx (\<lambda>now.
      bnd (mapped_err (q_CompleteMigrationJob now jobID)) (\<lambda>updated.
      bnd (insertAuditTx (ProviderNullUUID tc) (EnvironmentNullUUID tc) ''credential''
             (CredentialID tc) ''migration.job_complete'' ''migration_job'' jobID
             (Some (JObj [(''processed'', JInt (mj_processed j)), (''failed'', JInt (mj_failed j))]))) (\<lambda>_.
      ret updated)))))))"

definition RollbackMigration :: "Ctx \<Rightarrow> uuid \<Rightarrow> rt \<Rightarrow> db \<Rightarrow> MigrationJob result \<times> db" where
  "RollbackMigration tc jobID = WithTenant tc
     (bnd (mapped_err (q_GetMigrationJobByIDForTenant jobID (ProviderID tc) (EnvironmentID tc))) (\<lambda>j.
      bnd (check (\<not> (mj_status j \<noteq> MigrationStatusImporting \<and> mj_status j \<noteq> MigrationStatusCompleted \<and>
             mj_status j \<noteq> MigrationStatusFailed)) ErrConflict) (\<lambda>_.
      bnd (mapped_err (q_SetCutoverLock jobID False)) (\<lambda>_.
      bnd (mapped_err (q_RollbackMigrationRecords jobID)) (\<lambda>_.
      bnd (mapped_err (q_RollbackMigrationJob jobID)) (\<lambda>updated.
      bnd (emitOutboxTx (ProviderID tc) (EnvironmentID tc) ''migration_job'' jobID
             ''migration.rolled_back'' JNull) (\<lambda>_.
      bnd (insertAuditTx (ProviderNullUUID tc) (EnvironmentNullUUID tc) ''credential''
             (CredentialID tc) ''migration.job_rollback'' ''migration_job'' jobID None) (\<lambda>_.
      ret updated))))))))"

definition GetMigrationJob :: "Ctx \<Rightarrow> uuid \<Rightarrow> rt \<Rightarrow> db \<Rightarrow> MigrationJob result \<times> db" where
  "GetMigrationJob tc jobID = WithTenant tc
     (mapped_err (q_GetMigrationJobByIDForTenant jobID (ProviderID tc) (EnvironmentID tc)))"

definition ListMigrationJobs :: "Ctx \<Rightarrow> rt \<Rightarrow> db \<Rightarrow> MigrationJob list result \<times> db" where
  "ListMigrationJobs tc = WithTenant tc
     (q_ListMigrationJobs (ProviderID tc) (EnvironmentID tc) 100)"

definition ListMigrationRecords :: "Ctx \<Rightarrow> uuid \<Rightarrow> rt \<Rightarrow> db \<Rightarrow> MigrationRecord list result \<times> db" where
  "ListMigrationRecords tc jobID = WithTenant tc
     (bnd (mapped_err (q_GetMigrationJobByIDForTenant jobID (ProviderID tc) (EnvironmentID tc))) (\<lambda>_.
      q_ListMigrationRecords jobID 1000))"

definition ListInvalidRecords :: "Ctx \<Rightarrow> uuid \<Rightarrow> rt \<Rightarrow> db \<Rightarrow> MigrationRecord list result \<times> db" where
  "ListInvalidRecords tc jobID = WithTenant tc
     (bnd (mapped_err (q_GetMigrationJobByIDForTenant jobID (ProviderID tc) (EnvironmentID tc))) (\<lambda>_.
      q_ListInvalidMigrationRecords jobID 1000))"

definition IsCutoverLocked :: "Ctx \<Rightarrow> rt \<Rightarrow> db \<Rightarrow> bool result \<times> db" where
  "IsCutoverLocked tc = WithTenant tc (q_HasActiveCutoverLock (ProviderID tc) (EnvironmentID tc))"

definition CheckCutoverLock :: "Ctx \<Rightarrow> rt \<Rightarrow> db \<Rightarrow> unit result \<times> db" where
  "CheckCutoverLock tc e d =
     (case IsCutoverLocked tc e d of
        (Inl err, d') \<Rightarrow> (Inl err, d')
      | (Inr locked, d') \<Rightarrow> if locked then (Inl ErrCutoverLocked, d') else (Inr (), d'))"

section \<open>What an import does\<close>

text \<open>A settled record was imported into a customer of the tenant, or failed. Importing
  settles records of the tenant, appends customers of the tenant, and touches no other row.\<close>

definition mine :: "Ctx \<Rightarrow> MigrationRecord \<Rightarrow> bool" where
  "mine tc x \<longleftrightarrow> mr_provider x = ProviderID tc \<and> mr_env x = EnvironmentID tc"

definition settled :: "Ctx \<Rightarrow> db \<Rightarrow> MigrationRecord \<Rightarrow> bool" where
  "settled tc d x \<longleftrightarrow> mr_status x = MigrationRecordFailed \<or>
     mr_status x = MigrationRecordImported \<and>
     (\<exists>c\<in>set (db_customers d). mr_target x = Some (cu_id c) \<and>
        cu_provider c = ProviderID tc \<and> cu_env c = EnvironmentID tc)"

definition import_step :: "Ctx \<Rightarrow> db \<Rightarrow> MigrationRecord \<Rightarrow> MigrationRecord \<Rightarrow> bool" where
  "import_step tc d x y \<longleftrightarrow> y = x \<or> mine tc x \<and> settled tc d y \<and>
     (\<exists>st t er. y = x\<lparr>mr_status := st, mr_target := t, mr_error := er\<rparr>)"

definition import_run :: "Ctx \<Rightarrow> db \<Rightarrow> db \<Rightarrow> bool" where
  "import_run tc d d' \<longleftrightarrow>
     (\<exists>cs. db_customers d' = db_customers d @ cs \<and>
           (\<forall>c\<in>set cs. cu_provider c = ProviderID tc \<and> cu_env c = EnvironmentID tc)) \<and>
     db_jobs d' = db_jobs d \<and> list_all2 (import_step tc d') (db_records d) (db_records d')"

definition typed_records :: "db \<Rightarrow> bool" where
  "typed_records d \<longleftrightarrow> (\<forall>x\<in>set (db_records d). ValidMigrationRecordType (mr_type x))"

lemma settled_mono:
  "settled tc d x \<Longrightarrow> set (db_customers d) \<subseteq> set (db_customers d') \<Longrightarrow> settled tc d' x"
  by (auto simp: settled_def)

lemma settled_not_pending: "settled tc d x \<Longrightarrow> \<not> pending_record job x"
  by (auto simp: settled_def pending_record_def)

lemma import_step_fields:
  "import_step tc d x y \<Longrightarrow> mr_id y = mr_id x \<and> mr_job y = mr_job x \<and> mr_type y = mr_type x \<and>
     mr_external y = mr_external x \<and> mr_data y = mr_data x \<and> mine tc y = mine tc x"
  by (auto simp: import_step_def mine_def)

lemma import_step_trans:
  assumes "import_step tc d x y" "import_step tc d' y z" "set (db_customers d) \<subseteq> set (db_customers d')"
  shows "import_step tc d' x z"
proof (cases "z = y")
  case True
  show ?thesis
    using assms(1) settled_mono [OF _ assms(3), of tc y] unfolding import_step_def True by blast
next
  case False
  with assms(2) obtain st t er where z: "settled tc d' z" "mine tc y"
    "z = y\<lparr>mr_status := st, mr_target := t, mr_error := er\<rparr>" unfolding import_step_def by blast
  from assms(1) consider "y = x" | st' t' er' where "mine tc x"
    "y = x\<lparr>mr_status := st', mr_target := t', mr_error := er'\<rparr>" unfolding import_step_def by blast
  then show ?thesis
  proof cases
    case 1
    with z show ?thesis unfolding import_step_def by blast
  next
    case 2
    with z(3) have "z = x\<lparr>mr_status := st, mr_target := t, mr_error := er\<rparr>" by simp
    with 2(1) z(1) show ?thesis unfolding import_step_def by blast
  qed
qed

lemma import_run_refl: "import_run tc d d"
  by (simp add: import_run_def list_all2_same import_step_def)

lemma import_run_trans:
  assumes "import_run tc d d'" "import_run tc d' d''"
  shows "import_run tc d d''"
proof -
  have sub: "set (db_customers d') \<subseteq> set (db_customers d'')"
    using assms(2) by (auto simp: import_run_def)
  have "list_all2 (import_step tc d'') (db_records d) (db_records d'')"
    by (rule list_all2_trans [where ?P1.0 = "import_step tc d'" and ?P2.0 = "import_step tc d''"
          and bs = "db_records d'"])
       (use assms import_step_trans [OF _ _ sub] in \<open>simp_all add: import_run_def\<close>)
  with assms show ?thesis by (fastforce simp: import_run_def)
qed

lemma import_run_typed: "import_run tc d d' \<Longrightarrow> typed_records d \<Longrightarrow> typed_records d'"
  unfolding import_run_def typed_records_def list_all2_conv_all_nth
  by (metis import_step_fields in_set_conv_nth)

lemma import_run_present:
  "import_run tc d d' \<Longrightarrow> \<exists>x\<in>set (db_records d). mine tc x \<and> mr_id x = i \<Longrightarrow>
   \<exists>x\<in>set (db_records d'). mine tc x \<and> mr_id x = i"
  unfolding import_run_def list_all2_conv_all_nth by (metis import_step_fields in_set_conv_nth)

lemma import_run_settled:
  assumes "import_run tc d d'" "\<forall>x\<in>set (db_records d). mine tc x \<and> mr_id x = i \<longrightarrow> settled tc d x"
  shows "\<forall>x\<in>set (db_records d'). mine tc x \<and> mr_id x = i \<longrightarrow> settled tc d' x"
proof (intro ballI impI)
  fix y assume y: "y \<in> set (db_records d')" "mine tc y \<and> mr_id y = i"
  then obtain n where n: "n < length (db_records d')" "y = db_records d' ! n" by (auto simp: in_set_conv_nth)
  with assms(1) have st: "import_step tc d' (db_records d ! n) y" and l: "n < length (db_records d)"
    by (auto simp: import_run_def list_all2_conv_all_nth)
  from import_step_fields [OF st] assms(2) nth_mem [OF l] y have "settled tc d (db_records d ! n)" by auto
  moreover have "set (db_customers d) \<subseteq> set (db_customers d')" using assms(1) by (auto simp: import_run_def)
  ultimately have "settled tc d' (db_records d ! n)" by (rule settled_mono)
  with st show "settled tc d' y" by (auto simp: import_step_def)
qed

text \<open>Marking a record of the tenant succeeds.\<close>

lemma mark_record:
  assumes "typed_records d" "\<exists>x\<in>set (db_records d). mine tc x \<and> mr_id x = i"
    and "\<And>x. mr_type (f x) = mr_type x \<and> mr_provider (f x) = mr_provider x \<and> mr_env (f x) = mr_env x \<and>
       mr_status (f x) \<in> {MigrationRecordImported, MigrationRecordFailed}"
  shows "snd (WithTenant tc (q_update_one migration_records (\<lambda>x. mr_id x = i) f) e d) =
    d\<lparr>db_records := update_where (\<lambda>x. mine tc x \<and> mr_id x = i) f (db_records d)\<rparr>"
proof -
  let ?s = "\<lparr>s_db = d, s_rt = e, s_role = Tenant (ProviderID tc) (EnvironmentID tc), s_aborted = False\<rparr>"
  have vis: "tb_vis migration_records (s_role ?s) = mine tc"
    by (auto simp: migration_records_tb mine_def fun_eq_iff)
  have h: "hit_rows migration_records (\<lambda>x. mr_id x = i) ?s =
      filter (\<lambda>x. mine tc x \<and> mr_id x = i) (db_records d)"
    by (simp add: hit_rows_def migration_records_tb mine_def conj_assoc)
  have "q_update_one migration_records (\<lambda>x. mr_id x = i) f ?s =
      Inr (f (hd (hit_rows migration_records (\<lambda>x. mr_id x = i) ?s)),
           upd_rows migration_records (\<lambda>x. mr_id x = i) f ?s)"
  proof (rule q_update_one_hit)
    show "hit_rows migration_records (\<lambda>x. mr_id x = i) ?s \<noteq> []"
      using assms(2) by (simp add: h filter_empty_conv)
  next
    fix r assume "r \<in> set (hit_rows migration_records (\<lambda>x. mr_id x = i) ?s)"
    with assms(1,3) show "tb_vis migration_records (s_role ?s) (f r) \<and> tb_check migration_records (s_db ?s) (f r)"
      by (auto simp: h vis mine_def typed_records_def) (auto simp: migration_records_tb)
  qed (simp_all add: migration_records_tb)
  then show ?thesis
    by (simp add: WithTenant_def run_tx_def upd_rows_def put_rows_def migration_records_tb mine_def)
qed

lemma mark_imports:
  assumes "typed_records d" "\<exists>x\<in>set (db_records d). mine tc x \<and> mr_id x = i"
    and "\<And>x. f x = x\<lparr>mr_status := st, mr_target := t x, mr_error := er x\<rparr>"
    and "\<And>x. mine tc x \<Longrightarrow> settled tc d (f x)"
    and "st \<in> {MigrationRecordImported, MigrationRecordFailed}"
  shows "import_run tc d (snd (WithTenant tc (q_update_one migration_records (\<lambda>x. mr_id x = i) f) e d)) \<and>
    (\<forall>x\<in>set (db_records (snd (WithTenant tc (q_update_one migration_records (\<lambda>x. mr_id x = i) f) e d))).
       mine tc x \<and> mr_id x = i \<longrightarrow>
       settled tc (snd (WithTenant tc (q_update_one migration_records (\<lambda>x. mr_id x = i) f) e d)) x)"
proof -
  have eq: "snd (WithTenant tc (q_update_one migration_records (\<lambda>x. mr_id x = i) f) e d) =
    d\<lparr>db_records := update_where (\<lambda>x. mine tc x \<and> mr_id x = i) f (db_records d)\<rparr>"
    using assms by (intro mark_record) simp_all
  have s: "settled tc (d\<lparr>db_records := rs\<rparr>) x = settled tc d x" for rs x
    by (simp add: settled_def)
  have st: "import_step tc (d\<lparr>db_records := rs\<rparr>) x (if mine tc x \<and> mr_id x = i then f x else x)" for rs x
    using assms(4) [of x] assms(3) [of x] by (auto simp: import_step_def s)
  have "list_all2 (import_step tc (d\<lparr>db_records := update_where (\<lambda>x. mine tc x \<and> mr_id x = i) f (db_records d)\<rparr>))
      (db_records d) (update_where (\<lambda>x. mine tc x \<and> mr_id x = i) f (db_records d))"
    by (simp add: update_where_def list_all2_conv_all_nth st)
  moreover have "settled tc d y" if "y \<in> set (update_where (\<lambda>x. mine tc x \<and> mr_id x = i) f (db_records d))"
    "mine tc y" "mr_id y = i" for y
    using that assms(4) by (auto simp: set_update_where)
  ultimately show ?thesis by (simp add: eq import_run_def s)
qed

lemma import_record:
  assumes "typed_records d" "\<exists>x\<in>set (db_records d). mine tc x \<and> mr_id x = mr_id r"
  shows "import_run tc d (importSingleRecord tc r e d) \<and>
    (\<forall>x\<in>set (db_records (importSingleRecord tc r e d)). mine tc x \<and> mr_id x = mr_id r \<longrightarrow>
       settled tc (importSingleRecord tc r e d) x)"
proof -
  have fail: "import_run tc d (markRecordFailed tc (mr_id r) m e d) \<and>
    (\<forall>x\<in>set (db_records (markRecordFailed tc (mr_id r) m e d)). mine tc x \<and> mr_id x = mr_id r \<longrightarrow>
       settled tc (markRecordFailed tc (mr_id r) m e d) x)" for m
    unfolding markRecordFailed_def
    by (rule mark_imports [OF assms, where st = MigrationRecordFailed and t = mr_target
          and er = "\<lambda>_. textOrNil m"])
       (simp_all add: settled_def)
  show ?thesis
  proof (cases "mr_type r = MigrationRecordSubscription")
    case True
    with fail show ?thesis by (simp add: importSingleRecord_def)
  next
    case F: False
    show ?thesis
    proof (cases "dec_source (mr_data r)")
      case None
      with F fail show ?thesis by (simp add: importSingleRecord_def)
    next
      case (Some src)
      obtain res d' where c: "CreateCustomer tc (sc_ExternalCode src) (sc_Type src) (sc_Name src) e d = (res, d')"
        by fastforce
      have oc: "outcome (\<lambda>c d'. customer_added tc (sc_ExternalCode src) c d d') d (res, d')"
        unfolding c [symmetric] by (rule CreateCustomer_adds)
      show ?thesis
      proof (cases res)
        case (Inl err)
        with oc have "d' = d" by (simp add: outcome_def)
        with F Some c Inl fail show ?thesis by (simp add: importSingleRecord_def)
      next
        case (Inr cust)
        with oc have ca: "customer_added tc (sc_ExternalCode src) cust d d'" by (simp add: outcome_def)
        then have cs: "db_customers d' = db_customers d @ [cust]" "db_records d' = db_records d"
          "db_jobs d' = db_jobs d" "cu_provider cust = ProviderID tc" "cu_env cust = EnvironmentID tc"
          by (auto simp: customer_added_def)
        have run1: "import_run tc d d'"
          using cs by (simp add: import_run_def list_all2_same import_step_def)
        have "import_run tc d' (importSingleRecord tc r e d) \<and>
          (\<forall>x\<in>set (db_records (importSingleRecord tc r e d)). mine tc x \<and> mr_id x = mr_id r \<longrightarrow>
             settled tc (importSingleRecord tc r e d) x)"
          unfolding importSingleRecord_def using F
          by (simp add: Some c Inr, intro mark_imports [where st = MigrationRecordImported and t = "\<lambda>_. Some (cu_id cust)" and er = mr_error])
             (use assms cs in \<open>auto simp: settled_def typed_records_def\<close>)
        with run1 show ?thesis by (blast intro: import_run_trans)
      qed
    qed
  qed
qed

lemma import_batch_run:
  "typed_records d \<Longrightarrow> \<forall>r\<in>set rs. \<exists>x\<in>set (db_records d). mine tc x \<and> mr_id x = mr_id r \<Longrightarrow>
   import_run tc d (import_batch tc rs e d) \<and>
   (\<forall>r\<in>set rs. \<forall>x\<in>set (db_records (import_batch tc rs e d)). mine tc x \<and> mr_id x = mr_id r \<longrightarrow>
      settled tc (import_batch tc rs e d) x)"
proof (induction rs arbitrary: d)
  case Nil
  then show ?case by (simp add: import_run_refl)
next
  case (Cons r rs)
  let ?d = "importSingleRecord tc r e d"
  have 1: "import_run tc d ?d"
    "\<forall>x\<in>set (db_records ?d). mine tc x \<and> mr_id x = mr_id r \<longrightarrow> settled tc ?d x"
    using import_record [of d tc r e] Cons.prems by simp_all
  have 2: "import_run tc ?d (import_batch tc rs e ?d)"
    "\<forall>r\<in>set rs. \<forall>x\<in>set (db_records (import_batch tc rs e ?d)). mine tc x \<and> mr_id x = mr_id r \<longrightarrow>
      settled tc (import_batch tc rs e ?d) x"
    using Cons.IH [of ?d] import_run_typed [OF 1(1)] import_run_present [OF 1(1)] Cons.prems by simp_all
  from 2 import_run_settled [OF 2(1) 1(2)] import_run_trans [OF 1(1) 2(1)] show ?case by simp
qed

section \<open>The loop ends\<close>

definition open_records :: "Ctx \<Rightarrow> uuid \<Rightarrow> db \<Rightarrow> nat" where
  "open_records tc job d = length (filter (\<lambda>x. mine tc x \<and> pending_record job x) (db_records d))"

lemma filter_shrinks:
  assumes "list_all2 R xs ys" "\<And>x y. R x y \<Longrightarrow> P y \<Longrightarrow> P x"
  shows "length (filter P ys) \<le> length (filter P xs)"
  using assms(1) by (induction rule: list_all2_induct) (auto dest: assms(2))

lemma filter_shrinks_strictly:
  assumes "list_all2 R xs ys" "\<And>x y. R x y \<Longrightarrow> P y \<Longrightarrow> P x"
    and "\<And>x y. R x y \<Longrightarrow> Q x \<Longrightarrow> y \<in> set ys \<Longrightarrow> \<not> P y" "\<exists>x\<in>set xs. P x \<and> Q x"
  shows "length (filter P ys) < length (filter P xs)"
  using assms(1,3,4)
proof (induction rule: list_all2_induct)
  case (Cons x xs y ys)
  have le: "length (filter P ys) \<le> length (filter P xs)" using Cons.hyps(2) assms(2) by (rule filter_shrinks)
  show ?case
  proof (cases "P x \<and> Q x")
    case True
    with Cons.prems(1) [of x y] Cons.hyps(1) le show ?thesis by simp
  next
    case False
    with Cons.prems(2) have "\<exists>x\<in>set xs. P x \<and> Q x" by auto
    with Cons.IH Cons.prems(1) have "length (filter P ys) < length (filter P xs)" by simp
    moreover have "P y \<longrightarrow> P x" using assms(2) [OF Cons.hyps(1)] by blast
    ultimately show ?thesis by auto
  qed
qed simp

lemma list_pending:
  "WithTenant tc (q_ListPendingMigrationRecords job n) e d =
   (Inr (take (nat n) (filter (\<lambda>x. mine tc x \<and> pending_record job x) (db_records d))), d)"
  by (simp add: WithTenant_def run_tx_def bnd_def q_many_def live_tx_def rows_def ret_def
      migration_records_tb mine_def conj_commute)

lemma import_loop_returns:
  "typed_records d \<Longrightarrow>
   \<exists>d'. import_loop tc job e d = Some (Inr (), d') \<and> import_run tc d d' \<and> open_records tc job d' = 0"
proof (induction "open_records tc job d" arbitrary: d rule: less_induct)
  case less
  let ?open = "filter (\<lambda>x. mine tc x \<and> pending_record job x) (db_records d)"
  note page = list_pending [of tc job batchSize e d, simplified]
  show ?case
  proof (cases "?open = []")
    case True
    then have "import_loop tc job e d = Some (Inr (), d)"
      by (subst import_loop.simps) (simp add: page)
    moreover have "open_records tc job d = 0" using True by (simp add: open_records_def)
    ultimately show ?thesis using import_run_refl by blast
  next
    case False
    let ?d = "import_batch tc (take 100 ?open) e d"
    have step: "import_loop tc job e d = import_loop tc job e ?d"
      using False by (subst import_loop.simps) (simp add: page)
    have "\<forall>r\<in>set (take 100 ?open). \<exists>x\<in>set (db_records d). mine tc x \<and> mr_id x = mr_id r"
      by (auto dest!: in_set_takeD)
    from import_batch_run [OF less.prems this]
    have run: "import_run tc d ?d"
      and fin: "\<forall>r\<in>set (take 100 ?open). \<forall>x\<in>set (db_records ?d). mine tc x \<and> mr_id x = mr_id r \<longrightarrow>
        settled tc ?d x"
      by blast+
    let ?r = "hd ?open"
    have r: "?r \<in> set (take 100 ?open)" "?r \<in> set (db_records d)" "mine tc ?r" "pending_record job ?r"
      using False hd_in_set [OF False] by (auto simp: take_Suc_conv_app_nth neq_Nil_conv)
    have "length (filter (\<lambda>x. mine tc x \<and> pending_record job x) (db_records ?d)) < length ?open"
    proof (rule filter_shrinks_strictly [where Q = "\<lambda>x. mine tc x \<and> mr_id x = mr_id ?r"])
      show "list_all2 (import_step tc ?d) (db_records d) (db_records ?d)"
        using run by (simp add: import_run_def)
    next
      fix x y assume s: "import_step tc ?d x y" and p: "mine tc y \<and> pending_record job y"
      then show "mine tc x \<and> pending_record job x"
        using settled_not_pending unfolding import_step_def by blast
    next
      fix x y assume s: "import_step tc ?d x y" "mine tc x \<and> mr_id x = mr_id ?r" "y \<in> set (db_records ?d)"
      from import_step_fields [OF s(1)] s(2,3) fin r(1) have "settled tc ?d y" by auto
      then show "\<not> (mine tc y \<and> pending_record job y)" by (simp add: settled_not_pending)
    next
      show "\<exists>x\<in>set (db_records d). (mine tc x \<and> pending_record job x) \<and> mine tc x \<and> mr_id x = mr_id ?r"
        using r by blast
    qed
    then have "open_records tc job ?d < open_records tc job d" by (simp add: open_records_def)
    from less.hyps [OF this import_run_typed [OF run less.prems]] obtain d' where
      "import_loop tc job e ?d = Some (Inr (), d')" "import_run tc ?d d'" "open_records tc job d' = 0" by blast
    with step import_run_trans [OF run] show ?thesis by auto
  qed
qed

section \<open>The cutover lock\<close>

text \<open>A job holds the lock exactly while it is importing.\<close>

definition job_ok :: "MigrationJob \<Rightarrow> bool" where
  "job_ok x \<longleftrightarrow> (mj_locked x \<longleftrightarrow> mj_status x = MigrationStatusImporting)"

definition jobs_inv :: "db \<Rightarrow> bool" where
  "jobs_inv d \<longleftrightarrow> distinct (map mj_id (db_jobs d)) \<and> (\<forall>x\<in>set (db_jobs d). job_ok x)"

lemma jobs_unique:
  "jobs_inv d \<Longrightarrow> x \<in> set (db_jobs d) \<Longrightarrow> y \<in> set (db_jobs d) \<Longrightarrow> mj_id x = mj_id y \<Longrightarrow> x = y"
  by (auto simp: jobs_inv_def dest: distinct_keys_unique)

lemma jobs_inv_map:
  assumes "jobs_inv d" "db_jobs d' = js" "js = map f (db_jobs d)" "\<And>x. mj_id (f x) = mj_id x"
    and "\<And>x. x \<in> set (db_jobs d) \<Longrightarrow> job_ok x \<Longrightarrow> job_ok (f x)"
  shows "jobs_inv d'"
proof -
  have "map mj_id (db_jobs d') = map mj_id (db_jobs d)" by (simp add: assms(2-4))
  moreover have "\<forall>x\<in>set (db_jobs d'). job_ok x" using assms(1,2,3,5) by (simp add: jobs_inv_def)
  ultimately show ?thesis using assms(1) by (simp only: jobs_inv_def)
qed

text \<open>An operation on the job under an id.\<close>

lemma jobs_inv_at:
  assumes "jobs_inv d" "db_jobs d' = js" "js = map f (db_jobs d)" "j \<in> set (db_jobs d)" "mj_id j = i"
    and "\<And>x. mj_id (f x) = mj_id x" "\<And>x. mj_id x \<noteq> i \<Longrightarrow> f x = x" "job_ok j \<Longrightarrow> job_ok (f j)"
  shows "jobs_inv d'"
proof (rule jobs_inv_map [OF assms(1,2,3,6)])
  fix x assume "x \<in> set (db_jobs d)" "job_ok x"
  with assms(5,7,8) jobs_unique [OF assms(1) _ assms(4), of x] show "job_ok (f x)"
    by (cases "mj_id x = i") auto
qed

lemma jobs_inv_same: "db_jobs d' = db_jobs d \<Longrightarrow> jobs_inv d' = jobs_inv d"
  by (simp add: jobs_inv_def)

lemma wp_add_records:
  "(\<And>x s'. s_role s' = s_role s \<Longrightarrow> s_rt s' = s_rt s \<Longrightarrow> db_jobs (s_db s') = db_jobs (s_db s) \<Longrightarrow> Q x s') \<Longrightarrow>
   wp (add_records job rs n) Q s"
proof (induction rs arbitrary: n s)
  case Nil
  then show ?case by (simp add: wp_ret)
next
  case (Cons r rs)
  show ?case
    by (simp only: add_records.simps, intro wp_intros Cons.IH Cons.prems)
       (simp_all add: bump_def put_rows_def migration_records_tb)
qed

lemma wp_validate_records:
  "(\<And>x s'. s_role s' = s_role s \<Longrightarrow> s_rt s' = s_rt s \<Longrightarrow> db_jobs (s_db s') = db_jobs (s_db s) \<Longrightarrow> Q x s') \<Longrightarrow>
   wp (validate_records rs n m) Q s"
proof (induction rs arbitrary: n m s)
  case Nil
  then show ?case by (simp add: wp_ret)
next
  case (Cons r rs)
  show ?case
    by (simp only: validate_records.simps Let_def, intro wp_intros Cons.IH Cons.prems)
       (simp_all add: upd_rows_def put_rows_def migration_records_tb)
qed

lemmas job_tables = migration_jobs_tb migration_records_tb upd_rows_def put_rows_def hit_rows_def
  bump_def outbox_events_tb audit_events_tb

lemma CreateMigrationJob_inv:
  "jobs_inv d \<Longrightarrow> outcome (\<lambda>x d'. jobs_inv d') d (CreateMigrationJob tc inp e d)"
  unfolding CreateMigrationJob_def
  by (intro wp_intros, simp_all add: job_tables jobs_inv_def job_ok_def) auto

lemma AddMigrationRecords_inv:
  "jobs_inv d \<Longrightarrow> outcome (\<lambda>x d'. jobs_inv d') d (AddMigrationRecords tc i rs e d)"
  unfolding AddMigrationRecords_def
  by (intro wp_intros wp_add_records, simp_all add: job_tables update_where_def, erule jobs_inv_map,
      simp, rule refl)
     (simp_all add: job_ok_def)

lemma ValidateMigrationJob_inv:
  assumes "jobs_inv d"
  shows "outcome (\<lambda>x d'. jobs_inv d') d (ValidateMigrationJob tc i e d)"
  unfolding ValidateMigrationJob_def
  by ((rule wp_update_any | rule wp_intros wp_validate_records)+,
      simp_all add: job_tables update_where_def, rule jobs_inv_at [OF assms], simp, rule refl, assumption)
     (auto simp: job_ok_def)

lemma start_migration_inv:
  assumes "jobs_inv d"
  shows "outcome (\<lambda>x d'. jobs_inv d') d (WithTenant tc (start_migration tc i) e d)"
  unfolding start_migration_def
  by ((rule wp_update_any | rule wp_intros)+,
      simp_all add: job_tables update_where_def, rule jobs_inv_at [OF assms], simp, rule refl, assumption)
     (auto simp: job_ok_def)

lemma update_progress_inv:
  assumes "jobs_inv d"
  shows "outcome (\<lambda>x d'. jobs_inv d') d (WithTenant tc (update_progress i) e d)"
  unfolding update_progress_def
  by (intro wp_intros, simp_all add: job_tables update_where_def, rule jobs_inv_map [OF assms],
      simp, rule refl)
     (simp_all add: job_ok_def)

lemma CompleteMigration_inv:
  assumes "jobs_inv d"
  shows "outcome (\<lambda>x d'. jobs_inv d') d (CompleteMigration tc i e d)"
  unfolding CompleteMigration_def
  by ((rule wp_update_any | rule wp_intros)+,
      simp_all add: job_tables update_where_def, rule jobs_inv_at [OF assms], simp, rule refl, assumption)
     (auto simp: job_ok_def)

lemma RollbackMigration_inv:
  assumes "jobs_inv d"
  shows "outcome (\<lambda>x d'. jobs_inv d') d (RollbackMigration tc i e d)"
  unfolding RollbackMigration_def
  by ((rule wp_update_any | rule wp_intros)+,
      simp_all add: job_tables update_where_def, rule jobs_inv_at [OF assms], simp, rule refl, assumption)
     (auto simp: job_ok_def)

text \<open>Importing leaves the jobs alone until the counts are written.\<close>

lemma mark_jobs:
  "db_jobs (snd (WithTenant tc (q_update_one migration_records p f) e d)) = db_jobs d"
  by (rule outcome_snd [where P = "\<lambda>d'. db_jobs d' = db_jobs d" and d = d])
     (intro wp_intros, simp_all add: job_tables)

lemma importSingleRecord_jobs: "db_jobs (importSingleRecord tc r e d) = db_jobs d"
proof -
  have c: "db_jobs (snd (CreateCustomer tc x ty nm e d)) = db_jobs d" for x ty nm
    by (rule outcome_snd [where P = "\<lambda>d'. db_jobs d' = db_jobs d" and d = d])
       (rule outcome_mono [OF CreateCustomer_adds], auto simp: customer_added_def)
  then have c': "db_jobs d' = db_jobs d" if "CreateCustomer tc x ty nm e d = (res, d')" for x ty nm res d'
    using that by (metis snd_conv)
  show ?thesis
    by (auto simp: importSingleRecord_def markRecordFailed_def mark_jobs
        split: option.splits prod.splits sum.splits dest: c')
qed

lemma import_batch_jobs: "db_jobs (import_batch tc rs e d) = db_jobs d"
  by (induction rs arbitrary: d) (simp_all add: importSingleRecord_jobs)

lemma list_pending_db: "snd (WithTenant tc (q_ListPendingMigrationRecords job n) e d) = d"
  by (simp add: list_pending)

lemma import_loop_jobs': "import_loop tc job e d = Some y \<Longrightarrow> db_jobs (snd y) = db_jobs d"
proof (rule import_loop.raw_induct [where P = "\<lambda>tc job e d y. db_jobs (snd y) = db_jobs d"])
  fix loop tc job e d y
  assume IH: "\<And>tc job e d y. loop tc job e d = Some y \<Longrightarrow> db_jobs (snd y) = db_jobs d"
    and b: "(case WithTenant tc (q_ListPendingMigrationRecords job batchSize) e d of
        (Inl err, d') \<Rightarrow> Some (Inl err, d')
      | (Inr batch, d') \<Rightarrow>
          if batch = [] then Some (Inr (), d') else loop tc job e (import_batch tc batch e d')) = Some y"
  obtain res where page: "WithTenant tc (q_ListPendingMigrationRecords job batchSize) e d = (res, d)"
    using list_pending by blast
  from b show "db_jobs (snd y) = db_jobs d"
    unfolding page
    by (cases res) (auto simp: import_batch_jobs split: if_splits dest!: IH)
qed

lemma import_loop_jobs: "import_loop tc job e d = Some (r, d') \<Longrightarrow> db_jobs d' = db_jobs d"
  using import_loop_jobs' [of tc job e d "(r, d')"] by simp

lemma processMigrationBatch_inv:
  assumes "processMigrationBatch tc job e d = Some (r, d')" "jobs_inv d"
  shows "jobs_inv d'"
proof -
  obtain res d1 where l: "import_loop tc job e d = Some (res, d1)"
    using assms(1) by (auto simp: processMigrationBatch_def split: option.splits)
  from jobs_inv_same [OF import_loop_jobs [OF l]] assms(2) have inv: "jobs_inv d1" by simp
  show ?thesis
  proof (cases res)
    case (Inl err)
    with l assms(1) inv show ?thesis by (simp add: processMigrationBatch_def)
  next
    case (Inr u)
    with l assms(1) have "WithTenant tc (update_progress job) e d1 = (r, d')"
      by (simp add: processMigrationBatch_def)
    with outcome_snd [OF update_progress_inv [OF inv, of tc job e] inv] show ?thesis by simp
  qed
qed

text \<open>The steps of the migration plane.\<close>

inductive migration_move :: "db \<Rightarrow> db \<Rightarrow> bool" where
  create: "CreateMigrationJob tc inp e d = (r, d') \<Longrightarrow> migration_move d d'"
| add: "AddMigrationRecords tc job rs e d = (r', d') \<Longrightarrow> migration_move d d'"
| validate: "ValidateMigrationJob tc job e d = (r, d') \<Longrightarrow> migration_move d d'"
| start: "StartMigration tc job e d = Some (r, d') \<Longrightarrow> migration_move d d'"
| resume: "ResumeMigration tc job e d = Some (r'', d') \<Longrightarrow> migration_move d d'"
| complete: "CompleteMigration tc job e d = (r, d') \<Longrightarrow> migration_move d d'"
| rollback: "RollbackMigration tc job e d = (r, d') \<Longrightarrow> migration_move d d'"

lemma outcome_inv: "outcome (\<lambda>x d'. P d') d (r, d') \<Longrightarrow> P d \<Longrightarrow> P d'"
  using outcome_snd by fastforce

lemma StartMigration_inv:
  assumes "StartMigration tc job e d = Some (r, d')" "jobs_inv d"
  shows "jobs_inv d'"
proof -
  obtain res d1 where t: "WithTenant tc (start_migration tc job) e d = (res, d1)" by fastforce
  have inv: "jobs_inv d1"
    using start_migration_inv [OF assms(2), of tc job e] assms(2) unfolding t by (rule outcome_inv)
  with assms(1) t show ?thesis
    by (auto simp: StartMigration_def split: sum.splits option.splits
        intro: processMigrationBatch_inv)
qed

lemma migration_move_inv: "migration_move d d' \<Longrightarrow> jobs_inv d \<Longrightarrow> jobs_inv d'"
proof (induction rule: migration_move.induct)
  case (create tc inp e d r d')
  then show ?case by (metis CreateMigrationJob_inv outcome_inv)
next
  case (add tc job rs e d r' d')
  then show ?case by (metis AddMigrationRecords_inv outcome_inv)
next
  case (validate tc job e d r d')
  then show ?case by (metis ValidateMigrationJob_inv outcome_inv)
next
  case (start tc job e d r d')
  then show ?case by (rule StartMigration_inv)
next
  case (resume tc job e d r'' d')
  then show ?case by (auto simp: ResumeMigration_def intro: processMigrationBatch_inv)
next
  case (complete tc job e d r d')
  then show ?case by (metis CompleteMigration_inv outcome_inv)
next
  case (rollback tc job e d r d')
  then show ?case by (metis RollbackMigration_inv outcome_inv)
qed

lemma CheckCutoverLock_eq:
  assumes "jobs_inv d"
  shows "CheckCutoverLock tc e d =
    (if \<exists>x\<in>set (db_jobs d). mj_provider x = ProviderID tc \<and> mj_env x = EnvironmentID tc \<and>
          mj_status x = MigrationStatusImporting then Inl ErrCutoverLocked else Inr (), d)"
proof -
  have eq: "filter (\<lambda>x. mj_provider x = ProviderID tc \<and> mj_env x = EnvironmentID tc \<and> mj_locked x \<and>
          mj_status x \<noteq> MigrationStatusRolledBack)
        (filter (\<lambda>x. mj_provider x = ProviderID tc \<and> mj_env x = EnvironmentID tc) (db_jobs d)) \<noteq> [] \<longleftrightarrow>
      (\<exists>x\<in>set (db_jobs d). mj_provider x = ProviderID tc \<and> mj_env x = EnvironmentID tc \<and>
          mj_status x = MigrationStatusImporting)"
    using assms by (auto simp: filter_empty_conv jobs_inv_def job_ok_def)
  show ?thesis
    by (simp del: filter_filter add: eq CheckCutoverLock_def IsCutoverLocked_def WithTenant_def run_tx_def
        bnd_def q_many_def live_tx_def rows_def ret_def migration_jobs_tb) blast
qed

section \<open>Properties\<close>

text \<open>C7. The cutover lock is exact: in every state the operations of the migration plane reach
  from one where it is, the check that guards the billing operations of a tenant refuses
  exactly when one of the tenant's jobs is importing.\<close>

theorem cutover_lock_exact:
  assumes "jobs_inv d" "migration_move\<^sup>*\<^sup>* d d'"
  shows "CheckCutoverLock tc e d' =
    (if \<exists>x\<in>set (db_jobs d'). mj_provider x = ProviderID tc \<and> mj_env x = EnvironmentID tc \<and>
          mj_status x = MigrationStatusImporting then Inl ErrCutoverLocked else Inr (), d')"
proof -
  from assms(2,1) have "jobs_inv d'"
    by (induction rule: rtranclp_induct) (simp_all add: migration_move_inv)
  then show ?thesis by (rule CheckCutoverLock_eq)
qed

text \<open>C8. An import ends: whatever the records of the job are, the loop returns, and then no
  record of the tenant is pending any more; every record is as it was or has been settled,
  by a customer of the tenant or a failure; and customers have only been added.\<close>

theorem migration_import_settles:
  assumes "\<forall>x\<in>set (db_records d). ValidMigrationRecordType (mr_type x)"
  shows "\<exists>r d'. processMigrationBatch tc job e d = Some (r, d') \<and>
    list_all2 (\<lambda>x y. y = x \<or> mine tc x \<and> settled tc d' y \<and>
      (\<exists>st t er. y = x\<lparr>mr_status := st, mr_target := t, mr_error := er\<rparr>)) (db_records d) (db_records d') \<and>
    (\<forall>x\<in>set (db_records d'). \<not> (mine tc x \<and> pending_record job x)) \<and>
    (\<exists>cs. db_customers d' = db_customers d @ cs)"
proof -
  have "typed_records d" using assms by (simp add: typed_records_def)
  from import_loop_returns [OF this] obtain d1 where l: "import_loop tc job e d = Some (Inr (), d1)"
    "import_run tc d d1" "open_records tc job d1 = 0" by blast
  obtain r d' where p: "WithTenant tc (update_progress job) e d1 = (r, d')" by fastforce
  have "outcome (\<lambda>x d'. db_records d' = db_records d1 \<and> db_customers d' = db_customers d1) d1
      (WithTenant tc (update_progress job) e d1)"
    unfolding update_progress_def by (intro wp_intros, simp_all add: job_tables)
  then have same: "db_records d' = db_records d1" "db_customers d' = db_customers d1"
    unfolding p by (auto simp: outcome_def split: sum.splits)
  have st: "settled tc d' = settled tc d1" by (simp add: fun_eq_iff settled_def same)
  have "processMigrationBatch tc job e d = Some (r, d')" by (simp add: processMigrationBatch_def l p)
  moreover have "list_all2 (\<lambda>x y. y = x \<or> mine tc x \<and> settled tc d' y \<and>
      (\<exists>st t er. y = x\<lparr>mr_status := st, mr_target := t, mr_error := er\<rparr>)) (db_records d) (db_records d')"
    using l(2) unfolding import_run_def import_step_def st same by blast
  moreover have "\<forall>x\<in>set (db_records d'). \<not> (mine tc x \<and> pending_record job x)"
    using l(3) by (simp add: open_records_def same filter_empty_conv)
  moreover have "\<exists>cs. db_customers d' = db_customers d @ cs"
    using l(2) by (auto simp: import_run_def same)
  ultimately show ?thesis by blast
qed

section \<open>What the code does not look at\<close>

text \<open>A record whose customer was created but not yet marked when the process stopped is
  marked failed by the next run.\<close>

lemma interrupted_record_fails:
  assumes "mr_type r \<noteq> MigrationRecordSubscription" "dec_source (mr_data r) = Some src"
    and "c \<in> set (db_customers d)" "cu_provider c = ProviderID tc" "cu_env c = EnvironmentID tc"
    and "cu_external c = sc_ExternalCode src"
  shows "\<exists>m. importSingleRecord tc r e d = markRecordFailed tc (mr_id r) m e d"
proof -
  obtain err where "CreateCustomer tc (sc_ExternalCode src) (sc_Type src) (sc_Name src) e d = (Inl err, d)"
    using CreateCustomer_conflict [OF assms(3-6)] by blast
  with assms(1,2) show ?thesis by (auto simp: importSingleRecord_def)
qed

text \<open>A job and a record for the concrete runs; the job is a dry run.\<close>

definition demo_job :: MigrationJob where
  "demo_job = \<lparr>mj_id = ''j1'', mj_provider = ''p1'', mj_env = ''e1'', mj_source = ''old'',
     mj_status = MigrationStatusValidated, mj_dry_run = True, mj_total = 1, mj_processed = 0,
     mj_failed = 0, mj_locked = False, mj_started = None, mj_completed = None, mj_by = ''op''\<rparr>"

definition demo_record :: MigrationRecord where
  "demo_record = \<lparr>mr_id = ''q1'', mr_job = ''j1'', mr_provider = ''p1'', mr_env = ''e1'',
     mr_type = MigrationRecordCustomer, mr_external = ''x'', mr_status = MigrationRecordValid,
     mr_data = JObj [(''name'', JStr ''N''), (''email'', JStr ''m''), (''type'', JStr ''business''),
       (''external_code'', JStr ''x'')], mr_target = None, mr_error = None\<rparr>"

definition demo_import :: db where
  "demo_import = demo_db\<lparr>db_jobs := [demo_job], db_records := [demo_record]\<rparr>"

lemma dry_run_starts:
  "mj_dry_run demo_job \<and>
   WithTenant (demo_ctx ''p1'' ''e1'') (start_migration (demo_ctx ''p1'' ''e1'') ''j1'') (demo_rt 0) demo_import =
     (Inr (demo_job\<lparr>mj_locked := True, mj_status := MigrationStatusImporting, mj_started := Some 0\<rparr>),
      demo_import\<lparr>db_jobs := [demo_job\<lparr>mj_locked := True, mj_status := MigrationStatusImporting,
        mj_started := Some 0\<rparr>]\<rparr>)"
  by (simp add: demo_job_def demo_import_def demo_defs WithTenant_def run_tx_def start_migration_def bnd_def
      map_err_def q_one_def q_update_one_def q_update_def live_tx_def rows_def migration_jobs_tb select_one_def
      check_def ret_def now_tx_def get_rt_def update_where_def vis_env_def)

lemma demo_start:
  "StartMigration (demo_ctx ''p1'' ''e1'') ''j1'' (demo_rt 0) (demo_db\<lparr>db_jobs := [demo_job]\<rparr>) =
   Some (Inr (demo_job\<lparr>mj_locked := True, mj_status := MigrationStatusImporting, mj_started := Some 0\<rparr>),
     demo_db\<lparr>db_jobs := [demo_job\<lparr>mj_locked := True, mj_status := MigrationStatusImporting,
        mj_started := Some 0\<rparr>]\<rparr>)"
proof -
  let ?tc = "demo_ctx ''p1'' ''e1''" and ?j = "demo_job\<lparr>mj_locked := True,
    mj_status := MigrationStatusImporting, mj_started := Some 0\<rparr>"
  let ?d = "demo_db\<lparr>db_jobs := [?j]\<rparr>"
  have 1: "WithTenant ?tc (start_migration ?tc ''j1'') (demo_rt 0) (demo_db\<lparr>db_jobs := [demo_job]\<rparr>) =
      (Inr ?j, ?d)"
    by (simp add: demo_job_def demo_defs WithTenant_def run_tx_def start_migration_def bnd_def
      map_err_def q_one_def q_update_one_def q_update_def live_tx_def rows_def migration_jobs_tb select_one_def
      check_def ret_def now_tx_def get_rt_def update_where_def vis_env_def)
  have "db_records ?d = []" by (simp add: demo_db_def)
  then have 2: "import_loop ?tc ''j1'' (demo_rt 0) ?d = Some (Inr (), ?d)"
    using list_pending [of ?tc "''j1''" batchSize "demo_rt 0" ?d]
    by (subst import_loop.simps) simp
  have 3: "WithTenant ?tc (update_progress ''j1'') (demo_rt 0) ?d = (Inr (), ?d)"
    using \<open>db_records ?d = []\<close>
    by (simp add: Let_def demo_job_def demo_ctx_def WithTenant_def run_tx_def update_progress_def bnd_def q_many_def
      q_exec_def q_update_def live_tx_def rows_def migration_jobs_tb migration_records_tb ret_def
      update_where_def vis_env_def wrap32_def)
  show ?thesis by (simp add: StartMigration_def processMigrationBatch_def 1 2 3)
qed

lemma cutover_lock_exact_witness:
  "\<exists>d'. migration_move (demo_db\<lparr>db_jobs := [demo_job]\<rparr>) d' \<and>
     CheckCutoverLock (demo_ctx ''p1'' ''e1'') (demo_rt 0) d' = (Inl ErrCutoverLocked, d') \<and>
     CheckCutoverLock (demo_ctx ''p2'' ''e2'') (demo_rt 0) d' = (Inr (), d')"
proof -
  let ?d' = "demo_db\<lparr>db_jobs := [demo_job\<lparr>mj_locked := True, mj_status := MigrationStatusImporting,
    mj_started := Some 0\<rparr>]\<rparr>"
  have move: "migration_move (demo_db\<lparr>db_jobs := [demo_job]\<rparr>) ?d'"
    by (rule migration_move.start [OF demo_start])
  have inv: "jobs_inv (demo_db\<lparr>db_jobs := [demo_job]\<rparr>)"
    by (simp add: jobs_inv_def job_ok_def demo_job_def)
  note check = cutover_lock_exact [OF inv r_into_rtranclp [where r = migration_move, OF move]]
  have "CheckCutoverLock (demo_ctx ''p1'' ''e1'') (demo_rt 0) ?d' = (Inl ErrCutoverLocked, ?d')"
    "CheckCutoverLock (demo_ctx ''p2'' ''e2'') (demo_rt 0) ?d' = (Inr (), ?d')"
    by (simp_all add: check) (simp_all add: demo_job_def demo_ctx_def)
  with move show ?thesis by blast
qed

lemma migration_import_settles_witness:
  "\<exists>r d'. processMigrationBatch (demo_ctx ''p1'' ''e1'') ''j1'' (demo_rt 0) demo_import = Some (r, d') \<and>
     (\<forall>x\<in>set (db_records d'). settled (demo_ctx ''p1'' ''e1'') d' x)"
proof -
  have "\<forall>x\<in>set (db_records demo_import). ValidMigrationRecordType (mr_type x)"
    by (simp add: demo_import_def demo_record_def ValidMigrationRecordType_def)
  from migration_import_settles [OF this, of "demo_ctx ''p1'' ''e1''" "''j1''" "demo_rt 0"]
  obtain r d' where p: "processMigrationBatch (demo_ctx ''p1'' ''e1'') ''j1'' (demo_rt 0) demo_import = Some (r, d')"
    "list_all2 (\<lambda>x y. y = x \<or> mine (demo_ctx ''p1'' ''e1'') x \<and> settled (demo_ctx ''p1'' ''e1'') d' y \<and>
      (\<exists>st t er. y = x\<lparr>mr_status := st, mr_target := t, mr_error := er\<rparr>)) (db_records demo_import) (db_records d')"
    "\<forall>x\<in>set (db_records d'). \<not> (mine (demo_ctx ''p1'' ''e1'') x \<and> pending_record ''j1'' x)" by blast
  from p(2) obtain y where y: "db_records d' = [y]"
    "y = demo_record \<or> settled (demo_ctx ''p1'' ''e1'') d' y"
    by (auto simp: demo_import_def list_all2_Cons1)
  have "mine (demo_ctx ''p1'' ''e1'') demo_record \<and> pending_record ''j1'' demo_record"
    by (simp add: mine_def pending_record_def demo_record_def demo_ctx_def)
  with y p(3) have "settled (demo_ctx ''p1'' ''e1'') d' y" by auto
  with p(1) y(1) show ?thesis by auto
qed

end
