(* ===== verification/Cells.thy ===== *)
theory Cells
  imports Customers "HOL-Library.List_Lexorder" "HOL-Library.Char_ord"
begin

text \<open>
  Regional cells (\<open>internal/service/cells.go\<close>), the manual failover of a provider to another
  cell of its region (\<open>internal/service/cell_failover.go\<close>) and the planned migration
  (\<open>internal/service/cell_migration.go\<close>). All operations run as the operator except the two
  reads of a tenant, one of which is the write fence: it refuses writes while the tenant's
  cell is draining.
\<close>

section \<open>Queries\<close>

abbreviation q_CreateCell :: "uuid \<Rightarrow> uuid \<Rightarrow> string \<Rightarrow> string \<Rightarrow> string \<Rightarrow> json \<Rightarrow> Cell tx" where
  "q_CreateCell i region code ty st limits \<equiv> q_insert cells
     \<lparr>ce_id = i, ce_region = region, ce_code = code, ce_type = ty, ce_status = st, ce_limits = limits\<rparr>"

abbreviation q_GetCellByID :: "uuid \<Rightarrow> Cell tx" where
  "q_GetCellByID i \<equiv> q_one cells (\<lambda>x. ce_id x = i)"

abbreviation q_ListCells :: "Cell list tx" where
  "q_ListCells \<equiv> bnd (q_many cells (\<lambda>x. True)) (\<lambda>cs. ret (sort_key ce_code cs))"

abbreviation q_ListRegions :: "Region list tx" where
  "q_ListRegions \<equiv> bnd (q_many regions (\<lambda>x. True)) (\<lambda>rs. ret (sort_key rg_code rs))"

abbreviation q_ListCellsByRegion :: "uuid \<Rightarrow> Cell list tx" where
  "q_ListCellsByRegion region \<equiv>
     bnd (q_many cells (\<lambda>x. ce_region x = region \<and> ce_status x = ''active'')) (\<lambda>cs. ret (sort_key ce_code cs))"

abbreviation q_UpdateCellStatus :: "uuid \<Rightarrow> string \<Rightarrow> Cell tx" where
  "q_UpdateCellStatus i st \<equiv> q_update_one cells (\<lambda>x. ce_id x = i) (\<lambda>x. x\<lparr>ce_status := st\<rparr>)"

text \<open>The join of the cell and the provider; the provider is subject to row-level security.\<close>

definition q_GetCellByProviderID :: "uuid \<Rightarrow> Cell tx" where
  "q_GetCellByProviderID p =
     bnd (q_many providers (\<lambda>x. pv_id x = p)) (\<lambda>ps.
     q_one cells (\<lambda>c. \<exists>x\<in>set ps. pv_cell x = Some (ce_id c)))"

abbreviation q_UpdateProviderCell :: "uuid \<Rightarrow> uuid option \<Rightarrow> unit tx" where
  "q_UpdateProviderCell p c \<equiv> q_exec providers (\<lambda>x. pv_id x = p) (\<lambda>x. x\<lparr>pv_cell := c\<rparr>)"

abbreviation q_CreateCellFailover ::
  "uuid \<Rightarrow> uuid \<Rightarrow> uuid \<Rightarrow> uuid \<Rightarrow> string \<Rightarrow> string \<Rightarrow> string \<Rightarrow> CellFailover tx" where
  "q_CreateCellFailover i p from to reason by token \<equiv> q_insert cell_failovers
     \<lparr>fo_id = i, fo_provider = p, fo_from = from, fo_to = to, fo_status = FailoverStatusInitiated,
      fo_reason = reason, fo_by = by, fo_token = token, fo_usage = 0, fo_outbox = 0, fo_completed = None\<rparr>"

abbreviation q_GetActiveCellFailover :: "uuid \<Rightarrow> CellFailover tx" where
  "q_GetActiveCellFailover p \<equiv> q_last cell_failovers
     (\<lambda>x. fo_provider x = p \<and> fo_status x \<notin> {FailoverStatusCompleted, FailoverStatusAborted})"

abbreviation q_GetCellFailoverByID :: "uuid \<Rightarrow> CellFailover tx" where
  "q_GetCellFailoverByID i \<equiv> q_one cell_failovers (\<lambda>x. fo_id x = i)"

abbreviation q_ListCellFailoversByProvider :: "uuid \<Rightarrow> int \<Rightarrow> CellFailover list tx" where
  "q_ListCellFailoversByProvider p n \<equiv>
     bnd (q_many cell_failovers (\<lambda>x. fo_provider x = p)) (\<lambda>fs. ret (take (nat n) (rev fs)))"

abbreviation q_UpdateCellFailoverReplay :: "uuid \<Rightarrow> int \<Rightarrow> int \<Rightarrow> unit tx" where
  "q_UpdateCellFailoverReplay i usage outbox \<equiv> q_exec cell_failovers (\<lambda>x. fo_id x = i)
     (\<lambda>x. x\<lparr>fo_usage := usage, fo_outbox := outbox\<rparr>)"

abbreviation q_UpdateCellFailoverStatus :: "int \<Rightarrow> uuid \<Rightarrow> string \<Rightarrow> CellFailover tx" where
  "q_UpdateCellFailoverStatus now i st \<equiv> q_update_one cell_failovers (\<lambda>x. fo_id x = i)
     (\<lambda>x. x\<lparr>fo_status := st,
            fo_completed := if st \<in> {FailoverStatusCompleted, FailoverStatusAborted} then Some now
                            else fo_completed x\<rparr>)"

abbreviation q_CountUnconfirmedOutbox :: "uuid \<Rightarrow> int tx" where
  "q_CountUnconfirmedOutbox p \<equiv>
     bnd (q_many outbox_events (\<lambda>x. ob_provider x = p \<and> ob_status x \<in> {''pending'', ''failed''}))
       (\<lambda>xs. ret (int (length xs)))"

abbreviation q_CountUninvoicedUsage :: "uuid \<Rightarrow> int tx" where
  "q_CountUninvoicedUsage p \<equiv>
     bnd (q_many invoice_lines (\<lambda>l. True)) (\<lambda>lines.
     bnd (q_many usage_events (\<lambda>x. us_provider x = p \<and> \<not> (\<exists>l\<in>set lines.
            il_tx l = Some (us_tx x) \<and> il_provider l = us_provider x \<and> il_env l = us_env x))) (\<lambda>xs.
     ret (int (length xs))))"

abbreviation q_CreateCellMigration ::
  "uuid \<Rightarrow> uuid \<Rightarrow> uuid \<Rightarrow> uuid \<Rightarrow> string \<Rightarrow> string \<Rightarrow> int option \<Rightarrow> CellMigration tx" where
  "q_CreateCellMigration i p from to reason by sched \<equiv> q_insert cell_migrations
     \<lparr>mg_id = i, mg_provider = p, mg_from = from, mg_to = to, mg_status = CellMigrationPlanned,
      mg_scheduled = sched, mg_passed = False, mg_hash = None, mg_count = 0, mg_reason = reason,
      mg_by = by, mg_started = None, mg_completed = None, mg_error = None\<rparr>"

abbreviation q_GetActiveCellMigration :: "uuid \<Rightarrow> CellMigration tx" where
  "q_GetActiveCellMigration p \<equiv> q_last cell_migrations (\<lambda>x. mg_provider x = p \<and>
     mg_status x \<notin> {CellMigrationCompleted, CellMigrationFailed, CellMigrationCancelled})"

abbreviation q_GetCellMigrationByID :: "uuid \<Rightarrow> CellMigration tx" where
  "q_GetCellMigrationByID i \<equiv> q_one cell_migrations (\<lambda>x. mg_id x = i)"

abbreviation q_ListCellMigrationsByProvider :: "uuid \<Rightarrow> int \<Rightarrow> CellMigration list tx" where
  "q_ListCellMigrationsByProvider p n \<equiv>
     bnd (q_many cell_migrations (\<lambda>x. mg_provider x = p)) (\<lambda>ms. ret (take (nat n) (rev ms)))"

abbreviation q_SetCellMigrationPrecheck :: "uuid \<Rightarrow> bool \<Rightarrow> string option \<Rightarrow> int \<Rightarrow> unit tx" where
  "q_SetCellMigrationPrecheck i passed hash count \<equiv> q_exec cell_migrations (\<lambda>x. mg_id x = i)
     (\<lambda>x. x\<lparr>mg_passed := passed, mg_hash := hash, mg_count := count\<rparr>)"

abbreviation q_UpdateCellMigrationStatus :: "int \<Rightarrow> uuid \<Rightarrow> string \<Rightarrow> CellMigration tx" where
  "q_UpdateCellMigrationStatus now i st \<equiv> q_update_one cell_migrations (\<lambda>x. mg_id x = i)
     (\<lambda>x. x\<lparr>mg_status := st,
            mg_started := if st = CellMigrationMigrating then Some now else mg_started x,
            mg_completed := if st \<in> {CellMigrationCompleted, CellMigrationFailed, CellMigrationCancelled}
                            then Some now else mg_completed x\<rparr>)"

abbreviation q_ListSubscriptionsByTenant :: "uuid \<Rightarrow> uuid \<Rightarrow> int \<Rightarrow> Subscription list tx" where
  "q_ListSubscriptionsByTenant p en n \<equiv>
     bnd (q_many subscriptions (\<lambda>x. su_provider x = p \<and> su_env x = en)) (\<lambda>ss. ret (take (nat n) (rev ss)))"

abbreviation q_ListAuditEventsByProvider :: "uuid option \<Rightarrow> int \<Rightarrow> AuditEvent list tx" where
  "q_ListAuditEventsByProvider p n \<equiv>
     bnd (q_many audit_events (\<lambda>x. p \<noteq> None \<and> au_provider x = p)) (\<lambda>es. ret (take (nat n) (rev es)))"

section \<open>Cells\<close>

record CreateCellInput =
  cc_RegionID :: uuid
  cc_Code :: string
  cc_CellType :: string
  cc_Status :: string
  cc_CapacityLimits :: json

definition CreateCell :: "CreateCellInput \<Rightarrow> rt \<Rightarrow> db \<Rightarrow> Cell result \<times> db" where
  "CreateCell inp e d =
     (let st = (if cc_Status inp = '''' then CellStatusActive else cc_Status inp) in
      if cc_Code inp = '''' then fail_early ErrValidation d
      else if \<not> ValidCellType (cc_CellType inp) then fail_early ErrValidation d
      else if \<not> ValidCellStatus st then fail_early ErrValidation d
      else WithOperator
        (bnd (draw rt_gen) (\<lambda>i.
         bnd (mapped_err (q_CreateCell i (cc_RegionID inp) (cc_Code inp) (cc_CellType inp) st
                (cc_CapacityLimits inp))) (\<lambda>c.
         bnd (emitOutboxTx uuid_Nil uuid_Nil ''cell'' (ce_id c) ''cell.created'' (JObj
                [(''code'', JStr (cc_Code inp)), (''cell_type'', JStr (cc_CellType inp)),
                 (''region_id'', JStr (cc_RegionID inp))])) (\<lambda>_.
         bnd (insertAuditTx None None ''operator'' ''system'' ''cell.create'' ''cell'' (ce_id c) (Some (JObj
                [(''code'', JStr (cc_Code inp)), (''cell_type'', JStr (cc_CellType inp))]))) (\<lambda>_.
         ret c))))) e d)"

definition GetCell :: "uuid \<Rightarrow> rt \<Rightarrow> db \<Rightarrow> Cell result \<times> db" where
  "GetCell cellID = WithOperator (mapped_err (q_GetCellByID cellID))"

definition ListRegions :: "rt \<Rightarrow> db \<Rightarrow> Region list result \<times> db" where
  "ListRegions = WithOperator q_ListRegions"

definition ListCells :: "rt \<Rightarrow> db \<Rightarrow> Cell list result \<times> db" where
  "ListCells = WithOperator q_ListCells"

definition ListCellsByRegion :: "uuid \<Rightarrow> rt \<Rightarrow> db \<Rightarrow> Cell list result \<times> db" where
  "ListCellsByRegion region = WithOperator (q_ListCellsByRegion region)"

definition UpdateCellStatus :: "uuid \<Rightarrow> string \<Rightarrow> rt \<Rightarrow> db \<Rightarrow> Cell result \<times> db" where
  "UpdateCellStatus cellID st e d =
     (if \<not> ValidCellStatus st then fail_early ErrValidation d
      else WithOperator
        (bnd (mapped_err (q_UpdateCellStatus cellID st)) (\<lambda>c.
         bnd (emitOutboxTx uuid_Nil uuid_Nil ''cell'' cellID ''cell.status_changed'' (JObj
                [(''status'', JStr st)])) (\<lambda>_.
         bnd (insertAuditTx None None ''operator'' ''system'' ''cell.status_change'' ''cell'' cellID
                (Some (JObj [(''status'', JStr st)]))) (\<lambda>_.
         ret c)))) e d)"

definition AssignProviderCell :: "uuid \<Rightarrow> uuid \<Rightarrow> rt \<Rightarrow> db \<Rightarrow> unit result \<times> db" where
  "AssignProviderCell providerID cellID = WithOperator
     (bnd (mapped_err (q_GetCellByID cellID)) (\<lambda>cell.
      bnd (check (ce_status cell = CellStatusActive) ErrConflict) (\<lambda>_.
      bnd (mapped_err (q_UpdateProviderCell providerID (Some cellID))) (\<lambda>_.
      bnd (emitOutboxTx providerID uuid_Nil ''provider'' providerID ''provider.cell_assigned'' (JObj
             [(''cell_id'', JStr cellID), (''cell_code'', JStr (ce_code cell))])) (\<lambda>_.
      insertAuditTx (Some providerID) None ''operator'' ''system'' ''provider.cell_assign'' ''cell'' cellID
        (Some (JObj [(''provider_id'', JStr providerID)])))))))"

definition GetProviderCell :: "Ctx \<Rightarrow> rt \<Rightarrow> db \<Rightarrow> Cell result \<times> db" where
  "GetProviderCell tc = WithTenant tc (mapped_err (q_GetCellByProviderID (ProviderID tc)))"

text \<open>Any error of the lookup lets the write pass.\<close>

definition CheckCellDraining :: "Ctx \<Rightarrow> rt \<Rightarrow> db \<Rightarrow> unit result \<times> db" where
  "CheckCellDraining tc e d =
     (case GetProviderCell tc e d of
        (Inl err, d') \<Rightarrow> (Inr (), d')
      | (Inr cell, d') \<Rightarrow> if ce_status cell = CellStatusDraining then (Inl ErrCellDraining, d') else (Inr (), d'))"

section \<open>Failover\<close>

record FailoverInput =
  fi_ProviderID :: uuid
  fi_FromCellID :: uuid
  fi_ToCellID :: uuid
  fi_Reason :: string
  fi_InitiatedBy :: string

definition generateFencingToken :: "nat list \<Rightarrow> string" where
  "generateFencingToken b = ''fence-'' @ hex_encode b"

text \<open>Only a hit with an id counts as an active failover; an error of the query is ignored here.\<close>

definition no_active_failover :: "uuid \<Rightarrow> unit tx" where
  "no_active_failover p =
     bnd (try_tx (q_GetActiveCellFailover p)) (\<lambda>r.
     case r of Inl err \<Rightarrow> ret () | Inr active \<Rightarrow> check (fo_id active = uuid_Nil) ErrConflict)"

text \<open>The checks of the two cells a provider moves between.\<close>

definition move_cells :: "uuid \<Rightarrow> uuid \<Rightarrow> unit tx" where
  "move_cells from to =
     bnd (mapped_err (q_GetCellByID from)) (\<lambda>fromCell.
     bnd (mapped_err (q_GetCellByID to)) (\<lambda>toCell.
     bnd (check (ce_region fromCell = ce_region toCell) ErrValidation) (\<lambda>_.
     check (ce_status toCell = CellStatusActive) ErrConflict)))"

definition InitiateFailover :: "FailoverInput \<Rightarrow> rt \<Rightarrow> db \<Rightarrow> CellFailover result \<times> db" where
  "InitiateFailover inp e d =
     (if fi_Reason inp = '''' then fail_early ErrValidation d
      else if fi_InitiatedBy inp = '''' then fail_early ErrValidation d
      else if fi_FromCellID inp = fi_ToCellID inp then fail_early ErrValidation d
      else WithOperator
        (bnd (draw rt_bytes) (\<lambda>b.
         bnd (no_active_failover (fi_ProviderID inp)) (\<lambda>_.
         bnd (move_cells (fi_FromCellID inp) (fi_ToCellID inp)) (\<lambda>_.
         bnd (draw rt_gen) (\<lambda>i.
         bnd (mapped_err (q_CreateCellFailover i (fi_ProviderID inp) (fi_FromCellID inp) (fi_ToCellID inp)
                (fi_Reason inp) (fi_InitiatedBy inp) (generateFencingToken b))) (\<lambda>f.
         bnd (emitOutboxTx (fi_ProviderID inp) uuid_Nil ''cell_failover'' (fo_id f) ''failover.initiated'' (JObj
                [(''from_cell'', JStr (fi_FromCellID inp)), (''to_cell'', JStr (fi_ToCellID inp)),
                 (''reason'', JStr (fi_Reason inp))])) (\<lambda>_.
         bnd (insertAuditTx (Some (fi_ProviderID inp)) None ''operator'' (fi_InitiatedBy inp)
                ''failover.initiate'' ''cell_failover'' (fo_id f) (Some (JObj
                [(''from_cell'', JStr (fi_FromCellID inp)), (''to_cell'', JStr (fi_ToCellID inp))]))) (\<lambda>_.
         ret f)))))))) e d)"

definition FenceFailover :: "uuid \<Rightarrow> rt \<Rightarrow> db \<Rightarrow> CellFailover result \<times> db" where
  "FenceFailover failoverID = WithOperator
     (bnd (mapped_err (q_GetCellFailoverByID failoverID)) (\<lambda>f.
      bnd (requireStatus (fo_status f) [FailoverStatusInitiated]) (\<lambda>_.
      bnd (mapped_err (q_UpdateCellStatus (fo_from f) CellStatusDraining)) (\<lambda>_.
      bnd now_tx (\<lambda>now.
      bnd (mapped_err (q_UpdateCellFailoverStatus now failoverID FailoverStatusFenced)) (\<lambda>updated.
      bnd (emitOutboxTx (fo_provider f) uuid_Nil ''cell_failover'' failoverID ''failover.fenced'' (JObj
             [(''fencing_token'', JStr (fo_token f))])) (\<lambda>_.
      bnd (insertAuditTx (Some (fo_provider f)) None ''operator'' ''system'' ''failover.fence''
             ''cell_failover'' failoverID (Some (JObj [(''fencing_token'', JStr (fo_token f))]))) (\<lambda>_.
      ret updated))))))))"

definition SwitchFailover :: "uuid \<Rightarrow> rt \<Rightarrow> db \<Rightarrow> CellFailover result \<times> db" where
  "SwitchFailover failoverID = WithOperator
     (bnd (mapped_err (q_GetCellFailoverByID failoverID)) (\<lambda>f.
      bnd (requireStatus (fo_status f) [FailoverStatusFenced]) (\<lambda>_.
      bnd (mapped_err (q_UpdateProviderCell (fo_provider f) (Some (fo_to f)))) (\<lambda>_.
      bnd now_tx (\<lambda>now.
      bnd (mapped_err (q_UpdateCellFailoverStatus now failoverID FailoverStatusSwitched)) (\<lambda>updated.
      bnd (emitOutboxTx (fo_provider f) uuid_Nil ''cell_failover'' failoverID ''failover.switched'' (JObj
             [(''new_cell'', JStr (fo_to f))])) (\<lambda>_.
      bnd (insertAuditTx (Some (fo_provider f)) None ''operator'' ''system'' ''failover.switch''
             ''cell_failover'' failoverID (Some (JObj [(''new_cell'', JStr (fo_to f))]))) (\<lambda>_.
      ret updated))))))))"

definition CompleteFailover :: "uuid \<Rightarrow> rt \<Rightarrow> db \<Rightarrow> CellFailover result \<times> db" where
  "CompleteFailover failoverID = WithOperator
     (bnd (mapped_err (q_GetCellFailoverByID failoverID)) (\<lambda>f.
      bnd (requireStatus (fo_status f) [FailoverStatusSwitched, FailoverStatusReplaying]) (\<lambda>_.
      bnd (q_CountUnconfirmedOutbox (fo_provider f)) (\<lambda>outboxCount.
      bnd (q_CountUninvoicedUsage (fo_provider f)) (\<lambda>usageCount.
      bnd (mapped_err (q_UpdateCellFailoverReplay failoverID (wrap32 usageCount) (wrap32 outboxCount))) (\<lambda>_.
      bnd now_tx (\<lambda>now.
      bnd (mapped_err (q_UpdateCellFailoverStatus now failoverID FailoverStatusCompleted)) (\<lambda>updated.
      bnd (emitOutboxTx (fo_provider f) uuid_Nil ''cell_failover'' failoverID ''failover.completed'' (JObj
             [(''replayed_usage'', JInt usageCount), (''replayed_outbox'', JInt outboxCount)])) (\<lambda>_.
      bnd (insertAuditTx (Some (fo_provider f)) None ''operator'' ''system'' ''failover.complete''
             ''cell_failover'' failoverID (Some (JObj
             [(''replayed_usage'', JInt usageCount), (''replayed_outbox'', JInt outboxCount)]))) (\<lambda>_.
      ret updated))))))))))"

definition AbortFailover :: "uuid \<Rightarrow> rt \<Rightarrow> db \<Rightarrow> CellFailover result \<times> db" where
  "AbortFailover failoverID = WithOperator
     (bnd (mapped_err (q_GetCellFailoverByID failoverID)) (\<lambda>f.
      bnd (check (\<not> (fo_status f = FailoverStatusSwitched \<or> fo_status f = FailoverStatusCompleted \<or>
                     fo_status f = FailoverStatusAborted)) ErrConflict) (\<lambda>_.
      bnd (if fo_status f = FailoverStatusFenced
           then bnd (mapped_err (q_UpdateCellStatus (fo_from f) CellStatusActive)) (\<lambda>_. ret ())
           else ret ()) (\<lambda>_.
      bnd now_tx (\<lambda>now.
      bnd (mapped_err (q_UpdateCellFailoverStatus now failoverID FailoverStatusAborted)) (\<lambda>updated.
      bnd (emitOutboxTx (fo_provider f) uuid_Nil ''cell_failover'' failoverID ''failover.aborted'' JNull) (\<lambda>_.
      bnd (insertAuditTx (Some (fo_provider f)) None ''operator'' ''system'' ''failover.abort''
             ''cell_failover'' failoverID None) (\<lambda>_.
      ret updated))))))))"

definition GetFailover :: "uuid \<Rightarrow> rt \<Rightarrow> db \<Rightarrow> CellFailover result \<times> db" where
  "GetFailover failoverID = WithOperator (mapped_err (q_GetCellFailoverByID failoverID))"

definition ListFailovers :: "uuid \<Rightarrow> rt \<Rightarrow> db \<Rightarrow> CellFailover list result \<times> db" where
  "ListFailovers p = WithOperator (q_ListCellFailoversByProvider p 100)"

section \<open>Migration\<close>

record CellMigrationInput =
  mi_ProviderID :: uuid
  mi_FromCellID :: uuid
  mi_ToCellID :: uuid
  mi_Reason :: string
  mi_InitiatedBy :: string
  mi_ScheduledAt :: "int option"

definition no_active_migration :: "uuid \<Rightarrow> unit tx" where
  "no_active_migration p =
     bnd (try_tx (q_GetActiveCellMigration p)) (\<lambda>r.
     case r of Inl err \<Rightarrow> ret () | Inr active \<Rightarrow> check (mg_id active = uuid_Nil) ErrConflict)"

definition CreateCellMigration :: "CellMigrationInput \<Rightarrow> rt \<Rightarrow> db \<Rightarrow> CellMigration result \<times> db" where
  "CreateCellMigration inp e d =
     (if mi_Reason inp = '''' then fail_early ErrValidation d
      else if mi_InitiatedBy inp = '''' then fail_early ErrValidation d
      else if mi_FromCellID inp = mi_ToCellID inp then fail_early ErrValidation d
      else WithOperator
        (bnd (no_active_migration (mi_ProviderID inp)) (\<lambda>_.
         bnd (no_active_failover (mi_ProviderID inp)) (\<lambda>_.
         bnd (move_cells (mi_FromCellID inp) (mi_ToCellID inp)) (\<lambda>_.
         bnd (draw rt_gen) (\<lambda>i.
         bnd (mapped_err (q_CreateCellMigration i (mi_ProviderID inp) (mi_FromCellID inp) (mi_ToCellID inp)
                (mi_Reason inp) (mi_InitiatedBy inp) (mi_ScheduledAt inp))) (\<lambda>m.
         bnd (emitOutboxTx (mi_ProviderID inp) uuid_Nil ''cell_migration'' (mg_id m) ''cell_migration.planned''
                (JObj [(''from_cell'', JStr (mi_FromCellID inp)), (''to_cell'', JStr (mi_ToCellID inp)),
                       (''reason'', JStr (mi_Reason inp))])) (\<lambda>_.
         bnd (insertAuditTx (Some (mi_ProviderID inp)) None ''operator'' (mi_InitiatedBy inp)
                ''cell_migration.plan'' ''cell_migration'' (mg_id m) (Some (JObj
                [(''from_cell'', JStr (mi_FromCellID inp)), (''to_cell'', JStr (mi_ToCellID inp))]))) (\<lambda>_.
         ret m)))))))) e d)"

text \<open>\<open>marshal\<close> is the JSON text of the collected rows: the rows of the model carry only the
  columns that the modelled code looks at.\<close>

type_synonym precheck_text = "CustomerAccount list \<Rightarrow> Subscription list \<Rightarrow> AuditEvent list \<Rightarrow> string"

definition PrecheckMigration :: "precheck_text \<Rightarrow> uuid \<Rightarrow> rt \<Rightarrow> db \<Rightarrow> CellMigration result \<times> db" where
  "PrecheckMigration marshal migrationID = WithOperator
     (bnd (mapped_err (q_GetCellMigrationByID migrationID)) (\<lambda>m.
      bnd (requireStatus (mg_status m) [CellMigrationPlanned]) (\<lambda>_.
      bnd now_tx (\<lambda>now.
      bnd (mapped_err (q_UpdateCellMigrationStatus now migrationID CellMigrationPrechecking)) (\<lambda>_.
      bnd (q_ListCustomerAccounts (mg_provider m) uuid_Nil 10000) (\<lambda>customers.
      bnd (q_ListSubscriptionsByTenant (mg_provider m) uuid_Nil 10000) (\<lambda>subs.
      bnd (q_ListAuditEventsByProvider (Some (mg_provider m)) 10000) (\<lambda>audits.
      bnd (get_rt (\<lambda>e. hex_encode (rt_sha256 e (marshal customers subs audits)))) (\<lambda>hashHex.
      let recordCount = int (length customers + length subs + length audits) in
      bnd (mapped_err (q_SetCellMigrationPrecheck migrationID True (Some hashHex) (wrap32 recordCount))) (\<lambda>_.
      bnd (mapped_err (q_UpdateCellMigrationStatus now migrationID CellMigrationReady)) (\<lambda>updated.
      bnd (emitOutboxTx (mg_provider m) uuid_Nil ''cell_migration'' migrationID ''cell_migration.prechecked''
             (JObj [(''record_count'', JInt recordCount), (''data_integrity_hash'', JStr hashHex)])) (\<lambda>_.
      bnd (insertAuditTx (Some (mg_provider m)) None ''operator'' ''system'' ''cell_migration.precheck''
             ''cell_migration'' migrationID (Some (JObj
             [(''record_count'', JInt recordCount), (''data_hash'', JStr hashHex)]))) (\<lambda>_.
      ret updated)))))))))))))"

definition ExecuteMigration :: "uuid \<Rightarrow> rt \<Rightarrow> db \<Rightarrow> CellMigration result \<times> db" where
  "ExecuteMigration migrationID = WithOperator
     (bnd (mapped_err (q_GetCellMigrationByID migrationID)) (\<lambda>m.
      bnd (requireStatus (mg_status m) [CellMigrationReady]) (\<lambda>_.
      bnd (check (mg_passed m) ErrValidation) (\<lambda>_.
      bnd (mapped_err (q_UpdateCellStatus (mg_from m) CellStatusDraining)) (\<lambda>_.
      bnd (mapped_err (q_UpdateProviderCell (mg_provider m) (Some (mg_to m)))) (\<lambda>_.
      bnd now_tx (\<lambda>now.
      bnd (mapped_err (q_UpdateCellMigrationStatus now migrationID CellMigrationCompleted)) (\<lambda>updated.
      bnd (emitOutboxTx (mg_provider m) uuid_Nil ''cell_migration'' migrationID ''cell_migration.completed''
             (JObj [(''new_cell'', JStr (mg_to m)), (''record_count'', JInt (mg_count m))])) (\<lambda>_.
      bnd (insertAuditTx (Some (mg_provider m)) None ''operator'' ''system'' ''cell_migration.execute''
             ''cell_migration'' migrationID (Some (JObj
             [(''new_cell'', JStr (mg_to m)), (''source_cell_draining'', JBool True)]))) (\<lambda>_.
      ret updated))))))))))"

definition CancelMigration :: "uuid \<Rightarrow> rt \<Rightarrow> db \<Rightarrow> CellMigration result \<times> db" where
  "CancelMigration migrationID = WithOperator
     (bnd (mapped_err (q_GetCellMigrationByID migrationID)) (\<lambda>m.
      bnd (check (\<not> (mg_status m = CellMigrationCompleted \<or> mg_status m = CellMigrationMigrating)) ErrConflict) (\<lambda>_.
      bnd (check (mg_status m \<noteq> CellMigrationCancelled) ErrConflict) (\<lambda>_.
      bnd now_tx (\<lambda>now.
      bnd (mapped_err (q_UpdateCellMigrationStatus now migrationID CellMigrationCancelled)) (\<lambda>updated.
      bnd (emitOutboxTx (mg_provider m) uuid_Nil ''cell_migration'' migrationID ''cell_migration.cancelled'' JNull) (\<lambda>_.
      bnd (insertAuditTx (Some (mg_provider m)) None ''operator'' ''system'' ''cell_migration.cancel''
             ''cell_migration'' migrationID None) (\<lambda>_.
      ret updated))))))))"

definition MigrationScheduler_runOnce :: "rt \<Rightarrow> db \<Rightarrow> unit result \<times> db" where
  "MigrationScheduler_runOnce = WithOperator (ret ())"

definition GetCellMigration :: "uuid \<Rightarrow> rt \<Rightarrow> db \<Rightarrow> CellMigration result \<times> db" where
  "GetCellMigration migrationID = WithOperator (mapped_err (q_GetCellMigrationByID migrationID))"

definition ListCellMigrations :: "uuid \<Rightarrow> rt \<Rightarrow> db \<Rightarrow> CellMigration list result \<times> db" where
  "ListCellMigrations p = WithOperator (q_ListCellMigrationsByProvider p 100)"

section \<open>The life of a move\<close>

inductive failover_step :: "CellFailover \<Rightarrow> CellFailover \<Rightarrow> bool" where
  fence: "fo_status x = FailoverStatusInitiated \<Longrightarrow> failover_step x (x\<lparr>fo_status := FailoverStatusFenced\<rparr>)"
| switch: "fo_status x = FailoverStatusFenced \<Longrightarrow> failover_step x (x\<lparr>fo_status := FailoverStatusSwitched\<rparr>)"
| complete: "fo_status x = FailoverStatusSwitched \<Longrightarrow> failover_step x
    (x\<lparr>fo_usage := u, fo_outbox := n, fo_status := FailoverStatusCompleted, fo_completed := Some t\<rparr>)"
| abort: "fo_status x = FailoverStatusInitiated \<or> fo_status x = FailoverStatusFenced \<Longrightarrow>
    failover_step x (x\<lparr>fo_status := FailoverStatusAborted, fo_completed := Some t\<rparr>)"

inductive migration_step :: "CellMigration \<Rightarrow> CellMigration \<Rightarrow> bool" where
  precheck: "mg_status x = CellMigrationPlanned \<Longrightarrow> migration_step x
    (x\<lparr>mg_passed := True, mg_hash := Some h, mg_count := n, mg_status := CellMigrationReady\<rparr>)"
| execute: "mg_status x = CellMigrationReady \<Longrightarrow> mg_passed x \<Longrightarrow>
    migration_step x (x\<lparr>mg_status := CellMigrationCompleted, mg_completed := Some t\<rparr>)"
| cancel: "mg_status x = CellMigrationPlanned \<or> mg_status x = CellMigrationReady \<Longrightarrow>
    migration_step x (x\<lparr>mg_status := CellMigrationCancelled, mg_completed := Some t\<rparr>)"

inductive_cases failover_stepE: "failover_step x y"
inductive_cases migration_stepE: "migration_step x y"

definition failover_fresh :: "CellFailover \<Rightarrow> bool" where
  "failover_fresh x \<longleftrightarrow> fo_status x = FailoverStatusInitiated \<and> fo_completed x = None \<and> fo_id x \<noteq> uuid_Nil \<and>
     fo_from x \<noteq> fo_to x \<and> fo_reason x \<noteq> '''' \<and> fo_by x \<noteq> ''''"

definition failover_final :: "CellFailover \<Rightarrow> bool" where
  "failover_final x \<longleftrightarrow> fo_status x = FailoverStatusCompleted \<or> fo_status x = FailoverStatusAborted"

definition failover_ok :: "CellFailover \<Rightarrow> bool" where
  "failover_ok x \<longleftrightarrow> fo_status x \<in> {FailoverStatusInitiated, FailoverStatusFenced, FailoverStatusSwitched,
       FailoverStatusCompleted, FailoverStatusAborted} \<and>
     (fo_completed x \<noteq> None \<longleftrightarrow> failover_final x) \<and> fo_id x \<noteq> uuid_Nil \<and>
     fo_from x \<noteq> fo_to x \<and> fo_reason x \<noteq> '''' \<and> fo_by x \<noteq> ''''"

definition migration_fresh :: "CellMigration \<Rightarrow> bool" where
  "migration_fresh x \<longleftrightarrow> mg_status x = CellMigrationPlanned \<and> mg_completed x = None \<and> \<not> mg_passed x \<and>
     mg_id x \<noteq> uuid_Nil \<and> mg_from x \<noteq> mg_to x \<and> mg_reason x \<noteq> '''' \<and> mg_by x \<noteq> ''''"

definition migration_final :: "CellMigration \<Rightarrow> bool" where
  "migration_final x \<longleftrightarrow> mg_status x = CellMigrationCompleted \<or> mg_status x = CellMigrationCancelled"

definition migration_ok :: "CellMigration \<Rightarrow> bool" where
  "migration_ok x \<longleftrightarrow> mg_status x \<in> {CellMigrationPlanned, CellMigrationReady, CellMigrationCompleted,
       CellMigrationCancelled} \<and>
     (mg_completed x \<noteq> None \<longleftrightarrow> migration_final x) \<and>
     (mg_status x = CellMigrationReady \<or> mg_status x = CellMigrationCompleted \<longrightarrow> mg_passed x \<and> mg_hash x \<noteq> None) \<and>
     mg_id x \<noteq> uuid_Nil \<and> mg_from x \<noteq> mg_to x \<and> mg_reason x \<noteq> '''' \<and> mg_by x \<noteq> ''''"

section \<open>One move at a time\<close>

text \<open>Rows that are moves of an owner: every row is well formed and placed, and no owner has
  two unfinished ones.\<close>

definition exclusive ::
  "('r \<Rightarrow> bool) \<Rightarrow> ('r \<Rightarrow> bool) \<Rightarrow> ('r \<Rightarrow> 'k) \<Rightarrow> ('r \<Rightarrow> 'o) \<Rightarrow> ('r \<Rightarrow> bool) \<Rightarrow> 'r list \<Rightarrow> bool" where
  "exclusive ok final key owner placed rs \<longleftrightarrow> distinct (map key rs) \<and> (\<forall>x\<in>set rs. ok x \<and> placed x) \<and>
     (\<forall>p. length (filter (\<lambda>x. owner x = p \<and> \<not> final x) rs) \<le> 1)"

lemma exclusive_mono:
  "exclusive ok final key owner placed rs \<Longrightarrow> (\<And>x. placed x \<Longrightarrow> placed' x) \<Longrightarrow>
   exclusive ok final key owner placed' rs"
  by (auto simp: exclusive_def)

lemma filter_update_shrinks:
  "(\<And>x. x \<in> set xs \<Longrightarrow> q x \<Longrightarrow> p (g x) \<Longrightarrow> p x) \<Longrightarrow>
   length (filter p (update_where q g xs)) \<le> length (filter p xs)"
proof (induction xs)
  case (Cons x xs)
  then have "length (filter p (update_where q g xs)) \<le> length (filter p xs)" by simp
  moreover have "q x \<Longrightarrow> p (g x) \<Longrightarrow> p x" using Cons.prems by simp
  ultimately show ?case by (auto simp: update_where_def)
qed (simp add: update_where_def)

locale move_machine = row_machine step fresh ok final key
  for step :: "'r \<Rightarrow> 'r \<Rightarrow> bool" and fresh :: "'r \<Rightarrow> bool" and ok :: "'r \<Rightarrow> bool"
    and final :: "'r \<Rightarrow> bool" and key :: "'r \<Rightarrow> 'k" +
  fixes owner :: "'r \<Rightarrow> 'o" and route :: "'r \<Rightarrow> 'c"
  assumes step_owner: "step x y \<Longrightarrow> owner y = owner x"
    and step_route: "step x y \<Longrightarrow> route y = route x"
    and step_live: "step x y \<Longrightarrow> \<not> final x"
begin

lemma exclusive_update:
  assumes "exclusive ok final key owner (\<lambda>x. placed (route x)) rs" "f \<in> set rs" "step f (g f)"
  shows "exclusive ok final key owner (\<lambda>x. placed (route x)) (update_where (\<lambda>x. key x = key f) g rs) \<and>
    evolves step fresh rs (update_where (\<lambda>x. key x = key f) g rs)"
proof -
  have only: "x = f" if "x \<in> set rs" "key x = key f" for x
    using assms(1,2) that distinct_keys_unique [of key rs x f] by (simp add: exclusive_def)
  have "distinct (map key (update_where (\<lambda>x. key x = key f) g rs))"
  proof -
    have "map key (update_where (\<lambda>x. key x = key f) g rs) = map key rs"
      using only step_key [OF assms(3)] by (auto simp: update_where_def)
    with assms(1) show ?thesis by (simp add: exclusive_def)
  qed
  moreover have "ok (g f)" "placed (route (g f))"
    using assms step_ok [OF _ assms(3)] step_route [OF assms(3)] by (simp_all add: exclusive_def)
  then have "\<forall>x\<in>set (update_where (\<lambda>x. key x = key f) g rs). ok x \<and> placed (route x)"
    using assms(1) only by (auto simp: exclusive_def set_update_where)
  moreover have "length (filter (\<lambda>x. owner x = p \<and> \<not> final x) (update_where (\<lambda>x. key x = key f) g rs)) \<le> 1" for p
  proof -
    have "length (filter (\<lambda>x. owner x = p \<and> \<not> final x) (update_where (\<lambda>x. key x = key f) g rs)) \<le>
        length (filter (\<lambda>x. owner x = p \<and> \<not> final x) rs)"
      using step_owner [OF assms(3)] step_live [OF assms(3)] by (intro filter_update_shrinks) (auto dest: only)
    also have "\<dots> \<le> 1" using assms(1) by (simp add: exclusive_def)
    finally show ?thesis .
  qed
  moreover have "evolves step fresh rs (update_where (\<lambda>x. key x = key f) g rs)"
    by (rule evolves_update) (use only assms(3) in blast)
  ultimately show ?thesis by (simp add: exclusive_def)
qed

lemma exclusive_insert:
  assumes "exclusive ok final key owner placed rs" "fresh r" "placed r" "\<forall>x\<in>set rs. key r \<noteq> key x"
    and "filter (\<lambda>x. owner x = owner r \<and> \<not> final x) rs = []"
  shows "exclusive ok final key owner placed (rs @ [r]) \<and> evolves step fresh rs (rs @ [r])"
proof -
  have "length (filter (\<lambda>x. owner x = p \<and> \<not> final x) (rs @ [r])) \<le> 1" for p
    using assms(1,5) by (cases "p = owner r") (auto simp: exclusive_def)
  with assms(1-4) show ?thesis by (auto simp: exclusive_def fresh_ok evolves_insert)
qed

end

interpretation failover: move_machine failover_step failover_fresh failover_ok failover_final fo_id
  fo_provider "\<lambda>x. (fo_from x, fo_to x)"
proof unfold_locales
  show "failover_ok y" if "failover_ok x" "failover_step x y" for x y
    using that(2,1) by cases (auto simp: failover_ok_def failover_final_def)
  show "\<not> failover_final x" if "failover_step x y" for x y
    using that by cases (auto simp: failover_final_def)
qed (auto simp: failover_fresh_def failover_ok_def failover_final_def elim: failover_stepE)

interpretation migration: move_machine migration_step migration_fresh migration_ok migration_final mg_id
  mg_provider "\<lambda>x. (mg_from x, mg_to x)"
proof unfold_locales
  show "migration_ok y" if "migration_ok x" "migration_step x y" for x y
    using that(2,1) by cases (auto simp: migration_ok_def migration_final_def)
  show "\<not> migration_final x" if "migration_step x y" for x y
    using that by cases (auto simp: migration_final_def)
qed (auto simp: migration_fresh_def migration_ok_def migration_final_def elim: migration_stepE)

text \<open>Cells never disappear and never change their region.\<close>

definition regions_of :: "Cell list \<Rightarrow> (uuid \<times> uuid) set" where
  "regions_of cs = set (map (\<lambda>c. (ce_id c, ce_region c)) cs)"

lemma regions_of_status [simp]: "regions_of (update_where p (ce_status_update u) cs) = regions_of cs"
proof -
  have "map (\<lambda>c. (ce_id c, ce_region c)) (update_where p (ce_status_update u) cs) =
      map (\<lambda>c. (ce_id c, ce_region c)) cs" by (simp add: map_update_where)
  then show ?thesis unfolding regions_of_def by (rule arg_cong)
qed

lemma regions_of_append [simp]: "regions_of (cs @ cs') = regions_of cs \<union> regions_of cs'"
  by (simp add: regions_of_def)

abbreviation placements :: "db \<Rightarrow> (uuid \<times> uuid) set" where
  "placements d \<equiv> regions_of (db_cells d)"

definition same_region :: "db \<Rightarrow> uuid \<times> uuid \<Rightarrow> bool" where
  "same_region d route \<longleftrightarrow> (\<exists>r. (fst route, r) \<in> placements d \<and> (snd route, r) \<in> placements d)"

definition moves_inv :: "db \<Rightarrow> bool" where
  "moves_inv d \<longleftrightarrow>
     exclusive failover_ok failover_final fo_id fo_provider (\<lambda>x. same_region d (fo_from x, fo_to x)) (db_failovers d) \<and>
     exclusive migration_ok migration_final mg_id mg_provider (\<lambda>x. same_region d (mg_from x, mg_to x)) (db_migrations d)"

definition moves_kept :: "db \<Rightarrow> db \<Rightarrow> bool" where
  "moves_kept d d' \<longleftrightarrow> moves_inv d' \<and>
     evolves failover_step failover_fresh (db_failovers d) (db_failovers d') \<and>
     evolves migration_step migration_fresh (db_migrations d) (db_migrations d')"

lemma same_region_mono: "same_region d r \<Longrightarrow> placements d \<subseteq> placements d' \<Longrightarrow> same_region d' r"
  unfolding same_region_def by blast

lemma moves_inv_mono:
  assumes "moves_inv d" "placements d \<subseteq> placements d'"
  shows "exclusive failover_ok failover_final fo_id fo_provider (\<lambda>x. same_region d' (fo_from x, fo_to x)) (db_failovers d)"
    and "exclusive migration_ok migration_final mg_id mg_provider (\<lambda>x. same_region d' (mg_from x, mg_to x)) (db_migrations d)"
  using assms unfolding moves_inv_def by (auto elim!: exclusive_mono intro: same_region_mono)

lemma moves_elsewhere:
  assumes "moves_inv d" "placements d \<subseteq> placements d'"
    and "db_failovers d' = db_failovers d" "db_migrations d' = db_migrations d"
  shows "moves_kept d d'"
  using assms(3,4) moves_inv_mono [OF assms(1,2)] by (simp add: moves_kept_def moves_inv_def)

lemma moves_failover:
  assumes "moves_inv d" and eq: "db_failovers d' = update_where (\<lambda>x. fo_id x = i) g (db_failovers d)"
    and f: "f \<in> set (db_failovers d)" "fo_id f = i" "failover_step f (g f)"
    and "placements d \<subseteq> placements d'" "db_migrations d' = db_migrations d"
  shows "moves_kept d d'"
  using eq f(2) assms(7) moves_inv_mono [OF assms(1,6)]
    failover.exclusive_update [where g = g and placed = "same_region d'", OF moves_inv_mono(1) [OF assms(1,6)] f(1,3)]
  by (simp add: moves_kept_def moves_inv_def)

lemma moves_migration:
  assumes "moves_inv d" and eq: "db_migrations d' = update_where (\<lambda>x. mg_id x = i) g (db_migrations d)"
    and f: "m \<in> set (db_migrations d)" "mg_id m = i" "migration_step m (g m)"
    and "placements d \<subseteq> placements d'" "db_failovers d' = db_failovers d"
  shows "moves_kept d d'"
  using eq f(2) assms(7) moves_inv_mono [OF assms(1,6)]
    migration.exclusive_update [where g = g and placed = "same_region d'", OF moves_inv_mono(2) [OF assms(1,6)] f(1,3)]
  by (simp add: moves_kept_def moves_inv_def)

section \<open>What the operations keep\<close>

lemma wp_q_last_try:
  assumes "\<not> s_aborted s"
    and "\<And>r. r \<in> set (rows tb s) \<Longrightarrow> p r \<Longrightarrow> wp (f (Inr r)) Q s"
    and "filter p (rows tb s) = [] \<Longrightarrow> wp (f (Inl ErrNoRows)) Q s"
  shows "wp (bnd (try_tx (q_last tb p)) f) Q s"
proof (cases "find p (rev (rows tb s))")
  case None
  then have "filter p (rows tb s) = []" by (simp add: find_None_iff filter_empty_conv)
  then show ?thesis using assms(1,3) None
    by (simp add: wp_def bnd_def try_tx_def q_last_def live_tx_def select_one_def is_pg_def)
next
  case (Some r)
  then have "r \<in> set (rows tb s)" "p r" by (auto dest: find_Some_mem)
  then show ?thesis using assms(1,2) Some
    by (simp add: wp_def bnd_def try_tx_def q_last_def live_tx_def select_one_def)
qed

lemma wp_no_active_failover:
  assumes "\<not> s_aborted s" "s_role s = Operator" "\<forall>x\<in>set (db_failovers (s_db s)). fo_id x \<noteq> uuid_Nil"
    and "filter (\<lambda>x. fo_provider x = p \<and> \<not> failover_final x) (db_failovers (s_db s)) = [] \<Longrightarrow> Q () s"
  shows "wp (no_active_failover p) Q s"
  unfolding no_active_failover_def using assms
  by (intro wp_q_last_try)
    (auto simp: rows_def cell_failovers_tb failover_final_def filter_empty_conv wp_ret check_def wp_throw)

lemma wp_no_active_migration:
  assumes "\<not> s_aborted s" "s_role s = Operator" "\<forall>x\<in>set (db_migrations (s_db s)). mg_id x \<noteq> uuid_Nil \<and> mg_status x \<noteq> CellMigrationFailed"
    and "filter (\<lambda>x. mg_provider x = p \<and> \<not> migration_final x) (db_migrations (s_db s)) = [] \<Longrightarrow> Q () s"
  shows "wp (no_active_migration p) Q s"
  unfolding no_active_migration_def using assms
  by (intro wp_q_last_try)
    (auto simp: rows_def cell_migrations_tb migration_final_def filter_empty_conv wp_ret check_def wp_throw)

lemma wp_move_cells:
  "(same_region (s_db s) (from, to) \<Longrightarrow> Q () s) \<Longrightarrow> wp (move_cells from to) Q s"
  unfolding move_cells_def
  by (intro wp_intros) (auto simp: cells_tb same_region_def regions_of_def rev_image_eqI)

lemma moves_failover_insert:
  assumes "moves_inv d" "placements d \<subseteq> placements d'" "failover_fresh r" "same_region d (fo_from r, fo_to r)"
    and "db_failovers d' = db_failovers d @ [r]" "db_migrations d' = db_migrations d"
    and "\<forall>x\<in>set (db_failovers d). fo_id r \<noteq> fo_id x"
    and "filter (\<lambda>x. fo_provider x = fo_provider r \<and> \<not> failover_final x) (db_failovers d) = []"
  shows "moves_kept d d'"
  using assms(5,6) moves_inv_mono [OF assms(1,2)]
    failover.exclusive_insert [OF moves_inv_mono(1) [OF assms(1,2)] assms(3) same_region_mono [OF assms(4,2)] assms(7,8)]
  by (simp add: moves_kept_def moves_inv_def)

lemma moves_migration_insert:
  assumes "moves_inv d" "placements d \<subseteq> placements d'" "migration_fresh r" "same_region d (mg_from r, mg_to r)"
    and "db_migrations d' = db_migrations d @ [r]" "db_failovers d' = db_failovers d"
    and "\<forall>x\<in>set (db_migrations d). mg_id r \<noteq> mg_id x"
    and "filter (\<lambda>x. mg_provider x = mg_provider r \<and> \<not> migration_final x) (db_migrations d) = []"
  shows "moves_kept d d'"
  using assms(5,6) moves_inv_mono [OF assms(1,2)]
    migration.exclusive_insert [OF moves_inv_mono(2) [OF assms(1,2)] assms(3) same_region_mono [OF assms(4,2)] assms(7,8)]
  by (simp add: moves_kept_def moves_inv_def)

lemma moves_ids:
  "moves_inv d \<Longrightarrow> x \<in> set (db_failovers d) \<Longrightarrow> fo_id x \<noteq> uuid_Nil"
  "moves_inv d \<Longrightarrow> y \<in> set (db_migrations d) \<Longrightarrow> mg_id y \<noteq> uuid_Nil \<and> mg_status y \<noteq> CellMigrationFailed"
  unfolding moves_inv_def exclusive_def failover_ok_def migration_ok_def by fastforce+

lemmas move_tables = cells_tb cell_failovers_tb cell_migrations_tb providers_tb upd_rows_def put_rows_def
  hit_rows_def rows_def bump_def customer_accounts_tb subscriptions_tb audit_events_tb usage_events_tb
  outbox_events_tb

lemma moves_status:
  "moves_inv d \<Longrightarrow> x \<in> set (db_failovers d) \<Longrightarrow> fo_status x \<in> {FailoverStatusInitiated, FailoverStatusFenced,
     FailoverStatusSwitched, FailoverStatusCompleted, FailoverStatusAborted}"
  "moves_inv d \<Longrightarrow> y \<in> set (db_migrations d) \<Longrightarrow> mg_status y \<in> {CellMigrationPlanned, CellMigrationReady,
     CellMigrationCompleted, CellMigrationCancelled}"
  by (auto simp: moves_inv_def exclusive_def failover_ok_def migration_ok_def)

lemma FenceFailover_kept:
  assumes "moves_inv d"
  shows "outcome (\<lambda>x d'. moves_kept d d') d (FenceFailover i e d)"
  unfolding FenceFailover_def requireStatus_def
  by (intro wp_intros, simp_all add: move_tables, rule moves_failover [OF assms])
    (auto intro: failover_step.intros)

lemma SwitchFailover_kept:
  assumes "moves_inv d"
  shows "outcome (\<lambda>x d'. moves_kept d d') d (SwitchFailover i e d)"
  unfolding SwitchFailover_def requireStatus_def
  by (intro wp_intros, simp_all add: move_tables, rule moves_failover [OF assms])
    (auto intro: failover_step.intros)

lemma CompleteFailover_kept:
  assumes "moves_inv d"
  shows "outcome (\<lambda>x d'. moves_kept d d') d (CompleteFailover i e d)"
  unfolding CompleteFailover_def requireStatus_def
  by ((rule wp_update_any wp_many_any | rule wp_intros)+, simp add: move_tables update_where_twice,
      rule moves_failover [OF assms]) (auto intro: failover_step.intros dest: moves_status [OF assms])

lemma AbortFailover_kept:
  assumes "moves_inv d"
  shows "outcome (\<lambda>x d'. moves_kept d d') d (AbortFailover i e d)"
  unfolding AbortFailover_def
  by (intro wp_intros, simp_all add: move_tables; rule moves_failover [OF assms])
    (auto intro: failover_step.intros dest: moves_status [OF assms])

lemma ExecuteMigration_kept:
  assumes "moves_inv d"
  shows "outcome (\<lambda>x d'. moves_kept d d') d (ExecuteMigration i e d)"
  unfolding ExecuteMigration_def requireStatus_def
  by (intro wp_intros, simp_all add: move_tables, rule moves_migration [OF assms])
    (auto intro: migration_step.intros)

lemma CancelMigration_kept:
  assumes "moves_inv d"
  shows "outcome (\<lambda>x d'. moves_kept d d') d (CancelMigration i e d)"
  unfolding CancelMigration_def
  by (intro wp_intros, simp_all add: move_tables, rule moves_migration [OF assms])
    (auto intro: migration_step.intros dest: moves_status [OF assms])

lemma PrecheckMigration_kept:
  assumes "moves_inv d"
  shows "outcome (\<lambda>x d'. moves_kept d d') d (PrecheckMigration mj i e d)"
  unfolding PrecheckMigration_def requireStatus_def Let_def
  by ((rule wp_update_any wp_many_any wp_rt_any | rule wp_intros)+, simp add: move_tables,
      simp add: update_where_twice, rule moves_migration [OF assms], simp_all, rule migration_step.precheck, simp)

lemma InitiateFailover_kept:
  assumes "moves_inv d" "\<forall>n. rt_gen e n \<noteq> uuid_Nil"
  shows "outcome (\<lambda>x d'. moves_kept d d') d (InitiateFailover inp e d)"
  unfolding InitiateFailover_def
  apply (simp only: split: if_split)
  apply (intro conjI impI wp_intros wp_no_active_failover wp_move_cells)
  apply (simp_all add: move_tables moves_ids [OF assms(1)])
  apply (rule moves_failover_insert [OF assms(1)])
  using assms(2) by (auto simp: failover_fresh_def same_region_def)

lemma CreateCellMigration_kept:
  assumes "moves_inv d" "\<forall>n. rt_gen e n \<noteq> uuid_Nil"
  shows "outcome (\<lambda>x d'. moves_kept d d') d (CreateCellMigration inp e d)"
  unfolding CreateCellMigration_def
  apply (simp only: split: if_split)
  apply (intro conjI impI wp_intros wp_no_active_failover wp_no_active_migration wp_move_cells)
  apply (simp_all add: move_tables moves_ids [OF assms(1)])
  apply (rule moves_migration_insert [OF assms(1)])
  using assms(2) by (auto simp: migration_fresh_def same_region_def)

lemma CreateCell_kept:
  assumes "moves_inv d"
  shows "outcome (\<lambda>x d'. moves_kept d d') d (CreateCell c e d)"
  unfolding CreateCell_def Let_def
  by (simp only: split: if_split, intro conjI impI wp_intros)
    (simp_all add: move_tables, (rule moves_elsewhere [OF assms], auto)+)

lemma UpdateCellStatus_kept:
  assumes "moves_inv d"
  shows "outcome (\<lambda>x d'. moves_kept d d') d (UpdateCellStatus i st e d)"
  unfolding UpdateCellStatus_def
  by (simp only: split: if_split, intro conjI impI wp_intros)
    (simp_all add: move_tables, (rule moves_elsewhere [OF assms], auto)+)

lemma AssignProviderCell_kept:
  assumes "moves_inv d"
  shows "outcome (\<lambda>x d'. moves_kept d d') d (AssignProviderCell p i e d)"
  unfolding AssignProviderCell_def
  by (intro wp_intros) (simp_all add: move_tables, (rule moves_elsewhere [OF assms], auto)+)

section \<open>Runs\<close>

datatype cell_call =
    CMake CreateCellInput | CSetStatus uuid string | CAssign uuid uuid
  | CInitiate FailoverInput | CFence uuid | CSwitch uuid | CComplete uuid | CAbort uuid
  | CPlan CellMigrationInput | CPrecheck precheck_text uuid | CExecute uuid | CCancel uuid

fun cell_exec :: "cell_call \<Rightarrow> rt \<Rightarrow> db \<Rightarrow> db" where
  "cell_exec (CMake c) e d = snd (CreateCell c e d)"
| "cell_exec (CSetStatus i st) e d = snd (UpdateCellStatus i st e d)"
| "cell_exec (CAssign p i) e d = snd (AssignProviderCell p i e d)"
| "cell_exec (CInitiate inp) e d = snd (InitiateFailover inp e d)"
| "cell_exec (CFence i) e d = snd (FenceFailover i e d)"
| "cell_exec (CSwitch i) e d = snd (SwitchFailover i e d)"
| "cell_exec (CComplete i) e d = snd (CompleteFailover i e d)"
| "cell_exec (CAbort i) e d = snd (AbortFailover i e d)"
| "cell_exec (CPlan inp) e d = snd (CreateCellMigration inp e d)"
| "cell_exec (CPrecheck mj i) e d = snd (PrecheckMigration mj i e d)"
| "cell_exec (CExecute i) e d = snd (ExecuteMigration i e d)"
| "cell_exec (CCancel i) e d = snd (CancelMigration i e d)"

definition cell_run :: "(cell_call \<times> rt) list \<Rightarrow> db \<Rightarrow> db" where
  "cell_run cs d = fold (\<lambda>(c, e) d. cell_exec c e d) cs d"

lemma moves_snd: "outcome (\<lambda>x d'. moves_kept d d') d r \<Longrightarrow> moves_inv d \<Longrightarrow> moves_kept d (snd r)"
  by (erule outcome_snd) (simp add: moves_kept_def)

lemma cell_exec_kept:
  assumes "moves_inv d" "\<forall>n. rt_gen e n \<noteq> uuid_Nil"
  shows "moves_kept d (cell_exec c e d)"
  using assms
  by (cases c) (auto intro: moves_snd CreateCell_kept UpdateCellStatus_kept AssignProviderCell_kept
      InitiateFailover_kept FenceFailover_kept SwitchFailover_kept CompleteFailover_kept AbortFailover_kept
      CreateCellMigration_kept PrecheckMigration_kept ExecuteMigration_kept CancelMigration_kept)

lemma cell_run_kept:
  "moves_inv d \<Longrightarrow> list_all (\<lambda>(c, e). \<forall>n. rt_gen e n \<noteq> uuid_Nil) cs \<Longrightarrow> moves_inv (cell_run cs d) \<and>
   (x \<in> set (db_failovers d) \<longrightarrow> failover_final x \<longrightarrow> x \<in> set (db_failovers (cell_run cs d))) \<and>
   (y \<in> set (db_migrations d) \<longrightarrow> migration_final y \<longrightarrow> y \<in> set (db_migrations (cell_run cs d)))"
proof (induction cs arbitrary: d)
  case (Cons ce cs)
  obtain c e where ce: "ce = (c, e)" by fastforce
  have k: "moves_kept d (cell_exec c e d)" using Cons.prems ce by (intro cell_exec_kept) simp_all
  then have "moves_inv (cell_exec c e d)" by (simp add: moves_kept_def)
  from Cons.IH [OF this] Cons.prems(2) k show ?case
    by (auto simp: cell_run_def ce moves_kept_def dest: failover.evolves_final migration.evolves_final)
qed (simp add: cell_run_def)

text \<open>
  C6. Providers move one way at a time. Over any run of cell, failover and migration operations
  a provider never has two unfinished failovers or two unfinished migrations; both cells of a
  move exist, differ and lie in one region; a migration that is ready or was executed has
  passed its check and carries its hash; a move carries a completion time exactly when it is
  over; and a move that is over never changes again.
\<close>

theorem one_move_at_a_time:
  assumes "moves_inv d" "list_all (\<lambda>(c, e). \<forall>n. rt_gen e n \<noteq> uuid_Nil) cs"
  shows "moves_inv (cell_run cs d) \<and>
    (x \<in> set (db_failovers d) \<longrightarrow> failover_final x \<longrightarrow> x \<in> set (db_failovers (cell_run cs d))) \<and>
    (y \<in> set (db_migrations d) \<longrightarrow> migration_final y \<longrightarrow> y \<in> set (db_migrations (cell_run cs d)))"
  by (rule cell_run_kept [OF assms])

definition demo_failover :: FailoverInput where
  "demo_failover = \<lparr>fi_ProviderID = ''p1'', fi_FromCellID = ''c1'', fi_ToCellID = ''c2'', fi_Reason = ''fire'',
     fi_InitiatedBy = ''ann''\<rparr>"

theorem one_move_at_a_time_witness:
  "moves_inv (cell_run [(CInitiate demo_failover, demo_rt 0), (CInitiate demo_failover, demo_rt 1)] demo_db)"
proof -
  have "moves_inv demo_db" by (simp add: moves_inv_def exclusive_def demo_db_def)
  moreover have "replicate n CHR ''g'' \<noteq> uuid_Nil" for n by (cases n) simp_all
  then have "list_all (\<lambda>(c, e). \<forall>n. rt_gen e n \<noteq> uuid_Nil)
      [(CInitiate demo_failover, demo_rt 0), (CInitiate demo_failover, demo_rt 1)]"
    by (simp add: demo_rt_def)
  ultimately show ?thesis by (rule one_move_at_a_time [THEN conjunct1])
qed

section \<open>The write fence\<close>

lemma draining_check:
  assumes "distinct (map pv_id (db_providers d))" "distinct (map ce_id (db_cells d))"
    and "p \<in> set (db_providers d)" "ProviderID tc = pv_id p" "pv_cell p = Some (ce_id c)" "c \<in> set (db_cells d)"
  shows "CheckCellDraining tc e d =
    (if ce_status c = CellStatusDraining then Inl ErrCellDraining else Inr (), d)"
proof -
  let ?s = "\<lparr>s_db = d, s_rt = e, s_role = Tenant (ProviderID tc) (EnvironmentID tc), s_aborted = False\<rparr>"
  let ?ps = "filter (\<lambda>x. pv_id x = ProviderID tc) (rows providers ?s)"
  have only: "x = p" if "x \<in> set ?ps" for x
    using distinct_keys_unique [OF assms(1), of x p] that assms(3,4) by (simp add: rows_def providers_tb)
  have mem: "p \<in> set ?ps" using assms(3,4) by (simp add: rows_def providers_tb vis_provider_def)
  obtain y where y: "q_one cells (\<lambda>c. \<exists>x\<in>set ?ps. pv_cell x = Some (ce_id c)) ?s = Inr (y, ?s)"
    "y \<in> set (db_cells d)" "\<exists>x\<in>set ?ps. pv_cell x = Some (ce_id y)"
    using q_one_hit [of ?s c cells "\<lambda>c. \<exists>x\<in>set ?ps. pv_cell x = Some (ce_id c)"] mem assms(5,6)
    by (auto simp: cells_tb)
  from y(3) only assms(5) have "ce_id y = ce_id c" by auto
  with distinct_keys_unique [OF assms(2) y(2) assms(6)] have "y = c" by blast
  with y(1) have "GetProviderCell tc e d = (Inr c, d)"
    by (simp add: GetProviderCell_def WithTenant_def run_tx_def q_GetCellByProviderID_def bnd_def q_many_def
        live_tx_def map_err_def)
  then show ?thesis by (simp add: CheckCellDraining_def)
qed

lemma failover_same:
  assumes "moves_inv d" "filter (\<lambda>r. fo_id r = fo_id y) (db_failovers d) = x # xs" "y \<in> set (db_failovers d)"
  shows "x = y"
proof -
  have "x \<in> set (filter (\<lambda>r. fo_id r = fo_id y) (db_failovers d))" unfolding assms(2) by simp
  with assms(1,3) distinct_keys_unique [of fo_id "db_failovers d" x y] show ?thesis
    by (simp add: moves_inv_def exclusive_def)
qed

lemma fence_effect:
  assumes "moves_inv d"
  shows "outcome (\<lambda>f d'. db_providers d' = db_providers d \<and>
     db_cells d' = update_where (\<lambda>c. ce_id c = fo_from f) (\<lambda>c. c\<lparr>ce_status := CellStatusDraining\<rparr>) (db_cells d) \<and>
     fo_id f = i \<and> f \<in> set (db_failovers d')) d (FenceFailover i e d)"
  unfolding FenceFailover_def requireStatus_def
  by (intro wp_intros) (simp_all add: move_tables, auto dest!: failover_same [OF assms] simp: set_update_where)

lemma switch_effect:
  assumes "moves_inv d"
  shows "outcome (\<lambda>f d'. db_cells d' = db_cells d \<and>
     (\<exists>f0\<in>set (db_failovers d). fo_id f0 = i \<and> f = f0\<lparr>fo_status := FailoverStatusSwitched\<rparr>) \<and>
     db_providers d' = update_where (\<lambda>x. pv_id x = fo_provider f) (\<lambda>x. x\<lparr>pv_cell := Some (fo_to f)\<rparr>) (db_providers d))
   d (SwitchFailover i e d)"
  unfolding SwitchFailover_def requireStatus_def
  by (intro wp_intros) (simp_all add: move_tables, auto dest!: failover_same [OF assms])

section \<open>What the moves leave open\<close>

text \<open>Aborting one fenced failover reopens the source cell although another failover of a
  provider on that cell is still fenced: the other provider writes to the cell it leaves.\<close>

definition fenced_row :: "uuid \<Rightarrow> uuid \<Rightarrow> CellFailover" where
  "fenced_row i p = \<lparr>fo_id = i, fo_provider = p, fo_from = ''c1'', fo_to = ''c2'', fo_status = FailoverStatusFenced,
     fo_reason = ''fire'', fo_by = ''ann'', fo_token = i, fo_usage = 0, fo_outbox = 0, fo_completed = None\<rparr>"

definition two_fenced :: db where
  "two_fenced = demo_db\<lparr>db_failovers := [fenced_row ''f1'' ''p1'', fenced_row ''f2'' ''p2''],
     db_cells := update_where (\<lambda>c. ce_id c = ''c1'') (\<lambda>c. c\<lparr>ce_status := CellStatusDraining\<rparr>) (db_cells demo_db)\<rparr>"

lemma abort_reopens_for_others:
  "let d = snd (AbortFailover ''f1'' (demo_rt 4) two_fenced) in
   map (\<lambda>x. (fo_provider x, fo_status x)) (db_failovers d) =
     [(''p1'', FailoverStatusAborted), (''p2'', FailoverStatusFenced)] \<and>
   fst (CheckCellDraining (demo_ctx ''p2'' ''e2'') (demo_rt 5) two_fenced) = Inl ErrCellDraining \<and>
   fst (CheckCellDraining (demo_ctx ''p2'' ''e2'') (demo_rt 5) d) = Inr ()"
  by code_simp

text \<open>The check before a migration reads the customers and subscriptions of the environment
  with the nil id, which no environment has: its hash covers audit events only.\<close>

lemma precheck_sees_no_customers:
  assumes "\<forall>x\<in>set (db_customers d). cu_env x \<noteq> uuid_Nil" "\<forall>x\<in>set (db_subscriptions d). su_env x \<noteq> uuid_Nil"
  shows "outcome (\<lambda>m d'. \<exists>audits. \<forall>x\<in>set (db_migrations d'). mg_id x = i \<longrightarrow>
      mg_hash x = Some (hex_encode (rt_sha256 e (marshal [] [] audits)))) d (PrecheckMigration marshal i e d)"
proof -
  have none: "filter (\<lambda>x. cu_provider x = p \<and> cu_env x = uuid_Nil) (db_customers d) = []"
    "filter (\<lambda>x. su_provider x = p \<and> su_env x = uuid_Nil) (db_subscriptions d) = []" for p
    using assms by (auto simp: filter_empty_conv)
  show ?thesis
    unfolding PrecheckMigration_def requireStatus_def Let_def
    by ((rule wp_update_any | rule wp_many_any [where tb = audit_events] | rule wp_intros)+)
      (simp add: move_tables update_where_twice none set_update_where, rule exI, auto)
qed

end
