(* ===== verification/Subscriptions.thy ===== *)
theory Subscriptions
  imports Billing_Migration Cells
begin

text \<open>
  \<open>internal/service/subscriptions.go\<close>: a subscription binds a customer to a plan of a
  published catalog version and keeps that version for its life. Creation stands behind the
  two write fences: the cutover lock of an import and the draining state of the cell.
\<close>

section \<open>Queries\<close>

abbreviation q_GetCatalogVersionByID :: "uuid \<Rightarrow> CatalogVersion tx" where
  "q_GetCatalogVersionByID i \<equiv> q_one catalog_versions (\<lambda>x. cv_id x = i)"

abbreviation q_GetPlanByVersionAndCode :: "uuid \<Rightarrow> string \<Rightarrow> Plan tx" where
  "q_GetPlanByVersionAndCode v code \<equiv> q_one plans (\<lambda>x. pl_version x = v \<and> pl_code x = code)"

abbreviation q_InsertSubscription ::
  "uuid \<Rightarrow> uuid \<Rightarrow> uuid \<Rightarrow> string \<Rightarrow> uuid \<Rightarrow> uuid \<Rightarrow> uuid \<Rightarrow> Subscription tx" where
  "q_InsertSubscription i p en ext customer version plan \<equiv> q_insert subscriptions
     \<lparr>su_id = i, su_provider = p, su_env = en, su_external = ext, su_customer = customer,
      su_version = version, su_plan = plan, su_status = SubscriptionActive, su_terminated = None\<rparr>"

abbreviation q_GetSubscriptionByID :: "uuid \<Rightarrow> Subscription tx" where
  "q_GetSubscriptionByID i \<equiv> q_one subscriptions (\<lambda>x. su_id x = i)"

abbreviation q_GetSubscriptionByExternalID :: "uuid \<Rightarrow> uuid \<Rightarrow> string \<Rightarrow> Subscription tx" where
  "q_GetSubscriptionByExternalID p en ext \<equiv> q_one subscriptions
     (\<lambda>x. su_provider x = p \<and> su_env x = en \<and> su_external x = ext)"

abbreviation q_GetActiveSubscriptionByCustomer :: "uuid \<Rightarrow> Subscription tx" where
  "q_GetActiveSubscriptionByCustomer c \<equiv> q_last subscriptions
     (\<lambda>x. su_customer x = c \<and> su_status x = SubscriptionActive)"

text \<open>The listings that join the customer, the plan and the environment.\<close>

record SubscriptionRow =
  sr_sub :: Subscription
  sr_customer :: string
  sr_plan :: string
  sr_kind :: string

abbreviation q_subscription_rows :: "(Subscription \<Rightarrow> bool) \<Rightarrow> SubscriptionRow list tx" where
  "q_subscription_rows p \<equiv>
     bnd (q_many subscriptions p) (\<lambda>ss.
     bnd (q_many customer_accounts (\<lambda>_. True)) (\<lambda>cs.
     bnd (q_many plans (\<lambda>_. True)) (\<lambda>ps.
     bnd (q_many environments (\<lambda>_. True)) (\<lambda>es.
     ret (map (\<lambda>(((s, c), pl), en). \<lparr>sr_sub = s, sr_customer = cu_external c, sr_plan = pl_code pl,
                sr_kind = en_kind en\<rparr>)
           (joined (\<lambda>((s, c), pl) en. en_id en = su_env s)
             (joined (\<lambda>(s, c) pl. pl_id pl = su_plan s)
               (joined (\<lambda>s c. cu_id c = su_customer s) (rev ss) cs) ps) es))))))"

abbreviation q_ListSubscriptionsByProvider :: "uuid \<Rightarrow> SubscriptionRow list tx" where
  "q_ListSubscriptionsByProvider p \<equiv> q_subscription_rows (\<lambda>x. su_provider x = p)"

abbreviation q_ListSubscriptionsByCustomer :: "uuid \<Rightarrow> int \<Rightarrow> SubscriptionRow list tx" where
  "q_ListSubscriptionsByCustomer c n \<equiv>
     bnd (q_subscription_rows (\<lambda>x. su_customer x = c)) (\<lambda>xs. ret (take (nat n) xs))"

abbreviation q_TerminateSubscription :: "int \<Rightarrow> uuid \<Rightarrow> Subscription tx" where
  "q_TerminateSubscription now i \<equiv> q_update_one subscriptions (\<lambda>x. su_id x = i)
     (\<lambda>x. x\<lparr>su_status := SubscriptionTerminated, su_terminated := Some now\<rparr>)"

section \<open>Operations\<close>

text \<open>The two fences, in the order of the callers; the first error is returned.\<close>

definition check_fences :: "Ctx \<Rightarrow> rt \<Rightarrow> db \<Rightarrow> unit result \<times> db" where
  "check_fences tc e d =
     (case CheckCutoverLock tc e d of
        (Inl err, d') \<Rightarrow> (Inl err, d')
      | (Inr _, d') \<Rightarrow> CheckCellDraining tc e d')"

definition create_subscription ::
  "Ctx \<Rightarrow> string \<Rightarrow> string \<Rightarrow> uuid \<Rightarrow> string \<Rightarrow> Subscription tx" where
  "create_subscription tc externalID customerExternalID catalogVersionID planCode =
     bnd (map_err (\<lambda>_. ErrValidation)
            (q_GetCustomerByExternalID (ProviderID tc) (EnvironmentID tc) customerExternalID)) (\<lambda>customer.
     bnd (map_err (\<lambda>_. ErrValidation) (q_GetCatalogVersionByID catalogVersionID)) (\<lambda>version.
     bnd (check (cv_state version = CatalogPublished) ErrConflict) (\<lambda>_.
     bnd (map_err (\<lambda>_. ErrValidation) (q_GetPlanByVersionAndCode catalogVersionID planCode)) (\<lambda>plan.
     bnd (draw rt_gen) (\<lambda>id.
     bnd (mapped_err (q_InsertSubscription id (ProviderID tc) (EnvironmentID tc) externalID
            (cu_id customer) catalogVersionID (pl_id plan))) (\<lambda>sub.
     bnd (emitOutboxTx (ProviderID tc) (EnvironmentID tc) ''subscription'' (su_id sub)
            ''subscription.created'' (JObj
            [(''subscription_id'', JStr (su_id sub)), (''external_id'', JStr externalID),
             (''customer_external_id'', JStr customerExternalID),
             (''catalog_version_id'', JStr catalogVersionID), (''plan_code'', JStr planCode)])) (\<lambda>_.
     bnd (insertAuditTx (ProviderNullUUID tc) (EnvironmentNullUUID tc) ''credential''
            (CredentialID tc) ''subscription.create'' ''subscription'' (su_id sub) (Some (JObj
            [(''external_id'', JStr externalID), (''plan_code'', JStr planCode),
             (''catalog_version_id'', JStr catalogVersionID)]))) (\<lambda>_.
     ret sub))))))))"

definition CreateSubscription ::
  "Ctx \<Rightarrow> string \<Rightarrow> string \<Rightarrow> uuid \<Rightarrow> string \<Rightarrow> rt \<Rightarrow> db \<Rightarrow> Subscription result \<times> db" where
  "CreateSubscription tc externalID customerExternalID catalogVersionID planCode e d =
     (if externalID = '''' \<or> customerExternalID = '''' \<or> planCode = '''' then fail_early ErrValidation d
      else if catalogVersionID = uuid_Nil then fail_early ErrValidation d
      else case check_fences tc e d of
        (Inl err, d') \<Rightarrow> (Inl err, d')
      | (Inr _, d') \<Rightarrow>
          WithTenant tc (create_subscription tc externalID customerExternalID catalogVersionID planCode) e d')"

definition ListSubscriptions :: "Ctx \<Rightarrow> int \<Rightarrow> rt \<Rightarrow> db \<Rightarrow> Subscription list result \<times> db" where
  "ListSubscriptions tc limit = WithTenant tc
     (q_ListSubscriptionsByTenant (ProviderID tc) (EnvironmentID tc) limit)"

definition TerminateSubscription :: "Ctx \<Rightarrow> uuid \<Rightarrow> rt \<Rightarrow> db \<Rightarrow> Subscription result \<times> db" where
  "TerminateSubscription tc subID = WithTenant tc
     (bnd (mapped_err (q_GetSubscriptionByID subID)) (\<lambda>sub.
      bnd (check (su_status sub = SubscriptionActive) ErrConflict) (\<lambda>_.
      bnd now_tx (\<lambda>now.
      bnd (q_TerminateSubscription now subID) (\<lambda>sub.
      bnd (emitOutboxTx (ProviderID tc) (EnvironmentID tc) ''subscription'' (su_id sub)
             ''subscription.terminated'' (JObj
             [(''subscription_id'', JStr (su_id sub)), (''external_id'', JStr (su_external sub))])) (\<lambda>_.
      bnd (insertAuditTx (ProviderNullUUID tc) (EnvironmentNullUUID tc) ''credential''
             (CredentialID tc) ''subscription.terminate'' ''subscription'' (su_id sub)
             (Some (JObj [(''external_id'', JStr (su_external sub))]))) (\<lambda>_.
      ret sub)))))))"

definition ListSubscriptionsByProvider :: "uuid \<Rightarrow> rt \<Rightarrow> db \<Rightarrow> SubscriptionRow list result \<times> db" where
  "ListSubscriptionsByProvider providerID = WithOperator (q_ListSubscriptionsByProvider providerID)"

section \<open>The fences\<close>

lemma CheckCutoverLock_db: "snd (CheckCutoverLock tc e d) = d"
  by (simp add: CheckCutoverLock_def IsCutoverLocked_def WithTenant_def run_tx_def bnd_def q_many_def
      live_tx_def ret_def)

lemma CheckCellDraining_db: "snd (CheckCellDraining tc e d) = d"
proof -
  have "snd (GetProviderCell tc e d) = d"
    unfolding GetProviderCell_def q_GetCellByProviderID_def
    by (rule outcome_snd [where P = "\<lambda>d'. d' = d" and d = d]) (intro wp_intros, simp_all)
  then show ?thesis
    by (auto simp: CheckCellDraining_def split: prod.splits sum.splits)
qed

lemma check_fences_db: "snd (check_fences tc e d) = d"
proof -
  obtain r d1 where c: "CheckCutoverLock tc e d = (r, d1)" by fastforce
  with CheckCutoverLock_db [of tc e d] have "d1 = d" by simp
  with c CheckCellDraining_db [of tc e d] show ?thesis by (cases r) (simp_all add: check_fences_def)
qed

text \<open>What stands behind the fences runs on the database as it was, or fails.\<close>

lemma outcome_fenced [wp_intros]:
  assumes "outcome Q d (m d)"
  shows "outcome Q d (case check_fences tc e d of (Inl err, d') \<Rightarrow> (Inl err, d') | (Inr _, d') \<Rightarrow> m d')"
proof -
  obtain r d1 where c: "check_fences tc e d = (r, d1)" by fastforce
  with check_fences_db [of tc e d] have "d1 = d" by simp
  with c assms show ?thesis by (cases r) (simp_all add: outcome_def)
qed

lemma fenced_while_importing:
  assumes "jobs_inv d" "x \<in> set (db_jobs d)" "mj_provider x = ProviderID tc" "mj_env x = EnvironmentID tc"
    and "mj_status x = MigrationStatusImporting"
  shows "check_fences tc e d = (Inl ErrCutoverLocked, d)"
  using assms(2-5) by (auto simp: check_fences_def CheckCutoverLock_eq [OF assms(1)])

end
