(* ===== verification/Quota.thy ===== *)
theory Quota
  imports Subscriptions "HOL-Library.Char_ord" "HOL-Library.List_Lexorder"
begin

text \<open>
  \<open>internal/service/quota.go\<close>: hard quota limits of subscriptions and the ledger of
  reservations that are later committed, released or expired. \<open>q_upsert_limit\<close>,
  \<open>q_reserve\<close> and \<open>q_usage\<close> are the three queries of \<open>quotas.sql\<close> that are more than a
  selection, an insert or an update. The capacity theorem is stated for sequences of the
  operations; transactions run one after the other.
\<close>

section \<open>Queries\<close>

text \<open>\<open>ON CONFLICT (subscription_id, quota_key) DO UPDATE\<close>.\<close>

definition same_limit :: "QuotaLimit \<Rightarrow> QuotaLimit \<Rightarrow> bool" where
  "same_limit x y \<longleftrightarrow> ql_sub x = ql_sub y \<and> ql_key x = ql_key y"

definition q_upsert_limit :: "QuotaLimit \<Rightarrow> QuotaLimit tx" where
  "q_upsert_limit r = q_upsert quota_limits same_limit
     (\<lambda>x. x\<lparr>ql_limit := ql_limit r, ql_period := ql_period r\<rparr>) r"

text \<open>The sum of the reservations of a subscription and key that count against the limit.\<close>

definition counts :: "uuid \<Rightarrow> string \<Rightarrow> QuotaReservation \<Rightarrow> bool" where
  "counts sub key x \<longleftrightarrow> qr_sub x = sub \<and> qr_key x = key \<and>
     (qr_status x = QuotaReserved \<or> qr_status x = QuotaCommitted)"

definition held :: "uuid \<Rightarrow> string \<Rightarrow> QuotaReservation list \<Rightarrow> int" where
  "held sub key rs = sum_list (map qr_amount (filter (counts sub key) rs))"

text \<open>The check-and-insert: no row when there is no limit or it would be exceeded, SQLSTATE
  22003 when the sums leave the range of bigint.\<close>

definition q_reserve :: "QuotaReservation \<Rightarrow> QuotaReservation tx" where
  "q_reserve r = live_tx (\<lambda>s.
     let total = held (qr_sub r) (qr_key r) (rows quota_reservations s);
         ql = filter (\<lambda>l. ql_sub l = qr_sub r \<and> ql_key l = qr_key r) (rows quota_limits s)
     in if \<not> in64 total then Inl (PgError ''22003'')
        else if ql \<noteq> [] \<and> \<not> in64 (total + qr_amount r) then Inl (PgError ''22003'')
        else if \<not> (\<exists>l\<in>set ql. total + qr_amount r \<le> ql_limit l) then Inl ErrNoRows
        else q_insert quota_reservations r s)"

definition q_usage :: "uuid \<Rightarrow> string \<Rightarrow> (int \<times> int) tx" where
  "q_usage sub key = bnd (q_many quota_reservations (counts sub key)) (\<lambda>rs.
     let committed = sum_list (map (\<lambda>x. if qr_status x = QuotaCommitted then qr_amount x else 0) rs);
         reserved = sum_list (map (\<lambda>x. if qr_status x = QuotaReserved then qr_amount x else 0) rs)
     in if \<not> in64 committed \<or> \<not> in64 reserved then throw (PgError ''22003'') else ret (committed, reserved))"

abbreviation q_UpsertQuotaLimit ::
  "uuid \<Rightarrow> uuid \<Rightarrow> uuid \<Rightarrow> uuid \<Rightarrow> string \<Rightarrow> int \<Rightarrow> string \<Rightarrow> QuotaLimit tx" where
  "q_UpsertQuotaLimit i p en sub key n period \<equiv> q_upsert_limit
     \<lparr>ql_id = i, ql_provider = p, ql_env = en, ql_sub = sub, ql_key = key, ql_limit = n, ql_period = period\<rparr>"

abbreviation q_GetQuotaLimit :: "uuid \<Rightarrow> string \<Rightarrow> QuotaLimit tx" where
  "q_GetQuotaLimit sub key \<equiv> q_one quota_limits (\<lambda>l. ql_sub l = sub \<and> ql_key l = key)"

text \<open>\<open>ORDER BY quota_key\<close>, in the order of the code points.\<close>

abbreviation q_ListQuotaLimitsBySubscription :: "uuid \<Rightarrow> uuid \<Rightarrow> uuid \<Rightarrow> QuotaLimit list tx" where
  "q_ListQuotaLimitsBySubscription p en sub \<equiv>
     bnd (q_many quota_limits (\<lambda>l. ql_provider l = p \<and> ql_env l = en \<and> ql_sub l = sub))
       (\<lambda>ls. ret (sort_key ql_key ls))"

abbreviation q_DeleteQuotaLimit :: "uuid \<Rightarrow> uuid \<Rightarrow> uuid \<Rightarrow> string \<Rightarrow> int tx" where
  "q_DeleteQuotaLimit p en sub key \<equiv> q_delete quota_limits (\<lambda>l. ql_provider l = p \<and>
     ql_env l = en \<and> ql_sub l = sub \<and> ql_key l = key)"

abbreviation q_ReserveQuota ::
  "uuid \<Rightarrow> uuid \<Rightarrow> string \<Rightarrow> uuid \<Rightarrow> uuid \<Rightarrow> int \<Rightarrow> string \<Rightarrow> int option \<Rightarrow> QuotaReservation tx" where
  "q_ReserveQuota i sub key p en amount rid expires \<equiv> q_reserve
     \<lparr>qr_id = i, qr_provider = p, qr_env = en, qr_sub = sub, qr_key = key, qr_amount = amount,
      qr_status = QuotaReserved, qr_tx = rid, qr_expires = expires, qr_committed = None,
      qr_released = None\<rparr>"

abbreviation q_GetQuotaReservationByID :: "uuid \<Rightarrow> QuotaReservation tx" where
  "q_GetQuotaReservationByID i \<equiv> q_one quota_reservations (\<lambda>x. qr_id x = i)"

abbreviation q_GetQuotaReservationByTxID :: "uuid \<Rightarrow> uuid \<Rightarrow> string \<Rightarrow> QuotaReservation tx" where
  "q_GetQuotaReservationByTxID p en rid \<equiv>
     q_one quota_reservations (\<lambda>r. qr_provider r = p \<and> qr_env r = en \<and> qr_tx r = rid)"

abbreviation q_CommitQuotaReservation :: "int \<Rightarrow> uuid \<Rightarrow> QuotaReservation tx" where
  "q_CommitQuotaReservation now i \<equiv> q_update_one quota_reservations
     (\<lambda>x. qr_id x = i \<and> qr_status x = QuotaReserved)
     (\<lambda>x. x\<lparr>qr_status := QuotaCommitted, qr_committed := Some now\<rparr>)"

abbreviation q_ReleaseQuotaReservation :: "int \<Rightarrow> uuid \<Rightarrow> QuotaReservation tx" where
  "q_ReleaseQuotaReservation now i \<equiv> q_update_one quota_reservations
     (\<lambda>x. qr_id x = i \<and> qr_status x = QuotaReserved)
     (\<lambda>x. x\<lparr>qr_status := QuotaReleased, qr_released := Some now\<rparr>)"

abbreviation q_ExpireQuotaReservations :: "int \<Rightarrow> int tx" where
  "q_ExpireQuotaReservations now \<equiv> q_execrows quota_reservations
     (\<lambda>x. qr_status x = QuotaReserved \<and> (\<exists>t\<in>set_option (qr_expires x). t \<le> now))
     (\<lambda>x. x\<lparr>qr_status := QuotaExpired\<rparr>)"

abbreviation q_ListQuotaReservationsBySubscription :: "uuid \<Rightarrow> uuid \<Rightarrow> uuid \<Rightarrow> int \<Rightarrow> QuotaReservation list tx" where
  "q_ListQuotaReservationsBySubscription p en sub n \<equiv>
     bnd (q_many quota_reservations (\<lambda>r. qr_provider r = p \<and> qr_env r = en \<and> qr_sub r = sub \<and>
            (qr_status r = QuotaReserved \<or> qr_status r = QuotaCommitted)))
       (\<lambda>rs. ret (take (nat n) (rev rs)))"

section \<open>Limits\<close>

record SetQuotaLimitInput =
  sq_SubscriptionID :: uuid
  sq_QuotaKey :: string
  sq_LimitValue :: int
  sq_PeriodType :: string

record QuotaUsageResult =
  qu_Committed :: int
  qu_Reserved :: int
  qu_Limit :: int
  qu_PeriodType :: string
  qu_LimitRow :: QuotaLimit

record QuotaLimitUsage =
  lu_ID :: uuid
  lu_SubscriptionID :: uuid
  lu_QuotaKey :: string
  lu_LimitValue :: int
  lu_PeriodType :: string
  lu_Committed :: int
  lu_Reserved :: int

definition SetQuotaLimit :: "Ctx \<Rightarrow> SetQuotaLimitInput \<Rightarrow> rt \<Rightarrow> db \<Rightarrow> QuotaLimit result \<times> db" where
  "SetQuotaLimit tc inp e d =
     (if sq_QuotaKey inp = '''' then fail_early ErrValidation d
      else if sq_LimitValue inp < 0 then fail_early ErrValidation d
      else if \<not> ValidQuotaPeriod (sq_PeriodType inp) then fail_early ErrValidation d
      else WithTenant tc
        (bnd (mapped_err (q_GetSubscriptionByID (sq_SubscriptionID inp))) (\<lambda>_.
         bnd (draw rt_gen) (\<lambda>id.
         bnd (mapped_err (q_UpsertQuotaLimit id (ProviderID tc) (EnvironmentID tc)
                (sq_SubscriptionID inp) (sq_QuotaKey inp) (sq_LimitValue inp) (sq_PeriodType inp))) (\<lambda>l.
         bnd (emitOutboxTx (ProviderID tc) (EnvironmentID tc) ''quota_limit'' (ql_id l)
                ''quota.limit_set'' (JObj
                [(''subscription_id'', JStr (sq_SubscriptionID inp)), (''quota_key'', JStr (sq_QuotaKey inp)),
                 (''limit_value'', JInt (sq_LimitValue inp)), (''period_type'', JStr (sq_PeriodType inp))])) (\<lambda>_.
         bnd (insertAuditTx (ProviderNullUUID tc) (EnvironmentNullUUID tc) ''credential''
                (CredentialID tc) ''quota.limit_set'' ''quota_limit'' (ql_id l) (Some (JObj
                [(''subscription_id'', JStr (sq_SubscriptionID inp)), (''quota_key'', JStr (sq_QuotaKey inp)),
                 (''limit_value'', JInt (sq_LimitValue inp))]))) (\<lambda>_.
         ret l)))))) e d)"

definition GetQuotaLimit :: "Ctx \<Rightarrow> uuid \<Rightarrow> string \<Rightarrow> rt \<Rightarrow> db \<Rightarrow> QuotaLimit result \<times> db" where
  "GetQuotaLimit tc subscriptionID quotaKey = WithTenant tc
     (mapped_err (q_GetQuotaLimit subscriptionID quotaKey))"

definition ListQuotaLimits :: "Ctx \<Rightarrow> uuid \<Rightarrow> rt \<Rightarrow> db \<Rightarrow> QuotaLimit list result \<times> db" where
  "ListQuotaLimits tc subscriptionID = WithTenant tc
     (bnd (mapped_err (q_GetSubscriptionByID subscriptionID)) (\<lambda>_.
      q_ListQuotaLimitsBySubscription (ProviderID tc) (EnvironmentID tc) subscriptionID))"

fun limits_with_usage :: "uuid \<Rightarrow> QuotaLimit list \<Rightarrow> QuotaLimitUsage list tx" where
  "limits_with_usage sub [] = ret []"
| "limits_with_usage sub (l # ls) =
     bnd (mapped_err (q_usage sub (ql_key l))) (\<lambda>(committed, reserved).
     bnd (limits_with_usage sub ls) (\<lambda>out.
     ret (\<lparr>lu_ID = ql_id l, lu_SubscriptionID = ql_sub l, lu_QuotaKey = ql_key l,
           lu_LimitValue = ql_limit l, lu_PeriodType = ql_period l,
           lu_Committed = committed, lu_Reserved = reserved\<rparr> # out)))"

definition ListQuotaLimitsWithUsage :: "Ctx \<Rightarrow> uuid \<Rightarrow> rt \<Rightarrow> db \<Rightarrow> QuotaLimitUsage list result \<times> db" where
  "ListQuotaLimitsWithUsage tc subscriptionID = WithTenant tc
     (bnd (mapped_err (q_GetSubscriptionByID subscriptionID)) (\<lambda>_.
      bnd (q_ListQuotaLimitsBySubscription (ProviderID tc) (EnvironmentID tc) subscriptionID) (\<lambda>limits.
      limits_with_usage subscriptionID limits)))"

definition DeleteQuotaLimit :: "Ctx \<Rightarrow> uuid \<Rightarrow> string \<Rightarrow> rt \<Rightarrow> db \<Rightarrow> unit result \<times> db" where
  "DeleteQuotaLimit tc subscriptionID quotaKey = WithTenant tc
     (bnd (mapped_err (q_DeleteQuotaLimit (ProviderID tc) (EnvironmentID tc) subscriptionID quotaKey)) (\<lambda>n.
      bnd (check (n \<noteq> 0) ErrNotFound) (\<lambda>_.
      insertAuditTx (ProviderNullUUID tc) (EnvironmentNullUUID tc) ''credential'' (CredentialID tc)
        ''quota.limit_deleted'' ''quota_limit'' subscriptionID
        (Some (JObj [(''quota_key'', JStr quotaKey)])))))"

section \<open>Reservations\<close>

record ReserveQuotaInput =
  rq_SubscriptionID :: uuid
  rq_QuotaKey :: string
  rq_Amount :: int
  rq_ReservationID :: string
  rq_ExpiresAt :: "int option"

definition reserve_new :: "Ctx \<Rightarrow> ReserveQuotaInput \<Rightarrow> QuotaReservation tx" where
  "reserve_new tc inp =
     bnd (draw rt_gen) (\<lambda>id.
     bnd (map_err (\<lambda>err. if isNoRows err then ErrQuotaExceeded else mapErr err)
            (q_ReserveQuota id (rq_SubscriptionID inp) (rq_QuotaKey inp) (ProviderID tc) (EnvironmentID tc)
               (rq_Amount inp) (rq_ReservationID inp) (rq_ExpiresAt inp))) (\<lambda>r.
     bnd (emitOutboxTx (ProviderID tc) (EnvironmentID tc) ''quota_reservation'' (qr_id r)
            ''quota.reserved'' (JObj
            [(''reservation_id'', JStr (rq_ReservationID inp)), (''subscription_id'', JStr (rq_SubscriptionID inp)),
             (''quota_key'', JStr (rq_QuotaKey inp)), (''amount'', JInt (rq_Amount inp))])) (\<lambda>_.
     bnd (insertAuditTx (ProviderNullUUID tc) (EnvironmentNullUUID tc) ''credential''
            (CredentialID tc) ''quota.reserve'' ''quota_reservation'' (qr_id r) (Some (JObj
            [(''quota_key'', JStr (rq_QuotaKey inp)), (''amount'', JInt (rq_Amount inp)),
             (''reservation_id'', JStr (rq_ReservationID inp))]))) (\<lambda>_.
     ret r))))"

definition ReserveQuota :: "Ctx \<Rightarrow> ReserveQuotaInput \<Rightarrow> rt \<Rightarrow> db \<Rightarrow> QuotaReservation result \<times> db" where
  "ReserveQuota tc inp e d =
     (if rq_QuotaKey inp = '''' then fail_early ErrValidation d
      else if rq_Amount inp \<le> 0 then fail_early ErrValidation d
      else if rq_ReservationID inp = '''' then fail_early ErrValidation d
      else WithTenant tc
        (bnd (mapped_err (q_GetSubscriptionByID (rq_SubscriptionID inp))) (\<lambda>_.
         bnd (try_tx (q_GetQuotaReservationByTxID (ProviderID tc) (EnvironmentID tc)
                (rq_ReservationID inp))) (\<lambda>existing.
         case existing of
           Inr r \<Rightarrow> ret r
         | Inl err \<Rightarrow> if \<not> isNoRows err then throw (mapErr err) else reserve_new tc inp))) e d)"

definition CommitQuota :: "Ctx \<Rightarrow> uuid \<Rightarrow> rt \<Rightarrow> db \<Rightarrow> QuotaReservation result \<times> db" where
  "CommitQuota tc reservationID = WithTenant tc
     (bnd (mapped_err (q_GetQuotaReservationByID reservationID)) (\<lambda>r.
      bnd (checkTenantOwnership (qr_provider r) (qr_env r) tc) (\<lambda>_.
      bnd (check (qr_status r = QuotaReserved) ErrConflict) (\<lambda>_.
      bnd now_tx (\<lambda>now.
      bnd (mapped_err (q_CommitQuotaReservation now reservationID)) (\<lambda>updated.
      bnd (emitOutboxTx (ProviderID tc) (EnvironmentID tc) ''quota_reservation'' reservationID
             ''quota.committed'' (JObj
             [(''reservation_id'', JStr reservationID), (''amount'', JInt (qr_amount r))])) (\<lambda>_.
      bnd (insertAuditTx (ProviderNullUUID tc) (EnvironmentNullUUID tc) ''credential''
             (CredentialID tc) ''quota.commit'' ''quota_reservation'' reservationID (Some (JObj
             [(''quota_key'', JStr (qr_key r)), (''amount'', JInt (qr_amount r))]))) (\<lambda>_.
      ret updated))))))))"

definition ReleaseQuota :: "Ctx \<Rightarrow> uuid \<Rightarrow> rt \<Rightarrow> db \<Rightarrow> QuotaReservation result \<times> db" where
  "ReleaseQuota tc reservationID = WithTenant tc
     (bnd (mapped_err (q_GetQuotaReservationByID reservationID)) (\<lambda>r.
      bnd (checkTenantOwnership (qr_provider r) (qr_env r) tc) (\<lambda>_.
      bnd (check (qr_status r = QuotaReserved) ErrConflict) (\<lambda>_.
      bnd now_tx (\<lambda>now.
      bnd (mapped_err (q_ReleaseQuotaReservation now reservationID)) (\<lambda>updated.
      bnd (emitOutboxTx (ProviderID tc) (EnvironmentID tc) ''quota_reservation'' reservationID
             ''quota.released'' (JObj
             [(''reservation_id'', JStr reservationID), (''amount'', JInt (qr_amount r))])) (\<lambda>_.
      bnd (insertAuditTx (ProviderNullUUID tc) (EnvironmentNullUUID tc) ''credential''
             (CredentialID tc) ''quota.release'' ''quota_reservation'' reservationID (Some (JObj
             [(''quota_key'', JStr (qr_key r)), (''amount'', JInt (qr_amount r))]))) (\<lambda>_.
      ret updated))))))))"

definition GetQuotaUsage :: "Ctx \<Rightarrow> uuid \<Rightarrow> string \<Rightarrow> rt \<Rightarrow> db \<Rightarrow> QuotaUsageResult result \<times> db" where
  "GetQuotaUsage tc subscriptionID quotaKey = WithTenant tc
     (bnd (mapped_err (q_usage subscriptionID quotaKey)) (\<lambda>(committed, reserved).
      bnd (mapped_err (q_GetQuotaLimit subscriptionID quotaKey)) (\<lambda>limit.
      ret \<lparr>qu_Committed = committed, qu_Reserved = reserved, qu_Limit = ql_limit limit,
           qu_PeriodType = ql_period limit, qu_LimitRow = limit\<rparr>)))"

definition ListQuotaReservations :: "Ctx \<Rightarrow> uuid \<Rightarrow> rt \<Rightarrow> db \<Rightarrow> QuotaReservation list result \<times> db" where
  "ListQuotaReservations tc subscriptionID = WithTenant tc
     (bnd (mapped_err (q_GetSubscriptionByID subscriptionID)) (\<lambda>_.
      q_ListQuotaReservationsBySubscription (ProviderID tc) (EnvironmentID tc) subscriptionID 100))"

definition RecoverExpiredReservations :: "rt \<Rightarrow> db \<Rightarrow> int result \<times> db" where
  "RecoverExpiredReservations = WithOperator
     (bnd now_tx q_ExpireQuotaReservations)"

section \<open>The life of a reservation\<close>

inductive quota_step :: "QuotaReservation \<Rightarrow> QuotaReservation \<Rightarrow> bool" where
  commit: "qr_status x = QuotaReserved \<Longrightarrow>
    quota_step x (x\<lparr>qr_status := QuotaCommitted, qr_committed := Some t\<rparr>)"
| release: "qr_status x = QuotaReserved \<Longrightarrow>
    quota_step x (x\<lparr>qr_status := QuotaReleased, qr_released := Some t\<rparr>)"
| expire: "qr_status x = QuotaReserved \<Longrightarrow> qr_expires x = Some u \<Longrightarrow> u \<le> t \<Longrightarrow>
    quota_step x (x\<lparr>qr_status := QuotaExpired\<rparr>)"

definition reservation_fresh :: "QuotaReservation \<Rightarrow> bool" where
  "reservation_fresh x \<longleftrightarrow> qr_status x = QuotaReserved \<and> 0 < qr_amount x \<and>
     qr_committed x = None \<and> qr_released x = None"

definition reservation_ok :: "QuotaReservation \<Rightarrow> bool" where
  "reservation_ok x \<longleftrightarrow> 0 < qr_amount x \<and>
     (qr_committed x \<noteq> None \<longleftrightarrow> qr_status x = QuotaCommitted) \<and>
     (qr_released x \<noteq> None \<longleftrightarrow> qr_status x = QuotaReleased)"

definition reservation_final :: "QuotaReservation \<Rightarrow> bool" where
  "reservation_final x \<longleftrightarrow> qr_status x \<noteq> QuotaReserved"

lemma quota_step_ok: "reservation_ok x \<Longrightarrow> quota_step x y \<Longrightarrow> reservation_ok y"
  by (erule quota_step.cases) (auto simp: reservation_ok_def)

lemma quota_step_final: "reservation_final x \<Longrightarrow> quota_step x y \<Longrightarrow> y = x"
  by (erule quota_step.cases) (simp_all add: reservation_final_def)

lemma quota_step_keeps:
  "quota_step x y \<Longrightarrow> qr_id y = qr_id x \<and> qr_sub y = qr_sub x \<and> qr_key y = qr_key x \<and>
     qr_amount y = qr_amount x \<and> qr_provider y = qr_provider x \<and> qr_env y = qr_env x"
  by (erule quota_step.cases) simp_all

interpretation quota: row_machine quota_step reservation_fresh reservation_ok reservation_final qr_id
  by unfold_locales
     (simp_all add: quota_step_ok quota_step_final quota_step_keeps,
      simp add: reservation_fresh_def reservation_ok_def)

section \<open>What is held\<close>

lemma held_Nil [simp]: "held sub key [] = 0"
  by (simp add: held_def)

lemma held_Cons [simp]:
  "held sub key (r # rs) = (if counts sub key r then qr_amount r else 0) + held sub key rs"
  by (simp add: held_def)

lemma held_append [simp]: "held sub key (rs @ rs') = held sub key rs + held sub key rs'"
  by (induction rs) auto

lemma held_filter:
  "(\<And>r. r \<in> set rs \<Longrightarrow> counts sub key r \<Longrightarrow> p r) \<Longrightarrow> held sub key (filter p rs) = held sub key rs"
  by (induction rs) auto

lemma counts_step: "quota_step x y \<Longrightarrow> counts sub key y \<Longrightarrow> counts sub key x"
  by (erule quota_step.cases) (auto simp: counts_def)

lemma held_update:
  assumes "\<And>r. r \<in> set rs \<Longrightarrow> p r \<Longrightarrow> quota_step r (f r)" "\<forall>r\<in>set rs. reservation_ok r"
  shows "held sub key (update_where p f rs) \<le> held sub key rs"
  using assms
proof (induction rs)
  case (Cons r rs)
  have r: "quota_step r (f r)" if "p r" using Cons.prems(1) [of r] that by simp
  have "0 < qr_amount r" using Cons.prems(2) by (simp add: reservation_ok_def)
  moreover have "held sub key (update_where p f rs) \<le> held sub key rs"
    using Cons by simp
  ultimately show ?case
    using r counts_step [OF r, of sub key] quota_step_keeps [OF r] by (auto simp: update_where_def)
qed (simp add: update_where_def)

text \<open>Committing moves an amount from reserved to committed; the sum is what \<open>GetQuotaUsage\<close>
  reports.\<close>

lemma usage_is_held:
  "sum_list (map (\<lambda>x. if qr_status x = QuotaCommitted then qr_amount x else 0) (filter (counts sub key) rs)) +
   sum_list (map (\<lambda>x. if qr_status x = QuotaReserved then qr_amount x else 0) (filter (counts sub key) rs)) =
   held sub key rs"
  by (induction rs) (auto simp: counts_def)

section \<open>What the operations keep\<close>

text \<open>Limits and reservations belong to the tenant of their subscription.\<close>

definition quota_owned :: "db \<Rightarrow> bool" where
  "quota_owned d \<longleftrightarrow> distinct (map su_id (db_subscriptions d)) \<and>
     (\<forall>r\<in>set (db_reservations d). \<exists>s\<in>set (db_subscriptions d).
        su_id s = qr_sub r \<and> su_provider s = qr_provider r \<and> su_env s = qr_env r) \<and>
     distinct (map qr_id (db_reservations d)) \<and> (\<forall>r\<in>set (db_reservations d). reservation_ok r)"

text \<open>No limit of the key exceeds \<open>M\<close>, nor does what is held of it.\<close>

definition capped :: "int \<Rightarrow> uuid \<Rightarrow> string \<Rightarrow> db \<Rightarrow> bool" where
  "capped M sub key d \<longleftrightarrow>
     (\<forall>l\<in>set (db_limits d). ql_sub l = sub \<and> ql_key l = key \<longrightarrow> ql_limit l \<le> M) \<and>
     held sub key (db_reservations d) \<le> M"

definition quota_inv :: "int \<Rightarrow> uuid \<Rightarrow> string \<Rightarrow> db \<Rightarrow> bool" where
  "quota_inv M sub key d \<longleftrightarrow> quota_owned d \<and> capped M sub key d"

lemma quota_inv_update:
  assumes "quota_inv M sub key d"
    and "db_limits d' = db_limits d" "db_subscriptions d' = db_subscriptions d"
    and "db_reservations d' = update_where p f (db_reservations d)"
    and "\<And>r. p r \<Longrightarrow> quota_step r (f r)"
  shows "quota_inv M sub key d'"
proof -
  have u: "\<exists>r0\<in>set (db_reservations d). r = r0 \<or> quota_step r0 r" if "r \<in> set (db_reservations d')" for r
    using that assms(4,5) by (auto simp: set_update_where)
  have "map qr_id (db_reservations d') = map qr_id (db_reservations d)"
    using assms(4,5) quota_step_keeps by (auto simp: update_where_def)
  moreover have "held sub key (db_reservations d') \<le> held sub key (db_reservations d)"
    unfolding assms(4) using assms(1,5) by (intro held_update) (simp_all add: quota_inv_def quota_owned_def)
  ultimately show ?thesis
    using assms(1-3) u quota_step_keeps quota_step_ok
    unfolding quota_inv_def quota_owned_def capped_def by (smt (verit, ccfv_threshold))
qed

lemma quota_inv_limits:
  assumes "quota_inv M sub key d" "db_reservations d' = db_reservations d"
    and "db_subscriptions d' = db_subscriptions d"
    and "\<And>l. l \<in> set (db_limits d') \<Longrightarrow> ql_sub l = sub \<Longrightarrow> ql_key l = key \<Longrightarrow>
           ql_limit l \<le> M \<or> l \<in> set (db_limits d)"
  shows "quota_inv M sub key d'"
  using assms by (auto simp: quota_inv_def quota_owned_def capped_def)

text \<open>The insert of a reservation: what the tenant sees of the subscription is all there
  is, so the sum the query computes is the sum of the table.\<close>

lemma quota_inv_insert:
  assumes inv: "quota_inv M sub key d"
    and d': "db_limits d' = db_limits d" "db_subscriptions d' = db_subscriptions d"
      "db_reservations d' = db_reservations d @ [r]"
    and r: "reservation_fresh r" "\<forall>x\<in>set (db_reservations d). qr_id r \<noteq> qr_id x"
    and s: "s \<in> set (db_subscriptions d)" "su_id s = qr_sub r" "su_provider s = qr_provider r" "su_env s = qr_env r"
    and l: "l \<in> set (db_limits d)" "ql_sub l = qr_sub r" "ql_key l = qr_key r"
      "held (qr_sub r) (qr_key r)
         (filter (\<lambda>x. qr_provider x = qr_provider r \<and> qr_env x = qr_env r) (db_reservations d)) + qr_amount r \<le> ql_limit l"
  shows "quota_inv M sub key d'"
proof -
  have own: "qr_provider x = qr_provider r \<and> qr_env x = qr_env r"
    if x: "x \<in> set (db_reservations d)" and c: "counts (qr_sub r) (qr_key r) x" for x
  proof -
    obtain s' where "s' \<in> set (db_subscriptions d)" "su_id s' = qr_sub x"
      "su_provider s' = qr_provider x" "su_env s' = qr_env x"
      using inv x unfolding quota_inv_def quota_owned_def by metis
    moreover have "s' = s"
      using calculation s c inv distinct_keys_unique [of su_id "db_subscriptions d" s' s]
      by (simp add: counts_def quota_inv_def quota_owned_def)
    ultimately show ?thesis using s by simp
  qed
  have "held (qr_sub r) (qr_key r) (db_reservations d) + qr_amount r \<le> ql_limit l"
    using l(4) by (subst (asm) held_filter) (use own in auto)
  moreover have "ql_limit l \<le> M" if "qr_sub r = sub" "qr_key r = key"
    using inv l that by (auto simp: quota_inv_def capped_def)
  ultimately have "held sub key (db_reservations d') \<le> M"
    using inv d'(3) r(1) by (auto simp: quota_inv_def capped_def counts_def)
  then show ?thesis
    using inv d' r s quota.fresh_ok by (fastforce simp: quota_inv_def quota_owned_def capped_def)
qed

text \<open>One committed step of the ledger.\<close>

definition quota_moves :: "int \<Rightarrow> uuid \<Rightarrow> string \<Rightarrow> db \<Rightarrow> db \<Rightarrow> bool" where
  "quota_moves M sub key d d' \<longleftrightarrow> quota_inv M sub key d' \<and>
     evolves quota_step reservation_fresh (db_reservations d) (db_reservations d')"

lemma quota_moves_update:
  "quota_inv M sub key d \<Longrightarrow> db_limits d' = db_limits d \<Longrightarrow> db_subscriptions d' = db_subscriptions d \<Longrightarrow>
   db_reservations d' = update_where p f (db_reservations d) \<Longrightarrow> (\<And>r. p r \<Longrightarrow> quota_step r (f r)) \<Longrightarrow>
   quota_moves M sub key d d'"
  by (simp add: quota_moves_def quota_inv_update evolves_update)

lemma quota_moves_limits:
  "quota_inv M sub key d \<Longrightarrow> db_reservations d' = db_reservations d \<Longrightarrow>
   db_subscriptions d' = db_subscriptions d \<Longrightarrow>
   (\<And>l. l \<in> set (db_limits d') \<Longrightarrow> ql_sub l = sub \<Longrightarrow> ql_key l = key \<Longrightarrow>
      ql_limit l \<le> M \<or> l \<in> set (db_limits d)) \<Longrightarrow> quota_moves M sub key d d'"
  by (simp add: quota_moves_def quota_inv_limits)

lemma quota_moves_refl: "quota_inv M sub key d \<Longrightarrow> quota_moves M sub key d d"
  by (simp add: quota_moves_def)

lemma wp_q_upsert_limit [wp_intros]:
  assumes "\<And>l. Q l (put_rows quota_limits (db_limits (s_db s) @ [r]) s)"
    and "\<And>l. Q l (upd_rows quota_limits (same_limit r)
           (\<lambda>x. x\<lparr>ql_limit := ql_limit r, ql_period := ql_period r\<rparr>) s)"
  shows "wp (q_upsert_limit r) Q s"
  unfolding q_upsert_limit_def
  by (rule wp_q_upsert) (use assms in \<open>simp_all add: quota_limits_tb\<close>)

lemma wp_q_reserve [wp_intros]:
  assumes "\<And>l. tb_vis quota_reservations (s_role s) r \<Longrightarrow> tb_check quota_reservations (s_db s) r \<Longrightarrow>
      \<forall>r'\<in>set (db_reservations (s_db s)). \<not> tb_clash quota_reservations r r' \<Longrightarrow>
      l \<in> set (db_limits (s_db s)) \<Longrightarrow> ql_sub l = qr_sub r \<Longrightarrow> ql_key l = qr_key r \<Longrightarrow>
      held (qr_sub r) (qr_key r) (rows quota_reservations s) + qr_amount r \<le> ql_limit l \<Longrightarrow>
      Q r (put_rows quota_reservations (db_reservations (s_db s) @ [r]) s)"
  shows "wp (q_reserve r) Q s"
proof -
  have g: "tb_get quota_reservations = db_reservations" "tb_get quota_limits = db_limits"
    by (simp_all add: quota_reservations_tb quota_limits_tb)
  have "wp (q_insert quota_reservations r) Q s"
    if "l \<in> set (rows quota_limits s)" "ql_sub l = qr_sub r" "ql_key l = qr_key r"
       "held (qr_sub r) (qr_key r) (rows quota_reservations s) + qr_amount r \<le> ql_limit l" for l
    using that by (intro wp_q_insert) (auto simp: g rows_def intro!: assms)
  then show ?thesis
    by (auto simp: q_reserve_def live_tx_def wp_def Let_def)
qed

lemmas quota_tables = put_rows_def upd_rows_def bump_def subscriptions_tb quota_limits_tb
  quota_reservations_tb outbox_events_tb audit_events_tb rows_def vis_env_def

definition quota_op :: "int \<Rightarrow> uuid \<Rightarrow> string \<Rightarrow> string \<Rightarrow> string \<Rightarrow> Ctx \<Rightarrow> db \<Rightarrow> 'a result \<times> db \<Rightarrow> bool" where
  "quota_op M sub key et ac tc d =
     outcome (\<lambda>x d'. quota_moves M sub key d d' \<and> records (ProviderID tc) et ac d d') d"

lemma SetQuotaLimit_op:
  assumes "quota_inv M sub key d"
    and "sq_SubscriptionID inp = sub \<Longrightarrow> sq_QuotaKey inp = key \<Longrightarrow> sq_LimitValue inp \<le> M"
  shows "quota_op M sub key ''quota.limit_set'' ''quota.limit_set'' tc d (SetQuotaLimit tc inp e d)"
  unfolding quota_op_def SetQuotaLimit_def
  apply (simp only: split: if_split)
  apply (intro conjI impI wp_intros)
     apply (simp_all add: quota_tables records_def)
   apply (rule quota_moves_limits [OF assms(1)]; simp; use assms(2) in auto)
  apply (rule quota_moves_limits [OF assms(1)]; simp;
         use assms(2) in \<open>auto simp: update_where_def same_limit_def split: if_splits\<close>)
  done

lemma DeleteQuotaLimit_moves:
  assumes "quota_inv M sub key d"
  shows "outcome (\<lambda>x. quota_moves M sub key d) d (DeleteQuotaLimit tc s k e d)"
  unfolding DeleteQuotaLimit_def
  apply (intro wp_intros)
  apply (rule quota_moves_limits [OF assms])
    apply (auto simp: quota_tables)
  done

lemma quota_tail:
  assumes "s_db s = d" "quota_inv M sub key d" "\<And>r. p r \<Longrightarrow> quota_step r (f r)"
  shows "wp (bnd (mapped_err (q_update_one quota_reservations p f)) (\<lambda>u.
         bnd (emitOutboxTx (ProviderID tc) eid at ai et payload) (\<lambda>_.
         bnd (insertAuditTx ap ae aty aid ac tt ti m) (\<lambda>_. ret u))))
       (\<lambda>x s'. quota_moves M sub key d (s_db s') \<and> records (ProviderID tc) et ac d (s_db s')) s"
proof -
  have m: "quota_moves M sub key d d'"
    if "db_limits d' = db_limits d" "db_subscriptions d' = db_subscriptions d"
      "db_reservations d' = update_where (\<lambda>r. tb_vis quota_reservations (s_role s) r \<and> p r) f (db_reservations d)" for d'
    using assms(3) by (intro quota_moves_update [OF assms(2) that]) auto
  show ?thesis
    by (intro wp_intros conjI m) (use assms(1) in \<open>simp_all add: records_def quota_tables\<close>)
qed

lemma CommitQuota_op:
  assumes "quota_inv M sub key d"
  shows "quota_op M sub key ''quota.committed'' ''quota.commit'' tc d (CommitQuota tc rid e d)"
  unfolding quota_op_def CommitQuota_def checkTenantOwnership_def
  by (intro quota_tail wp_intros) (auto simp: assms intro: quota_step.commit)

lemma ReleaseQuota_op:
  assumes "quota_inv M sub key d"
  shows "quota_op M sub key ''quota.released'' ''quota.release'' tc d (ReleaseQuota tc rid e d)"
  unfolding quota_op_def ReleaseQuota_def checkTenantOwnership_def
  by (intro quota_tail wp_intros) (auto simp: assms intro: quota_step.release)

lemma RecoverExpiredReservations_moves:
  assumes "quota_inv M sub key d"
  shows "outcome (\<lambda>x. quota_moves M sub key d) d (RecoverExpiredReservations e d)"
  unfolding RecoverExpiredReservations_def
  apply (intro wp_intros)
  apply (simp add: quota_tables)
  apply (rule quota_moves_update [OF assms])
     apply (simp, simp, simp)
  apply (auto intro: quota_step.expire)
  done

lemma ReserveQuota_op:
  assumes "quota_inv M sub key d"
  shows "outcome (\<lambda>r d'. quota_moves M sub key d d' \<and>
           (d' = d \<or> records (ProviderID tc) ''quota.reserved'' ''quota.reserve'' d d')) d
           (ReserveQuota tc inp e d)"
proof -
  have new: "quota_moves M sub key d d'"
    if "s \<in> set (db_subscriptions d)" "su_id s = qr_sub r" "su_provider s = qr_provider r"
      "su_env s = qr_env r" "reservation_fresh r" "\<forall>x\<in>set (db_reservations d). qr_id r \<noteq> qr_id x"
      "l \<in> set (db_limits d)" "ql_sub l = qr_sub r" "ql_key l = qr_key r"
      "held (qr_sub r) (qr_key r)
         (filter (\<lambda>x. qr_provider x = qr_provider r \<and> qr_env x = qr_env r) (db_reservations d)) + qr_amount r \<le> ql_limit l"
      "db_limits d' = db_limits d" "db_subscriptions d' = db_subscriptions d"
      "db_reservations d' = db_reservations d @ [r]" for s r l d'
    using that assms by (auto simp: quota_moves_def evolves_insert intro: quota_inv_insert)
  show ?thesis
    unfolding ReserveQuota_def reserve_new_def
    apply (simp only: split: if_split)
    apply (intro conjI impI wp_intros)
    apply (simp_all split: sum.split add: quota_moves_refl [OF assms] wp_ret)
    apply (intro conjI impI allI wp_intros)
      apply (simp_all add: quota_tables records_def quota_moves_refl [OF assms])
    apply (rule new [rotated 12], simp, assumption, simp_all add: reservation_fresh_def)+
    done
qed

section \<open>Runs\<close>

datatype quota_request =
    QSet Ctx SetQuotaLimitInput
  | QDelete Ctx uuid string
  | QReserve Ctx ReserveQuotaInput
  | QCommit Ctx uuid
  | QRelease Ctx uuid
  | QExpire

fun quota_exec :: "quota_request \<Rightarrow> rt \<Rightarrow> db \<Rightarrow> db" where
  "quota_exec (QSet tc inp) e d = snd (SetQuotaLimit tc inp e d)"
| "quota_exec (QDelete tc sub key) e d = snd (DeleteQuotaLimit tc sub key e d)"
| "quota_exec (QReserve tc inp) e d = snd (ReserveQuota tc inp e d)"
| "quota_exec (QCommit tc rid) e d = snd (CommitQuota tc rid e d)"
| "quota_exec (QRelease tc rid) e d = snd (ReleaseQuota tc rid e d)"
| "quota_exec QExpire e d = snd (RecoverExpiredReservations e d)"

fun quota_run :: "(quota_request \<times> rt) list \<Rightarrow> db \<Rightarrow> db" where
  "quota_run [] d = d"
| "quota_run ((q, e) # qs) d = quota_run qs (quota_exec q e d)"

text \<open>No request raises the limit of the key above \<open>M\<close>.\<close>

definition limits_at_most :: "int \<Rightarrow> uuid \<Rightarrow> string \<Rightarrow> (quota_request \<times> rt) list \<Rightarrow> bool" where
  "limits_at_most M sub key qs \<longleftrightarrow> (\<forall>tc inp e. (QSet tc inp, e) \<in> set qs \<longrightarrow>
     sq_SubscriptionID inp = sub \<longrightarrow> sq_QuotaKey inp = key \<longrightarrow> sq_LimitValue inp \<le> M)"

lemma quota_outcome_moves:
  "quota_inv M sub key d \<Longrightarrow> outcome (\<lambda>x d'. quota_moves M sub key d d' \<and> P x d') d r \<Longrightarrow>
   quota_moves M sub key d (snd r)"
  by (rule outcome_snd [where P = "quota_moves M sub key d"])
     (auto elim: outcome_mono simp: quota_moves_refl)

lemma quota_outcome_moves0:
  "quota_inv M sub key d \<Longrightarrow> outcome (\<lambda>x. quota_moves M sub key d) d r \<Longrightarrow>
   quota_moves M sub key d (snd r)"
  by (rule outcome_snd [where P = "quota_moves M sub key d"]) (auto simp: quota_moves_refl)

lemma quota_exec_moves:
  assumes "quota_inv M sub key d" "limits_at_most M sub key [(q, e)]"
  shows "quota_moves M sub key d (quota_exec q e d)"
proof (cases q)
  case (QSet tc inp)
  with assms SetQuotaLimit_op [of M sub key d inp tc e] show ?thesis
    by (auto simp: limits_at_most_def quota_op_def intro: quota_outcome_moves)
next
  case (QReserve tc inp)
  with assms ReserveQuota_op [of M sub key d tc inp e] show ?thesis
    by (auto intro: quota_outcome_moves)
next
  case (QCommit tc rid)
  with assms CommitQuota_op [of M sub key d tc rid e] show ?thesis
    by (auto simp: quota_op_def intro: quota_outcome_moves)
next
  case (QRelease tc rid)
  with assms ReleaseQuota_op [of M sub key d tc rid e] show ?thesis
    by (auto simp: quota_op_def intro: quota_outcome_moves)
qed (auto intro: quota_outcome_moves0 assms(1) DeleteQuotaLimit_moves RecoverExpiredReservations_moves)

lemma quota_run_inv:
  "quota_inv M sub key d \<Longrightarrow> limits_at_most M sub key qs \<Longrightarrow> quota_inv M sub key (quota_run qs d)"
proof (induction qs arbitrary: d)
  case (Cons q qs)
  obtain r e where q: "q = (r, e)" by (cases q)
  have "quota_inv M sub key (quota_exec r e d)"
    using quota_exec_moves [OF Cons.prems(1), of r e] Cons.prems(2) q
    by (auto simp: quota_moves_def limits_at_most_def)
  with Cons.IH Cons.prems(2) q show ?case by (auto simp: limits_at_most_def)
qed simp

text \<open>
  C1. A quota is never overspent: whatever sequence of limit changes, reservations, commits,
  releases and sweeps runs, by any tenants, the committed and reserved amounts of a
  subscription and key never sum to more than the highest limit that was set for it.
\<close>

theorem quota_never_overspent:
  assumes "quota_inv M sub key d" "limits_at_most M sub key qs"
  shows "held sub key (db_reservations (quota_run qs d)) \<le> M"
  using quota_run_inv [OF assms] by (simp add: quota_inv_def capped_def)

definition demo_limit :: "int \<Rightarrow> SetQuotaLimitInput" where
  "demo_limit n = \<lparr>sq_SubscriptionID = ''s1'', sq_QuotaKey = ''gpu'', sq_LimitValue = n,
     sq_PeriodType = QuotaPeriodTotal\<rparr>"

definition demo_reserve :: "string \<Rightarrow> int \<Rightarrow> ReserveQuotaInput" where
  "demo_reserve rid n = \<lparr>rq_SubscriptionID = ''s1'', rq_QuotaKey = ''gpu'', rq_Amount = n,
     rq_ReservationID = rid, rq_ExpiresAt = Some 50\<rparr>"

definition demo_quota_run :: "(quota_request \<times> rt) list" where
  "demo_quota_run = [(QSet (demo_ctx ''p1'' ''e1'') (demo_limit 10), demo_rt 0),
     (QReserve (demo_ctx ''p1'' ''e1'') (demo_reserve ''a'' 6), demo_rt 1),
     (QReserve (demo_ctx ''p1'' ''e1'') (demo_reserve ''b'' 6), demo_rt 2),
     (QReserve (demo_ctx ''p2'' ''e2'') (demo_reserve ''c'' 1), demo_rt 3),
     (QReserve (demo_ctx ''p1'' ''e1'') (demo_reserve ''d'' 4), demo_rt 4)]"

lemma demo_quota_held:
  "map (\<lambda>r. (qr_tx r, qr_amount r)) (db_reservations (quota_run demo_quota_run demo_db)) =
   [(''a'', 6), (''d'', 4)]"
  by code_simp

lemma demo_quota_inv: "0 \<le> M \<Longrightarrow> quota_inv M sub key demo_db"
  by (simp add: quota_inv_def quota_owned_def capped_def demo_db_def)

theorem quota_never_overspent_witness:
  "held ''s1'' ''gpu'' (db_reservations (quota_run demo_quota_run demo_db)) \<le> 10"
  by (rule quota_never_overspent)
     (auto simp: demo_quota_inv limits_at_most_def demo_quota_run_def demo_limit_def)

section \<open>Single calls\<close>







definition demo_quota_db :: db where
  "demo_quota_db = demo_db\<lparr>db_limits := [\<lparr>ql_id = ''l'', ql_provider = ''p1'', ql_env = ''e1'',
     ql_sub = ''s1'', ql_key = ''gpu'', ql_limit = 10, ql_period = QuotaPeriodTotal\<rparr>]\<rparr>"


text \<open>
  C30. A reservation id is idempotent: once a request under it has succeeded, asking again
  under the same id returns that very reservation and changes nothing, whatever amount,
  subscription or key of the tenant the second request names.
\<close>

theorem reserve_idempotent:
  assumes "ReserveQuota tc inp e d = (Inr r, d')"
    and "rq_QuotaKey inp' \<noteq> ''''" "0 < rq_Amount inp'" "rq_ReservationID inp' = rq_ReservationID inp"
    and "s \<in> set (db_subscriptions d')" "su_id s = rq_SubscriptionID inp'"
      "su_provider s = ProviderID tc" "su_env s = EnvironmentID tc"
  shows "ReserveQuota tc inp' e' d' = (Inr r, d')"
proof -
  let ?p = "\<lambda>r. qr_provider r = ProviderID tc \<and> qr_env r = EnvironmentID tc \<and> qr_tx r = rq_ReservationID inp"
  let ?vis = "filter (tb_vis quota_reservations (Tenant (ProviderID tc) (EnvironmentID tc)))"
  have g: "rows quota_reservations s =
      filter (tb_vis quota_reservations (s_role s)) (db_reservations (s_db s))" for s
    by (simp add: rows_def quota_reservations_tb)
  have new: "wp (reserve_new tc inp) (\<lambda>r s'. find ?p (?vis (db_reservations (s_db s'))) = Some r) s0"
    if "s_role s0 = Tenant (ProviderID tc) (EnvironmentID tc)" "\<forall>x\<in>set (rows quota_reservations s0). \<not> ?p x" for s0
    unfolding reserve_new_def using that
    by (intro wp_intros) (auto simp: quota_tables intro!: find_snoc)
  have "outcome (\<lambda>r d'. find ?p (?vis (db_reservations d')) = Some r \<and> rq_ReservationID inp \<noteq> '''') d
          (ReserveQuota tc inp e d)"
    unfolding ReserveQuota_def
    apply (simp only: split: if_split)
    apply (intro conjI impI wp_bnd wp_map_err wp_try_tx wp_q_one_find outcome_WithTenant outcome_fail_early)
     apply (auto split: sum.split intro!: wp_ret wp_throw new dest!: q_one_InlD simp: is_pg_def g)
    done
  then have f: "find ?p (?vis (db_reservations d')) = Some r" and n: "rq_ReservationID inp \<noteq> ''''"
    using assms(1) by (simp_all add: outcome_def)
  define s0 where "s0 = \<lparr>s_db = d', s_rt = e', s_role = Tenant (ProviderID tc) (EnvironmentID tc), s_aborted = False\<rparr>"
  obtain y where 1: "q_one subscriptions (\<lambda>x. su_id x = rq_SubscriptionID inp') s0 = Inr (y, s0)"
    using q_one_hit [of s0 s subscriptions "\<lambda>x. su_id x = rq_SubscriptionID inp'"] assms(5-8)
    by (auto simp: s0_def subscriptions_tb vis_env_def)
  have 2: "q_one quota_reservations ?p s0 = Inr (r, s0)"
    using f by (simp add: q_one_def live_tx_def s0_def rows_def select_one_def quota_reservations_tb)
  show ?thesis
    using 1 2 assms(2-4) n by (simp add: ReserveQuota_def WithTenant_def run_tx_def bnd_def map_err_def
      try_tx_def ret_def flip: s0_def) (simp add: s0_def)
qed

definition demo_reserved :: "QuotaReservation result \<times> db" where
  "demo_reserved = ReserveQuota (demo_ctx ''p1'' ''e1'') (demo_reserve ''a'' 6) (demo_rt 0) demo_quota_db"

lemma demo_reserved_ok:
  "is_ok (fst demo_reserved)" "db_subscriptions (snd demo_reserved) = db_subscriptions demo_db"
  by code_simp+

theorem reserve_idempotent_witness:
  "ReserveQuota (demo_ctx ''p1'' ''e1'') (demo_reserve ''a'' 9) (demo_rt 7) (snd demo_reserved) = demo_reserved"
proof -
  obtain r d where r: "demo_reserved = (Inr r, d)"
    using demo_reserved_ok(1) by (metis is_ok_iff prod.collapse)
  with demo_reserved_ok(2) have s: "db_subscriptions d = db_subscriptions demo_db" by (metis snd_conv)
  from reserve_idempotent [OF r [unfolded demo_reserved_def], of "demo_reserve ''a'' 9"
      "hd (db_subscriptions d)" "demo_rt 7"] show ?thesis
    unfolding r snd_conv by (simp add: demo_reserve_def s) (simp add: demo_db_def demo_ctx_def)
qed

end
