(* ===== verification/Retry.thy ===== *)
theory Retry
  imports Go_Prelude
begin

text \<open>
  The contract of the two retry schedules of the workers. \<open>nextRetryAt\<close> occurs twice in the
  source, in \<open>internal/outbox/relay.go\<close> and in \<open>internal/webhook/worker.go\<close>; each theory
  translates its own and interprets the locale \<open>retry_schedule\<close> on it with \<open>shifted_delay\<close>,
  the arithmetic of the 64-bit shift with its overflow.
\<close>

text \<open>Converting an \<open>int\<close> to \<open>uint\<close>.\<close>

definition to_uint :: "int \<Rightarrow> nat" where
  "to_uint x = nat (x mod 2 ^ 64)"

lemma to_uint_nonneg: "0 \<le> x \<Longrightarrow> x < 2 ^ 64 \<Longrightarrow> to_uint x = nat x"
  by (simp add: to_uint_def)

lemma shl64_exact: "in64 (x * 2 ^ k) \<Longrightarrow> k < 64 \<Longrightarrow> shl64 x k = x * 2 ^ k"
  by (simp add: shl64_def wrap64_id)

lemma two_seconds: "2 * Second = 1953125 * 2 ^ 10"
  by simp

text \<open>Shifting two seconds left by eight places or more gives more than five minutes, or
  overflows to nothing positive below that.\<close>

lemma shl64_two_seconds_large:
  assumes "8 \<le> k" "0 < shl64 (2 * Second) k"
  shows "5 * Minute < shl64 (2 * Second) k"
proof -
  have k64: "k < 64" using assms(2) by (cases "64 \<le> k") (simp_all add: shl64_def)
  consider "k \<le> 28" | "29 \<le> k" "k + 10 \<le> 63" | "54 \<le> k" by linarith
  then show ?thesis
  proof cases
    case 1
    have le: "(2::int) ^ k \<le> 2 ^ 28" using 1 by (intro power_increasing) auto
    have "in64 (2 * Second * 2 ^ k)"
      using le by (simp add: in64_def) (rule order_trans [of _ 0], simp_all)
    then have "shl64 (2 * Second) k = 2 * Second * 2 ^ k"
      using k64 by (rule shl64_exact)
    moreover have "(2::int) ^ 8 \<le> 2 ^ k" using assms(1) by (intro power_increasing) auto
    ultimately show ?thesis by simp
  next
    case 2
    have s: "shl64 (2 * Second) k = wrap64 (1953125 * 2 ^ (k + 10))"
      using k64 by (simp add: shl64_def power_add mult.commute)
    have "2 ^ (k + 10) \<le> shl64 (2 * Second) k"
      by (rule wrap64_multiple [OF 2(2) s [symmetric] assms(2)])
    moreover have "(2::int) ^ 39 \<le> 2 ^ (k + 10)" using 2(1) by (intro power_increasing) auto
    ultimately show ?thesis by simp
  next
    case 3
    have "2 * Second * 2 ^ k = 1953125 * 2 ^ (k - 54) * (2::int) ^ 64"
      using 3 power_add [of "2 :: int" 54 "k - 54"] by simp
    then have "shl64 (2 * Second) k = wrap64 (1953125 * 2 ^ (k - 54) * 2 ^ 64)"
      unfolding shl64_def using k64 by (simp only: linorder_not_le if_not_P)
    also have "\<dots> = 0"
      unfolding wrap64_def by (simp only: mod_mult_self3) simp
    finally have "shl64 (2 * Second) k = 0" .
    with assms(2) show ?thesis by simp
  qed
qed

lemma shifted_delay:
  assumes "- (2 ^ 63) \<le> k" "k < 2 ^ 63"
  shows "(let delay = shl64 (2 * Second) (to_uint (k - 1))
          in if delay > 5 * Minute \<or> delay \<le> 0 then 5 * Minute else delay) =
         (if 1 \<le> k \<and> k \<le> 8 then 2 * Second * 2 ^ nat (k - 1) else 5 * Minute)"
proof (cases "1 \<le> k \<and> k \<le> 8")
  case True
  then have u: "to_uint (k - 1) = nat (k - 1)" by (simp add: to_uint_nonneg)
  have p: "(0::int) < 2 ^ nat (k - 1)" "(2::int) ^ nat (k - 1) \<le> 2 ^ 7"
    using True by (simp, intro power_increasing) auto
  have "in64 (2 * Second * 2 ^ nat (k - 1))" unfolding in64_def
  proof
    show "- (2 ^ 63) \<le> 2 * Second * (2::int) ^ nat (k - 1)" by (rule order_trans [of _ 0]) simp_all
  qed (use p(2) in simp)
  moreover have "nat (k - 1) < 64" using True by linarith
  ultimately have "shl64 (2 * Second) (nat (k - 1)) = 2 * Second * 2 ^ nat (k - 1)"
    by (rule shl64_exact)
  with p True show ?thesis unfolding u by (simp add: Let_def)
next
  case False
  have neg: "(k - 1) mod 2 ^ 64 = k - 1 + 2 ^ 64" if "k < 1"
  proof -
    have "(k - 1) mod 2 ^ 64 = (k - 1 + 2 ^ 64) mod 2 ^ 64" by (simp only: mod_add_self2)
    also have "\<dots> = k - 1 + 2 ^ 64"
      by (rule mod_pos_pos_trivial) (use that assms(1) in simp_all)
    finally show ?thesis .
  qed
  have "8 \<le> to_uint (k - 1)"
  proof (cases "k < 1")
    case True
    then show ?thesis using assms(1) unfolding to_uint_def neg [OF True] by (simp add: le_nat_iff)
  qed (use False assms in \<open>simp add: to_uint_def le_nat_iff\<close>)
  with shl64_two_seconds_large [of "to_uint (k - 1)"] False show ?thesis
    by (auto simp: Let_def)
qed

locale retry_schedule =
  fixes next_at :: "int \<Rightarrow> int \<Rightarrow> int"
    and base cap :: int
  assumes base_pos: "0 < base" and base_cap: "base \<le> cap"
    and law: "1 \<le> k \<Longrightarrow> k < 2 ^ 63 \<Longrightarrow> next_at now k = now + min cap (base * 2 ^ nat (k - 1))"
begin

lemma later: "1 \<le> k \<Longrightarrow> k < 2 ^ 63 \<Longrightarrow> now < next_at now k"
  using base_pos base_cap by (simp add: law)

lemma within_cap: "1 \<le> k \<Longrightarrow> k < 2 ^ 63 \<Longrightarrow> next_at now k \<le> now + cap"
  by (simp add: law)

lemma first: "next_at now 1 = now + base"
  using base_cap by (simp add: law)

lemma grows: "1 \<le> j \<Longrightarrow> j \<le> k \<Longrightarrow> k < 2 ^ 63 \<Longrightarrow> next_at now j \<le> next_at now k"
proof -
  assume "1 \<le> j" "j \<le> k" "k < 2 ^ 63"
  moreover from this have "base * 2 ^ nat (j - 1) \<le> base * 2 ^ nat (k - 1)"
    using base_pos by (intro mult_left_mono power_increasing) auto
  ultimately show ?thesis by (simp add: law)
qed

end

text \<open>The cap is reached at the ninth attempt.\<close>

lemma min_delay:
  "1 \<le> k \<Longrightarrow> (if 1 \<le> k \<and> k \<le> 8 then 2 * Second * 2 ^ nat (k - 1) else 5 * Minute) =
   min (5 * Minute) (2 * Second * 2 ^ nat (k - 1))" for k :: int
proof (cases "k \<le> 8")
  case True
  assume "1 \<le> k"
  with True have "(2::int) ^ nat (k - 1) \<le> 2 ^ 7" by (intro power_increasing) auto
  with True \<open>1 \<le> k\<close> show ?thesis by simp
next
  case False
  assume "1 \<le> k"
  from False have "(2::int) ^ 8 \<le> 2 ^ nat (k - 1)" by (intro power_increasing) auto
  with False show ?thesis by simp
qed

end
