(* ===== verification/Outbox_Relay.thy ===== *)
theory Outbox_Relay
  imports Fixtures Retry Breaker
begin

text \<open>
  \<open>internal/outbox/relay.go\<close>: the worker that drains the outbox. It leases a batch of due
  events, delivers usage events to the billing adapter behind a circuit breaker, publishes
  the rest, and marks each outcome in a transaction of its own. The adapter, the parser of
  timestamps and the text of a decoding error are parameters; each event is processed in
  an environment of its own, so the clock may move and the adapter may answer differently
  from one event to the next. Logging, metrics and tracing are left out.
\<close>

section \<open>The relay\<close>

record UsageEvent =
  ue_TransactionID :: string
  ue_Code :: string
  ue_ExternalCustomerID :: string
  ue_Timestamp :: int
  ue_Properties :: "(string \<times> json) list"

text \<open>What one delivery meets: \<open>time.Time\<close>'s decoder, the message of a decoding error, and the
  adapter, which answers with an error text or not at all.\<close>

record host =
  h_parse_time :: "string \<Rightarrow> int option"
  h_decode_error :: "RawMessage \<Rightarrow> string"
  h_deliver :: "UsageEvent \<Rightarrow> string option"

record Relay =
  rl_interval :: int
  rl_batch :: int
  rl_maxAttempts :: int
  rl_breaker :: "Breaker option"

abbreviation defaultMaxAttempts :: int where "defaultMaxAttempts \<equiv> 5"
abbreviation retryBase :: int where "retryBase \<equiv> 2 * Second"
abbreviation retryCap :: int where "retryCap \<equiv> 5 * Minute"

definition NewRelay :: "int \<Rightarrow> Relay" where
  "NewRelay interval = \<lparr>rl_interval = (if interval \<le> 0 then Second else interval), rl_batch = 100,
     rl_maxAttempts = defaultMaxAttempts, rl_breaker = None\<rparr>"

definition WithCircuitBreaker :: "Relay \<Rightarrow> Options \<Rightarrow> Relay" where
  "WithCircuitBreaker r op = r\<lparr>rl_breaker := Some (New op)\<rparr>"

definition zero_time :: int where
  "zero_time = - 62135596800 * Second"

definition dec_usage :: "(string \<Rightarrow> int option) \<Rightarrow> json \<Rightarrow> UsageEvent option" where
  "dec_usage parse = dec_struct (\<lambda>k v u.
     if fold_eq k ''transaction_id'' then
       map_option (\<lambda>s. u\<lparr>ue_TransactionID := s\<rparr>) (dec_string v (ue_TransactionID u))
     else if fold_eq k ''code'' then map_option (\<lambda>s. u\<lparr>ue_Code := s\<rparr>) (dec_string v (ue_Code u))
     else if fold_eq k ''external_customer_id'' then
       map_option (\<lambda>s. u\<lparr>ue_ExternalCustomerID := s\<rparr>) (dec_string v (ue_ExternalCustomerID u))
     else if fold_eq k ''timestamp'' then
       (case v of JNull \<Rightarrow> Some u
        | JStr s \<Rightarrow> map_option (\<lambda>t. u\<lparr>ue_Timestamp := t\<rparr>) (parse s)
        | _ \<Rightarrow> None)
     else if fold_eq k ''properties'' then
       (case v of JNull \<Rightarrow> Some (u\<lparr>ue_Properties := []\<rparr>)
        | JObj kvs \<Rightarrow> Some (u\<lparr>ue_Properties := ue_Properties u @ kvs\<rparr>)
        | _ \<Rightarrow> None)
     else Some u)
     \<lparr>ue_TransactionID = '''', ue_Code = '''', ue_ExternalCustomerID = '''', ue_Timestamp = zero_time,
      ue_Properties = []\<rparr>"

definition nextRetryAt :: "int \<Rightarrow> int \<Rightarrow> int" where
  "nextRetryAt now attempts =
     (let delay = shl64 retryBase (to_uint (attempts - 1)) in
      now + (if delay > retryCap \<or> delay \<le> 0 then retryCap else delay))"

section \<open>Transactions\<close>

definition due :: "int \<Rightarrow> OutboxEvent \<Rightarrow> bool" where
  "due now x \<longleftrightarrow>
     ob_status x = ''pending'' \<and> (case ob_next x of None \<Rightarrow> True | Some t \<Rightarrow> t \<le> now) \<or>
     ob_status x = ''failed'' \<and> (case ob_next x of None \<Rightarrow> False | Some t \<Rightarrow> t \<le> now)"

definition ClaimDueOutboxEvents :: "int \<Rightarrow> OutboxEvent list tx" where
  "ClaimDueOutboxEvents n =
     bnd now_tx (\<lambda>now.
     bnd (q_many outbox_events (due now)) (\<lambda>xs.
     q_update outbox_events (\<lambda>x. ob_id x \<in> ob_id ` set (take (nat n) xs))
       (\<lambda>x. x\<lparr>ob_next := Some (now + 120 * Second)\<rparr>)))"

definition claim :: "Relay \<Rightarrow> rt \<Rightarrow> db \<Rightarrow> OutboxEvent list result \<times> db" where
  "claim r = WithOperator (ClaimDueOutboxEvents (rl_batch r))"

abbreviation q_MarkOutboxEventPublished :: "int \<Rightarrow> uuid \<Rightarrow> unit tx" where
  "q_MarkOutboxEventPublished now i \<equiv> q_exec outbox_events (\<lambda>x. ob_id x = i)
     (\<lambda>x. x\<lparr>ob_status := ''published'', ob_published := Some now, ob_next := None\<rparr>)"

abbreviation q_MarkOutboxEventRetry :: "uuid \<Rightarrow> int \<Rightarrow> unit tx" where
  "q_MarkOutboxEventRetry i next_at \<equiv> q_exec outbox_events (\<lambda>x. ob_id x = i)
     (\<lambda>x. x\<lparr>ob_status := ''failed'', ob_attempts := ob_attempts x + 1, ob_next := Some next_at\<rparr>)"

abbreviation q_MarkOutboxEventDeadLetter :: "uuid \<Rightarrow> string \<Rightarrow> unit tx" where
  "q_MarkOutboxEventDeadLetter i cause \<equiv> q_exec outbox_events (\<lambda>x. ob_id x = i)
     (\<lambda>x. x\<lparr>ob_status := ''dead_letter'', ob_attempts := ob_attempts x + 1, ob_next := None,
            ob_error := Some cause\<rparr>)"

definition markPublished :: "uuid \<Rightarrow> rt \<Rightarrow> db \<Rightarrow> unit result \<times> db" where
  "markPublished i e = WithOperator (q_MarkOutboxEventPublished (rt_now e) i) e"

definition markRetry :: "uuid \<Rightarrow> int \<Rightarrow> rt \<Rightarrow> db \<Rightarrow> unit result \<times> db" where
  "markRetry i next_at = WithOperator (q_MarkOutboxEventRetry i next_at)"

definition markDeadLetter :: "uuid \<Rightarrow> string \<Rightarrow> rt \<Rightarrow> db \<Rightarrow> unit result \<times> db" where
  "markDeadLetter i cause = WithOperator (q_MarkOutboxEventDeadLetter i cause)"

section \<open>One event\<close>

definition retryOrDeadLetter :: "Relay \<Rightarrow> rt \<Rightarrow> OutboxEvent \<Rightarrow> string \<Rightarrow> db \<Rightarrow> unit result \<times> db" where
  "retryOrDeadLetter r e ev cause d =
     (let attempts = ob_attempts ev + 1 in
      if attempts \<ge> rl_maxAttempts r then markDeadLetter (ob_id ev) cause e d
      else markRetry (ob_id ev) (nextRetryAt (rt_now e) attempts) e d)"

definition breaker_allow :: "Relay \<Rightarrow> rt \<Rightarrow> bool \<times> Relay" where
  "breaker_allow r e =
     (case rl_breaker r of None \<Rightarrow> (True, r)
      | Some b \<Rightarrow> (let (ok, b') = Allow (rt_now e) b in (ok, r\<lparr>rl_breaker := Some b'\<rparr>)))"

definition breaker_outcome :: "Relay \<Rightarrow> rt \<Rightarrow> bool \<Rightarrow> Relay" where
  "breaker_outcome r e ok =
     (case rl_breaker r of None \<Rightarrow> r
      | Some b \<Rightarrow> r\<lparr>rl_breaker := Some (if ok then OnSuccess b else OnFailure (rt_now e) b)\<rparr>)"

definition deliverUsage :: "rt \<times> host \<Rightarrow> OutboxEvent \<Rightarrow> Relay \<Rightarrow> db \<Rightarrow> unit result \<times> Relay \<times> db" where
  "deliverUsage c ev r d =
     (let (e, h) = c in
      case unmarshal (dec_usage (h_parse_time h)) (ob_payload ev) of
        None \<Rightarrow>
          (let (res, d') = markDeadLetter (ob_id ev) (''payload unmarshal: '' @ h_decode_error h (ob_payload ev)) e d
           in (res, r, d'))
      | Some ue \<Rightarrow>
          (let (ok, r1) = breaker_allow r e in
           if \<not> ok then
             (let (res, d') = retryOrDeadLetter r1 e ev ''billing circuit breaker open'' d in (res, r1, d'))
           else (case h_deliver h ue of
               Some cause \<Rightarrow>
                 (let r2 = breaker_outcome r1 e False; (res, d') = retryOrDeadLetter r2 e ev cause d
                  in (res, r2, d'))
             | None \<Rightarrow>
                 (let r2 = breaker_outcome r1 e True; (res, d') = markPublished (ob_id ev) e d
                  in (res, r2, d')))))"

definition processEvent :: "rt \<times> host \<Rightarrow> OutboxEvent \<Rightarrow> Relay \<Rightarrow> db \<Rightarrow> unit result \<times> Relay \<times> db" where
  "processEvent c ev r d =
     (if ob_type ev = ''usage.accepted'' \<or> ob_type ev = ''usage.reversed'' then deliverUsage c ev r d
      else (let (res, d') = markPublished (ob_id ev) (fst c) d in (res, r, d')))"

section \<open>A drain\<close>

text \<open>An event that fails is logged and the loop goes on.\<close>

fun drain_events :: "(nat \<Rightarrow> rt \<times> host) \<Rightarrow> OutboxEvent list \<Rightarrow> Relay \<Rightarrow> db \<Rightarrow> Relay \<times> db" where
  "drain_events cs [] r d = (r, d)"
| "drain_events cs (ev # evs) r d =
     (let (res, r1, d1) = processEvent (cs 0) ev r d in drain_events (\<lambda>i. cs (Suc i)) evs r1 d1)"

definition drain :: "rt \<Rightarrow> (nat \<Rightarrow> rt \<times> host) \<Rightarrow> Relay \<Rightarrow> db \<Rightarrow> unit result \<times> Relay \<times> db" where
  "drain e cs r d =
     (case claim r e d of
        (Inl err, d') \<Rightarrow> (Inl err, r, d')
      | (Inr evs, d') \<Rightarrow>
          (if evs = [] then (Inr (), r, d')
           else (let (r', d'') = drain_events cs evs r d' in (Inr (), r', d''))))"

section \<open>The schedule\<close>

interpretation relay_retry: retry_schedule nextRetryAt retryBase retryCap
proof unfold_locales
  show "nextRetryAt now k = now + min retryCap (retryBase * 2 ^ nat (k - 1))"
    if "1 \<le> k" "k < 2 ^ 63" for now k
  proof -
    have k: "- (2 ^ 63) \<le> k" using that by simp
    have "nextRetryAt now k = now + (let delay = shl64 retryBase (to_uint (k - 1))
        in if delay > retryCap \<or> delay \<le> 0 then retryCap else delay)"
      by (simp add: nextRetryAt_def Let_def)
    then show ?thesis
      unfolding shifted_delay [OF k that(2)] min_delay [OF that(1)] .
  qed
qed simp_all

section \<open>The life of an outbox event\<close>

definition usage_event :: "OutboxEvent \<Rightarrow> bool" where
  "usage_event x \<longleftrightarrow> ob_type x = ''usage.accepted'' \<or> ob_type x = ''usage.reversed''"

definition lease :: "int \<Rightarrow> OutboxEvent \<Rightarrow> OutboxEvent" where
  "lease now x = x\<lparr>ob_next := Some (now + 120 * Second)\<rparr>"

definition unsettled :: "OutboxEvent \<Rightarrow> bool" where
  "unsettled x \<longleftrightarrow> ob_status x = ''pending'' \<or> ob_status x = ''failed''"

text \<open>One attempt at time \<open>t\<close>, for a relay with five attempts.\<close>

inductive relay_attempt :: "host \<Rightarrow> int \<Rightarrow> OutboxEvent \<Rightarrow> OutboxEvent \<Rightarrow> bool" for h t where
  publish: "unsettled x \<Longrightarrow>
    usage_event x \<longrightarrow> (\<exists>ue. unmarshal (dec_usage (h_parse_time h)) (ob_payload x) = Some ue \<and> h_deliver h ue = None) \<Longrightarrow>
    relay_attempt h t x (x\<lparr>ob_status := ''published'', ob_published := Some t, ob_next := None\<rparr>)"
| retry: "unsettled x \<Longrightarrow> usage_event x \<Longrightarrow> ob_attempts x + 1 < defaultMaxAttempts \<Longrightarrow>
    relay_attempt h t x (x\<lparr>ob_status := ''failed'', ob_attempts := ob_attempts x + 1,
                           ob_next := Some (nextRetryAt t (ob_attempts x + 1))\<rparr>)"
| dead: "unsettled x \<Longrightarrow> usage_event x \<Longrightarrow>
    defaultMaxAttempts \<le> ob_attempts x + 1 \<or> unmarshal (dec_usage (h_parse_time h)) (ob_payload x) = None \<Longrightarrow>
    relay_attempt h t x (x\<lparr>ob_status := ''dead_letter'', ob_attempts := ob_attempts x + 1,
                           ob_next := None, ob_error := Some cause\<rparr>)"

inductive relay_step :: "OutboxEvent \<Rightarrow> OutboxEvent \<Rightarrow> bool" where
  "due now x \<Longrightarrow> relay_attempt h t (lease now x) y \<Longrightarrow> relay_step x y"

inductive_cases relay_attemptE: "relay_attempt h t x y"
inductive_cases relay_stepE: "relay_step x y"

definition event_fresh :: "OutboxEvent \<Rightarrow> bool" where
  "event_fresh x \<longleftrightarrow> ob_status x = ''pending'' \<and> ob_attempts x = 0"

definition event_settled :: "OutboxEvent \<Rightarrow> bool" where
  "event_settled x \<longleftrightarrow> ob_status x = ''published'' \<or> ob_status x = ''dead_letter''"

definition event_ok :: "OutboxEvent \<Rightarrow> bool" where
  "event_ok x \<longleftrightarrow>
     (ob_status x = ''pending'' \<longrightarrow> ob_attempts x = 0) \<and>
     (ob_status x = ''failed'' \<longrightarrow> 1 \<le> ob_attempts x \<and> ob_attempts x < defaultMaxAttempts \<and> ob_next x \<noteq> None) \<and>
     (ob_status x = ''published'' \<longrightarrow> 0 \<le> ob_attempts x \<and> ob_attempts x < defaultMaxAttempts \<and>
        ob_published x \<noteq> None \<and> ob_next x = None) \<and>
     (ob_status x = ''dead_letter'' \<longrightarrow> 1 \<le> ob_attempts x \<and> ob_attempts x \<le> defaultMaxAttempts \<and>
        ob_error x \<noteq> None \<and> ob_next x = None)"

lemma due_unsettled: "due now x \<Longrightarrow> unsettled x"
  by (auto simp: due_def unsettled_def)

lemma unsettled_lease [simp]: "unsettled (lease now x) = unsettled x"
  by (simp add: unsettled_def lease_def)

lemma attempt_ok: "event_ok x \<Longrightarrow> relay_attempt h t x y \<Longrightarrow> event_ok y"
  by (erule relay_attemptE) (auto simp: event_ok_def unsettled_def)

lemma lease_ok: "event_ok x \<Longrightarrow> unsettled x \<Longrightarrow> event_ok (lease now x)"
  by (auto simp: event_ok_def lease_def unsettled_def)

lemma attempt_id: "relay_attempt h t x y \<Longrightarrow> ob_id y = ob_id x"
  by (erule relay_attemptE) simp_all

interpretation relay: row_machine relay_step event_fresh event_ok event_settled ob_id
proof unfold_locales
  show "event_ok y" if "event_ok x" "relay_step x y" for x y
    using that by (auto elim!: relay_stepE intro: attempt_ok lease_ok due_unsettled)
  show "y = x" if "event_settled x" "relay_step x y" for x y
    using that by (auto elim!: relay_stepE dest!: due_unsettled simp: event_settled_def unsettled_def)
  show "ob_id y = ob_id x" if "relay_step x y" for x y
    using that by (auto elim!: relay_stepE dest!: attempt_id simp: lease_def)
qed (simp add: event_fresh_def event_ok_def)

section \<open>What a drain does to the rows\<close>

lemma run_exec:
  assumes "\<And>x. ob_status (f x) \<in> {''pending'', ''published'', ''failed'', ''dead_letter''}"
  shows "WithOperator (q_exec outbox_events p f) e d =
    (Inr (), d\<lparr>db_outbox := update_where p f (db_outbox d)\<rparr>)"
  using assms by (simp add: WithOperator_def run_tx_def q_exec_def q_update_def live_tx_def bnd_def ret_def
      outbox_events_tb vis_env_def Let_def)

lemma mark_runs:
  "markPublished i e d = (Inr (), d\<lparr>db_outbox := update_where (\<lambda>x. ob_id x = i)
     (\<lambda>x. x\<lparr>ob_status := ''published'', ob_published := Some (rt_now e), ob_next := None\<rparr>) (db_outbox d)\<rparr>)"
  "markRetry i n e d = (Inr (), d\<lparr>db_outbox := update_where (\<lambda>x. ob_id x = i)
     (\<lambda>x. x\<lparr>ob_status := ''failed'', ob_attempts := ob_attempts x + 1, ob_next := Some n\<rparr>) (db_outbox d)\<rparr>)"
  "markDeadLetter i cause e d = (Inr (), d\<lparr>db_outbox := update_where (\<lambda>x. ob_id x = i)
     (\<lambda>x. x\<lparr>ob_status := ''dead_letter'', ob_attempts := ob_attempts x + 1, ob_next := None,
            ob_error := Some cause\<rparr>) (db_outbox d)\<rparr>)"
  by (simp_all add: markPublished_def markRetry_def markDeadLetter_def run_exec)

text \<open>Processing a claimed event is one attempt at its row; nothing else changes.\<close>

lemma process_attempt:
  assumes "unsettled ev" "rl_maxAttempts r = defaultMaxAttempts"
  shows "\<exists>f. relay_attempt (snd c) (rt_now (fst c)) ev (f ev) \<and>
           snd (snd (processEvent c ev r d)) = d\<lparr>db_outbox := update_where (\<lambda>x. ob_id x = ob_id ev) f (db_outbox d)\<rparr> \<and>
           rl_maxAttempts (fst (snd (processEvent c ev r d))) = defaultMaxAttempts \<and>
           rl_batch (fst (snd (processEvent c ev r d))) = rl_batch r"
proof -
  let ?R = "\<lambda>f. relay_attempt (snd c) (rt_now (fst c)) ev (f ev)"
  let ?U = "\<lambda>f. d\<lparr>db_outbox := update_where (\<lambda>x. ob_id x = ob_id ev) f (db_outbox d)\<rparr>"
  have fail: "\<exists>f. ?R f \<and> snd (retryOrDeadLetter r' (fst c) ev cause d) = ?U f"
    if "usage_event ev" "rl_maxAttempts r' = defaultMaxAttempts" for r' cause
  proof (cases "defaultMaxAttempts \<le> ob_attempts ev + 1")
    case True
    with that assms(1) show ?thesis
      by (intro exI [of _ "\<lambda>x. x\<lparr>ob_status := ''dead_letter'', ob_attempts := ob_attempts x + 1,
            ob_next := None, ob_error := Some cause\<rparr>"])
         (auto simp: retryOrDeadLetter_def mark_runs intro!: relay_attempt.dead)
  next
    case False
    with that assms(1) show ?thesis
      by (intro exI [of _ "\<lambda>x. x\<lparr>ob_status := ''failed'', ob_attempts := ob_attempts x + 1,
            ob_next := Some (nextRetryAt (rt_now (fst c)) (ob_attempts ev + 1))\<rparr>"])
         (auto simp: retryOrDeadLetter_def Let_def mark_runs intro!: relay_attempt.retry)
  qed
  have rel: "rl_maxAttempts (snd (breaker_allow r (fst c))) = defaultMaxAttempts"
    "rl_batch (snd (breaker_allow r (fst c))) = rl_batch r"
    "rl_maxAttempts (breaker_outcome r' e ok) = rl_maxAttempts r'" "rl_batch (breaker_outcome r' e ok) = rl_batch r'"
    for r' e ok
    using assms(2) by (auto simp: breaker_allow_def breaker_outcome_def Let_def split: option.splits prod.splits)
  obtain e h where c: "c = (e, h)" by (cases c)
  show ?thesis
  proof (cases "usage_event ev")
    case False
    with assms show ?thesis
      by (intro exI [of _ "\<lambda>x. x\<lparr>ob_status := ''published'', ob_published := Some (rt_now e), ob_next := None\<rparr>"])
         (auto simp: processEvent_def usage_event_def mark_runs c intro!: relay_attempt.publish)
  next
    case usage: True
    then have p: "processEvent (e, h) ev r d = deliverUsage (e, h) ev r d"
      by (simp add: processEvent_def usage_event_def)
    show ?thesis
    proof (cases "unmarshal (dec_usage (h_parse_time h)) (ob_payload ev)")
      case None
      with assms usage show ?thesis
        by (intro exI [of _ "\<lambda>x. x\<lparr>ob_status := ''dead_letter'', ob_attempts := ob_attempts x + 1, ob_next := None,
              ob_error := Some (''payload unmarshal: '' @ h_decode_error h (ob_payload ev))\<rparr>"])
           (auto simp: p c deliverUsage_def mark_runs intro!: relay_attempt.dead)
    next
      case (Some ue)
      obtain ok r1 where b: "breaker_allow r e = (ok, r1)" by fastforce
      then have r1: "rl_maxAttempts r1 = defaultMaxAttempts" "rl_batch r1 = rl_batch r"
        using rel(1,2) c by auto
      consider "\<not> ok" | cause where "ok" "h_deliver h ue = Some cause" | "ok" "h_deliver h ue = None" by fast
      then show ?thesis
      proof cases
        case 1
        with fail [OF usage r1(1), of "''billing circuit breaker open''"] Some b r1 show ?thesis
          by (auto simp: p c deliverUsage_def split: prod.split)
      next
        case 2
        with fail [OF usage, of "breaker_outcome r1 e False" cause] Some b r1 rel show ?thesis
          by (auto simp: p c deliverUsage_def Let_def split: prod.split)
      next
        case 3
        with Some b r1 rel assms(1) show ?thesis
          by (intro exI [of _ "\<lambda>x. x\<lparr>ob_status := ''published'', ob_published := Some (rt_now e), ob_next := None\<rparr>"])
             (auto simp: p c deliverUsage_def mark_runs intro!: relay_attempt.publish)
      qed
    qed
  qed
qed

definition attempted :: "(nat \<Rightarrow> rt \<times> host) \<Rightarrow> OutboxEvent \<Rightarrow> OutboxEvent \<Rightarrow> bool" where
  "attempted cs x y \<longleftrightarrow> (\<exists>i. relay_attempt (snd (cs i)) (rt_now (fst (cs i))) x y)"

lemma drain_events_attempts:
  assumes "distinct (map ob_id (db_outbox d))" "distinct evs" "set evs \<subseteq> set (db_outbox d)"
    and "\<forall>x\<in>set evs. unsettled x" "rl_maxAttempts r = defaultMaxAttempts"
  shows "rl_maxAttempts (fst (drain_events cs evs r d)) = defaultMaxAttempts \<and>
         rl_batch (fst (drain_events cs evs r d)) = rl_batch r \<and>
         list_all2 (\<lambda>x y. if x \<in> set evs then attempted cs x y else y = x)
           (db_outbox d) (db_outbox (snd (drain_events cs evs r d)))"
  using assms
proof (induction evs arbitrary: cs r d)
  case Nil
  then show ?case by (simp add: list_all2_same)
next
  case (Cons ev evs)
  obtain res r1 d1 where p: "processEvent (cs 0) ev r d = (res, r1, d1)" by (cases "processEvent (cs 0) ev r d") auto
  obtain f where f: "relay_attempt (snd (cs 0)) (rt_now (fst (cs 0))) ev (f ev)"
    and d1: "db_outbox d1 = update_where (\<lambda>x. ob_id x = ob_id ev) f (db_outbox d)"
    and r1: "rl_maxAttempts r1 = defaultMaxAttempts" "rl_batch r1 = rl_batch r"
    using process_attempt [of ev r "cs 0" d] Cons.prems(4,5) p by auto
  have id: "ob_id (f ev) = ob_id ev" using attempt_id [OF f] .
  have same: "x = ev" if "x \<in> set (db_outbox d)" "ob_id x = ob_id ev" for x
    using distinct_keys_unique [OF Cons.prems(1)] Cons.prems(3) that by simp
  have d1': "db_outbox d1 = map (\<lambda>x. if x = ev then f ev else x) (db_outbox d)"
    unfolding d1 update_where_def using same by auto
  then have ids: "map ob_id (db_outbox d1) = map ob_id (db_outbox d)"
    using id by simp
  have sub: "set evs \<subseteq> set (db_outbox d1)" using Cons.prems(2,3) by (auto simp: d1')
  from Cons.IH [of d1 r1 "\<lambda>i. cs (Suc i)"] Cons.prems ids sub r1
  have IH: "rl_maxAttempts (fst (drain_events (\<lambda>i. cs (Suc i)) evs r1 d1)) = defaultMaxAttempts"
    "rl_batch (fst (drain_events (\<lambda>i. cs (Suc i)) evs r1 d1)) = rl_batch r"
    "list_all2 (\<lambda>x y. if x \<in> set evs then attempted (\<lambda>i. cs (Suc i)) x y else y = x)
       (db_outbox d1) (db_outbox (snd (drain_events (\<lambda>i. cs (Suc i)) evs r1 d1)))"
    by simp_all
  have att: "attempted cs x y" if "attempted (\<lambda>i. cs (Suc i)) x y" for x y
    using that by (auto simp: attempted_def)
  have "f ev \<notin> set evs"
    using same [of "f ev"] sub Cons.prems(2,3) id f by (metis distinct.simps(2) set_subset_Cons subset_iff)
  have "attempted cs ev (f ev)" unfolding attempted_def using f by (rule exI [of _ 0])
  with IH(3) Cons.prems(2) att \<open>f ev \<notin> set evs\<close>
  have "list_all2 (\<lambda>x y. if x \<in> set (ev # evs) then attempted cs x y else y = x)
      (db_outbox d) (db_outbox (snd (drain_events (\<lambda>i. cs (Suc i)) evs r1 d1)))"
    unfolding d1' by (auto simp: list_all2_map1 elim!: list_all2_mono split: if_splits)
  with IH p show ?case by simp
qed

text \<open>Claiming leases the first due rows of the batch and returns them.\<close>

lemma claim_runs:
  fixes r e d
  assumes "\<forall>x\<in>set (db_outbox d). ob_status x \<in> {''pending'', ''published'', ''failed'', ''dead_letter''}"
  defines "batch \<equiv> take (nat (rl_batch r)) (filter (due (rt_now e)) (db_outbox d))"
  defines "hit \<equiv> (\<lambda>x. ob_id x \<in> ob_id ` set batch)"
  shows "claim r e d = (Inr (map (lease (rt_now e)) (filter hit (db_outbox d))),
           d\<lparr>db_outbox := update_where hit (lease (rt_now e)) (db_outbox d)\<rparr>)"
  using assms(1)
  by (simp add: claim_def ClaimDueOutboxEvents_def WithOperator_def run_tx_def now_tx_def get_rt_def
      q_many_def q_update_def live_tx_def bnd_def outbox_events_tb vis_env_def rows_def lease_def [abs_def] Let_def
      batch_def hit_def)

definition statuses_ok :: "db \<Rightarrow> bool" where
  "statuses_ok d \<longleftrightarrow>
     (\<forall>x\<in>set (db_outbox d). ob_status x \<in> {''pending'', ''published'', ''failed'', ''dead_letter''})"

definition relay_db_ok :: "db \<Rightarrow> bool" where
  "relay_db_ok d \<longleftrightarrow> distinct (map ob_id (db_outbox d)) \<and> statuses_ok d \<and> (\<forall>x\<in>set (db_outbox d). event_ok x)"

definition relay_batch :: "Relay \<Rightarrow> rt \<Rightarrow> db \<Rightarrow> OutboxEvent list" where
  "relay_batch r e d = take (nat (rl_batch r)) (filter (due (rt_now e)) (db_outbox d))"

lemma batch_due: "x \<in> set (relay_batch r e d) \<Longrightarrow> x \<in> set (db_outbox d) \<and> due (rt_now e) x"
  unfolding relay_batch_def by (drule in_set_takeD) simp

text \<open>A drain leases and attempts the batch, each row of it once, and touches no other row.\<close>

lemma drain_rows:
  assumes "distinct (map ob_id (db_outbox d))" "statuses_ok d" "rl_maxAttempts r = defaultMaxAttempts"
  shows "rl_maxAttempts (fst (snd (drain e cs r d))) = defaultMaxAttempts \<and>
         rl_batch (fst (snd (drain e cs r d))) = rl_batch r \<and>
         list_all2 (\<lambda>x y. if x \<in> set (relay_batch r e d) then attempted cs (lease (rt_now e) x) y else y = x)
           (db_outbox d) (db_outbox (snd (snd (drain e cs r d))))"
proof -
  let ?hit = "\<lambda>x. ob_id x \<in> ob_id ` set (relay_batch r e d)"
  let ?l = "lease (rt_now e)"
  let ?evs = "map ?l (filter ?hit (db_outbox d))"
  let ?d = "d\<lparr>db_outbox := update_where ?hit ?l (db_outbox d)\<rparr>"
  have hit: "?hit x \<longleftrightarrow> x \<in> set (relay_batch r e d)" if "x \<in> set (db_outbox d)" for x
  proof
    assume "?hit x"
    then obtain z where "z \<in> set (relay_batch r e d)" "ob_id x = ob_id z" by auto
    with distinct_keys_unique [OF assms(1) that, of z] batch_due [of z] show "x \<in> set (relay_batch r e d)"
      by simp
  qed simp
  have c: "claim r e d = (Inr ?evs, ?d)"
    using claim_runs [of d r e] assms(2) by (simp add: statuses_ok_def relay_batch_def)
  have lid: "ob_id (?l x) = ob_id x" for x by (simp add: lease_def)
  have ids: "map ob_id (db_outbox ?d) = map ob_id (db_outbox d)"
    by (simp add: map_update_where lid)
  have evs: "map ob_id ?evs = map ob_id (filter ?hit (db_outbox d))"
    by (simp add: lid comp_def)
  have "distinct (map ob_id ?evs)"
    using assms(1) by (simp only: evs distinct_map_filter)
  then have dist: "distinct ?evs" by (simp only: distinct_map)
  have sub: "set ?evs \<subseteq> set (db_outbox ?d)" by (auto simp: set_update_where)
  have uns: "\<forall>x\<in>set ?evs. unsettled x"
  proof
    fix y assume "y \<in> set ?evs"
    then obtain x where "y = ?l x" "x \<in> set (db_outbox d)" "?hit x" by auto
    with hit [of x] show "unsettled y" using batch_due [of x] due_unsettled [of "rt_now e" x] by simp
  qed
  have mem: "y \<in> set ?evs \<longleftrightarrow> ?hit x" if "x \<in> set (db_outbox d)" "y = (if ?hit x then ?l x else x)" for x y
    using that distinct_keys_unique [OF assms(1)] lid by auto
  define R where "R = drain_events cs ?evs r ?d"
  from drain_events_attempts [of ?d ?evs r cs] dist sub uns assms(1,3) ids
  have R: "rl_maxAttempts (fst R) = defaultMaxAttempts" "rl_batch (fst R) = rl_batch r"
    "list_all2 (\<lambda>x y. if x \<in> set ?evs then attempted cs x y else y = x) (db_outbox ?d) (db_outbox (snd R))"
    unfolding R_def by auto
  have run: "snd (drain e cs r d) = R"
  proof (cases "?evs = []")
    case True
    then show ?thesis unfolding drain_def c R_def by simp
  next
    case False
    then show ?thesis unfolding drain_def c R_def by (simp split: prod.split)
  qed
  have "list_all2 (\<lambda>x y. if x \<in> set (relay_batch r e d) then attempted cs (?l x) y else y = x)
      (db_outbox d) (db_outbox (snd R))"
    using R(3) mem hit
    by (auto simp: list_all2_conv_all_nth update_where_def split: if_splits)
  with R(1,2) run show ?thesis by simp
qed

definition drain_moves :: "db \<Rightarrow> db \<Rightarrow> bool" where
  "drain_moves d d' \<longleftrightarrow> relay_db_ok d' \<and>
     evolves relay_step event_fresh (db_outbox d) (db_outbox d')"

lemma list_all2_right: "list_all2 P xs ys \<Longrightarrow> y \<in> set ys \<Longrightarrow> \<exists>x\<in>set xs. P x y"
  by (induction rule: list_all2_induct) auto

lemma attempted_step:
  "due now x \<Longrightarrow> attempted cs (lease now x) y \<Longrightarrow> relay_step x y"
  by (auto simp: attempted_def intro: relay_step.intros)

lemma attempted_status:
  "attempted cs x y \<Longrightarrow> ob_status y \<in> {''pending'', ''published'', ''failed'', ''dead_letter''}"
  by (auto simp: attempted_def elim: relay_attemptE)

lemma drain_moves:
  assumes "relay_db_ok d" "rl_maxAttempts r = defaultMaxAttempts"
  shows "drain_moves d (snd (snd (drain e cs r d)))"
proof -
  let ?d = "snd (snd (drain e cs r d))"
  have L: "list_all2 (\<lambda>x y. if x \<in> set (relay_batch r e d) then attempted cs (lease (rt_now e) x) y else y = x)
      (db_outbox d) (db_outbox ?d)"
    using drain_rows assms by (simp add: relay_db_ok_def)
  then have st: "list_all2 (\<lambda>x y. y = x \<or> relay_step x y) (db_outbox d) (db_outbox ?d)"
    by (rule list_all2_mono) (auto split: if_splits dest: batch_due intro: attempted_step)
  then have ev: "evolves relay_step event_fresh (db_outbox d) (db_outbox ?d)"
    unfolding evolves_def by (intro exI [of _ "db_outbox ?d"] exI [of _ "[]"]) simp
  from st have "map ob_id (db_outbox ?d) = map ob_id (db_outbox d)"
    by (induction rule: list_all2_induct) (auto simp: relay.step_key)
  moreover have "statuses_ok ?d"
    using L assms(1) by (auto simp: relay_db_ok_def statuses_ok_def list_all2_conv_all_nth in_set_conv_nth
        split: if_splits) (metis attempted_status insertE nth_mem singletonD)+
  moreover have "\<forall>x\<in>set (db_outbox ?d). event_ok x"
    using relay.evolves_ok [OF ev] assms(1) by (simp add: relay_db_ok_def)
  ultimately show ?thesis using assms(1) ev by (simp add: drain_moves_def relay_db_ok_def)
qed

section \<open>Runs\<close>

text \<open>A drain of the run: the environment of its claim and those of its events.\<close>

type_synonym relay_cycle = "rt \<times> (nat \<Rightarrow> rt \<times> host)"

fun relay_run :: "relay_cycle list \<Rightarrow> Relay \<Rightarrow> db \<Rightarrow> Relay \<times> db" where
  "relay_run [] r d = (r, d)"
| "relay_run ((e, cs) # ps) r d = (let (res, r', d') = drain e cs r d in relay_run ps r' d')"

lemma relay_run_Cons:
  "relay_run ((e, cs) # ps) r d = relay_run ps (fst (snd (drain e cs r d))) (snd (snd (drain e cs r d)))"
  by (simp split: prod.split)

lemma relay_run_ok:
  assumes "relay_db_ok d" "rl_maxAttempts r = defaultMaxAttempts"
  shows "relay_db_ok (snd (relay_run ps r d)) \<and>
         (\<forall>x\<in>set (db_outbox d). event_settled x \<longrightarrow> x \<in> set (db_outbox (snd (relay_run ps r d))))"
  using assms
proof (induction ps arbitrary: r d)
  case (Cons p ps)
  obtain e cs where p: "p = (e, cs)" by (cases p)
  let ?D = "drain e cs r d"
  have m: "drain_moves d (snd (snd ?D))" using drain_moves Cons.prems .
  have r: "rl_maxAttempts (fst (snd ?D)) = defaultMaxAttempts"
    using drain_rows Cons.prems by (simp add: relay_db_ok_def)
  have stay: "x \<in> set (db_outbox (snd (snd ?D)))" if "x \<in> set (db_outbox d)" "event_settled x" for x
    using m relay.evolves_final that unfolding drain_moves_def by metis
  from Cons.IH [of "snd (snd ?D)" "fst (snd ?D)"] m r stay show ?case
    unfolding p relay_run_Cons by (auto simp: drain_moves_def)
qed simp

text \<open>
  C29. Whatever the adapter answers and whatever the breaker does, an event the relay has
  published or dead-lettered is never claimed or changed again, and in every database a run of drains
  reaches each event has a consistent outcome: a failed event a next attempt and fewer than
  five attempts behind it, a dead letter a recorded cause, a published one its time.
\<close>

theorem relay_outcomes_final:
  assumes "relay_db_ok d" "rl_maxAttempts r = defaultMaxAttempts"
  shows "(\<forall>x\<in>set (db_outbox (snd (relay_run ps r d))). event_ok x) \<and>
         (\<forall>x\<in>set (db_outbox d). event_settled x \<longrightarrow> x \<in> set (db_outbox (snd (relay_run ps r d))))"
  using relay_run_ok [OF assms, of ps] by (simp add: relay_db_ok_def)

section \<open>Settling\<close>

text \<open>Each drain starts at least the longest retry delay after the events of the one
  before it were processed.\<close>

fun spaced :: "relay_cycle list \<Rightarrow> bool" where
  "spaced [] = True"
| "spaced [p] = True"
| "spaced (p # q # ps) \<longleftrightarrow> (\<forall>i. rt_now (fst (snd p i)) + retryCap \<le> rt_now (fst q)) \<and> spaced (q # ps)"

lemma attempt_progress:
  assumes "relay_attempt h t (lease now x) y" "event_ok x" "unsettled y"
  shows "ob_attempts y = ob_attempts x + 1 \<and> due (t + retryCap) y"
proof -
  have a: "0 \<le> ob_attempts x" if "unsettled x"
    using that assms(2) by (auto simp: unsettled_def event_ok_def)
  from assms(1) show ?thesis
  proof cases
    case retry
    have "nextRetryAt t (ob_attempts x + 1) \<le> t + retryCap"
      using retry a by (intro relay_retry.within_cap) (auto simp: lease_def unsettled_def)
    with retry show ?thesis by (simp add: due_def lease_def)
  qed (use assms(3) in \<open>simp_all add: unsettled_def\<close>)
qed

lemma due_mono: "due s x \<Longrightarrow> s \<le> t \<Longrightarrow> due t x"
  by (auto simp: due_def split: option.splits)

lemma relay_run_settles:
  assumes "relay_db_ok d" "rl_maxAttempts r = defaultMaxAttempts" "rl_batch r = 100"
    and "length (db_outbox d) \<le> 100" "spaced ps" "ps \<noteq> []"
    and "\<forall>x\<in>set (db_outbox d). unsettled x \<longrightarrow>
           due (rt_now (fst (hd ps))) x \<and> defaultMaxAttempts \<le> ob_attempts x + int (length ps)"
  shows "\<forall>x\<in>set (db_outbox (snd (relay_run ps r d))). event_settled x"
  using assms
proof (induction ps arbitrary: r d)
  case (Cons p ps)
  obtain e cs where p: "p = (e, cs)" by (cases p)
  let ?D = "drain e cs r d"
  let ?d = "snd (snd ?D)"
  have m: "drain_moves d ?d" using drain_moves Cons.prems(1,2) .
  have r: "rl_maxAttempts (fst (snd ?D)) = defaultMaxAttempts" "rl_batch (fst (snd ?D)) = 100"
    and L: "list_all2 (\<lambda>x y. if x \<in> set (relay_batch r e d) then attempted cs (lease (rt_now e) x) y else y = x)
        (db_outbox d) (db_outbox ?d)"
    using drain_rows Cons.prems(1-3) by (simp_all add: relay_db_ok_def)
  have batch: "x \<in> set (relay_batch r e d)" if "x \<in> set (db_outbox d)" "unsettled x" for x
  proof -
    have "length (filter (due (rt_now e)) (db_outbox d)) \<le> 100"
      using Cons.prems(4) length_filter_le order_trans by blast
    then show ?thesis
      using that Cons.prems(3,7) by (simp add: relay_batch_def p)
  qed
  have prog: "\<exists>x\<in>set (db_outbox d). \<exists>i. unsettled x \<and> ob_attempts y = ob_attempts x + 1 \<and>
      due (rt_now (fst (cs i)) + retryCap) y"
    if y: "y \<in> set (db_outbox ?d)" "unsettled y" for y
  proof -
    obtain x where x: "x \<in> set (db_outbox d)"
      "if x \<in> set (relay_batch r e d) then attempted cs (lease (rt_now e) x) y else y = x"
      using list_all2_right [OF L y(1)] by blast
    have "x \<in> set (relay_batch r e d)" using batch [OF x(1)] x(2) y(2) by (auto split: if_splits)
    with x(2) obtain i where i: "relay_attempt (snd (cs i)) (rt_now (fst (cs i))) (lease (rt_now e) x) y"
      by (auto simp: attempted_def)
    moreover have "unsettled x" using \<open>x \<in> set (relay_batch r e d)\<close> batch_due due_unsettled by blast
    moreover have "event_ok x" using Cons.prems(1) x(1) by (simp add: relay_db_ok_def)
    ultimately show ?thesis using attempt_progress [OF i _ y(2)] x(1) by blast
  qed
  have len: "length (db_outbox ?d) = length (db_outbox d)" using L by (simp add: list_all2_lengthD)
  have ok: "relay_db_ok ?d" using m by (simp add: drain_moves_def)
  show ?case
  proof (cases ps)
    case Nil
    have "event_settled y" if y: "y \<in> set (db_outbox ?d)" for y
    proof (rule ccontr)
      assume "\<not> event_settled y"
      with y ok have u: "unsettled y" by (auto simp: event_settled_def unsettled_def relay_db_ok_def statuses_ok_def)
      obtain x where "x \<in> set (db_outbox d)" "unsettled x" "ob_attempts y = ob_attempts x + 1"
        using prog [OF y u] by blast
      with Cons.prems(7) Nil have "defaultMaxAttempts \<le> ob_attempts y" by simp
      moreover have "ob_attempts y < defaultMaxAttempts"
        using ok y u by (auto simp: relay_db_ok_def event_ok_def unsettled_def)
      ultimately show False by simp
    qed
    with Nil show ?thesis unfolding p relay_run_Cons by simp
  next
    case (Cons q qs)
    have "due (rt_now (fst q)) y \<and> defaultMaxAttempts \<le> ob_attempts y + int (length ps)"
      if y: "y \<in> set (db_outbox ?d)" "unsettled y" for y
    proof -
      obtain x i where x: "x \<in> set (db_outbox d)" "unsettled x" "ob_attempts y = ob_attempts x + 1"
        "due (rt_now (fst (cs i)) + retryCap) y"
        using prog [OF y] by blast
      moreover have "rt_now (fst (cs i)) + retryCap \<le> rt_now (fst q)"
        using Cons.prems(5) Cons p by simp
      ultimately show ?thesis using due_mono Cons.prems(7) by force
    qed
    with Cons.IH [of ?d "fst (snd ?D)"] ok r len Cons.prems(4,5) Cons show ?thesis
      unfolding p relay_run_Cons by simp
  qed
qed simp

text \<open>
  C3. The relay settles its backlog: in an outbox of at most one batch, all of whose open
  events are due, five drains spaced by the longest retry delay leave every event
  published or dead-lettered, however the adapter and the breaker behave in between.
\<close>

theorem relay_settles:
  assumes "relay_db_ok d" "rl_maxAttempts r = defaultMaxAttempts" "rl_batch r = 100"
    and "length (db_outbox d) \<le> 100" "spaced ps" "5 \<le> length ps"
    and "\<And>x. x \<in> set (db_outbox d) \<Longrightarrow> unsettled x \<Longrightarrow> due (rt_now (fst (hd ps))) x"
  shows "\<forall>x\<in>set (db_outbox (snd (relay_run ps r d))). event_settled x"
proof -
  have "0 \<le> ob_attempts x" if "x \<in> set (db_outbox d)" "unsettled x" for x
    using that assms(1) by (auto simp: relay_db_ok_def event_ok_def unsettled_def)
  with assms show ?thesis by (intro relay_run_settles) fastforce+
qed

definition demo_usage :: OutboxEvent where
  "demo_usage = \<lparr>ob_id = ''o1'', ob_provider = ''p1'', ob_env = ''e1'', ob_agg_type = ''usage'',
     ob_agg_id = ''u'', ob_type = ''usage.accepted'', ob_payload = RawJson (JObj []), ob_hash = ''h'',
     ob_tx = ''t1'', ob_status = ''pending'', ob_attempts = 0, ob_created = 0, ob_published = None,
     ob_next = None, ob_error = None\<rparr>"

definition demo_outbox :: db where
  "demo_outbox = demo_db\<lparr>db_outbox := [demo_usage, demo_usage\<lparr>ob_id := ''o2'', ob_type := ''quota.reserved''\<rparr>]\<rparr>"

definition down_host :: host where
  "down_host = \<lparr>h_parse_time = (\<lambda>s. None), h_decode_error = (\<lambda>p. ''bad''), h_deliver = (\<lambda>u. Some ''down'')\<rparr>"

definition demo_cycles :: "nat \<Rightarrow> relay_cycle list" where
  "demo_cycles n = map (\<lambda>k. (demo_rt (int k * retryCap), \<lambda>i. (demo_rt (int k * retryCap), down_host))) [0..<n]"

lemma spaced_demo: "spaced (demo_cycles 5)"
  by (simp add: demo_cycles_def upt_rec demo_rt_def)

lemma demo_outbox_ok: "relay_db_ok demo_outbox"
  by (simp add: relay_db_ok_def statuses_ok_def event_ok_def demo_outbox_def demo_usage_def)

theorem relay_outcomes_final_witness:
  "list_all event_ok (db_outbox (snd (relay_run (demo_cycles 2) (NewRelay 0) demo_outbox)))"
  using relay_outcomes_final [of demo_outbox "NewRelay 0" "demo_cycles 2"]
  by (simp add: demo_outbox_ok NewRelay_def list_all_iff)

theorem relay_settles_witness:
  "list_all event_settled (db_outbox (snd (relay_run (demo_cycles 5) (NewRelay 0) demo_outbox)))"
  unfolding list_all_iff
proof (rule relay_settles [OF demo_outbox_ok])
  show "due (rt_now (fst (hd (demo_cycles 5)))) x" if "x \<in> set (db_outbox demo_outbox)" for x
    using that by (auto simp: demo_cycles_def upt_rec demo_rt_def due_def demo_outbox_def demo_usage_def)
qed (simp_all add: NewRelay_def spaced_demo demo_outbox_def, simp add: demo_cycles_def)

lemma demo_relay_statuses:
  "map (\<lambda>x. (ob_status x, ob_attempts x))
     (db_outbox (snd (relay_run (demo_cycles 5) (WithCircuitBreaker (NewRelay 0)
        \<lparr>FailureThreshold = 2, OpenTimeout = Hour, HalfOpenMax = 1\<rparr>) demo_outbox))) =
   [(''dead_letter'', 5), (''published'', 0)]"
  by code_simp

section \<open>Two relays\<close>

text \<open>
  The marks are unconditional. When a delivery outlasts its lease, a second relay claims
  the event again, and the first one's outcome may come last: here the second publishes,
  then the first schedules a retry of the published event.
\<close>

definition lease_race :: db where
  "lease_race =
     (let d0 = demo_outbox\<lparr>db_outbox := [demo_usage]\<rparr>;
          d1 = snd (claim (NewRelay 0) (demo_rt 0) d0);
          d2 = snd (claim (NewRelay 0) (demo_rt (130 * Second)) d1);
          d3 = snd (markPublished ''o1'' (demo_rt (131 * Second)) d2)
      in snd (retryOrDeadLetter (NewRelay 0) (demo_rt (132 * Second)) demo_usage ''timeout'' d3))"

lemma lease_race_unpublishes:
  "map (\<lambda>x. (ob_status x, ob_published x, ob_next x)) (db_outbox lease_race) =
   [(''failed'', Some (131 * Second), Some (134 * Second))]"
  by code_simp

end
