(* ===== verification/Webhook_Worker.thy ===== *)
theory Webhook_Worker
  imports Fixtures Retry Breaker Keys
begin

text \<open>
  Webhooks: the endpoints and the replay of \<open>internal/service/webhooks.go\<close> and the delivery
  worker of \<open>internal/webhook/worker.go\<close>, which creates a delivery per published event and
  matching endpoint, leases due deliveries, posts them behind a circuit breaker per endpoint
  and marks each outcome in a transaction of its own. The HTTP client, the URL validation
  and the keyed hash are parameters; each delivery meets an environment of its own. Logging
  and metrics are left out.
\<close>

section \<open>Queries\<close>

abbreviation q_CreateWebhookEndpoint ::
  "uuid \<Rightarrow> uuid \<Rightarrow> uuid \<Rightarrow> string \<Rightarrow> string \<Rightarrow> bool \<Rightarrow> string list \<Rightarrow> WebhookEndpoint tx" where
  "q_CreateWebhookEndpoint i p en url sec enabled events \<equiv> q_insert webhook_endpoints
     \<lparr>we_id = i, we_provider = p, we_env = en, we_url = url, we_secret = sec, we_enabled = enabled,
      we_events = events\<rparr>"

abbreviation q_ListWebhookEndpoints :: "uuid \<Rightarrow> uuid \<Rightarrow> WebhookEndpoint list tx" where
  "q_ListWebhookEndpoints p en \<equiv> q_many webhook_endpoints (\<lambda>x. we_provider x = p \<and> we_env x = en)"

abbreviation q_ListWebhookEndpointsByProvider :: "uuid \<Rightarrow> WebhookEndpoint list tx" where
  "q_ListWebhookEndpointsByProvider p \<equiv> q_many webhook_endpoints (\<lambda>x. we_provider x = p)"

abbreviation q_ListEnabledWebhooksByTenant :: "uuid \<Rightarrow> uuid \<Rightarrow> WebhookEndpoint list tx" where
  "q_ListEnabledWebhooksByTenant p en \<equiv>
     q_many webhook_endpoints (\<lambda>x. we_provider x = p \<and> we_env x = en \<and> we_enabled x)"

abbreviation q_GetWebhookEndpointByID :: "uuid \<Rightarrow> uuid \<Rightarrow> uuid \<Rightarrow> WebhookEndpoint tx" where
  "q_GetWebhookEndpointByID i p en \<equiv>
     q_one webhook_endpoints (\<lambda>x. we_id x = i \<and> we_provider x = p \<and> we_env x = en)"

abbreviation q_GetOutboxEventByIDForWebhook :: "uuid \<Rightarrow> uuid \<Rightarrow> uuid \<Rightarrow> OutboxEvent tx" where
  "q_GetOutboxEventByIDForWebhook i p en \<equiv>
     q_one outbox_events (\<lambda>x. ob_id x = i \<and> ob_provider x = p \<and> ob_env x = en)"

text \<open>A delivery references its endpoint and nothing cascades: the endpoint of any delivery
  cannot be deleted.\<close>

definition q_DeleteWebhookEndpoint :: "uuid \<Rightarrow> uuid \<Rightarrow> uuid \<Rightarrow> unit tx" where
  "q_DeleteWebhookEndpoint i p en =
     bnd (q_many webhook_endpoints (\<lambda>x. we_id x = i \<and> we_provider x = p \<and> we_env x = en)) (\<lambda>eps.
     bnd (\<lambda>s. Inr (\<exists>x\<in>set (db_deliveries (s_db s)). wd_endpoint x \<in> we_id ` set eps, s)) (\<lambda>referenced.
     bnd (check (\<not> referenced) (PgError ''23503'')) (\<lambda>_.
     bnd (q_delete webhook_endpoints (\<lambda>x. we_id x = i \<and> we_provider x = p \<and> we_env x = en)) (\<lambda>_.
     ret ()))))"

text \<open>Deliveries are inserted at the time of their transaction, so the table is in the order
  of \<open>created_at\<close>, and so is the outbox.\<close>

abbreviation q_ListWebhookDeliveriesByTenant :: "uuid \<Rightarrow> uuid \<Rightarrow> int \<Rightarrow> WebhookDelivery list tx" where
  "q_ListWebhookDeliveriesByTenant p en n \<equiv>
     bnd (q_many webhook_deliveries (\<lambda>x. wd_provider x = p \<and> wd_env x = en)) (\<lambda>ds. ret (take (nat n) (rev ds)))"

abbreviation q_ListWebhookDeliveriesByProvider :: "uuid \<Rightarrow> WebhookDelivery list tx" where
  "q_ListWebhookDeliveriesByProvider p \<equiv>
     bnd (q_many webhook_deliveries (\<lambda>x. wd_provider x = p)) (\<lambda>ds. ret (take 200 (rev ds)))"

abbreviation q_GetWebhookDelivery :: "uuid \<Rightarrow> uuid \<Rightarrow> WebhookDelivery tx" where
  "q_GetWebhookDelivery i p \<equiv> q_one webhook_deliveries (\<lambda>x. wd_id x = i \<and> wd_provider x = p)"

abbreviation q_ReplayWebhookDelivery :: "uuid \<Rightarrow> uuid \<Rightarrow> WebhookDelivery tx" where
  "q_ReplayWebhookDelivery i p \<equiv> q_update_one webhook_deliveries
     (\<lambda>x. wd_id x = i \<and> wd_provider x = p \<and> wd_status x \<in> {''dead_letter'', ''failed''})
     (\<lambda>x. x\<lparr>wd_status := ''pending'', wd_attempts := 0, wd_next := None, wd_response_status := None,
            wd_response_body := None, wd_delivered := None\<rparr>)"

abbreviation q_FindUndeliveredOutboxEvents :: "int \<Rightarrow> OutboxEvent list tx" where
  "q_FindUndeliveredOutboxEvents n \<equiv>
     bnd (q_many webhook_deliveries (\<lambda>x. True)) (\<lambda>ds.
     bnd (q_many outbox_events (\<lambda>x. ob_status x = ''published'' \<and> ob_id x \<notin> wd_outbox ` set ds)) (\<lambda>evs.
     ret (take (nat n) evs)))"

text \<open>\<open>ON CONFLICT (endpoint_id, outbox_event_id) DO NOTHING\<close>.\<close>

definition q_CreateWebhookDelivery :: "int \<Rightarrow> uuid \<Rightarrow> uuid \<Rightarrow> uuid \<Rightarrow> uuid \<Rightarrow> uuid \<Rightarrow> unit tx" where
  "q_CreateWebhookDelivery now i ep ev p en =
     bnd (q_many webhook_deliveries (\<lambda>x. wd_endpoint x = ep \<and> wd_outbox x = ev)) (\<lambda>old.
     if old \<noteq> [] then ret ()
     else bnd (q_insert webhook_deliveries
            \<lparr>wd_id = i, wd_endpoint = ep, wd_outbox = ev, wd_provider = p, wd_env = en, wd_status = ''pending'',
             wd_attempts = 0, wd_response_status = None, wd_response_body = None, wd_next = None,
             wd_delivered = None, wd_created = now\<rparr>) (\<lambda>_. ret ()))"

definition delivery_due :: "int \<Rightarrow> WebhookDelivery \<Rightarrow> bool" where
  "delivery_due now x \<longleftrightarrow>
     wd_status x = ''pending'' \<and> (case wd_next x of None \<Rightarrow> True | Some t \<Rightarrow> t \<le> now) \<or>
     wd_status x = ''failed'' \<and> (case wd_next x of None \<Rightarrow> False | Some t \<Rightarrow> t \<le> now)"

definition q_ClaimPendingWebhookDeliveries :: "int \<Rightarrow> WebhookDelivery list tx" where
  "q_ClaimPendingWebhookDeliveries n =
     bnd now_tx (\<lambda>now.
     bnd (q_many providers (\<lambda>p. pv_state p \<noteq> StateSuspended \<and> pv_state p \<noteq> StateOffboarding)) (\<lambda>ps.
     bnd (q_many webhook_deliveries (\<lambda>x. wd_provider x \<in> pv_id ` set ps \<and> delivery_due now x)) (\<lambda>ds.
     q_update webhook_deliveries (\<lambda>x. wd_id x \<in> wd_id ` set (take (nat n) ds))
       (\<lambda>x. x\<lparr>wd_next := Some (now + 60 * Second), wd_attempts := wd_attempts x + 1\<rparr>))))"

abbreviation q_MarkWebhookDelivered :: "int \<Rightarrow> uuid \<Rightarrow> int option \<Rightarrow> string option \<Rightarrow> unit tx" where
  "q_MarkWebhookDelivered now i st body \<equiv> q_exec webhook_deliveries (\<lambda>x. wd_id x = i)
     (\<lambda>x. x\<lparr>wd_status := ''delivered'', wd_response_status := st, wd_response_body := body,
            wd_delivered := Some now\<rparr>)"

abbreviation q_MarkWebhookRetry :: "uuid \<Rightarrow> int option \<Rightarrow> string option \<Rightarrow> int \<Rightarrow> unit tx" where
  "q_MarkWebhookRetry i st body next_at \<equiv> q_exec webhook_deliveries (\<lambda>x. wd_id x = i)
     (\<lambda>x. x\<lparr>wd_status := ''failed'', wd_response_status := st, wd_response_body := body,
            wd_next := Some next_at\<rparr>)"

abbreviation q_MarkWebhookDeadLetter :: "uuid \<Rightarrow> int option \<Rightarrow> string option \<Rightarrow> unit tx" where
  "q_MarkWebhookDeadLetter i st body \<equiv> q_exec webhook_deliveries (\<lambda>x. wd_id x = i)
     (\<lambda>x. x\<lparr>wd_status := ''dead_letter'', wd_response_status := st, wd_response_body := body,
            wd_next := None\<rparr>)"

abbreviation q_DeleteExpiredWebhookDeliveries :: "int \<Rightarrow> int tx" where
  "q_DeleteExpiredWebhookDeliveries cutoff \<equiv> q_delete webhook_deliveries
     (\<lambda>x. wd_created x < cutoff \<and> (wd_status x = ''delivered'' \<or> wd_status x = ''dead_letter'' \<or>
            wd_status x = ''failed'' \<and> wd_next x = None))"

abbreviation q_DeleteExpiredOutboxEvents :: "int \<Rightarrow> int tx" where
  "q_DeleteExpiredOutboxEvents cutoff \<equiv> q_delete outbox_events
     (\<lambda>x. ob_created x < cutoff \<and> (ob_status x = ''published'' \<or> ob_status x = ''dead_letter'' \<or>
            ob_status x = ''failed'' \<and> ob_next x = None))"

section \<open>Endpoints\<close>

record CreateWebhookEndpointInput =
  wi_URL :: string
  wi_Secret :: string
  wi_Events :: "string list"

text \<open>\<open>validator\<close> answers with an error or not at all. The random bytes of a generated sec
  are drawn from the environment.\<close>

definition CreateWebhookEndpoint ::
  "(string \<Rightarrow> goerr option) \<Rightarrow> Ctx \<Rightarrow> CreateWebhookEndpointInput \<Rightarrow> rt \<Rightarrow> db \<Rightarrow> WebhookEndpoint result \<times> db" where
  "CreateWebhookEndpoint validator tc inp e d =
     (if wi_URL inp = '''' then fail_early ErrValidation d
      else if validator (wi_URL inp) \<noteq> None then fail_early ErrValidation d
      else WithTenant tc
        (bnd (if wi_Secret inp = '''' then bnd (draw rt_bytes) (\<lambda>b. ret (hex_encode b))
              else ret (wi_Secret inp)) (\<lambda>sec.
         bnd (draw rt_gen) (\<lambda>i.
         bnd (mapped_err (q_CreateWebhookEndpoint i (ProviderID tc) (EnvironmentID tc) (wi_URL inp)
                sec True (wi_Events inp))) (\<lambda>ep.
         bnd (emitOutboxTx (ProviderID tc) (EnvironmentID tc) ''webhook'' (we_id ep) ''webhook.endpoint_created''
                (JObj [(''webhook_endpoint_id'', JStr (we_id ep)), (''url'', JStr (wi_URL inp))])) (\<lambda>_.
         bnd (insertAuditTx (ProviderNullUUID tc) (EnvironmentNullUUID tc) ''credential'' (CredentialID tc)
                ''webhook.create'' ''webhook_endpoint'' (we_id ep) None) (\<lambda>_.
         ret ep)))))) e d)"

definition ListWebhookEndpoints :: "Ctx \<Rightarrow> rt \<Rightarrow> db \<Rightarrow> WebhookEndpoint list result \<times> db" where
  "ListWebhookEndpoints tc = WithTenant tc (q_ListWebhookEndpoints (ProviderID tc) (EnvironmentID tc))"

definition DeleteWebhookEndpoint :: "Ctx \<Rightarrow> uuid \<Rightarrow> rt \<Rightarrow> db \<Rightarrow> unit result \<times> db" where
  "DeleteWebhookEndpoint tc i = WithTenant tc (q_DeleteWebhookEndpoint i (ProviderID tc) (EnvironmentID tc))"

definition ListWebhookDeliveries :: "Ctx \<Rightarrow> int \<Rightarrow> rt \<Rightarrow> db \<Rightarrow> WebhookDelivery list result \<times> db" where
  "ListWebhookDeliveries tc n =
     WithTenant tc (q_ListWebhookDeliveriesByTenant (ProviderID tc) (EnvironmentID tc) n)"

definition ListWebhooksByProvider :: "uuid \<Rightarrow> rt \<Rightarrow> db \<Rightarrow> WebhookEndpoint list result \<times> db" where
  "ListWebhooksByProvider p = WithOperator (q_ListWebhookEndpointsByProvider p)"

definition ListWebhookDeliveriesByProvider :: "uuid \<Rightarrow> rt \<Rightarrow> db \<Rightarrow> WebhookDelivery list result \<times> db" where
  "ListWebhookDeliveriesByProvider p = WithOperator (q_ListWebhookDeliveriesByProvider p)"

definition ReplayWebhookDeliveryByProvider ::
  "uuid \<Rightarrow> uuid \<Rightarrow> string \<Rightarrow> rt \<Rightarrow> db \<Rightarrow> WebhookDelivery result \<times> db" where
  "ReplayWebhookDeliveryByProvider providerID deliveryID actor0 =
     (let actor = (if actor0 = '''' then ''operator'' else actor0) in
      WithOperator
        (bnd (mapped_err (q_GetWebhookDelivery deliveryID providerID)) (\<lambda>dl.
         bnd (check (\<not> (wd_status dl \<noteq> ''dead_letter'' \<and> wd_status dl \<noteq> ''failed'')) ErrWebhookReplayConflict) (\<lambda>_.
         bnd (q_ReplayWebhookDelivery deliveryID providerID) (\<lambda>upd.
         bnd (insertAuditTx (Some providerID) (Some (wd_env dl)) ''operator'' actor ''webhook_delivery_replay''
                ''webhook_delivery'' deliveryID (Some (JObj [(''from_status'', JStr (wd_status dl)),
                  (''endpoint_id'', JStr (wd_endpoint dl))]))) (\<lambda>_.
         ret upd))))))"

definition PurgeExpiredWebhookDeliveries :: "int \<Rightarrow> rt \<Rightarrow> db \<Rightarrow> int result \<times> db" where
  "PurgeExpiredWebhookDeliveries cutoff = WithOperator
     (bnd (q_DeleteExpiredWebhookDeliveries cutoff) (\<lambda>deliveries.
      bnd (q_DeleteExpiredOutboxEvents cutoff) (\<lambda>events.
      ret (wrap64 (deliveries + events)))))"

definition webhook_retention_sweep :: "int \<Rightarrow> rt \<Rightarrow> db \<Rightarrow> int result \<times> db" where
  "webhook_retention_sweep retentionDays e d = PurgeExpiredWebhookDeliveries
     (rt_now e + wrap64 (wrap64 (wrap64 (- retentionDays) * 24) * Hour)) e d"

section \<open>Signatures\<close>

text \<open>HMAC-SHA256 under a key, as a sequence of bytes.\<close>

type_synonym hmac = "string \<Rightarrow> string \<Rightarrow> nat list"

definition signPayload :: "hmac \<Rightarrow> string \<Rightarrow> string \<Rightarrow> string \<Rightarrow> string" where
  "signPayload mac sec timestamp payload = hex_encode (mac sec (timestamp @ payload))"

text \<open>\<open>hex.DecodeString\<close> takes digits of either case, two per byte.\<close>

definition from_hex :: "char \<Rightarrow> nat option" where
  "from_hex c =
     (let n = of_char c :: nat in
      if 48 \<le> n \<and> n \<le> 57 then Some (n - 48)
      else if 97 \<le> n \<and> n \<le> 102 then Some (n - 87)
      else if 65 \<le> n \<and> n \<le> 70 then Some (n - 55) else None)"

fun hex_decode :: "string \<Rightarrow> nat list option" where
  "hex_decode [] = Some []"
| "hex_decode [c] = None"
| "hex_decode (a # b # cs) =
     (case from_hex a of None \<Rightarrow> None | Some x \<Rightarrow>
      (case from_hex b of None \<Rightarrow> None | Some y \<Rightarrow>
       map_option ((#) (16 * x + y)) (hex_decode cs)))"

definition VerifySignature :: "hmac \<Rightarrow> string \<Rightarrow> string \<Rightarrow> string \<Rightarrow> string \<Rightarrow> bool" where
  "VerifySignature mac sec timestamp payload signature =
     (case hex_decode (signPayload mac sec timestamp payload) of
        None \<Rightarrow> False
      | Some expectedBytes \<Rightarrow>
          (case hex_decode signature of
             None \<Rightarrow> False
           | Some givenBytes \<Rightarrow> expectedBytes = givenBytes))"

definition eventMatchesFilter :: "string \<Rightarrow> string list \<Rightarrow> bool" where
  "eventMatchesFilter eventType flt = (if flt = [] then True else eventType \<in> set flt)"

section \<open>The worker\<close>

abbreviation defaultMaxAttempts :: int where "defaultMaxAttempts \<equiv> 3"
abbreviation retryBase :: int where "retryBase \<equiv> 2 * Second"
abbreviation retryCap :: int where "retryCap \<equiv> 5 * Minute"
abbreviation undeliveredBatch :: int where "undeliveredBatch \<equiv> 500"
abbreviation deliveryBatch :: int where "deliveryBatch \<equiv> 50"
abbreviation WebhookSchemaVersion :: string where "WebhookSchemaVersion \<equiv> ''1.0''"

definition nextRetryAt :: "int \<Rightarrow> int \<Rightarrow> int" where
  "nextRetryAt now attempts =
     (let delay = shl64 retryBase (to_uint (attempts - 1)) in
      now + (if delay > retryCap \<or> delay \<le> 0 then retryCap else delay))"

record WebhookRequest =
  hr_url :: string
  hr_body :: string
  hr_signature :: string
  hr_timestamp :: string
  hr_event_type :: string
  hr_schema_version :: string

text \<open>A post that cannot be completed ends with an error text, one that can with a status and
  a body cut at one megabyte.\<close>

datatype reply = NoResponse string | Response int string

text \<open>What one delivery meets besides the clock: the URL validation, the keyed hash, the bytes
  of a payload, the decimal text of a number, the network, and a failure of the transaction
  that reads the delivery's context or of the one that marks its outcome (the query timeout
  of the cycle, a lost connection, the end of the process).\<close>

record net =
  nt_validate :: "string \<Rightarrow> string option"
  nt_mac :: hmac
  nt_bytes :: "RawMessage \<Rightarrow> string"
  nt_decimal :: "int \<Rightarrow> string"
  nt_post :: "WebhookRequest \<Rightarrow> reply"
  nt_load :: "goerr option"
  nt_mark :: "goerr option"

record Worker =
  wk_maxAttempts :: int
  wk_breakerOpts :: Options
  wk_breakers :: "uuid \<rightharpoonup> Breaker"

definition NewWorker :: "Options \<Rightarrow> Worker" where
  "NewWorker op = \<lparr>wk_maxAttempts = defaultMaxAttempts, wk_breakerOpts = op, wk_breakers = Map.empty\<rparr>"

definition breakerFor :: "uuid \<Rightarrow> Worker \<Rightarrow> Breaker" where
  "breakerFor i w = (case wk_breakers w i of Some b \<Rightarrow> b | None \<Rightarrow> New (wk_breakerOpts w))"

definition set_breaker :: "uuid \<Rightarrow> Breaker \<Rightarrow> Worker \<Rightarrow> Worker" where
  "set_breaker i b w = w\<lparr>wk_breakers := (wk_breakers w)(i \<mapsto> b)\<rparr>"

section \<open>Creating deliveries\<close>

definition createDelivery :: "WebhookEndpoint \<Rightarrow> OutboxEvent \<Rightarrow> rt \<Rightarrow> db \<Rightarrow> unit result \<times> db" where
  "createDelivery ep ev = WithOperator
     (bnd now_tx (\<lambda>now.
      bnd (draw rt_gen) (\<lambda>i.
      q_CreateWebhookDelivery now i (we_id ep) (ob_id ev) (ob_provider ev) (ob_env ev))))"

text \<open>A failed insert is logged and the loop goes on; so does a failed listing.\<close>

fun create_for_endpoints :: "rt \<Rightarrow> OutboxEvent \<Rightarrow> WebhookEndpoint list \<Rightarrow> db \<Rightarrow> db" where
  "create_for_endpoints e ev [] d = d"
| "create_for_endpoints e ev (ep # eps) d =
     (if \<not> eventMatchesFilter (ob_type ev) (we_events ep) then create_for_endpoints e ev eps d
      else create_for_endpoints e ev eps (snd (createDelivery ep ev e d)))"

fun create_for_events :: "rt \<Rightarrow> OutboxEvent list \<Rightarrow> db \<Rightarrow> db" where
  "create_for_events e [] d = d"
| "create_for_events e (ev # evs) d =
     (case WithOperator (q_ListEnabledWebhooksByTenant (ob_provider ev) (ob_env ev)) e d of
        (Inl err, d') \<Rightarrow> create_for_events e evs d'
      | (Inr eps, d') \<Rightarrow> create_for_events e evs (create_for_endpoints e ev eps d'))"

definition createDeliveries :: "rt \<Rightarrow> db \<Rightarrow> unit result \<times> db" where
  "createDeliveries e d =
     (case WithOperator (q_FindUndeliveredOutboxEvents undeliveredBatch) e d of
        (Inl err, d') \<Rightarrow> (Inl err, d')
      | (Inr evs, d') \<Rightarrow> (Inr (), create_for_events e evs d'))"

section \<open>Delivering\<close>

definition int_to_pg :: "int \<Rightarrow> int option" where
  "int_to_pg v = (if v = 0 then None else Some (wrap32 v))"

text \<open>A value of type \<open>text\<close> is UTF-8 without zero bytes; the database refuses any other. The
  first byte of a character tells how many bytes continue it.\<close>

definition utf8_trail :: "nat \<Rightarrow> nat option" where
  "utf8_trail a =
     (if 1 \<le> a \<and> a < 0x80 then Some 0
      else if 0xC2 \<le> a \<and> a \<le> 0xDF then Some 1
      else if 0xE0 \<le> a \<and> a \<le> 0xEF then Some 2
      else if 0xF0 \<le> a \<and> a \<le> 0xF4 then Some 3 else None)"

definition utf8_second :: "nat \<Rightarrow> nat \<Rightarrow> bool" where
  "utf8_second a b \<longleftrightarrow> (a = 0xE0 \<longrightarrow> 0xA0 \<le> b) \<and> (a = 0xED \<longrightarrow> b < 0xA0) \<and> (a = 0xF0 \<longrightarrow> 0x90 \<le> b) \<and>
     (a = 0xF4 \<longrightarrow> b < 0x90)"

fun utf8 :: "nat list \<Rightarrow> bool" where
  "utf8 [] = True"
| "utf8 (a # bs) =
     (case utf8_trail a of
        None \<Rightarrow> False
      | Some n \<Rightarrow> n \<le> length bs \<and> list_all (\<lambda>b. 0x80 \<le> b \<and> b < 0xC0) (take n bs) \<and>
                  (n = 0 \<or> utf8_second a (hd bs)) \<and> utf8 (drop n bs))"

definition text_ok :: "string \<Rightarrow> bool" where
  "text_ok s = utf8 (map of_char s)"

text \<open>The transaction that marks an outcome; it may fail, and it does when the body of the
  reply is no text.\<close>

definition mark_tx :: "net \<Rightarrow> string \<Rightarrow> (string option \<Rightarrow> unit tx) \<Rightarrow> rt \<Rightarrow> db \<Rightarrow> unit result \<times> db" where
  "mark_tx n body q e d =
     (case nt_mark n of
        Some err \<Rightarrow> (Inl err, d)
      | None \<Rightarrow> WithOperator (bnd (check (text_ok body) (PgError ''22021'')) (\<lambda>_. q (opt_text body))) e d)"

definition markDelivered :: "net \<Rightarrow> uuid \<Rightarrow> int \<Rightarrow> string \<Rightarrow> rt \<Rightarrow> db \<Rightarrow> unit result \<times> db" where
  "markDelivered n i st body e = mark_tx n body (q_MarkWebhookDelivered (rt_now e) i (int_to_pg st)) e"

definition markRetry :: "net \<Rightarrow> uuid \<Rightarrow> int \<Rightarrow> string \<Rightarrow> int \<Rightarrow> rt \<Rightarrow> db \<Rightarrow> unit result \<times> db" where
  "markRetry n i st body next_at = mark_tx n body (\<lambda>text. q_MarkWebhookRetry i (int_to_pg st) text next_at)"

definition markDeadLetter :: "net \<Rightarrow> uuid \<Rightarrow> int \<Rightarrow> string \<Rightarrow> rt \<Rightarrow> db \<Rightarrow> unit result \<times> db" where
  "markDeadLetter n i st body = mark_tx n body (q_MarkWebhookDeadLetter i (int_to_pg st))"

definition handleFailure ::
  "Worker \<Rightarrow> rt \<times> net \<Rightarrow> WebhookDelivery \<Rightarrow> int \<Rightarrow> string \<Rightarrow> db \<Rightarrow> unit result \<times> db" where
  "handleFailure w c dl st body d =
     (let (e, n) = c; attempts = wd_attempts dl in
      if attempts \<ge> wk_maxAttempts w then markDeadLetter n (wd_id dl) st body e d
      else markRetry n (wd_id dl) st body (nextRetryAt (rt_now e) (attempts + 1)) e d)"

text \<open>No endpoint and no error when the endpoint is gone.\<close>

definition loadDeliveryContext ::
  "net \<Rightarrow> WebhookDelivery \<Rightarrow> rt \<Rightarrow> db \<Rightarrow> (WebhookEndpoint \<times> OutboxEvent) option result \<times> db" where
  "loadDeliveryContext n dl e d =
     (case nt_load n of
        Some err \<Rightarrow> (Inl err, d)
      | None \<Rightarrow> WithOperator
          (bnd (try_tx (q_GetWebhookEndpointByID (wd_endpoint dl) (wd_provider dl) (wd_env dl))) (\<lambda>r.
           case r of
             Inl err \<Rightarrow> if err = ErrNoRows then ret None else throw err
           | Inr ep \<Rightarrow>
               bnd (q_GetOutboxEventByIDForWebhook (wd_outbox dl) (wd_provider dl) (wd_env dl)) (\<lambda>ev.
               ret (Some (ep, ev))))) e d)"

definition webhook_request :: "rt \<Rightarrow> net \<Rightarrow> WebhookEndpoint \<Rightarrow> OutboxEvent \<Rightarrow> WebhookRequest" where
  "webhook_request e n ep ev =
     (let timestamp = nt_decimal n (rt_now e div Second) in
      \<lparr>hr_url = we_url ep, hr_body = nt_bytes n (ob_payload ev),
       hr_signature = signPayload (nt_mac n) (we_secret ep) timestamp (nt_bytes n (ob_payload ev)),
       hr_timestamp = timestamp, hr_event_type = ob_type ev, hr_schema_version = WebhookSchemaVersion\<rparr>)"

text \<open>A refused URL (\<open>Inl\<close>) or the reply to the one request made.\<close>

definition deliver :: "rt \<Rightarrow> net \<Rightarrow> WebhookEndpoint \<Rightarrow> OutboxEvent \<Rightarrow> string + WebhookRequest \<times> reply" where
  "deliver e n ep ev =
     (case nt_validate n (we_url ep) of
        Some m \<Rightarrow> Inl (''webhook URL blocked by SSRF policy: '' @ m)
      | None \<Rightarrow> (let req = webhook_request e n ep ev in Inr (req, nt_post n req)))"

text \<open>The result has the requests that were posted.\<close>

definition processDelivery ::
  "rt \<times> net \<Rightarrow> WebhookDelivery \<Rightarrow> Worker \<Rightarrow> db \<Rightarrow> unit result \<times> WebhookRequest list \<times> Worker \<times> db" where
  "processDelivery c dl w d0 =
     (let (e, n) = c in
      case loadDeliveryContext n dl e d0 of
        (Inl err, d) \<Rightarrow> (Inl err, [], w, d)
      | (Inr None, d) \<Rightarrow>
          (let (res, d') = markDeadLetter n (wd_id dl) 0 ''endpoint not found'' e d in (res, [], w, d'))
      | (Inr (Some (ep, ev)), d) \<Rightarrow>
          (let (ok, b) = Allow (rt_now e) (breakerFor (we_id ep) w) in
           if \<not> ok then
             (let (res, d') = handleFailure w c dl 0 ''circuit breaker open'' d
              in (res, [], set_breaker (we_id ep) b w, d'))
           else (case deliver e n ep ev of
               Inl err \<Rightarrow>
                 (let (res, d') = handleFailure w c dl 0 err d
                  in (res, [], set_breaker (we_id ep) (OnSuccess b) w, d'))
             | Inr (req, NoResponse err) \<Rightarrow>
                 (let (res, d') = handleFailure w c dl 0 err d
                  in (res, [req], set_breaker (we_id ep) (OnFailure (rt_now e) b) w, d'))
             | Inr (req, Response st body) \<Rightarrow>
                 if st \<ge> 200 \<and> st < 300 then
                   (let (res, d') = markDelivered n (wd_id dl) st body e d
                    in (res, [req], set_breaker (we_id ep) (OnSuccess b) w, d'))
                 else
                   (let (res, d') = handleFailure w c dl st body d
                    in (res, [req],
                        set_breaker (we_id ep) (if st \<ge> 500 then OnFailure (rt_now e) b else OnSuccess b) w, d')))))"

text \<open>An error is logged and the loop goes on; the log has for each delivery its posts and
  whether its outcome was stored.\<close>

type_synonym post_log = "(uuid \<times> WebhookRequest list \<times> bool) list"

fun process_all ::
  "(nat \<Rightarrow> rt \<times> net) \<Rightarrow> WebhookDelivery list \<Rightarrow> Worker \<Rightarrow> db \<Rightarrow> post_log \<times> Worker \<times> db" where
  "process_all cs [] w d = ([], w, d)"
| "process_all cs (dl # dls) w d =
     (let (res, posts, w', d') = processDelivery (cs 0) dl w d;
          (log, w'', d'') = process_all (\<lambda>i. cs (Suc i)) dls w' d'
      in ((wd_id dl, posts, is_ok res) # log, w'', d''))"

definition deliverPending ::
  "rt \<Rightarrow> (nat \<Rightarrow> rt \<times> net) \<Rightarrow> Worker \<Rightarrow> db \<Rightarrow> unit result \<times> post_log \<times> Worker \<times> db" where
  "deliverPending e cs w d =
     (case WithOperator (q_ClaimPendingWebhookDeliveries deliveryBatch) e d of
        (Inl err, d') \<Rightarrow> (Inl err, [], w, d')
      | (Inr dls, d') \<Rightarrow> (Inr (), process_all cs dls w d'))"

definition DrainOnce ::
  "rt \<Rightarrow> (nat \<Rightarrow> rt \<times> net) \<Rightarrow> Worker \<Rightarrow> db \<Rightarrow> unit result \<times> post_log \<times> Worker \<times> db" where
  "DrainOnce e cs w d =
     (case createDeliveries e d of
        (Inl err, d') \<Rightarrow> (Inl err, [], w, d')
      | (Inr _, d') \<Rightarrow> deliverPending e cs w d')"

section \<open>The schedule\<close>

interpretation webhook_retry: retry_schedule nextRetryAt retryBase retryCap
proof unfold_locales
  show "nextRetryAt now k = now + min retryCap (retryBase * 2 ^ nat (k - 1))"
    if "1 \<le> k" "k < 2 ^ 63" for now k
  proof -
    have k: "- (2 ^ 63) \<le> k" using that by simp
    have "nextRetryAt now k = now + (let delay = shl64 retryBase (to_uint (k - 1))
        in if delay > retryCap \<or> delay \<le> 0 then retryCap else delay)"
      by (simp add: nextRetryAt_def Let_def)
    then show ?thesis
      unfolding shifted_delay [OF k that(2)] min_delay [OF that(1)] .
  qed
qed simp_all

section \<open>Signatures verify what was signed\<close>

lemma from_hex_digit: "from_hex (hex_digit n) = Some (n mod 16)"
proof -
  have "\<forall>m<16. from_hex (hex_digit m) = Some m" by code_simp
  then have "from_hex (hex_digit (n mod 16)) = Some (n mod 16)" by simp
  then show ?thesis by simp
qed

lemma hex_decode_encode: "\<forall>b\<in>set bs. b < 256 \<Longrightarrow> hex_decode (hex_encode bs) = Some bs"
proof (induction bs)
  case (Cons b bs)
  have b: "hex_encode (b # bs) = hex_digit (b div 16) # hex_digit b # hex_encode bs"
    by (simp add: hex_encode_def)
  from Cons.prems have "b div 16 < 16" by auto
  then have "16 * (b div 16 mod 16) + b mod 16 = b" by simp
  with Cons show ?case by (simp add: b from_hex_digit del: hex_digit.simps)
qed (simp add: hex_encode_def)

definition digit_text :: "string \<Rightarrow> bool" where
  "digit_text s \<longleftrightarrow> list_all (\<lambda>c. c \<in> set ''0123456789'') s"

text \<open>
  C23. A webhook signature verifies exactly the message it was made for: with a keyed hash
  without collisions, a signature made over one timestamp and one payload verifies under the
  same secret for that timestamp and that payload and for no other. The timestamp and the
  payload are hashed without a separator; that is sound because a timestamp has only digits
  and a payload is a JSON object.
\<close>

theorem webhook_signature_exact:
  assumes "inj (mac key)" "\<And>m. list_all (\<lambda>b. b < 256) (mac key m)"
    and "digit_text ts" "digit_text ts'" "has_prefix body ''{''" "has_prefix body' ''{''"
  shows "VerifySignature mac key ts body (signPayload mac key ts' body') \<longleftrightarrow> ts = ts' \<and> body = body'"
proof -
  have dec: "hex_decode (signPayload mac key t b) = Some (mac key (t @ b))" for t b
    using assms(2) by (simp add: signPayload_def hex_decode_encode list_all_iff)
  obtain u u' where u: "body = CHR ''{'' # u" "body' = CHR ''{'' # u'"
    using assms(5,6) by (auto simp: has_prefix_iff)
  have "CHR ''{'' \<notin> set ''0123456789''" by simp
  then have "CHR ''{'' \<notin> set ts" "CHR ''{'' \<notin> set ts'"
    using assms(3,4) unfolding digit_text_def list_all_iff by blast+
  then have "ts @ body = ts' @ body' \<longleftrightarrow> ts = ts' \<and> body = body'" by (auto simp: u split_first)
  with assms(1) show ?thesis by (auto simp: VerifySignature_def dec dest: injD)
qed

theorem webhook_signature_exact_witness:
  "\<not> VerifySignature (\<lambda>k m. map of_char m) ''k'' ''12'' ''{}'' (signPayload (\<lambda>k m. map of_char m) ''k'' ''1'' ''{2}'')"
proof -
  let ?mac = "\<lambda>k m. map (of_char :: char \<Rightarrow> nat) m"
  have inj: "inj (?mac ''k'')" by (intro inj_mapI) (simp add: inj_on_def)
  have bytes: "list_all (\<lambda>b. b < 256) (?mac ''k'' m)" for m by (simp add: list_all_iff)
  have "VerifySignature ?mac ''k'' ''12'' ''{}'' (signPayload ?mac ''k'' ''1'' ''{2}'') \<longleftrightarrow>
      ''12'' = ''1'' \<and> ''{}'' = ''{2}''"
    by (rule webhook_signature_exact [OF inj bytes]) (simp_all add: digit_text_def has_prefix_def)
  then show ?thesis by simp
qed

section \<open>A small outbox\<close>

definition hook_demo :: db where
  "hook_demo = demo_db\<lparr>
     db_outbox := [\<lparr>ob_id = ''o1'', ob_provider = ''p1'', ob_env = ''e1'', ob_agg_type = ''plan'', ob_agg_id = ''a'',
       ob_type = ''plan.updated'', ob_payload = RawJson JNull, ob_hash = ''h'', ob_tx = ''t1'',
       ob_status = ''published'', ob_attempts = 1, ob_created = 0, ob_published = Some 0, ob_next = None,
       ob_error = None\<rparr>],
     db_endpoints := [\<lparr>we_id = ''w1'', we_provider = ''p1'', we_env = ''e1'', we_url = ''u'', we_secret = ''k'',
       we_enabled = True, we_events = []\<rparr>]\<rparr>"

definition demo_net :: net where
  "demo_net = \<lparr>nt_validate = (\<lambda>u. None), nt_mac = (\<lambda>k m. [1]), nt_bytes = (\<lambda>p. ''{}''), nt_decimal = (\<lambda>t. ''7''),
     nt_post = (\<lambda>r. Response 500 ''busy''), nt_load = None, nt_mark = None\<rparr>"

definition demo_opts :: Options where
  "demo_opts = \<lparr>FailureThreshold = 10, OpenTimeout = Minute, HalfOpenMax = 1\<rparr>"

section \<open>Creation is complete within its batch\<close>

definition undelivered :: "db \<Rightarrow> OutboxEvent list" where
  "undelivered d = filter (\<lambda>x. ob_status x = ''published'' \<and> ob_id x \<notin> wd_outbox ` set (db_deliveries d)) (db_outbox d)"

definition subscribers :: "OutboxEvent \<Rightarrow> db \<Rightarrow> WebhookEndpoint list" where
  "subscribers ev d = filter (\<lambda>ep. we_provider ep = ob_provider ev \<and> we_env ep = ob_env ev \<and> we_enabled ep \<and>
     eventMatchesFilter (ob_type ev) (we_events ep)) (db_endpoints d)"

lemma find_undelivered:
  "WithOperator (q_FindUndeliveredOutboxEvents n) e d = (Inr (take (nat n) (undelivered d)), d)"
  by (simp add: WithOperator_def run_tx_def bnd_def ret_def q_many_def live_tx_def rows_def undelivered_def
      webhook_deliveries_tb outbox_events_tb)

lemma list_enabled:
  "WithOperator (q_ListEnabledWebhooksByTenant p en) e d =
     (Inr (filter (\<lambda>x. we_provider x = p \<and> we_env x = en \<and> we_enabled x) (db_endpoints d)), d)"
  by (simp add: WithOperator_def run_tx_def q_many_def live_tx_def rows_def webhook_endpoints_tb)

text \<open>Ids drawn from now on are new.\<close>

definition fresh_ids :: "rt \<Rightarrow> db \<Rightarrow> bool" where
  "fresh_ids e d \<longleftrightarrow> inj (rt_gen e) \<and> (\<forall>x\<in>set (db_deliveries d). \<forall>n\<ge>db_seq d. rt_gen e n \<noteq> wd_id x)"

lemma createDelivery_new:
  assumes "fresh_ids e d" "ep \<in> set (db_endpoints d)"
    and "\<forall>x\<in>set (db_deliveries d). \<not> (wd_endpoint x = we_id ep \<and> wd_outbox x = ob_id ev)"
  shows "\<exists>x n. createDelivery ep ev e d = (Inr (), d\<lparr>db_deliveries := db_deliveries d @ [x], db_seq := n\<rparr>) \<and>
    wd_endpoint x = we_id ep \<and> wd_outbox x = ob_id ev \<and> wd_status x = ''pending'' \<and> wd_attempts x = 0 \<and>
    wd_provider x = ob_provider ev \<and> wd_env x = ob_env ev \<and>
    fresh_ids e (d\<lparr>db_deliveries := db_deliveries d @ [x], db_seq := n\<rparr>)"
proof -
  let ?x = "\<lparr>wd_id = rt_gen e (db_seq d), wd_endpoint = we_id ep, wd_outbox = ob_id ev,
     wd_provider = ob_provider ev, wd_env = ob_env ev, wd_status = ''pending'',
     wd_attempts = 0, wd_response_status = None, wd_response_body = None, wd_next = None,
     wd_delivered = None, wd_created = rt_now e\<rparr>"
  have "filter (\<lambda>x. wd_endpoint x = we_id ep \<and> wd_outbox x = ob_id ev) (db_deliveries d) = []"
    using assms(3) by (simp add: filter_empty_conv)
  moreover have "\<not> tb_clash webhook_deliveries ?x y" if "y \<in> set (db_deliveries d)" for y
    using that assms(1,3) by (auto simp: webhook_deliveries_tb fresh_ids_def)
  ultimately have "createDelivery ep ev e d =
      (Inr (), d\<lparr>db_deliveries := db_deliveries d @ [?x], db_seq := db_seq d + 1\<rparr>)"
    using assms(2)
    by (simp add: createDelivery_def WithOperator_def run_tx_def bnd_def ret_def now_tx_def get_rt_def draw_def
        q_CreateWebhookDelivery_def q_many_def q_insert_def live_tx_def rows_def webhook_deliveries_tb)
  moreover have "fresh_ids e (d\<lparr>db_deliveries := db_deliveries d @ [?x], db_seq := db_seq d + 1\<rparr>)"
    using assms(1) by (auto simp: fresh_ids_def dest: injD)
  ultimately show ?thesis by (intro exI [of _ ?x] exI [of _ "db_seq d + 1"]) simp
qed

text \<open>What one event's loop adds: one new delivery per endpoint that matches.\<close>

definition adds :: "rt \<Rightarrow> db \<Rightarrow> (uuid \<times> uuid) list \<Rightarrow> db \<Rightarrow> bool" where
  "adds e d pairs d' \<longleftrightarrow> (\<exists>new n. d' = d\<lparr>db_deliveries := db_deliveries d @ new, db_seq := n\<rparr> \<and>
     map (\<lambda>x. (wd_endpoint x, wd_outbox x)) new = pairs \<and>
     list_all (\<lambda>x. wd_status x = ''pending'' \<and> wd_attempts x = 0) new \<and> fresh_ids e d')"

lemma adds_refl: "fresh_ids e d \<Longrightarrow> adds e d [] d"
  unfolding adds_def by (intro exI [of _ "[]"] exI [of _ "db_seq d"]) simp

lemma adds_trans: "adds e d ps d' \<Longrightarrow> adds e d' qs d'' \<Longrightarrow> adds e d (ps @ qs) d''"
  unfolding adds_def by (elim exE conjE, rule_tac x = "new @ newa" in exI, rule_tac x = na in exI) simp

lemma adds_keeps: "adds e d ps d' \<Longrightarrow> db_endpoints d' = db_endpoints d \<and> db_outbox d' = db_outbox d \<and> fresh_ids e d' \<and>
  set (map (\<lambda>x. (wd_endpoint x, wd_outbox x)) (db_deliveries d')) =
    set (map (\<lambda>x. (wd_endpoint x, wd_outbox x)) (db_deliveries d)) \<union> set ps"
  by (auto simp: adds_def)

lemma create_for_endpoints_adds:
  assumes "fresh_ids e d" "distinct (map we_id eps)" "set eps \<subseteq> set (db_endpoints d)"
    and "\<forall>x\<in>set (db_deliveries d). wd_outbox x = ob_id ev \<longrightarrow> wd_endpoint x \<notin> we_id ` set eps"
  shows "adds e d (map (\<lambda>ep. (we_id ep, ob_id ev)) (filter (\<lambda>ep. eventMatchesFilter (ob_type ev) (we_events ep)) eps))
    (create_for_endpoints e ev eps d)"
  using assms
proof (induction eps arbitrary: d)
  case Nil
  then show ?case by (simp add: adds_refl)
next
  case (Cons ep eps)
  show ?case
  proof (cases "eventMatchesFilter (ob_type ev) (we_events ep)")
    case False
    with Cons show ?thesis by auto
  next
    case True
    obtain x n where x: "createDelivery ep ev e d = (Inr (), d\<lparr>db_deliveries := db_deliveries d @ [x], db_seq := n\<rparr>)"
      "wd_endpoint x = we_id ep" "wd_outbox x = ob_id ev" "wd_status x = ''pending''" "wd_attempts x = 0"
      "fresh_ids e (d\<lparr>db_deliveries := db_deliveries d @ [x], db_seq := n\<rparr>)"
      using createDelivery_new [of e d ep ev] Cons.prems by auto
    let ?d = "d\<lparr>db_deliveries := db_deliveries d @ [x], db_seq := n\<rparr>"
    have one: "adds e d [(we_id ep, ob_id ev)] ?d"
      unfolding adds_def using x by (intro exI [of _ "[x]"] exI [of _ n]) simp
    have "adds e ?d (map (\<lambda>ep. (we_id ep, ob_id ev)) (filter (\<lambda>ep. eventMatchesFilter (ob_type ev) (we_events ep)) eps))
        (create_for_endpoints e ev eps ?d)"
      by (rule Cons.IH) (use Cons.prems x in auto)
    from adds_trans [OF one this] show ?thesis by (simp add: True x(1))
  qed
qed

definition wanted :: "db \<Rightarrow> OutboxEvent list \<Rightarrow> (uuid \<times> uuid) list" where
  "wanted d evs = concat (map (\<lambda>ev. map (\<lambda>ep. (we_id ep, ob_id ev)) (subscribers ev d)) evs)"

lemma create_for_events_adds:
  assumes "fresh_ids e d" "distinct (map we_id (db_endpoints d))" "distinct (map ob_id evs)"
    and "\<forall>x\<in>set (db_deliveries d). wd_outbox x \<notin> ob_id ` set evs"
  shows "adds e d (wanted d evs) (create_for_events e evs d)"
  using assms
proof (induction evs arbitrary: d)
  case Nil
  then show ?case by (simp add: wanted_def adds_refl)
next
  case (Cons ev evs)
  let ?eps = "filter (\<lambda>x. we_provider x = ob_provider ev \<and> we_env x = ob_env ev \<and> we_enabled x) (db_endpoints d)"
  let ?d = "create_for_endpoints e ev ?eps d"
  have "filter (\<lambda>ep. eventMatchesFilter (ob_type ev) (we_events ep)) ?eps = subscribers ev d"
    unfolding subscribers_def filter_filter by (rule filter_cong) auto
  moreover have "adds e d (map (\<lambda>ep. (we_id ep, ob_id ev))
      (filter (\<lambda>ep. eventMatchesFilter (ob_type ev) (we_events ep)) ?eps)) ?d"
    by (rule create_for_endpoints_adds) (use Cons.prems in \<open>auto simp: distinct_map_filter\<close>)
  ultimately have one: "adds e d (map (\<lambda>ep. (we_id ep, ob_id ev)) (subscribers ev d)) ?d" by simp
  note keeps = adds_keeps [OF one]
  have "adds e ?d (wanted ?d evs) (create_for_events e evs ?d)"
  proof (rule Cons.IH)
    have "wd_outbox x \<noteq> ob_id ev'" if "x \<in> set (db_deliveries ?d)" "ev' \<in> set evs" for x ev'
    proof -
      have "(wd_endpoint x, wd_outbox x) \<in> set (map (\<lambda>x. (wd_endpoint x, wd_outbox x)) (db_deliveries ?d))"
        using that(1) by auto
      then have "(\<exists>y\<in>set (db_deliveries d). wd_outbox x = wd_outbox y) \<or> wd_outbox x = ob_id ev"
        using keeps by auto
      with Cons.prems(3,4) that(2) show ?thesis by (auto simp: rev_image_eqI)
    qed
    then show "\<forall>x\<in>set (db_deliveries ?d). wd_outbox x \<notin> ob_id ` set evs" by auto
  qed (use keeps Cons.prems in auto)
  moreover have "wanted ?d evs = wanted d evs" using keeps by (simp add: wanted_def subscribers_def)
  ultimately have "adds e d (map (\<lambda>ep. (we_id ep, ob_id ev)) (subscribers ev d) @ wanted d evs) (create_for_events e evs ?d)"
    using adds_trans [OF one] by simp
  then show ?case by (simp add: list_enabled wanted_def)
qed

lemma createDeliveries_runs:
  "createDeliveries e d = (Inr (), create_for_events e (take 500 (undelivered d)) d)"
  using find_undelivered [of 500 e d] by (simp add: createDeliveries_def)

text \<open>
  C22. Within its batch the worker misses no delivery and makes none twice: for the oldest 500
  published events that have no delivery yet, a cycle adds exactly one new pending delivery
  per event and enabled endpoint of the event's tenant whose filter takes it, in the order
  of the events and endpoints, and changes nothing else.
\<close>

theorem deliveries_created_once:
  assumes "fresh_ids e d" "distinct (map we_id (db_endpoints d))" "distinct (map ob_id (db_outbox d))"
  shows "\<exists>new n. createDeliveries e d = (Inr (), d\<lparr>db_deliveries := db_deliveries d @ new, db_seq := n\<rparr>) \<and>
    map (\<lambda>x. (wd_endpoint x, wd_outbox x)) new =
      [(we_id ep, ob_id ev). ev \<leftarrow> take 500 (undelivered d), ep \<leftarrow> subscribers ev d] \<and>
    list_all (\<lambda>x. wd_status x = ''pending'' \<and> wd_attempts x = 0) new"
proof -
  let ?evs = "take 500 (undelivered d)"
  have "distinct (map ob_id (undelivered d))"
    unfolding undelivered_def by (rule distinct_map_filter [OF assms(3)])
  then have "distinct (map ob_id ?evs)" by (metis distinct_take take_map)
  moreover have "ob_id ev \<notin> wd_outbox ` set (db_deliveries d)" if "ev \<in> set ?evs" for ev
    using that by (auto simp: undelivered_def dest!: in_set_takeD)
  then have "\<forall>x\<in>set (db_deliveries d). wd_outbox x \<notin> ob_id ` set ?evs" by (metis imageE imageI)
  ultimately have "adds e d (wanted d ?evs) (create_for_events e ?evs d)"
    by (rule create_for_events_adds [OF assms(1,2)])
  then show ?thesis
    unfolding adds_def wanted_def createDeliveries_runs by auto
qed

theorem deliveries_created_once_witness:
  "\<exists>new n. createDeliveries (demo_rt 5) hook_demo =
      (Inr (), hook_demo\<lparr>db_deliveries := db_deliveries hook_demo @ new, db_seq := n\<rparr>) \<and>
    map (\<lambda>x. (wd_endpoint x, wd_outbox x)) new = [(''w1'', ''o1'')]"
proof -
  have "fresh_ids (demo_rt 5) hook_demo"
    by (simp add: fresh_ids_def demo_defs hook_demo_def inj_on_def replicate_eq_replicate)
  moreover have "distinct (map we_id (db_endpoints hook_demo))" "distinct (map ob_id (db_outbox hook_demo))"
    by (simp_all add: hook_demo_def)
  ultimately have "\<exists>new n. createDeliveries (demo_rt 5) hook_demo =
      (Inr (), hook_demo\<lparr>db_deliveries := db_deliveries hook_demo @ new, db_seq := n\<rparr>) \<and>
    map (\<lambda>x. (wd_endpoint x, wd_outbox x)) new =
      [(we_id ep, ob_id ev). ev \<leftarrow> take 500 (undelivered hook_demo), ep \<leftarrow> subscribers ev hook_demo] \<and>
    list_all (\<lambda>x. wd_status x = ''pending'' \<and> wd_attempts x = 0) new"
    by (rule deliveries_created_once)
  moreover have "[(we_id ep, ob_id ev). ev \<leftarrow> take 500 (undelivered hook_demo), ep \<leftarrow> subscribers ev hook_demo] =
      [(''w1'', ''o1'')]"
    by code_simp
  ultimately show ?thesis by auto
qed

section \<open>Endpoints nobody listens to block the queue\<close>

lemma adds_nothing: "list_all (\<lambda>ev. subscribers ev d = []) evs \<Longrightarrow> create_for_events e evs d = d"
proof (induction evs)
  case (Cons ev evs)
  have "create_for_endpoints e ev eps d = d"
    if "\<forall>ep\<in>set eps. \<not> eventMatchesFilter (ob_type ev) (we_events ep)" for eps
    using that by (induction eps) auto
  moreover have "\<forall>ep\<in>set (filter (\<lambda>x. we_provider x = ob_provider ev \<and> we_env x = ob_env ev \<and> we_enabled x) (db_endpoints d)).
      \<not> eventMatchesFilter (ob_type ev) (we_events ep)"
    using Cons.prems by (auto simp: subscribers_def filter_empty_conv)
  ultimately show ?case using Cons by (simp add: list_enabled)
qed simp

text \<open>What the delivering half of a cycle keeps.\<close>

definition same_queue :: "db \<Rightarrow> db \<Rightarrow> bool" where
  "same_queue d d' \<longleftrightarrow> db_outbox d' = db_outbox d \<and> db_endpoints d' = db_endpoints d \<and>
     map (\<lambda>x. (wd_id x, wd_endpoint x, wd_outbox x)) (db_deliveries d') =
     map (\<lambda>x. (wd_id x, wd_endpoint x, wd_outbox x)) (db_deliveries d)"

lemma same_queue_refl [simp]: "same_queue d d"
  by (simp add: same_queue_def)

lemma same_queue_trans: "same_queue d d' \<Longrightarrow> same_queue d' d'' \<Longrightarrow> same_queue d d''"
  by (simp add: same_queue_def)

lemma same_queue_undelivered: "same_queue d d' \<Longrightarrow> undelivered d' = undelivered d \<and> subscribers ev d' = subscribers ev d"
proof -
  assume s: "same_queue d d'"
  then have "map (\<lambda>(i, e, u). u) (map (\<lambda>x. (wd_id x, wd_endpoint x, wd_outbox x)) (db_deliveries d')) =
      map (\<lambda>(i, e, u). u) (map (\<lambda>x. (wd_id x, wd_endpoint x, wd_outbox x)) (db_deliveries d))"
    unfolding same_queue_def by metis
  then have "map wd_outbox (db_deliveries d') = map wd_outbox (db_deliveries d)" by (simp add: comp_def)
  then have "wd_outbox ` set (db_deliveries d') = wd_outbox ` set (db_deliveries d)" by (metis list.set_map)
  with s show ?thesis by (simp add: same_queue_def undelivered_def subscribers_def)
qed

lemma outcome_exec_deliveries:
  assumes "\<And>x. wd_id (f x) = wd_id x \<and> wd_endpoint (f x) = wd_endpoint x \<and> wd_outbox (f x) = wd_outbox x"
  shows "outcome (\<lambda>x d'. same_queue d d') d (WithOperator (q_exec webhook_deliveries p f) e d)"
  by (intro wp_intros) (simp add: upd_rows_def put_rows_def webhook_deliveries_tb same_queue_def
      map_update_where assms)

section \<open>What a cycle does to the deliveries\<close>

definition open_delivery :: "WebhookDelivery \<Rightarrow> bool" where
  "open_delivery x \<longleftrightarrow> wd_status x = ''pending'' \<or> wd_status x = ''failed''"

text \<open>One claimed delivery, with the number of posts made for it and whether its outcome was
  stored; an outcome that was not leaves the row as it was claimed.\<close>

inductive hook_attempt :: "nat \<Rightarrow> bool \<Rightarrow> WebhookDelivery \<Rightarrow> WebhookDelivery \<Rightarrow> bool" where
  lost: "n \<le> 1 \<Longrightarrow> hook_attempt n False x x"
| delivered: "hook_attempt 1 True x (x\<lparr>wd_status := ''delivered'', wd_response_status := st, wd_response_body := body,
      wd_delivered := Some t\<rparr>)"
| retry: "n \<le> 1 \<Longrightarrow> wd_attempts x < defaultMaxAttempts \<Longrightarrow>
    hook_attempt n True x (x\<lparr>wd_status := ''failed'', wd_response_status := st, wd_response_body := body,
      wd_next := Some (nextRetryAt t (wd_attempts x + 1))\<rparr>)"
| dead: "n \<le> 1 \<Longrightarrow> n = 0 \<or> defaultMaxAttempts \<le> wd_attempts x \<Longrightarrow>
    hook_attempt n True x (x\<lparr>wd_status := ''dead_letter'', wd_response_status := st, wd_response_body := body,
      wd_next := None\<rparr>)"

inductive_cases hook_attemptE: "hook_attempt n ok x y"

definition hook_inv :: "db \<Rightarrow> bool" where
  "hook_inv d \<longleftrightarrow> distinct (map wd_id (db_deliveries d)) \<and>
     (\<forall>x\<in>set (db_deliveries d). wd_endpoint x \<in> we_id ` set (db_endpoints d))"

lemma exec_deliveries:
  assumes "hook_inv d"
    and "\<And>x. wd_endpoint (f x) = wd_endpoint x \<and> wd_status (f x) \<in> {''pending'', ''delivered'', ''failed'', ''dead_letter''}"
  shows "WithOperator (q_exec webhook_deliveries p f) e d =
    (Inr (), d\<lparr>db_deliveries := update_where p f (db_deliveries d)\<rparr>)"
  using assms by (simp add: WithOperator_def run_tx_def q_exec_def q_update_def live_tx_def bnd_def ret_def
      webhook_deliveries_tb Let_def hook_inv_def)

text \<open>A mark stores its outcome if its transaction runs and the body is text, and otherwise
  changes nothing.\<close>

definition marks :: "net \<Rightarrow> string \<Rightarrow> bool" where
  "marks n body \<longleftrightarrow> nt_mark n = None \<and> text_ok body"

lemma mark_tx_runs:
  assumes "\<And>b. WithOperator (q b) e d = (Inr (), f b)"
  shows "is_ok (fst (mark_tx n body q e d)) \<longleftrightarrow> marks n body"
    and "snd (mark_tx n body q e d) = (if marks n body then f (opt_text body) else d)"
  using assms [of "opt_text body"]
  by (auto simp: mark_tx_def marks_def is_ok_def WithOperator_def run_tx_def bnd_def check_def ret_def throw_def
      split: option.split)

lemma hook_marks:
  assumes "hook_inv d"
  shows "is_ok (fst (markDelivered n i st body e d)) \<longleftrightarrow> marks n body"
    and "snd (markDelivered n i st body e d) = (if marks n body then d\<lparr>db_deliveries := update_where (\<lambda>x. wd_id x = i)
      (\<lambda>x. x\<lparr>wd_status := ''delivered'', wd_response_status := int_to_pg st, wd_response_body := opt_text body,
             wd_delivered := Some (rt_now e)\<rparr>) (db_deliveries d)\<rparr> else d)"
    and "is_ok (fst (markRetry n i st body t e d)) \<longleftrightarrow> marks n body"
    and "snd (markRetry n i st body t e d) = (if marks n body then d\<lparr>db_deliveries := update_where (\<lambda>x. wd_id x = i)
      (\<lambda>x. x\<lparr>wd_status := ''failed'', wd_response_status := int_to_pg st, wd_response_body := opt_text body,
             wd_next := Some t\<rparr>) (db_deliveries d)\<rparr> else d)"
    and "is_ok (fst (markDeadLetter n i st body e d)) \<longleftrightarrow> marks n body"
    and "snd (markDeadLetter n i st body e d) = (if marks n body then d\<lparr>db_deliveries := update_where (\<lambda>x. wd_id x = i)
      (\<lambda>x. x\<lparr>wd_status := ''dead_letter'', wd_response_status := int_to_pg st, wd_response_body := opt_text body,
             wd_next := None\<rparr>) (db_deliveries d)\<rparr> else d)"
proof -
  note r = mark_tx_runs [OF exec_deliveries [OF assms], where n = n and body = body]
  show "is_ok (fst (markDelivered n i st body e d)) \<longleftrightarrow> marks n body"
    "is_ok (fst (markRetry n i st body t e d)) \<longleftrightarrow> marks n body"
    "is_ok (fst (markDeadLetter n i st body e d)) \<longleftrightarrow> marks n body"
    unfolding markDelivered_def markRetry_def markDeadLetter_def by (rule r(1), simp)+
  show "snd (markDelivered n i st body e d) = (if marks n body then d\<lparr>db_deliveries := update_where (\<lambda>x. wd_id x = i)
      (\<lambda>x. x\<lparr>wd_status := ''delivered'', wd_response_status := int_to_pg st, wd_response_body := opt_text body,
             wd_delivered := Some (rt_now e)\<rparr>) (db_deliveries d)\<rparr> else d)"
    unfolding markDelivered_def by (rule r(2)) simp
  show "snd (markRetry n i st body t e d) = (if marks n body then d\<lparr>db_deliveries := update_where (\<lambda>x. wd_id x = i)
      (\<lambda>x. x\<lparr>wd_status := ''failed'', wd_response_status := int_to_pg st, wd_response_body := opt_text body,
             wd_next := Some t\<rparr>) (db_deliveries d)\<rparr> else d)"
    unfolding markRetry_def by (rule r(2)) simp
  show "snd (markDeadLetter n i st body e d) = (if marks n body then d\<lparr>db_deliveries := update_where (\<lambda>x. wd_id x = i)
      (\<lambda>x. x\<lparr>wd_status := ''dead_letter'', wd_response_status := int_to_pg st, wd_response_body := opt_text body,
             wd_next := None\<rparr>) (db_deliveries d)\<rparr> else d)"
    unfolding markDeadLetter_def by (rule r(2)) simp
qed

lemma load_keeps: "snd (loadDeliveryContext n dl e d) = d"
  by (auto simp: loadDeliveryContext_def WithOperator_def run_tx_def bnd_def ret_def throw_def try_tx_def q_one_def
      live_tx_def split: option.splits sum.splits prod.splits if_splits)

text \<open>A delivery meets an environment in which its outcome can be stored.\<close>

definition reply_text :: "reply \<Rightarrow> string" where
  "reply_text r = (case r of NoResponse err \<Rightarrow> err | Response st body \<Rightarrow> body)"

definition reliable :: "rt \<times> net \<Rightarrow> bool" where
  "reliable c \<longleftrightarrow> nt_mark (snd c) = None \<and> (\<forall>r. text_ok (reply_text (nt_post (snd c) r)))"

text \<open>Processing a delivery is one attempt at its row; nothing else in the database changes.\<close>

definition attempted :: "WebhookDelivery \<Rightarrow> db \<Rightarrow> nat \<Rightarrow> unit result \<Rightarrow> db \<Rightarrow> bool" where
  "attempted dl d k res d' \<longleftrightarrow> (\<exists>f. hook_attempt k (is_ok res) dl (f dl) \<and>
     d' = d\<lparr>db_deliveries := update_where (\<lambda>x. wd_id x = wd_id dl) f (db_deliveries d)\<rparr> \<and>
     (\<forall>x. (wd_id (f x), wd_endpoint (f x), wd_outbox (f x)) = (wd_id x, wd_endpoint x, wd_outbox x)))"

lemma attempted_lost: "k \<le> 1 \<Longrightarrow> \<not> is_ok res \<Longrightarrow> attempted dl d k res d"
  unfolding attempted_def by (intro exI [of _ "\<lambda>x. x"]) (simp add: update_where_def hook_attempt.lost)

lemma attempted_mark:
  assumes "is_ok res \<longleftrightarrow> ok" "k \<le> 1"
    and "d' = (if ok then d\<lparr>db_deliveries := update_where (\<lambda>x. wd_id x = wd_id dl) f (db_deliveries d)\<rparr> else d)"
    and "hook_attempt k True dl (f dl)"
    and "\<And>x. (wd_id (f x), wd_endpoint (f x), wd_outbox (f x)) = (wd_id x, wd_endpoint x, wd_outbox x)"
  shows "attempted dl d k res d'"
proof (cases ok)
  case True
  with assms show ?thesis unfolding attempted_def by (intro exI [of _ f]) simp
next
  case False
  with assms show ?thesis by (simp add: attempted_lost)
qed

lemma attempted_failure:
  assumes "hook_inv d" "wk_maxAttempts w = defaultMaxAttempts" "k \<le> 1"
  shows "attempted dl d k (fst (handleFailure w c dl st body d)) (snd (handleFailure w c dl st body d))"
    and "is_ok (fst (handleFailure w c dl st body d)) \<longleftrightarrow> marks (snd c) body"
proof -
  obtain e n where c: "c = (e, n)" by (cases c)
  show "attempted dl d k (fst (handleFailure w c dl st body d)) (snd (handleFailure w c dl st body d))"
  proof (cases "defaultMaxAttempts \<le> wd_attempts dl")
    case True
    with assms show ?thesis
      by (simp add: handleFailure_def c)
        (rule attempted_mark [OF hook_marks(5) [OF assms(1)] assms(3) hook_marks(6) [OF assms(1)]],
          simp_all add: hook_attempt.dead)
  next
    case False
    with assms show ?thesis
      by (simp add: handleFailure_def c)
        (rule attempted_mark [OF hook_marks(3) [OF assms(1)] assms(3) hook_marks(4) [OF assms(1)]],
          simp_all add: hook_attempt.retry)
  qed
  show "is_ok (fst (handleFailure w c dl st body d)) \<longleftrightarrow> marks (snd c) body"
    using assms(2) by (simp add: handleFailure_def c Let_def hook_marks [OF assms(1)])
qed

lemma hook_process:
  assumes "hook_inv d" "wk_maxAttempts w = defaultMaxAttempts"
    and "processDelivery c dl w d = (res, ps, w', d')"
  shows "attempted dl d (length ps) res d' \<and> wk_maxAttempts w' = defaultMaxAttempts \<and>
    (reliable c \<and> ps \<noteq> [] \<longrightarrow> is_ok res)"
proof -
  obtain e n where c: "c = (e, n)" by (cases c)
  obtain r d0 where l: "loadDeliveryContext n dl e d = (r, d0)" by fastforce
  then have d0: "d0 = d" using load_keeps [of n dl e d] by simp
  have w: "wk_maxAttempts (set_breaker i b w) = defaultMaxAttempts" for i b
    using assms(2) by (simp add: set_breaker_def)
  note fail = attempted_failure [OF assms(1,2), where c = c and dl = dl]
  have deliv: "attempted dl d 1 (fst (markDelivered n (wd_id dl) st body e d)) (snd (markDelivered n (wd_id dl) st body e d))"
    for st body
    by (rule attempted_mark [OF hook_marks(1) [OF assms(1)] _ hook_marks(2) [OF assms(1)]])
      (simp_all add: hook_attempt.delivered [unfolded One_nat_def])
  have gone: "attempted dl d 0 (fst (markDeadLetter n (wd_id dl) 0 body e d)) (snd (markDeadLetter n (wd_id dl) 0 body e d))"
    for body
    by (rule attempted_mark [OF hook_marks(5) [OF assms(1)] _ hook_marks(6) [OF assms(1)]])
      (simp_all add: hook_attempt.dead)
  have rel: "reliable c \<Longrightarrow> marks n (reply_text (nt_post n q))" for q
    by (simp add: reliable_def marks_def c)
  show ?thesis
  proof (cases r)
    case (Inl err)
    with assms show ?thesis by (auto simp: c processDelivery_def l d0 is_ok_def intro: attempted_lost)
  next
    case (Inr found)
    show ?thesis
    proof (cases found)
      case None
      with Inr assms gone show ?thesis
        by (auto simp: c processDelivery_def l d0 split_beta)
    next
      case (Some p)
      obtain ep ev where p: "p = (ep, ev)" by (cases p)
      let ?req = "webhook_request e n ep ev"
      show ?thesis
      proof (cases "nt_validate n (we_url ep)")
        case (Some m)
        then show ?thesis using assms(2,3) Inr \<open>found = Some p\<close> fail [of 0]
          by (auto simp: c processDelivery_def l d0 p deliver_def w split_beta split: if_splits)
      next
        case None
        then show ?thesis using assms(2,3) Inr \<open>found = Some p\<close> fail [of 0] fail [of 1] deliv rel [of ?req]
          by (cases "nt_post n ?req")
            (auto simp: c processDelivery_def l d0 p deliver_def w split_beta Let_def reply_text_def hook_marks(1) [OF assms(1)]
              split: if_splits)
      qed
    qed
  qed
qed

section \<open>The budget of posts\<close>

text \<open>The posts made for a delivery: those whose outcome was stored, and the others.\<close>

definition posts_of :: "post_log \<Rightarrow> uuid \<Rightarrow> nat" where
  "posts_of log i = sum_list (map (\<lambda>(j, ps, ok). if j = i then length ps else 0) log)"

definition stored_of :: "post_log \<Rightarrow> uuid \<Rightarrow> nat" where
  "stored_of log i = posts_of (filter (\<lambda>(j, ps, ok). ok) log) i"

definition lost_of :: "post_log \<Rightarrow> uuid \<Rightarrow> nat" where
  "lost_of log i = posts_of (filter (\<lambda>(j, ps, ok). \<not> ok) log) i"

lemma posts_of_simps [simp]:
  "posts_of [] i = 0" "posts_of ((j, ps, ok) # log) i = (if j = i then length ps else 0) + posts_of log i"
  "posts_of (log @ log') i = posts_of log i + posts_of log' i"
  by (simp_all add: posts_of_def)

lemma stored_of_simps [simp]:
  "stored_of [] i = 0"
  "stored_of ((j, ps, ok) # log) i = (if j = i \<and> ok then length ps else 0) + stored_of log i"
  "stored_of (log @ log') i = stored_of log i + stored_of log' i"
  by (simp_all add: stored_of_def)

lemma posts_stored_lost: "posts_of log i = stored_of log i + lost_of log i"
  by (induction log) (auto simp: lost_of_def)

lemma lost_of_none: "\<forall>(j, ps, ok)\<in>set log. ps \<noteq> [] \<longrightarrow> ok \<Longrightarrow> lost_of log i = 0"
  by (induction log) (fastforce simp: lost_of_def)+

text \<open>With \<open>p\<close> stored posts so far: at most three, at most two while it is open, and while it is
  open no more than it has been claimed.\<close>

definition row_budget :: "nat \<Rightarrow> WebhookDelivery \<Rightarrow> bool" where
  "row_budget p x \<longleftrightarrow> p \<le> 3 \<and> 0 \<le> wd_attempts x \<and> (open_delivery x \<longrightarrow> p \<le> 2 \<and> int p \<le> wd_attempts x)"

definition claimed_budget :: "nat \<Rightarrow> WebhookDelivery \<Rightarrow> bool" where
  "claimed_budget p x \<longleftrightarrow> open_delivery x \<and> p \<le> 2 \<and> int p + 1 \<le> wd_attempts x"

lemma attempt_budget: "claimed_budget p x \<Longrightarrow> hook_attempt n ok x y \<Longrightarrow> row_budget (p + (if ok then n else 0)) y"
  by (erule hook_attemptE) (auto simp: claimed_budget_def row_budget_def open_delivery_def)

definition budget_inv :: "(uuid \<Rightarrow> nat) \<Rightarrow> db \<Rightarrow> bool" where
  "budget_inv P d \<longleftrightarrow> hook_inv d \<and> (\<forall>i. i \<notin> wd_id ` set (db_deliveries d) \<longrightarrow> P i = 0) \<and>
     (\<forall>x\<in>set (db_deliveries d). row_budget (P (wd_id x)) x)"

text \<open>While a batch is processed: the rows still to come are as they were claimed.\<close>

definition batch_inv :: "(uuid \<Rightarrow> nat) \<Rightarrow> WebhookDelivery list \<Rightarrow> db \<Rightarrow> bool" where
  "batch_inv P dls d \<longleftrightarrow> hook_inv d \<and> (\<forall>i. i \<notin> wd_id ` set (db_deliveries d) \<longrightarrow> P i = 0) \<and>
     set dls \<subseteq> set (db_deliveries d) \<and> distinct (map wd_id dls) \<and>
     (\<forall>x\<in>set dls. claimed_budget (P (wd_id x)) x) \<and>
     (\<forall>x\<in>set (db_deliveries d). x \<notin> set dls \<longrightarrow> row_budget (P (wd_id x)) x)"

lemma hook_inv_update:
  assumes "hook_inv d" "\<And>x. (wd_id (f x), wd_endpoint (f x), wd_outbox (f x)) = (wd_id x, wd_endpoint x, wd_outbox x)"
  shows "hook_inv (d\<lparr>db_deliveries := update_where p f (db_deliveries d)\<rparr>)"
  using assms by (auto simp: hook_inv_def map_update_where set_update_where)

lemma batch_step:
  assumes "batch_inv P (dl # dls) d" "wk_maxAttempts w = defaultMaxAttempts"
    and "processDelivery c dl w d = (res, ps, w', d')"
  shows "batch_inv (\<lambda>i. (if wd_id dl = i \<and> is_ok res then length ps else 0) + P i) dls d' \<and>
    wk_maxAttempts w' = defaultMaxAttempts \<and> same_queue d d' \<and> (reliable c \<and> ps \<noteq> [] \<longrightarrow> is_ok res)"
proof -
  have inv: "hook_inv d" using assms(1) by (simp add: batch_inv_def)
  note hp = hook_process [OF inv assms(2,3)]
  obtain f where f: "hook_attempt (length ps) (is_ok res) dl (f dl)"
    "d' = d\<lparr>db_deliveries := update_where (\<lambda>x. wd_id x = wd_id dl) f (db_deliveries d)\<rparr>"
    "\<And>x. (wd_id (f x), wd_endpoint (f x), wd_outbox (f x)) = (wd_id x, wd_endpoint x, wd_outbox x)"
    using hp by (auto simp: attempted_def)
  have same: "x = dl" if "x \<in> set (db_deliveries d)" "wd_id x = wd_id dl" for x
    using distinct_keys_unique [of wd_id "db_deliveries d" x dl] inv assms(1) that
    by (simp add: hook_inv_def batch_inv_def)
  have rows: "set (db_deliveries d') = insert (f dl) (set (db_deliveries d) - {dl})"
  proof -
    have "dl \<in> set (db_deliveries d)" using assms(1) by (simp add: batch_inv_def)
    then have "{r \<in> set (db_deliveries d). wd_id r = wd_id dl} = {dl}"
      "{r \<in> set (db_deliveries d). wd_id r \<noteq> wd_id dl} = set (db_deliveries d) - {dl}"
      using same by blast+
    then show ?thesis unfolding f(2) by (simp add: set_update_where)
  qed
  have "map wd_id (db_deliveries d') = map wd_id (db_deliveries d)"
    unfolding f(2) using f(3) by (simp add: map_update_where)
  then have ids: "wd_id ` set (db_deliveries d') = wd_id ` set (db_deliveries d)" by (metis list.set_map)
  have "claimed_budget (P (wd_id dl)) dl" using assms(1) by (simp add: batch_inv_def)
  from attempt_budget [OF this f(1)] have budget:
    "row_budget ((if is_ok res then length ps else 0) + P (wd_id dl)) (f dl)"
    by (simp add: add.commute)
  let ?Q = "\<lambda>i. (if wd_id dl = i \<and> is_ok res then length ps else 0) + P i"
  have b: "dl \<in> set (db_deliveries d)" "set dls \<subseteq> set (db_deliveries d)" "wd_id dl \<notin> wd_id ` set dls"
    "distinct (map wd_id dls)" "\<forall>i. i \<notin> wd_id ` set (db_deliveries d) \<longrightarrow> P i = 0"
    "\<forall>x\<in>set dls. claimed_budget (P (wd_id x)) x"
    "\<forall>x\<in>set (db_deliveries d). x \<noteq> dl \<longrightarrow> x \<notin> set dls \<longrightarrow> row_budget (P (wd_id x)) x"
    using assms(1) by (auto simp: batch_inv_def)
  have keep: "?Q (wd_id x) = P (wd_id x)" if "x \<in> set (db_deliveries d)" "x \<noteq> dl" for x
    using same that by auto
  have "hook_inv d'" unfolding f(2) by (rule hook_inv_update [OF inv f(3)])
  moreover have "?Q i = 0" if "i \<notin> wd_id ` set (db_deliveries d')" for i
    using that b(1,5) unfolding ids by auto
  moreover have "set dls \<subseteq> set (db_deliveries d')" using b(2,3) rows by auto
  moreover have "claimed_budget (?Q (wd_id x)) x" if "x \<in> set dls" for x
    using that b(2,3,6) keep [of x] by auto
  moreover have "row_budget (?Q (wd_id x)) x" if x: "x \<in> set (db_deliveries d')" "x \<notin> set dls" for x
  proof (cases "x = f dl")
    case True
    moreover have "wd_id (f dl) = wd_id dl" using f(3) by blast
    ultimately show ?thesis using budget by simp
  next
    case False
    with x(1) rows have "x \<in> set (db_deliveries d)" "x \<noteq> dl" by auto
    with b(7) x(2) keep [of x] show ?thesis by metis
  qed
  ultimately have "batch_inv ?Q dls d'" using b(4) by (simp add: batch_inv_def)
  moreover have "same_queue d d'"
    using f(3) by (simp add: same_queue_def f(2) map_update_where)
  ultimately show ?thesis using hp by simp
qed

lemma batch_nil: "batch_inv P [] d \<longleftrightarrow> budget_inv P d"
  by (auto simp: batch_inv_def budget_inv_def)

text \<open>In a reliable environment every post is stored.\<close>

definition all_stored :: "post_log \<Rightarrow> bool" where
  "all_stored log \<longleftrightarrow> (\<forall>(j, ps, ok)\<in>set log. ps \<noteq> [] \<longrightarrow> ok)"

lemma batch_all:
  "batch_inv P dls d \<Longrightarrow> wk_maxAttempts w = defaultMaxAttempts \<Longrightarrow> process_all cs dls w d = (log, w', d') \<Longrightarrow>
   budget_inv (\<lambda>i. stored_of log i + P i) d' \<and> wk_maxAttempts w' = defaultMaxAttempts \<and> same_queue d d' \<and>
   ((\<forall>k. reliable (cs k)) \<longrightarrow> all_stored log)"
proof (induction dls arbitrary: cs P w d log)
  case Nil
  then show ?case by (simp add: batch_nil all_stored_def)
next
  case (Cons dl dls)
  obtain res ps w1 d1 where p: "processDelivery (cs 0) dl w d = (res, ps, w1, d1)" by (metis prod_cases4)
  obtain log1 where l: "process_all (\<lambda>i. cs (Suc i)) dls w1 d1 = (log1, w', d')" "log = (wd_id dl, ps, is_ok res) # log1"
    using Cons.prems(3) by (auto simp: p split: prod.splits)
  note s = batch_step [OF Cons.prems(1,2) p]
  have "budget_inv (\<lambda>i. stored_of log1 i + ((if wd_id dl = i \<and> is_ok res then length ps else 0) + P i)) d' \<and>
      wk_maxAttempts w' = defaultMaxAttempts \<and> same_queue d1 d' \<and> ((\<forall>k. reliable (cs (Suc k))) \<longrightarrow> all_stored log1)"
    by (rule Cons.IH [OF _ _ l(1)]) (use s in auto)
  moreover have "(\<lambda>i. stored_of log1 i + ((if wd_id dl = i \<and> is_ok res then length ps else 0) + P i)) =
      (\<lambda>i. stored_of log i + P i)"
    by (simp add: l(2) fun_eq_iff)
  moreover have "all_stored log" if "\<forall>k. reliable (cs k)" "all_stored log1"
    using that s by (auto simp: all_stored_def l(2))
  ultimately show ?case using s same_queue_trans by metis
qed

lemma claim_open: "delivery_due now x \<Longrightarrow> open_delivery x"
  by (auto simp: delivery_due_def open_delivery_def)

lemma claim_batch:
  assumes "budget_inv P d" "set ds \<subseteq> set (db_deliveries d)" "\<forall>x\<in>set ds. open_delivery x"
  and hit: "\<And>x. hit x \<longleftrightarrow> wd_id x \<in> wd_id ` set ds"
    and bump_row: "\<And>x. bump_row x = x\<lparr>wd_next := Some t, wd_attempts := wd_attempts x + 1\<rparr>"
  shows "batch_inv P (map bump_row (filter hit (db_deliveries d)))
     (d\<lparr>db_deliveries := update_where hit bump_row (db_deliveries d)\<rparr>)"
proof -
  let ?rs = "db_deliveries d"
  have dist: "distinct (map wd_id ?rs)" and bud: "\<forall>x\<in>set ?rs. row_budget (P (wd_id x)) x"
    using assms(1) by (simp_all add: budget_inv_def hook_inv_def)
  have key: "wd_id (bump_row x) = wd_id x" for x by (simp add: bump_row)
  have opens: "open_delivery x" if x: "x \<in> set ?rs" "hit x" for x
  proof -
    obtain y where "y \<in> set ds" "wd_id x = wd_id y" using x(2) by (auto simp: hit)
    with distinct_keys_unique [OF dist, of x y] x(1) assms(2,3) show ?thesis by auto
  qed
  have "claimed_budget (P (wd_id x)) (bump_row x)" if "x \<in> set ?rs" "hit x" for x
    using opens [OF that] bud that(1)
    by (auto simp: claimed_budget_def row_budget_def bump_row open_delivery_def)
  moreover have "map wd_id (map bump_row (filter hit ?rs)) = map wd_id (filter hit ?rs)" by (simp add: key)
  then have "distinct (map wd_id (map bump_row (filter hit ?rs)))"
    using distinct_map_filter [OF dist, of hit] by (simp only:)
  moreover have "hook_inv (d\<lparr>db_deliveries := update_where hit bump_row ?rs\<rparr>)"
    using assms(1) by (intro hook_inv_update) (simp_all add: budget_inv_def bump_row)
  moreover have "wd_id ` set (update_where hit bump_row ?rs) = wd_id ` set ?rs"
    using map_update_where [of hit wd_id bump_row ?rs] key by (metis list.set_map)
  ultimately show ?thesis
    using assms(1) bud key by (auto simp: batch_inv_def budget_inv_def set_update_where)
qed

lemma claim_outcome:
  assumes "budget_inv P d"
  shows "outcome (\<lambda>dls d'. batch_inv P dls d' \<and> same_queue d d') d
    (WithOperator (q_ClaimPendingWebhookDeliveries n) e d)"
proof -
  let ?f = "\<lambda>t x. x\<lparr>wd_next := Some t, wd_attempts := wd_attempts x + 1\<rparr>"
  let ?ds = "\<lambda>p. take (nat n) (filter p (db_deliveries d))"
  have claimed: "batch_inv P (map (?f t) (filter (\<lambda>x. wd_id x \<in> wd_id ` set (?ds p)) (db_deliveries d)))
      (d\<lparr>db_deliveries := update_where (\<lambda>x. wd_id x \<in> wd_id ` set (?ds p)) (?f t) (db_deliveries d)\<rparr>)"
    if "\<And>x. p x \<Longrightarrow> delivery_due (rt_now e) x" for p t
    using assms by (rule claim_batch [where ds = "?ds p"]) (auto dest!: in_set_takeD that intro: claim_open)
  show ?thesis
    unfolding q_ClaimPendingWebhookDeliveries_def
    by (intro wp_intros) (simp add: upd_rows_def put_rows_def hit_rows_def rows_def webhook_deliveries_tb
        same_queue_def map_update_where, rule claimed, simp)
qed

lemma pending_batch:
  assumes "budget_inv P d" "wk_maxAttempts w = defaultMaxAttempts" "deliverPending e cs w d = (r, log, w', d')"
  shows "budget_inv (\<lambda>i. stored_of log i + P i) d' \<and> wk_maxAttempts w' = defaultMaxAttempts \<and> same_queue d d' \<and>
    ((\<forall>k. reliable (cs k)) \<longrightarrow> all_stored log)"
proof (cases "WithOperator (q_ClaimPendingWebhookDeliveries deliveryBatch) e d")
  case c: (Pair res d1)
  note o = claim_outcome [OF assms(1), of deliveryBatch e, unfolded c]
  show ?thesis
  proof (cases res)
    case (Inl err)
    with o assms show ?thesis by (simp add: deliverPending_def c outcome_def all_stored_def)
  next
    case (Inr dls)
    with o have b: "batch_inv P dls d1" "same_queue d d1" by (simp_all add: outcome_def)
    from assms(3) have "process_all cs dls w d1 = (log, w', d')" by (simp add: deliverPending_def c Inr)
    from batch_all [OF b(1) assms(2) this] b(2) show ?thesis using same_queue_trans by blast
  qed
qed

section \<open>At most three posts are stored\<close>

lemma budget_insert:
  assumes "budget_inv P d" "wd_endpoint x \<in> we_id ` set (db_endpoints d)" "wd_attempts x = 0"
    and "\<forall>y\<in>set (db_deliveries d). wd_id x \<noteq> wd_id y"
  shows "budget_inv P (d\<lparr>db_seq := n, db_deliveries := db_deliveries d @ [x]\<rparr>)"
proof -
  from assms(1,4) have "P (wd_id x) = 0" unfolding budget_inv_def by blast
  then have "row_budget (P (wd_id x)) x" using assms(3) by (simp add: row_budget_def)
  with assms show ?thesis by (auto simp: budget_inv_def hook_inv_def)
qed

lemma budget_cong:
  assumes "budget_inv P d" "db_deliveries d' = db_deliveries d"
    and "\<forall>x\<in>set (db_deliveries d). wd_endpoint x \<in> we_id ` set (db_endpoints d) \<longrightarrow> wd_endpoint x \<in> we_id ` set (db_endpoints d')"
  shows "budget_inv P d'"
  using assms by (auto simp: budget_inv_def hook_inv_def)

lemma createDelivery_budget:
  assumes "budget_inv P d"
  shows "outcome (\<lambda>x d'. budget_inv P d') d (createDelivery ep ev e d)"
proof -
  have "budget_inv P (d\<lparr>db_seq := n\<rparr>)" for n using assms by (rule budget_cong) simp_all
  with assms show ?thesis
    unfolding createDelivery_def q_CreateWebhookDelivery_def
    by (intro wp_intros) (simp_all add: put_rows_def bump_def webhook_deliveries_tb budget_insert)
qed

lemma create_for_endpoints_budget: "budget_inv P d \<Longrightarrow> budget_inv P (create_for_endpoints e ev eps d)"
  by (induction e ev eps d rule: create_for_endpoints.induct) (auto intro: outcome_snd createDelivery_budget)

lemma create_for_events_budget: "budget_inv P d \<Longrightarrow> budget_inv P (create_for_events e evs d)"
  by (induction evs arbitrary: d) (simp_all add: list_enabled create_for_endpoints_budget)

lemma CreateWebhookEndpoint_budget:
  assumes "budget_inv P d"
  shows "outcome (\<lambda>x d'. budget_inv P d') d (CreateWebhookEndpoint v tc inp e d)"
  unfolding CreateWebhookEndpoint_def
  by (simp only: split: if_split, intro conjI impI wp_intros)
    (simp_all add: put_rows_def bump_def webhook_endpoints_tb, (rule budget_cong [OF assms], auto)+)

lemma DeleteWebhookEndpoint_budget:
  assumes "budget_inv P d"
  shows "outcome (\<lambda>x d'. budget_inv P d') d (DeleteWebhookEndpoint tc i e d)"
proof -
  have look: "Q (f s) s \<Longrightarrow> wp (\<lambda>s. Inr (f s, s)) Q s" for f Q s by (simp add: wp_def)
  show ?thesis
    unfolding DeleteWebhookEndpoint_def q_DeleteWebhookEndpoint_def
    by (intro wp_intros look) (simp add: put_rows_def webhook_endpoints_tb rows_def cong del: image_cong_simp,
        rule budget_cong [OF assms], simp, fastforce simp: image_iff)
qed

text \<open>What happens around the worker between two cycles: endpoints come and go, and the
  process restarts with new breakers.\<close>

datatype hook_step =
    Cycle rt "nat \<Rightarrow> rt \<times> net"
  | Restart Options
  | Register "string \<Rightarrow> goerr option" Ctx CreateWebhookEndpointInput rt
  | Unregister Ctx uuid rt

fun hook_run :: "hook_step list \<Rightarrow> Worker \<Rightarrow> db \<Rightarrow> post_log" where
  "hook_run [] w d = []"
| "hook_run (Cycle e cs # ss) w d = (let (r, log, w', d') = DrainOnce e cs w d in log @ hook_run ss w' d')"
| "hook_run (Restart op # ss) w d = hook_run ss (NewWorker op) d"
| "hook_run (Register v tc inp e # ss) w d = hook_run ss w (snd (CreateWebhookEndpoint v tc inp e d))"
| "hook_run (Unregister tc i e # ss) w d = hook_run ss w (snd (DeleteWebhookEndpoint tc i e d))"

fun reliable_step :: "hook_step \<Rightarrow> bool" where
  "reliable_step (Cycle e cs) = (\<forall>k. reliable (cs k))"
| "reliable_step _ = True"

lemma budget_bound: "budget_inv P d \<Longrightarrow> P i \<le> 3"
  by (cases "i \<in> wd_id ` set (db_deliveries d)") (auto simp: budget_inv_def row_budget_def)

lemma all_stored_append: "all_stored (xs @ ys) \<longleftrightarrow> all_stored xs \<and> all_stored ys"
  unfolding all_stored_def set_append ball_Un ..

lemma run_budget:
  "budget_inv P d \<Longrightarrow> wk_maxAttempts w = defaultMaxAttempts \<Longrightarrow>
   stored_of (hook_run ss w d) i + P i \<le> 3 \<and> (list_all reliable_step ss \<longrightarrow> all_stored (hook_run ss w d))"
proof (induction ss w d arbitrary: P rule: hook_run.induct)
  case (1 w d)
  then show ?case by (simp add: budget_bound all_stored_def)
next
  case (2 e cs ss w d)
  obtain r log w' d' where c: "DrainOnce e cs w d = (r, log, w', d')" by (metis prod_cases4)
  have "budget_inv P (create_for_events e (take 500 (undelivered d)) d)"
    by (rule create_for_events_budget [OF 2(2)])
  moreover have "deliverPending e cs w (create_for_events e (take 500 (undelivered d)) d) = (r, log, w', d')"
    using c by (simp add: DrainOnce_def createDeliveries_runs)
  ultimately have "budget_inv (\<lambda>i. stored_of log i + P i) d' \<and> wk_maxAttempts w' = defaultMaxAttempts \<and>
      ((\<forall>k. reliable (cs k)) \<longrightarrow> all_stored log)"
    using pending_batch 2(3) by metis
  with 2(1) [OF c [symmetric] refl refl refl, of "\<lambda>i. stored_of log i + P i"] show ?case
    by (simp add: c all_stored_append)
next
  case (3 op ss w d)
  then show ?case by (simp add: NewWorker_def)
next
  case (4 v tc inp e ss w d)
  from 4(1) [OF outcome_snd [OF CreateWebhookEndpoint_budget [OF 4(2)] 4(2)] 4(3)] show ?case by simp
next
  case (5 tc i e ss w d)
  from 5(1) [OF outcome_snd [OF DeleteWebhookEndpoint_budget [OF 5(2)] 5(2)] 5(3)] show ?case by simp
qed

text \<open>
  C5. A delivery is posted at most three times, not counting posts whose outcome could not be
  stored. Whatever the cycles of the worker meet (the clocks, the answers of the endpoints,
  refused URLs, open breakers, failing transactions, bodies the database refuses), however
  often the process restarts and whatever endpoints are registered or removed in between, the
  requests sent for one delivery over the whole run are at most \<open>defaultMaxAttempts\<close> more than
  the posts after which the mark failed; where every mark can run and every answer is text, they are
  at most \<open>defaultMaxAttempts\<close>. (An operator's replay starts a delivery over and is not a step
  of such a run.)
\<close>

theorem webhook_post_budget:
  assumes "hook_inv d" "list_all (\<lambda>x. 0 \<le> wd_attempts x) (db_deliveries d)"
  shows "posts_of (hook_run ss (NewWorker op) d) i \<le> 3 + lost_of (hook_run ss (NewWorker op) d) i \<and>
    (list_all reliable_step ss \<longrightarrow> posts_of (hook_run ss (NewWorker op) d) i \<le> 3)"
proof -
  have "budget_inv (\<lambda>i. 0) d" using assms by (auto simp: budget_inv_def row_budget_def list_all_iff)
  from run_budget [OF this, of "NewWorker op" ss i]
  have "stored_of (hook_run ss (NewWorker op) d) i \<le> 3"
    "list_all reliable_step ss \<longrightarrow> lost_of (hook_run ss (NewWorker op) d) i = 0"
    using lost_of_none by (auto simp: NewWorker_def all_stored_def)
  then show ?thesis by (auto simp: posts_stored_lost)
qed

theorem webhook_post_budget_witness:
  "posts_of (hook_run [Cycle (demo_rt 0) (\<lambda>i. (demo_rt 0, demo_net)), Restart demo_opts,
     Cycle (demo_rt Minute) (\<lambda>i. (demo_rt Minute, demo_net))] (NewWorker demo_opts) hook_demo) ''g'' \<le> 3"
proof -
  have "text_ok ''busy''" by code_simp
  then have "reliable (e, demo_net)" for e by (simp add: reliable_def demo_net_def reply_text_def)
  then show ?thesis
    by (intro webhook_post_budget [THEN conjunct2, rule_format]) (simp_all add: hook_inv_def hook_demo_def demo_db_def)
qed

text \<open>The bound is reached: an endpoint that always answers 500 is asked three times.\<close>

lemma budget_is_used:
  "posts_of (hook_run (map (\<lambda>n. Cycle (demo_rt (int n * 10 * Minute)) (\<lambda>i. (demo_rt (int n * 10 * Minute), demo_net)))
     [0..<5]) (NewWorker demo_opts) hook_demo) ''g'' = 3"
  by code_simp

text \<open>Posts whose outcome is not stored have no bound: the claim does not look at the
  attempts, and an endpoint that answers with a zero byte, even to accept the event, is posted
  to again after every lease.\<close>

definition nul_net :: net where
  "nul_net = demo_net\<lparr>nt_post := \<lambda>r. Response 200 [CHR 0x00]\<rparr>"

definition claimed_row :: "int \<Rightarrow> int option \<Rightarrow> WebhookDelivery" where
  "claimed_row k at = \<lparr>wd_id = ''d1'', wd_endpoint = ''w1'', wd_outbox = ''o1'', wd_provider = ''p1'',
     wd_env = ''e1'', wd_status = ''pending'', wd_attempts = k, wd_response_status = None,
     wd_response_body = None, wd_next = at, wd_delivered = None, wd_created = 0\<rparr>"

definition nul_cycle :: "nat \<Rightarrow> hook_step" where
  "nul_cycle k = Cycle (demo_rt (int k * Minute)) (\<lambda>i. (demo_rt (int k * Minute), nul_net))"

lemma nul_cycle_again:
  assumes "state (breakerFor ''w1'' w) = StateClosed" "\<forall>t\<in>set_option at. t \<le> now"
  shows "\<exists>req w'. DrainOnce (demo_rt now) (\<lambda>i. (demo_rt now, nul_net)) w (hook_demo\<lparr>db_deliveries := [claimed_row k at]\<rparr>) =
      (Inr (), [(''d1'', [req], False)], w',
       hook_demo\<lparr>db_deliveries := [claimed_row (k + 1) (Some (now + Minute))]\<rparr>) \<and>
    state (breakerFor ''w1'' w') = StateClosed"
proof -
  let ?d = "hook_demo\<lparr>db_deliveries := [claimed_row k at]\<rparr>"
  have no: "undelivered ?d = []" by (simp add: undelivered_def hook_demo_def claimed_row_def)
  have due: "delivery_due now (claimed_row k at)"
    using assms(2) by (simp add: delivery_due_def claimed_row_def split: option.split)
  let ?row = "claimed_row (k + 1) (Some (now + Minute))"
  have claim: "WithOperator (q_ClaimPendingWebhookDeliveries deliveryBatch) (demo_rt now) ?d =
      (Inr [?row], hook_demo\<lparr>db_deliveries := [?row]\<rparr>)"
    using due
    by (simp add: q_ClaimPendingWebhookDeliveries_def WithOperator_def run_tx_def bnd_def now_tx_def get_rt_def q_many_def
        q_update_def live_tx_def rows_def providers_tb webhook_deliveries_tb hook_demo_def demo_db_def demo_provider_def
        demo_rt_def update_where_def)
      (simp add: claimed_row_def)
  let ?d1 = "hook_demo\<lparr>db_deliveries := [?row]\<rparr>"
  let ?ep = "hd (db_endpoints hook_demo)"
  let ?ev = "hd (db_outbox hook_demo)"
  have load: "loadDeliveryContext nul_net ?row (demo_rt now) ?d1 = (Inr (Some (?ep, ?ev)), ?d1)" and ep: "we_id ?ep = ''w1''"
    by (simp_all add: loadDeliveryContext_def WithOperator_def run_tx_def bnd_def ret_def try_tx_def q_one_def
        select_one_def live_tx_def rows_def webhook_endpoints_tb outbox_events_tb claimed_row_def nul_net_def demo_net_def
        hook_demo_def)
  have mark: "markDelivered nul_net i 200 [CHR 0x00] e ?d1 = (Inl (PgError ''22021''), ?d1)" for i e
  proof -
    have "\<not> text_ok [CHR 0x00]" by code_simp
    then show ?thesis
      by (simp add: markDelivered_def mark_tx_def nul_net_def demo_net_def WithOperator_def run_tx_def bnd_def check_def
          throw_def)
  qed
  have deliv: "deliver (demo_rt now) nul_net ?ep ?ev =
      Inr (webhook_request (demo_rt now) nul_net ?ep ?ev, Response 200 [CHR 0x00])"
    by (simp add: deliver_def nul_net_def demo_net_def)
  let ?b = "breakerFor ''w1'' w"
  have "processDelivery (demo_rt now, nul_net) ?row w ?d1 =
      (Inl (PgError ''22021''), [webhook_request (demo_rt now) nul_net ?ep ?ev], set_breaker ''w1'' (OnSuccess ?b) w, ?d1)"
    by (simp add: processDelivery_def load ep deliv mark Allow_def assms(1))
  moreover have "wd_id ?row = ''d1''" by (simp add: claimed_row_def)
  moreover have "state (breakerFor ''w1'' (set_breaker ''w1'' (OnSuccess ?b) w)) = StateClosed"
  proof -
    have "breakerFor i (set_breaker i b w) = b" for i b by (simp add: breakerFor_def set_breaker_def)
    then show ?thesis using assms(1) by (simp add: OnSuccess_def)
  qed
  ultimately show ?thesis
    unfolding DrainOnce_def createDeliveries_runs no deliverPending_def take_Nil create_for_events.simps
    by (simp add: claim is_ok_def)
qed

lemma nul_posts: "state (breakerFor ''w1'' w) = StateClosed \<Longrightarrow> \<forall>t\<in>set_option at. t \<le> int m * Minute \<Longrightarrow>
  posts_of (hook_run (map nul_cycle [m..<m + n]) w (hook_demo\<lparr>db_deliveries := [claimed_row k at]\<rparr>)) ''d1'' = n"
proof (induction n arbitrary: m w k at)
  case (Suc n)
  obtain req w' where c: "DrainOnce (demo_rt (int m * Minute)) (\<lambda>i. (demo_rt (int m * Minute), nul_net)) w
      (hook_demo\<lparr>db_deliveries := [claimed_row k at]\<rparr>) = (Inr (), [(''d1'', [req], False)], w',
        hook_demo\<lparr>db_deliveries := [claimed_row (k + 1) (Some (int m * Minute + Minute))]\<rparr>)"
    "state (breakerFor ''w1'' w') = StateClosed"
    using nul_cycle_again [OF Suc.prems] by blast
  have "posts_of (hook_run (map nul_cycle [Suc m..<Suc m + n]) w'
      (hook_demo\<lparr>db_deliveries := [claimed_row (k + 1) (Some (int m * Minute + Minute))]\<rparr>)) ''d1'' = n"
    by (rule Suc.IH [OF c(2)]) (simp add: algebra_simps)
  moreover have "[m..<m + Suc n] = m # [Suc m..<Suc m + n]" by (simp add: upt_conv_Cons)
  ultimately show ?case by (simp add: nul_cycle_def [of m] c(1))
qed simp

lemma unstored_posts_unbounded:
  "posts_of (hook_run (map nul_cycle [0..<n]) (NewWorker demo_opts)
     (hook_demo\<lparr>db_deliveries := [claimed_row 0 None]\<rparr>)) ''d1'' = n"
  using nul_posts [of "NewWorker demo_opts" None 0 n 0] by (simp add: NewWorker_def breakerFor_def New_def)

section \<open>What a cycle leaves undone\<close>

fun cycles :: "(rt \<times> (nat \<Rightarrow> rt \<times> net)) list \<Rightarrow> Worker \<Rightarrow> db \<Rightarrow> db" where
  "cycles [] w d = d"
| "cycles ((e, cs) # ss) w d = (let (r, log, w', d') = DrainOnce e cs w d in cycles ss w' d')"

text \<open>The batch holds the oldest events without a delivery, and an event nobody subscribes to
  never gets one: 500 of them fill the batch for good, and no later event, whoever waits for
  it, is delivered.\<close>

lemma unmatched_events_starve:
  assumes "budget_inv P d" "wk_maxAttempts w = defaultMaxAttempts"
    and "list_all (\<lambda>ev. subscribers ev d = []) (take 500 (undelivered d))"
  shows "same_queue d (cycles ss w d)"
  using assms
proof (induction ss w d arbitrary: P rule: cycles.induct)
  case (2 e cs ss w d)
  obtain r log w' d' where c: "DrainOnce e cs w d = (r, log, w', d')" by (metis prod_cases4)
  have "deliverPending e cs w d = (r, log, w', d')"
    using c 2(4) by (simp add: DrainOnce_def createDeliveries_runs adds_nothing)
  note b = pending_batch [OF 2(2,3) this]
  then have q: "undelivered d' = undelivered d" "\<And>ev. subscribers ev d' = subscribers ev d"
    using same_queue_undelivered by blast+
  have "same_queue d' (cycles ss w' d')"
    by (rule 2(1) [OF c [symmetric] refl refl refl, of "\<lambda>i. stored_of log i + P i"]) (use b 2(4) in \<open>simp_all add: q\<close>)
  with b same_queue_trans show ?case by (auto simp: c)
qed simp

lemma later_event_undelivered:
  assumes "budget_inv P d" "wk_maxAttempts w = defaultMaxAttempts"
    and "list_all (\<lambda>ev. subscribers ev d = []) (take 500 (undelivered d))" "ev \<in> set (drop 500 (undelivered d))"
  shows "ev \<in> set (undelivered (cycles ss w d))"
  using same_queue_undelivered [OF unmatched_events_starve [OF assms(1-3)]] assms(4) by (auto dest: in_set_dropD)

text \<open>The retention sweep removes a published event although a delivery of it is still waiting;
  from then on processing that delivery fails, leaves it as it is, and it is claimed again
  after every lease.\<close>

lemma purge_runs:
  "PurgeExpiredWebhookDeliveries cutoff e d = (Inr n, d') \<Longrightarrow>
   d' = d\<lparr>db_deliveries := filter (\<lambda>x. \<not> (wd_created x < cutoff \<and> (wd_status x = ''delivered'' \<or>
       wd_status x = ''dead_letter'' \<or> wd_status x = ''failed'' \<and> wd_next x = None))) (db_deliveries d),
     db_outbox := filter (\<lambda>x. \<not> (ob_created x < cutoff \<and> (ob_status x = ''published'' \<or>
       ob_status x = ''dead_letter'' \<or> ob_status x = ''failed'' \<and> ob_next x = None))) (db_outbox d)\<rparr>"
  by (auto simp: PurgeExpiredWebhookDeliveries_def WithOperator_def run_tx_def bnd_def ret_def q_delete_def live_tx_def
      webhook_deliveries_tb outbox_events_tb Let_def split: if_splits)

lemma purge_orphans_delivery:
  assumes "PurgeExpiredWebhookDeliveries cutoff e d = (Inr n, d')"
    and "dl \<in> set (db_deliveries d)" "wd_status dl = ''pending''"
    and "\<forall>ev\<in>set (db_outbox d). ob_id ev = wd_outbox dl \<longrightarrow> ob_status ev = ''published'' \<and> ob_created ev < cutoff"
    and "ep \<in> set (db_endpoints d)" "we_id ep = wd_endpoint dl" "we_provider ep = wd_provider dl" "we_env ep = wd_env dl"
    and "nt_load (snd c) = None"
  shows "dl \<in> set (db_deliveries d') \<and> processDelivery c dl w d' = (Inl ErrNoRows, [], w, d')"
proof -
  obtain e' n' where c: "c = (e', n')" by (cases c)
  note d' = purge_runs [OF assms(1)]
  have "find (\<lambda>x. ob_id x = wd_outbox dl \<and> ob_provider x = wd_provider dl \<and> ob_env x = wd_env dl) (db_outbox d') = None"
    unfolding d' using assms(4) by (auto simp: find_None_iff)
  moreover have "find (\<lambda>x. we_id x = wd_endpoint dl \<and> we_provider x = wd_provider dl \<and> we_env x = wd_env dl) (db_endpoints d') \<noteq> None"
    unfolding d' using assms(5-8) by (auto simp: find_None_iff)
  ultimately have "loadDeliveryContext n' dl e' d' = (Inl ErrNoRows, d')"
    using assms(9)
    by (auto simp: c loadDeliveryContext_def WithOperator_def run_tx_def bnd_def ret_def try_tx_def q_one_def select_one_def
        live_tx_def rows_def outbox_events_tb webhook_endpoints_tb)
  then have "processDelivery c dl w d' = (Inl ErrNoRows, [], w, d')" by (simp add: processDelivery_def c)
  moreover have "dl \<in> set (db_deliveries d')" unfolding d' using assms(2,3) by simp
  ultimately show ?thesis by simp
qed

end
