(* ===== verification/Usage_Metering.thy ===== *)
theory Usage_Metering
  imports Subscriptions "HOL-Library.Multiset"
begin

text \<open>
  \<open>internal/service/usage.go\<close>: metering. A provider submits usage under a transaction id of
  its own. The first submission is accepted, a repetition with the same payload is a
  duplicate and one with another payload a conflict; corrections are reversals, never
  changes. The theory shows what makes the ledger trustworthy: it only grows, no
  transaction id counts twice, and every reversal cancels exactly one ingestion.
\<close>

section \<open>The canonical payload\<close>

abbreviation UsageStatusAccepted :: string where "UsageStatusAccepted \<equiv> ''accepted''"
abbreviation UsageStatusDuplicate :: string where "UsageStatusDuplicate \<equiv> ''duplicate''"
abbreviation UsageStatusReversed :: string where "UsageStatusReversed \<equiv> ''reversed''"

text \<open>\<open>json.Unmarshal\<close> into \<open>any\<close>: a number becomes a float64 (an integer is rounded to 53
  significant bits, ties to even, and fails beyond the range), an object a map, where the
  last of several equal keys wins. \<open>json.Marshal\<close> writes the keys in byte order.\<close>

fun bit_len :: "nat \<Rightarrow> nat" where
  "bit_len n = (if n = 0 then 0 else Suc (bit_len (n div 2)))"

declare bit_len.simps [simp del]

definition round53 :: "nat \<Rightarrow> nat" where
  "round53 n = (let k = bit_len n - 53; q = n div 2 ^ k; r = n mod 2 ^ k in
     if k = 0 then n
     else if 2 * r > 2 ^ k \<or> 2 * r = 2 ^ k \<and> odd q then (q + 1) * 2 ^ k else q * 2 ^ k)"

definition float_int :: "int \<Rightarrow> json option" where
  "float_int i = (let m = round53 (nat \<bar>i\<bar>) in
     if 2 ^ 1024 \<le> m then None else Some (JInt (sgn i * int m)))"

fun put_key :: "string \<Rightarrow> json \<Rightarrow> (string \<times> json) list \<Rightarrow> (string \<times> json) list" where
  "put_key k v [] = [(k, v)]"
| "put_key k v ((k', v') # r) =
     (if k = k' then (k, v) # r else if str_less k k' then (k, v) # (k', v') # r
      else (k', v') # put_key k v r)"

fun any_value :: "rt \<Rightarrow> json \<Rightarrow> json option"
and any_values :: "rt \<Rightarrow> json list \<Rightarrow> json list option"
and any_fields :: "rt \<Rightarrow> (string \<times> json) list \<Rightarrow> (string \<times> json) list \<Rightarrow> (string \<times> json) list option" where
  "any_value e JNull = Some JNull"
| "any_value e (JBool b) = Some (JBool b)"
| "any_value e (JInt i) = float_int i"
| "any_value e (JDec t) = Some (rt_float e t)"
| "any_value e (JStr s) = Some (JStr s)"
| "any_value e (JArr js) = map_option JArr (any_values e js)"
| "any_value e (JObj kvs) = map_option JObj (any_fields e kvs [])"
| "any_values e [] = Some []"
| "any_values e (j # js) =
     (case any_value e j of None \<Rightarrow> None | Some v \<Rightarrow> map_option (Cons v) (any_values e js))"
| "any_fields e [] m = Some m"
| "any_fields e ((k, j) # kvs) m =
     (case any_value e j of None \<Rightarrow> None | Some v \<Rightarrow> any_fields e kvs (put_key k v m))"

definition UsagePayloadHash ::
  "rt \<Rightarrow> string \<Rightarrow> string \<Rightarrow> string \<Rightarrow> int \<Rightarrow> RawMessage \<Rightarrow> string result" where
  "UsagePayloadHash e transactionID metricCode customerExternalID ts properties =
     (case (case properties of RawEmpty \<Rightarrow> Some JNull | RawInvalid \<Rightarrow> None | RawJson j \<Rightarrow> any_value e j) of
        None \<Rightarrow> Inl ErrValidation
      | Some props \<Rightarrow> Inr (rt_json_hash e (JObj
          [(''customer_external_id'', JStr customerExternalID), (''metric_code'', JStr metricCode),
           (''properties'', if props = JNull then JObj [] else props),
           (''timestamp'', JStr (rt_rfc3339nano e ts)), (''transaction_id'', JStr transactionID)])))"

section \<open>Queries\<close>

abbreviation q_GetUsageEventByTransactionID :: "uuid \<Rightarrow> uuid \<Rightarrow> string \<Rightarrow> UsageEvent tx" where
  "q_GetUsageEventByTransactionID p en t \<equiv> q_one usage_events
     (\<lambda>x. us_provider x = p \<and> us_env x = en \<and> us_tx x = t)"

abbreviation q_GetMetricByVersionAndCode :: "uuid \<Rightarrow> string \<Rightarrow> Metric tx" where
  "q_GetMetricByVersionAndCode v code \<equiv> q_one metrics (\<lambda>x. mt_version x = v \<and> mt_code x = code)"

abbreviation q_GetReversalForUsageEvent :: "uuid \<Rightarrow> UsageEvent tx" where
  "q_GetReversalForUsageEvent i \<equiv> q_one usage_events (\<lambda>x. us_reverses x = Some i)"

abbreviation q_InsertUsageEvent ::
  "uuid \<Rightarrow> uuid \<Rightarrow> uuid \<Rightarrow> string \<Rightarrow> string \<Rightarrow> string \<Rightarrow> uuid \<Rightarrow> uuid \<Rightarrow> int \<Rightarrow> RawMessage \<Rightarrow> string \<Rightarrow>
   uuid option \<Rightarrow> string option \<Rightarrow> UsageEvent tx" where
  "q_InsertUsageEvent i p en t kind metric customer sub at props hash reverses reason \<equiv>
     bnd (q_jsonb props) (\<lambda>j. q_insert usage_events
     \<lparr>us_id = i, us_provider = p, us_env = en, us_tx = t, us_kind = kind, us_metric = metric,
      us_customer = customer, us_sub = sub, us_at = at, us_properties = j, us_hash = hash,
      us_reverses = reverses, us_reason = reason\<rparr>)"

text \<open>A comparison with NULL selects nothing.\<close>

definition q_CheckUsageInvoiced :: "string option \<Rightarrow> uuid \<Rightarrow> uuid \<Rightarrow> bool tx" where
  "q_CheckUsageInvoiced t p en =
     bnd (q_many invoice_lines (\<lambda>x. t \<noteq> None \<and> il_tx x = t \<and> il_provider x = p \<and> il_env x = en))
       (\<lambda>xs. ret (xs \<noteq> []))"

abbreviation q_ListUsageEventsByTenant :: "uuid \<Rightarrow> uuid \<Rightarrow> int \<Rightarrow> UsageEvent list tx" where
  "q_ListUsageEventsByTenant p en n \<equiv>
     bnd (q_many usage_events (\<lambda>x. us_provider x = p \<and> us_env x = en)) (\<lambda>xs.
     ret (take (nat n) (rev xs)))"

text \<open>An event with the external id of its customer and the kind of its environment.\<close>

abbreviation q_ListUsageEventsByProvider :: "uuid \<Rightarrow> (UsageEvent \<times> string \<times> string) list tx" where
  "q_ListUsageEventsByProvider p \<equiv>
     bnd (q_many usage_events (\<lambda>x. us_provider x = p)) (\<lambda>us.
     bnd (q_many customer_accounts (\<lambda>_. True)) (\<lambda>cs.
     bnd (q_many environments (\<lambda>_. True)) (\<lambda>es.
     ret (take 200 (map (\<lambda>((u, c), en). (u, cu_external c, en_kind en))
            (joined (\<lambda>(u, c) en. en_id en = us_env u)
              (joined (\<lambda>u c. cu_id c = us_customer u) (rev us) cs) es))))))"

section \<open>Ingestion\<close>

record UsageIngestInput =
  ui_TransactionID :: string
  ui_MetricCode :: string
  ui_CustomerExternalID :: string
  ui_Timestamp :: int
  ui_Properties :: RawMessage

text \<open>\<open>None\<close> is the zero event.\<close>

record UsageIngestResult =
  ur_Status :: string
  ur_Event :: "UsageEvent option"

text \<open>The two durations of the service's configuration, and \<open>time.Time{}\<close>.\<close>

record UsageWindow =
  usageFutureSkew :: int
  usageLateWindow :: int

abbreviation zero_time :: int where "zero_time \<equiv> -62135596800000000000"

definition stored_properties :: "RawMessage \<Rightarrow> RawMessage" where
  "stored_properties raw = (case raw of RawEmpty \<Rightarrow> RawJson (JObj []) | _ \<Rightarrow> raw)"

text \<open>The transaction of an ingestion; \<open>None\<close> is the conflict that is reported after it.\<close>

definition raw_value :: "RawMessage \<Rightarrow> json" where
  "raw_value raw = (case raw of RawJson j \<Rightarrow> j | _ \<Rightarrow> JNull)"

definition ingest_tx :: "Ctx \<Rightarrow> UsageIngestInput \<Rightarrow> string \<Rightarrow> UsageIngestResult option tx" where
  "ingest_tx tc inp hash =
     (let txid = ui_TransactionID inp; props = stored_properties (ui_Properties inp) in
      bnd (try_tx (q_GetUsageEventByTransactionID (ProviderID tc) (EnvironmentID tc) txid)) (\<lambda>found.
      case found of
        Inr existing \<Rightarrow>
          if us_hash existing = hash
          then ret (Some \<lparr>ur_Status = UsageStatusDuplicate, ur_Event = Some existing\<rparr>)
          else ret None
      | Inl err \<Rightarrow>
          bnd (check (err = ErrNoRows) err) (\<lambda>_.
          bnd (map_err (\<lambda>_. ErrValidation) (q_GetCustomerByExternalID (ProviderID tc) (EnvironmentID tc)
                 (ui_CustomerExternalID inp))) (\<lambda>customer.
          bnd (map_err (\<lambda>_. ErrValidation) (q_GetActiveSubscriptionByCustomer (cu_id customer))) (\<lambda>sub.
          bnd (map_err (\<lambda>_. ErrValidation)
                 (q_GetMetricByVersionAndCode (su_version sub) (ui_MetricCode inp))) (\<lambda>_.
          bnd (draw rt_gen) (\<lambda>id.
          bnd (try_tx (q_InsertUsageEvent id (ProviderID tc) (EnvironmentID tc) txid UsageKindIngestion
                 (ui_MetricCode inp) (cu_id customer) (su_id sub) (ui_Timestamp inp) props hash
                 None None)) (\<lambda>res.
          case res of
            Inl err \<Rightarrow>
              bnd (check (err = unique_violation) err) (\<lambda>_.
              ret (Some \<lparr>ur_Status = UsageStatusDuplicate, ur_Event = None\<rparr>))
          | Inr event \<Rightarrow>
              bnd (get_rt (\<lambda>e. rt_rfc3339nano e (ui_Timestamp inp))) (\<lambda>at.
              bnd (emitOutboxWithTxIDTx (ProviderID tc) (EnvironmentID tc) ''usage_event'' (us_id event)
                     ''usage.accepted'' txid (JObj
                     [(''transaction_id'', JStr txid), (''code'', JStr (ui_MetricCode inp)),
                      (''external_customer_id'', JStr (ui_CustomerExternalID inp)),
                      (''timestamp'', JStr at), (''properties'', raw_value props)])) (\<lambda>_.
              bnd (insertAuditTx (ProviderNullUUID tc) (EnvironmentNullUUID tc) ''credential''
                     (CredentialID tc) ''usage.accepted'' ''usage_event'' (us_id event) (Some (JObj
                     [(''transaction_id'', JStr txid), (''metric_code'', JStr (ui_MetricCode inp))]))) (\<lambda>_.
              ret (Some \<lparr>ur_Status = UsageStatusAccepted, ur_Event = Some event\<rparr>))))))))))))"

definition conflict_audit :: "Ctx \<Rightarrow> string \<Rightarrow> unit tx" where
  "conflict_audit tc txid =
     insertAuditTx (ProviderNullUUID tc) (EnvironmentNullUUID tc) ''credential'' (CredentialID tc)
       ''usage.conflict'' ''usage_event'' txid (Some (JObj [(''transaction_id'', JStr txid)]))"

definition ingest_error :: "UsageWindow \<Rightarrow> UsageIngestInput \<Rightarrow> int \<Rightarrow> goerr option" where
  "ingest_error cfg inp now =
     (if ui_TransactionID inp = '''' \<or> ui_MetricCode inp = '''' \<or> ui_CustomerExternalID inp = ''''
      then Some ErrValidation
      else if ui_Timestamp inp = zero_time then Some ErrValidation
      else if ui_Timestamp inp > now + usageFutureSkew cfg then Some ErrValidation
      else if ui_Timestamp inp < now - usageLateWindow cfg then Some ErrValidation
      else None)"

definition IngestUsage ::
  "UsageWindow \<Rightarrow> Ctx \<Rightarrow> UsageIngestInput \<Rightarrow> rt \<Rightarrow> db \<Rightarrow> UsageIngestResult result \<times> db" where
  "IngestUsage cfg tc inp e d =
     (case ingest_error cfg inp (rt_now e) of
        Some err \<Rightarrow> (Inl err, d)
      | None \<Rightarrow>
     (case check_fences tc e d of
        (Inl err, d1) \<Rightarrow> (Inl err, d1)
      | (Inr _, d1) \<Rightarrow>
     (case UsagePayloadHash e (ui_TransactionID inp) (ui_MetricCode inp) (ui_CustomerExternalID inp)
             (ui_Timestamp inp) (ui_Properties inp) of
        Inl err \<Rightarrow> (Inl err, d1)
      | Inr hash \<Rightarrow>
     (case WithTenant tc (ingest_tx tc inp hash) e d1 of
        (Inl err, d2) \<Rightarrow> (Inl err, d2)
      | (Inr (Some out), d2) \<Rightarrow> (Inr out, d2)
      | (Inr None, d2) \<Rightarrow>
          (Inl ErrUsageConflict, snd (WithTenant tc (conflict_audit tc (ui_TransactionID inp)) e d2))))))"

section \<open>Reversal\<close>

definition reverse_tx :: "Ctx \<Rightarrow> string \<Rightarrow> string \<Rightarrow> string \<Rightarrow> UsageEvent tx" where
  "reverse_tx tc originalTxID reversalTxID reason =
     bnd (mapped_err (q_GetUsageEventByTransactionID (ProviderID tc) (EnvironmentID tc) originalTxID)) (\<lambda>original.
     bnd (check (us_kind original = UsageKindIngestion) ErrConflict) (\<lambda>_.
     bnd (try_tx (q_GetReversalForUsageEvent (us_id original))) (\<lambda>found.
     bnd (case found of Inr _ \<Rightarrow> throw ErrConflict | Inl err \<Rightarrow> check (err = ErrNoRows) err) (\<lambda>_.
     bnd (q_CheckUsageInvoiced (opt_text originalTxID) (ProviderID tc) (EnvironmentID tc)) (\<lambda>invoiced.
     bnd (check (\<not> invoiced) ErrUsageAlreadyInvoiced) (\<lambda>_.
     bnd (q_GetCustomerByID (us_customer original)) (\<lambda>customer.
     bnd now_tx (\<lambda>now.
     bnd (get_rt (\<lambda>e. UsagePayloadHash e reversalTxID (us_metric original) (cu_external customer) now
            (RawJson (us_properties original)))) (\<lambda>h.
     bnd (lift_res h) (\<lambda>hash.
     bnd (draw rt_gen) (\<lambda>id.
     bnd (mapped_err (q_InsertUsageEvent id (ProviderID tc) (EnvironmentID tc) reversalTxID
            UsageKindReversal (us_metric original) (us_customer original) (us_sub original) now
            (RawJson (us_properties original)) hash (Some (us_id original)) (opt_text reason))) (\<lambda>reversal.
     bnd (get_rt (\<lambda>e. rt_rfc3339nano e now)) (\<lambda>at.
     bnd (emitOutboxWithTxIDTx (ProviderID tc) (EnvironmentID tc) ''usage_event'' (us_id reversal)
            ''usage.reversed'' reversalTxID (JObj
            [(''transaction_id'', JStr reversalTxID), (''code'', JStr (us_metric original)),
             (''external_customer_id'', JStr (cu_external customer)), (''timestamp'', JStr at),
             (''reverses'', JStr originalTxID), (''reason'', JStr reason)])) (\<lambda>_.
     bnd (insertAuditTx (ProviderNullUUID tc) (EnvironmentNullUUID tc) ''credential''
            (CredentialID tc) ''usage.reversed'' ''usage_event'' (us_id reversal) (Some (JObj
            [(''transaction_id'', JStr reversalTxID), (''reverses'', JStr originalTxID),
             (''reason'', JStr reason)]))) (\<lambda>_.
     ret reversal)))))))))))))))"

definition ReverseUsage ::
  "Ctx \<Rightarrow> string \<Rightarrow> string \<Rightarrow> string \<Rightarrow> rt \<Rightarrow> db \<Rightarrow> UsageEvent result \<times> db" where
  "ReverseUsage tc originalTxID reversalTxID reason = WithTenant tc
     (bnd (if reversalTxID = '''' then draw rt_gen else ret reversalTxID) (\<lambda>txid.
      reverse_tx tc originalTxID txid reason))"

definition ListUsageEvents :: "Ctx \<Rightarrow> int \<Rightarrow> rt \<Rightarrow> db \<Rightarrow> UsageEvent list result \<times> db" where
  "ListUsageEvents tc limit = WithTenant tc
     (q_ListUsageEventsByTenant (ProviderID tc) (EnvironmentID tc) limit)"

definition ListUsageEventsByProvider ::
  "uuid \<Rightarrow> rt \<Rightarrow> db \<Rightarrow> (UsageEvent \<times> string \<times> string) list result \<times> db" where
  "ListUsageEventsByProvider providerID = WithOperator (q_ListUsageEventsByProvider providerID)"

section \<open>The order of the keys does not matter\<close>

lemma put_key_commute:
  "k \<noteq> k' \<Longrightarrow> put_key k v (put_key k' v' m) = put_key k' v' (put_key k v m)"
proof (induction m)
  case Nil
  then show ?case using str_less_total [of k k'] str_less_asym [of k k'] by auto
next
  case (Cons x m)
  obtain k1 v1 where x: "x = (k1, v1)" by force
  note less = str_less_total [of k k'] str_less_asym [of k k']
    str_less_trans [of k k' k1] str_less_trans [of k' k k1]
  show ?case
  proof (cases "k = k1 \<or> k' = k1")
    case True
    with Cons.prems less show ?thesis by (fastforce simp: x)
  next
    case False
    with Cons less show ?thesis
      by (cases "str_less k k1"; cases "str_less k' k1") (auto simp: x)
  qed
qed

definition add_field :: "rt \<Rightarrow> string \<times> json \<Rightarrow> (string \<times> json) list option \<Rightarrow> (string \<times> json) list option" where
  "add_field e = (\<lambda>(k, j) m. Option.bind m (\<lambda>m. map_option (\<lambda>v. put_key k v m) (any_value e j)))"

lemma fold_add_field_None: "fold (add_field e) kvs None = None"
  by (induction kvs) (auto simp: add_field_def)

lemma any_fields_fold: "any_fields e kvs m = fold (add_field e) kvs (Some m)"
  by (induction kvs arbitrary: m)
     (auto simp: add_field_def fold_add_field_None split: option.splits
        intro: fold_add_field_None [unfolded add_field_def, symmetric])

lemma add_field_commute:
  "fst x \<noteq> fst y \<Longrightarrow> add_field e x \<circ> add_field e y = add_field e y \<circ> add_field e x"
proof (rule ext)
  fix m
  assume "fst x \<noteq> fst y"
  then show "(add_field e x \<circ> add_field e y) m = (add_field e y \<circ> add_field e x) m"
    by (cases m; cases "any_value e (snd x)"; cases "any_value e (snd y)")
       (auto simp: add_field_def split_beta put_key_commute)
qed

text \<open>Objects with the same entries are the same payload.\<close>

lemma any_value_permuted:
  assumes "mset kvs = mset kvs'" "distinct (map fst kvs)"
  shows "any_value e (JObj kvs) = any_value e (JObj kvs')"
proof -
  have "add_field e x \<circ> add_field e y = add_field e y \<circ> add_field e x"
    if "x \<in> set kvs" "y \<in> set kvs" for x y
    using that assms(2) add_field_commute [of x y e]
    by (cases "x = y") (auto simp: distinct_map inj_on_def)
  then have "fold (add_field e) kvs = fold (add_field e) kvs'"
    by (intro fold_multiset_equiv assms(1))
  then show ?thesis by (simp add: any_fields_fold)
qed

section \<open>The ledger\<close>

text \<open>An event is an ingestion, or a reversal of an ingestion of the same tenant, metric,
  customer and subscription; ids, transaction ids of a tenant and reversed events are
  unique.\<close>

definition reverses :: "UsageEvent \<Rightarrow> UsageEvent \<Rightarrow> bool" where
  "reverses x y \<longleftrightarrow> us_kind x = UsageKindReversal \<and> us_kind y = UsageKindIngestion \<and>
     us_reverses x = Some (us_id y) \<and> us_provider x = us_provider y \<and> us_env x = us_env y \<and>
     us_metric x = us_metric y \<and> us_customer x = us_customer y \<and> us_sub x = us_sub y"

definition tx_key :: "UsageEvent \<Rightarrow> uuid \<times> uuid \<times> string" where
  "tx_key x = (us_provider x, us_env x, us_tx x)"

definition usage_ledger :: "UsageEvent list \<Rightarrow> bool" where
  "usage_ledger us \<longleftrightarrow>
     (\<forall>x\<in>set us. us_kind x = UsageKindIngestion \<and> us_reverses x = None \<or> (\<exists>y\<in>set us. reverses x y)) \<and>
     distinct (map us_id us) \<and> distinct (map tx_key us) \<and>
     distinct (map us_reverses (filter (\<lambda>x. us_reverses x \<noteq> None) us))"

lemma usage_ledger_snoc:
  assumes "usage_ledger us" "\<forall>y\<in>set us. \<not> tb_clash usage_events x y"
    and "us_kind x = UsageKindIngestion \<and> us_reverses x = None \<or> (\<exists>y\<in>set us. reverses x y)"
  shows "usage_ledger (us @ [x])"
  using assms by (auto simp: usage_ledger_def usage_events_tb tx_key_def)

section \<open>What an ingestion and a reversal do\<close>

text \<open>A transaction that was aborted on the way does not commit.\<close>

lemma outcome_WithTenant_live:
  "wp m (\<lambda>x s. \<not> s_aborted s \<longrightarrow> Q x (s_db s))
     \<lparr>s_db = d, s_rt = e, s_role = Tenant (ProviderID tc) (EnvironmentID tc), s_aborted = False\<rparr> \<Longrightarrow>
   outcome Q d (WithTenant tc m e d)"
  by (auto simp: outcome_def WithTenant_def run_tx_def wp_def split: sum.splits prod.splits if_splits)

definition of_tenant :: "Ctx \<Rightarrow> UsageEvent \<Rightarrow> bool" where
  "of_tenant tc x \<longleftrightarrow> us_provider x = ProviderID tc \<and> us_env x = EnvironmentID tc"

text \<open>One event is appended, with an audit event and an outbox event under the same
  transaction id, unless the outbox has one.\<close>

definition usage_added :: "Ctx \<Rightarrow> UsageEvent \<Rightarrow> string \<Rightarrow> db \<Rightarrow> db \<Rightarrow> bool" where
  "usage_added tc x action d d' \<longleftrightarrow>
     of_tenant tc x \<and> (\<forall>y\<in>set (db_usage d). \<not> tb_clash usage_events x y) \<and>
     db_usage d' = db_usage d @ [x] \<and>
     (\<exists>au. db_audit d' = db_audit d @ [au] \<and> au_action au = action \<and> au_target au = opt_text (us_id x)) \<and>
     (\<exists>evs. db_outbox d' = db_outbox d @ evs) \<and>
     (\<exists>ev\<in>set (db_outbox d'). ob_provider ev = ProviderID tc \<and> ob_env ev = EnvironmentID tc \<and>
        ob_tx ev = us_tx x) \<and>
     d' = d\<lparr>db_usage := db_usage d', db_outbox := db_outbox d', db_audit := db_audit d', db_seq := db_seq d'\<rparr>"

lemma usage_addedI:
  assumes "of_tenant tc x" "\<forall>y\<in>set (db_usage d). \<not> tb_clash usage_events x y"
    and "au_action au = action" "au_target au = opt_text (us_id x)"
    and "ob_provider ev = ProviderID tc" "ob_env ev = EnvironmentID tc" "ob_tx ev = us_tx x"
  shows usage_added_new: "usage_added tc x action d (d\<lparr>db_usage := db_usage d @ [x],
      db_outbox := db_outbox d @ [ev], db_seq := n, db_audit := db_audit d @ [au]\<rparr>)"
    and usage_added_old: "ev \<in> set (db_outbox d) \<Longrightarrow>
      usage_added tc x action d (d\<lparr>db_usage := db_usage d @ [x], db_seq := n, db_audit := db_audit d @ [au]\<rparr>)"
  using assms by (auto simp: usage_added_def)

lemmas usage_added_intros = usage_added_new usage_added_old [rotated 7]

definition ingested :: "Ctx \<Rightarrow> UsageIngestInput \<Rightarrow> string \<Rightarrow> UsageIngestResult option \<Rightarrow> db \<Rightarrow> db \<Rightarrow> bool" where
  "ingested tc inp hash out d d' \<longleftrightarrow>
     (case out of
        None \<Rightarrow> d' = d
      | Some r \<Rightarrow>
          (ur_Status r = UsageStatusDuplicate \<and> d' = d \<and>
             (\<exists>x\<in>set (db_usage d). ur_Event r = Some x \<and> of_tenant tc x \<and>
                us_tx x = ui_TransactionID inp \<and> us_hash x = hash)) \<or>
          (ur_Status r = UsageStatusAccepted \<and>
             (\<exists>x. ur_Event r = Some x \<and> usage_added tc x ''usage.accepted'' d d' \<and>
                us_tx x = ui_TransactionID inp \<and> us_hash x = hash \<and>
                us_kind x = UsageKindIngestion \<and> us_reverses x = None)))"

lemma ingest_tx_effect:
  "outcome (\<lambda>out d'. ingested tc inp hash out d d') d (WithTenant tc (ingest_tx tc inp hash) e d)"
  unfolding ingest_tx_def Let_def
  by (rule outcome_WithTenant_live, intro wp_intros,
      simp_all add: usage_events_tb put_rows_def bump_def is_pg_def)
     (auto simp: ingested_def of_tenant_def usage_events_tb intro!: usage_added_intros)

text \<open>The trace of a conflict is one audit event of the tenant that names the transaction.\<close>

definition conflict_audited :: "Ctx \<Rightarrow> string \<Rightarrow> db \<Rightarrow> db \<Rightarrow> bool" where
  "conflict_audited tc t d d' \<longleftrightarrow>
     (\<exists>au. au_action au = ''usage.conflict'' \<and> au_target au = opt_text t \<and> au_actor au = CredentialID tc \<and>
        au_provider au = ProviderNullUUID tc \<and> au_env au = EnvironmentNullUUID tc \<and>
        d' = d\<lparr>db_seq := db_seq d + 1, db_audit := db_audit d @ [au]\<rparr>)"

lemma conflict_audit_runs:
  assumes "db_seq d \<notin> au_id ` set (db_audit d)"
  shows "conflict_audited tc t d (snd (WithTenant tc (conflict_audit tc t) e d))"
proof -
  let ?au = "\<lparr>au_id = db_seq d, au_provider = ProviderNullUUID tc, au_env = EnvironmentNullUUID tc,
     au_actor_type = ''credential'', au_actor = CredentialID tc, au_action = ''usage.conflict'',
     au_target_type = opt_text ''usage_event'', au_target = opt_text t, au_request = opt_text (rt_request e),
     au_meta = JObj [(''transaction_id'', JStr t)], au_created = rt_now e\<rparr>"
  have "\<forall>x\<in>set (db_audit d). db_seq d \<noteq> au_id x" using assms by auto
  then have "WithTenant tc (conflict_audit tc t) e d =
      (Inr (), d\<lparr>db_seq := db_seq d + 1, db_audit := db_audit d @ [?au]\<rparr>)"
    by (simp add: conflict_audit_def insertAuditTx_def WithTenant_def run_tx_def bnd_def ret_def draw_def now_tx_def
        get_rt_def q_insert_def live_tx_def audit_events_tb ProviderNullUUID_def EnvironmentNullUUID_def vis_opt_def)
  then show ?thesis unfolding conflict_audited_def by (intro exI [of _ ?au]) simp
qed

lemma conflict_audit_usage: "db_usage (snd (WithTenant tc (conflict_audit tc t) e d)) = db_usage d"
proof (rule outcome_snd [where P = "\<lambda>d'. db_usage d' = db_usage d"])
  show "outcome (\<lambda>_ d'. db_usage d' = db_usage d) d (WithTenant tc (conflict_audit tc t) e d)"
    unfolding conflict_audit_def by (intro wp_intros) simp
qed simp

definition submitted :: "Ctx \<Rightarrow> UsageIngestInput \<Rightarrow> string \<Rightarrow> db \<Rightarrow> UsageIngestResult result \<times> db \<Rightarrow> bool" where
  "submitted tc inp hash d res \<longleftrightarrow>
     (case res of
        (Inr r, d') \<Rightarrow> ingested tc inp hash (Some r) d d'
      | (Inl err, d') \<Rightarrow> db_usage d' = db_usage d)"

definition payload_hash :: "rt \<Rightarrow> UsageIngestInput \<Rightarrow> string result" where
  "payload_hash e inp = UsagePayloadHash e (ui_TransactionID inp) (ui_MetricCode inp)
     (ui_CustomerExternalID inp) (ui_Timestamp inp) (ui_Properties inp)"

text \<open>What passes the validation and the fences runs on the database as it was.\<close>

lemma IngestUsage_runs:
  assumes "ingest_error cfg inp (rt_now e) = None" "check_fences tc e d = (Inr u, d1)"
    "payload_hash e inp = Inr hash"
  shows "IngestUsage cfg tc inp e d =
     (case WithTenant tc (ingest_tx tc inp hash) e d of
        (Inl err, d2) \<Rightarrow> (Inl err, d2)
      | (Inr (Some out), d2) \<Rightarrow> (Inr out, d2)
      | (Inr None, d2) \<Rightarrow>
          (Inl ErrUsageConflict, snd (WithTenant tc (conflict_audit tc (ui_TransactionID inp)) e d2)))"
proof -
  have "d1 = d" using assms(2) check_fences_db [of tc e d] by simp
  with assms show ?thesis by (simp add: IngestUsage_def payload_hash_def)
qed

lemma IngestUsage_rejects:
  assumes "ingest_error cfg inp (rt_now e) \<noteq> None \<or> fst (check_fences tc e d) \<noteq> Inr () \<or>
    \<not> is_ok (payload_hash e inp)"
  shows "\<exists>err. IngestUsage cfg tc inp e d = (Inl err, d)"
  using assms check_fences_db [of tc e d]
  by (auto simp: IngestUsage_def payload_hash_def is_ok_def split: option.splits prod.splits sum.splits)

lemma IngestUsage_effect: "\<exists>hash. submitted tc inp hash d (IngestUsage cfg tc inp e d)"
proof (cases "ingest_error cfg inp (rt_now e) \<noteq> None \<or> fst (check_fences tc e d) \<noteq> Inr () \<or>
    \<not> is_ok (payload_hash e inp)")
  case True
  then obtain err where "IngestUsage cfg tc inp e d = (Inl err, d)" using IngestUsage_rejects by blast
  then show ?thesis by (simp add: submitted_def)
next
  case False
  then obtain hash d1 where ok: "ingest_error cfg inp (rt_now e) = None"
    "check_fences tc e d = (Inr (), d1)" "payload_hash e inp = Inr hash"
    by (cases "check_fences tc e d") (auto simp: is_ok_iff)
  have "outcome (\<lambda>out d'. ingested tc inp hash out d d') d (WithTenant tc (ingest_tx tc inp hash) e d)"
    by (rule ingest_tx_effect)
  then have "submitted tc inp hash d (IngestUsage cfg tc inp e d)"
    using conflict_audit_usage [of tc "ui_TransactionID inp" e d]
    unfolding IngestUsage_runs [OF ok]
    by (auto simp: submitted_def outcome_def ingested_def [of tc inp hash None]
        split: prod.splits sum.splits option.splits)
  then show ?thesis ..
qed

definition invoiced :: "string option \<Rightarrow> Ctx \<Rightarrow> db \<Rightarrow> bool" where
  "invoiced t tc d \<longleftrightarrow> t \<noteq> None \<and> (\<exists>l\<in>set (db_lines d). il_tx l = t \<and>
     il_provider l = ProviderID tc \<and> il_env l = EnvironmentID tc)"

lemma wp_CheckUsageInvoiced [wp_intros]:
  assumes "s_role s = Tenant (ProviderID tc) (EnvironmentID tc)" "Q (invoiced t tc (s_db s)) s"
  shows "wp (q_CheckUsageInvoiced t (ProviderID tc) (EnvironmentID tc)) Q s"
proof -
  have "filter (\<lambda>x. t \<noteq> None \<and> il_tx x = t \<and> il_provider x = ProviderID tc \<and> il_env x = EnvironmentID tc)
      (rows invoice_lines s) \<noteq> [] \<longleftrightarrow> invoiced t tc (s_db s)"
    using assms(1) by (auto simp: invoiced_def rows_def filter_empty_conv invoice_lines_tb)
  with assms(2) show ?thesis
    unfolding q_CheckUsageInvoiced_def by (intro wp_intros) simp
qed

definition reversed :: "Ctx \<Rightarrow> string \<Rightarrow> UsageEvent \<Rightarrow> db \<Rightarrow> db \<Rightarrow> bool" where
  "reversed tc t x d d' \<longleftrightarrow> usage_added tc x ''usage.reversed'' d d' \<and>
     (\<exists>y\<in>set (db_usage d). of_tenant tc y \<and> us_tx y = t \<and> reverses x y) \<and>
     \<not> invoiced (opt_text t) tc d"

lemma reversedI:
  assumes "y \<in> set (db_usage d)" "usage_added tc x ''usage.reversed'' d d'" "of_tenant tc y" "us_tx y = t"
    and "reverses x y"
    and "\<not> invoiced (opt_text t) tc d"
  shows "reversed tc t x d d'"
  using assms by (auto simp: reversed_def)

lemma ReverseUsage_effect:
  "outcome (\<lambda>x d'. reversed tc t x d d') d (ReverseUsage tc t rtx reason e d)"
  unfolding ReverseUsage_def reverse_tx_def
  by (intro wp_intros, simp_all add: usage_events_tb put_rows_def bump_def is_pg_def)
     ((rule reversedI, assumption, (rule usage_added_new | rule usage_added_old [rotated 7], assumption),
       simp_all add: of_tenant_def usage_events_tb reverses_def invoiced_def)[1])+

section \<open>The ledger over time\<close>

text \<open>Submissions, reversals, and whatever leaves the usage events alone.\<close>

inductive usage_move :: "db \<Rightarrow> db \<Rightarrow> bool" where
  submission: "usage_move d (snd (IngestUsage cfg tc inp e d))"
| reversal: "usage_move d (snd (ReverseUsage tc t rtx reason e d))"
| elsewhere: "db_usage d' = db_usage d \<Longrightarrow> usage_move d d'"

definition ledger_grows :: "UsageEvent list \<Rightarrow> UsageEvent list \<Rightarrow> bool" where
  "ledger_grows us us' \<longleftrightarrow> (usage_ledger us \<longrightarrow> usage_ledger us') \<and> (\<exists>new. us' = us @ new)"

lemma ledger_grows_refl: "ledger_grows us us"
  by (simp add: ledger_grows_def)

lemma ledger_grows_trans: "ledger_grows a b \<Longrightarrow> ledger_grows b c \<Longrightarrow> ledger_grows a c"
  by (auto simp: ledger_grows_def)

lemma ledger_grows_added:
  assumes "usage_added tc x action d d'"
    and "us_kind x = UsageKindIngestion \<and> us_reverses x = None \<or> (\<exists>y\<in>set (db_usage d). reverses x y)"
  shows "ledger_grows (db_usage d) (db_usage d')"
  using assms usage_ledger_snoc [of "db_usage d" x] by (auto simp: ledger_grows_def usage_added_def)

lemma usage_move_grows: "usage_move d d' \<Longrightarrow> ledger_grows (db_usage d) (db_usage d')"
proof (induction rule: usage_move.induct)
  case (submission d cfg tc inp e)
  obtain hash where "submitted tc inp hash d (IngestUsage cfg tc inp e d)"
    using IngestUsage_effect by blast
  then show ?case
  proof (cases "IngestUsage cfg tc inp e d")
    case (Pair r d')
    with \<open>submitted tc inp hash d _\<close> show ?thesis
    proof (cases r)
      case (Inl err)
      with Pair \<open>submitted tc inp hash d _\<close> have "db_usage d' = db_usage d"
        by (auto simp: submitted_def)
      with Pair show ?thesis by (simp add: ledger_grows_refl)
    next
      case (Inr out)
      with Pair \<open>submitted tc inp hash d _\<close> show ?thesis
        by (auto simp: submitted_def ingested_def ledger_grows_refl intro: ledger_grows_added)
    qed
  qed
next
  case (reversal d tc t rtx reason e)
  have "outcome (\<lambda>x d'. ledger_grows (db_usage d) (db_usage d')) d (ReverseUsage tc t rtx reason e d)"
    by (rule outcome_mono [OF ReverseUsage_effect]) (auto simp: reversed_def intro: ledger_grows_added)
  then show ?case by (rule outcome_snd) (rule ledger_grows_refl)
qed (simp add: ledger_grows_refl)

lemma usage_moves_grow: "usage_move\<^sup>*\<^sup>* d d' \<Longrightarrow> ledger_grows (db_usage d) (db_usage d')"
  by (induction rule: rtranclp_induct) (blast intro: ledger_grows_refl ledger_grows_trans usage_move_grows)+

text \<open>An event of the ledger is the only one under its transaction id.\<close>

lemma ledger_event:
  assumes "usage_ledger (db_usage d)" "x \<in> set (db_usage d)" "of_tenant tc x"
  shows "q_GetUsageEventByTransactionID (ProviderID tc) (EnvironmentID tc) (us_tx x)
     \<lparr>s_db = d, s_rt = e, s_role = Tenant (ProviderID tc) (EnvironmentID tc), s_aborted = False\<rparr> =
     Inr (x, \<lparr>s_db = d, s_rt = e, s_role = Tenant (ProviderID tc) (EnvironmentID tc), s_aborted = False\<rparr>)"
proof -
  let ?s = "\<lparr>s_db = d, s_rt = e, s_role = Tenant (ProviderID tc) (EnvironmentID tc), s_aborted = False\<rparr>"
  let ?p = "\<lambda>y. us_provider y = ProviderID tc \<and> us_env y = EnvironmentID tc \<and> us_tx y = us_tx x"
  have "\<exists>y. q_one usage_events ?p ?s = Inr (y, ?s) \<and> y \<in> set (tb_get usage_events (s_db ?s)) \<and>
      tb_vis usage_events (s_role ?s) y \<and> ?p y"
    by (rule q_one_hit [where x = x]) (use assms in \<open>simp_all add: usage_events_tb of_tenant_def\<close>)
  then obtain y where y: "q_one usage_events ?p ?s = Inr (y, ?s)" "y \<in> set (db_usage d)" "?p y"
    by (auto simp: usage_events_tb)
  with assms(3) have "tx_key y = tx_key x" by (simp add: tx_key_def of_tenant_def)
  with y assms have "y = x" by (auto simp: usage_ledger_def distinct_map inj_on_def)
  with y show ?thesis by simp
qed

lemma bnd_try_found: "m s = Inr (x, s) \<Longrightarrow> bnd (try_tx m) f s = f (Inr x) s"
  by (simp add: bnd_def try_tx_def)

lemma ingest_known:
  assumes "usage_ledger (db_usage d)" "x \<in> set (db_usage d)" "of_tenant tc x" "us_tx x = ui_TransactionID inp"
    and "ingest_error cfg inp (rt_now e) = None" "fst (check_fences tc e d) = Inr ()"
    and "payload_hash e inp = Inr hash"
  shows "IngestUsage cfg tc inp e d =
    (if us_hash x = hash then (Inr \<lparr>ur_Status = UsageStatusDuplicate, ur_Event = Some x\<rparr>, d)
     else (Inl ErrUsageConflict, snd (WithTenant tc (conflict_audit tc (ui_TransactionID inp)) e d)))"
proof -
  let ?s = "\<lparr>s_db = d, s_rt = e, s_role = Tenant (ProviderID tc) (EnvironmentID tc), s_aborted = False\<rparr>"
  have "ingest_tx tc inp hash ?s =
    Inr (if us_hash x = hash then Some \<lparr>ur_Status = UsageStatusDuplicate, ur_Event = Some x\<rparr> else None, ?s)"
    unfolding ingest_tx_def Let_def
    by (subst bnd_try_found, rule ledger_event [OF assms(1-3), of e, unfolded assms(4)]) (simp add: ret_def)
  then have "WithTenant tc (ingest_tx tc inp hash) e d =
    (Inr (if us_hash x = hash then Some \<lparr>ur_Status = UsageStatusDuplicate, ur_Event = Some x\<rparr> else None), d)"
    by (simp add: WithTenant_def run_tx_def)
  moreover obtain u d1 where "check_fences tc e d = (Inr u, d1)"
    using assms(6) by (cases "check_fences tc e d") auto
  ultimately show ?thesis using IngestUsage_runs [OF assms(5) _ assms(7)] by simp
qed

section \<open>Properties\<close>

text \<open>C10. The usage ledger is append-only and stays sound: whatever sequence of submissions,
  reversals and unrelated changes runs, no event is changed or removed, transaction ids stay
  unique per tenant, and every reversal cancels one ingestion of the same tenant, metric,
  customer and subscription, which no other reversal cancels.\<close>

theorem usage_ledger_sound:
  assumes "usage_move\<^sup>*\<^sup>* d d'" "usage_ledger (db_usage d)"
  shows "usage_ledger (db_usage d') \<and> (\<exists>new. db_usage d' = db_usage d @ new)"
  using usage_moves_grow [OF assms(1)] assms(2) by (simp add: ledger_grows_def)

text \<open>C9. A transaction id counts once, however often it is submitted: after an accepted
  submission and any number of moves, submitting it again, when the validation and the fences
  let it pass, returns the accepted event as a duplicate and changes nothing if the payload
  has the same hash, and otherwise is a conflict whose only trace is one audit event of the
  tenant that names the transaction. The number the sequence gives that event is not in use.\<close>

theorem usage_exactly_once:
  assumes "IngestUsage cfg tc inp e d = (Inr r, d1)" "ur_Status r = UsageStatusAccepted"
    and "usage_ledger (db_usage d)" "usage_move\<^sup>*\<^sup>* d1 d2"
    and "ui_TransactionID again = ui_TransactionID inp" "ingest_error cfg again (rt_now e') = None"
    and "fst (check_fences tc e' d2) = Inr ()" "payload_hash e' again = Inr hash"
    and "db_seq d2 \<notin> au_id ` set (db_audit d2)"
  shows "if Inr hash = payload_hash e inp
    then IngestUsage cfg tc again e' d2 = (Inr \<lparr>ur_Status = UsageStatusDuplicate, ur_Event = ur_Event r\<rparr>, d2)
    else fst (IngestUsage cfg tc again e' d2) = Inl ErrUsageConflict \<and>
         conflict_audited tc (ui_TransactionID inp) d2 (snd (IngestUsage cfg tc again e' d2))"
proof -
  obtain hash0 d0 where ok: "ingest_error cfg inp (rt_now e) = None" "check_fences tc e d = (Inr (), d0)"
    "payload_hash e inp = Inr hash0"
    using assms(1) IngestUsage_rejects [of cfg inp e tc d]
    by (cases "check_fences tc e d") (auto simp: is_ok_iff)
  have "ingested tc inp hash0 (Some r) d d1"
    using ingest_tx_effect [of tc inp hash0 d e] assms(1)
    by (auto simp: IngestUsage_runs [OF ok] outcome_def split: prod.splits sum.splits option.splits)
  with assms(2) obtain x where x: "ur_Event r = Some x" "usage_added tc x ''usage.accepted'' d d1"
    "us_tx x = ui_TransactionID inp" "us_hash x = hash0" "us_kind x = UsageKindIngestion" "us_reverses x = None"
    by (auto simp: ingested_def)
  from x have "usage_ledger (db_usage d1)" "x \<in> set (db_usage d1)" "of_tenant tc x"
    using ledger_grows_added [of tc x "''usage.accepted''" d d1] assms(3)
    by (auto simp: ledger_grows_def usage_added_def)
  with usage_moves_grow [OF assms(4)] have "usage_ledger (db_usage d2)" "x \<in> set (db_usage d2)"
    by (auto simp: ledger_grows_def)
  from ingest_known [OF this \<open>of_tenant tc x\<close> _ assms(6-8)] x(3) assms(5)
  have "IngestUsage cfg tc again e' d2 =
    (if hash0 = hash then (Inr \<lparr>ur_Status = UsageStatusDuplicate, ur_Event = Some x\<rparr>, d2)
     else (Inl ErrUsageConflict, snd (WithTenant tc (conflict_audit tc (ui_TransactionID again)) e' d2)))"
    by (simp add: x(4))
  then show ?thesis using x(1) ok(3) assms(5) conflict_audit_runs [OF assms(9)] by simp
qed

text \<open>C37. The hash that recognizes a repetition does not depend on how the properties are
  written: objects with the same entries in another order, and absent properties and an empty
  object, have the same hash.\<close>

theorem usage_hash_canonical:
  "(mset kvs = mset kvs' \<and> distinct (map fst kvs) \<longrightarrow>
      UsagePayloadHash e t code ext ts (RawJson (JObj kvs)) =
      UsagePayloadHash e t code ext ts (RawJson (JObj kvs'))) \<and>
   UsagePayloadHash e t code ext ts RawEmpty = UsagePayloadHash e t code ext ts (RawJson (JObj []))"
proof -
  have "mset kvs = mset kvs' \<and> distinct (map fst kvs) \<Longrightarrow>
      any_value e (JObj kvs) = any_value e (JObj kvs')"
    by (blast intro: any_value_permuted)
  then show ?thesis by (auto simp: UsagePayloadHash_def)
qed

text \<open>Integers beyond \<open>2 ^ 53\<close> are rounded before they are hashed, so that two different
  payloads can pass for the same one.\<close>

lemma large_integers_hash_alike:
  "UsagePayloadHash e t code ext ts (RawJson (JObj [(''n'', JInt 9007199254740992)])) =
   UsagePayloadHash e t code ext ts (RawJson (JObj [(''n'', JInt 9007199254740993)]))"
proof -
  have "float_int 9007199254740993 = float_int 9007199254740992"
    by (simp add: float_int_def round53_def Let_def bit_len.simps)
  then show ?thesis by (simp add: UsagePayloadHash_def)
qed

section \<open>A run\<close>

definition demo_window :: UsageWindow where
  "demo_window = \<lparr>usageFutureSkew = 5 * Minute, usageLateWindow = 168 * Hour\<rparr>"

definition demo_usage :: UsageIngestInput where
  "demo_usage = \<lparr>ui_TransactionID = ''t1'', ui_MetricCode = ''calls'', ui_CustomerExternalID = ''cust'',
     ui_Timestamp = 100, ui_Properties = RawEmpty\<rparr>"

definition demo_submission :: "UsageIngestResult result \<times> db" where
  "demo_submission = IngestUsage demo_window (demo_ctx ''p1'' ''e1'') demo_usage (demo_rt 100) demo_db"

lemma demo_submission_accepted:
  "(case fst demo_submission of Inr r \<Rightarrow> ur_Status r = UsageStatusAccepted | Inl _ \<Rightarrow> False) \<and>
   fst (check_fences (demo_ctx ''p1'' ''e1'') (demo_rt 200) (snd demo_submission)) = Inr () \<and>
   db_seq (snd demo_submission) \<notin> au_id ` set (db_audit (snd demo_submission))"
  by code_simp

lemma demo_again:
  "ingest_error demo_window demo_usage (rt_now (demo_rt 200)) = None"
  "payload_hash (demo_rt 200) demo_usage = Inr ''hash''" "payload_hash (demo_rt 100) demo_usage = Inr ''hash''"
  by (simp_all add: ingest_error_def demo_usage_def demo_window_def demo_rt_def payload_hash_def
      UsagePayloadHash_def)

lemma demo_ledger: "usage_ledger (db_usage demo_db)"
  by (simp add: usage_ledger_def demo_db_def)

theorem usage_ledger_sound_witness: "usage_ledger (db_usage (snd demo_submission))"
proof -
  have "usage_move demo_db (snd demo_submission)"
    unfolding demo_submission_def by (rule usage_move.submission)
  from usage_ledger_sound [OF r_into_rtranclp [of usage_move, OF this] demo_ledger] show ?thesis by simp
qed

theorem usage_exactly_once_witness:
  "\<exists>r d. demo_submission = (Inr r, d) \<and>
     IngestUsage demo_window (demo_ctx ''p1'' ''e1'') demo_usage (demo_rt 200) d =
       (Inr \<lparr>ur_Status = UsageStatusDuplicate, ur_Event = ur_Event r\<rparr>, d)"
proof -
  obtain r d where r: "demo_submission = (Inr r, d)" "ur_Status r = UsageStatusAccepted"
    "fst (check_fences (demo_ctx ''p1'' ''e1'') (demo_rt 200) d) = Inr ()" "db_seq d \<notin> au_id ` set (db_audit d)"
  proof (cases "fst demo_submission")
    case (Inr r)
    with demo_submission_accepted that [of r "snd demo_submission"] show ?thesis
      by (simp add: prod_eq_iff)
  qed (use demo_submission_accepted in simp)
  from usage_exactly_once [OF r(1) [unfolded demo_submission_def] r(2) demo_ledger rtranclp.rtrancl_refl
      refl demo_again(1) r(3) demo_again(2) r(4)] r(1)
  show ?thesis by (intro exI [of _ r] exI [of _ d]) (simp add: demo_again(3))
qed

theorem usage_hash_canonical_witness:
  "UsagePayloadHash (demo_rt 0) ''t'' ''calls'' ''cust'' 1 (RawJson (JObj [(''a'', JInt 1), (''b'', JNull)])) =
   UsagePayloadHash (demo_rt 0) ''t'' ''calls'' ''cust'' 1 (RawJson (JObj [(''b'', JNull), (''a'', JInt 1)]))"
  using usage_hash_canonical [of "[(''a'', JInt 1), (''b'', JNull)]" "[(''b'', JNull), (''a'', JInt 1)]"]
  by simp

end
