(* ===== verification/Invoicing.thy ===== *)
theory Invoicing
  imports Usage_Metering
begin

text \<open>
  \<open>internal/service/invoices.go\<close> and the rest of \<open>customers.go\<close>: invoices are pulled from the
  billing engine page by page and stored with the catalog version their subscription pins,
  each line with the metric and the price it was billed under. A finalized or voided invoice
  is never changed again, and the database guards it too. The billing engine is a parameter.
\<close>

section \<open>What the billing engine returns\<close>

record FeeSync =
  fe_LagoFeeID :: string
  fe_ItemCode :: string
  fe_ItemType :: string
  fe_ItemName :: string
  fe_Units :: string
  fe_PreciseUnitAmount :: string
  fe_AmountCents :: int
  fe_TaxesAmountCents :: int
  fe_TotalAmountCents :: int
  fe_Currency :: string
  fe_EventTransactionID :: string
  fe_FromDate :: "int option"
  fe_ToDate :: "int option"

record InvoiceSync =
  sy_LagoID :: string
  sy_Number :: string
  sy_IssuingDate :: int
  sy_InvoiceType :: string
  sy_Status :: string
  sy_PaymentStatus :: string
  sy_Currency :: string
  sy_FeesAmountCents :: int
  sy_CouponsAmountCents :: int
  sy_CreditNotesAmountCents :: int
  sy_SubTotalExclTaxCents :: int
  sy_TaxesAmountCents :: int
  sy_SubTotalInclTaxCents :: int
  sy_TotalAmountCents :: int
  sy_FileURL :: string
  sy_WebURL :: string
  sy_LagoCreatedAt :: "int option"
  sy_ExternalCustomerID :: string
  sy_ExternalSubscriptionID :: string
  sy_Fees :: "FeeSync list"

text \<open>A page of invoices and the number of the next page, 0 at the end.\<close>

type_synonym invoice_pages = "int \<Rightarrow> (InvoiceSync list \<times> int) result"

abbreviation InvoiceStatusFinalized :: string where "InvoiceStatusFinalized \<equiv> ''finalized''"
abbreviation InvoiceStatusVoided :: string where "InvoiceStatusVoided \<equiv> ''voided''"

definition terminal_status :: "string \<Rightarrow> bool" where
  "terminal_status st \<longleftrightarrow> st = InvoiceStatusFinalized \<or> st = InvoiceStatusVoided"

section \<open>Triggers\<close>

text \<open>\<open>invoices_finalized_guard\<close> (\<open>OLD\<close>, \<open>NEW\<close>) and \<open>guard_finalized_invoice\<close>.\<close>

definition invoices_finalized_guard :: "Invoice \<Rightarrow> Invoice \<Rightarrow> bool" where
  "invoices_finalized_guard old new \<longleftrightarrow>
     (terminal_status (iv_status old) \<longrightarrow>
        iv_status new = iv_status old \<and> iv_lago new = iv_lago old \<and> iv_number new = iv_number old \<and>
        iv_customer new = iv_customer old \<and> iv_sub new = iv_sub old \<and> iv_version new = iv_version old \<and>
        iv_issuing new = iv_issuing old \<and> iv_type new = iv_type old \<and> iv_currency new = iv_currency old \<and>
        iv_fees new = iv_fees old \<and> iv_coupons new = iv_coupons old \<and> iv_credits new = iv_credits old \<and>
        iv_subtotal_excl new = iv_subtotal_excl old \<and> iv_taxes new = iv_taxes old \<and>
        iv_subtotal_incl new = iv_subtotal_incl old \<and> iv_total new = iv_total old \<and>
        (iv_finalized old \<noteq> None \<longrightarrow> iv_finalized new = iv_finalized old) \<and>
        (iv_voided old \<noteq> None \<longrightarrow> iv_voided new = iv_voided old))"

definition guard_finalized_invoice :: "db \<Rightarrow> InvoiceLine \<Rightarrow> bool" where
  "guard_finalized_invoice d l \<longleftrightarrow>
     \<not> (\<exists>x\<in>set (db_invoices d). iv_id x = il_invoice l \<and> terminal_status (iv_status x))"

section \<open>Queries\<close>

definition same_invoice :: "Invoice \<Rightarrow> Invoice \<Rightarrow> bool" where
  "same_invoice x y \<longleftrightarrow> iv_provider x = iv_provider y \<and> iv_env x = iv_env y \<and> iv_lago x = iv_lago y"

definition overwrite_invoice :: "Invoice \<Rightarrow> Invoice \<Rightarrow> Invoice" where
  "overwrite_invoice r x = x\<lparr>iv_number := iv_number r, iv_status := iv_status r, iv_payment := iv_payment r,
     iv_currency := iv_currency r, iv_fees := iv_fees r, iv_coupons := iv_coupons r,
     iv_credits := iv_credits r, iv_subtotal_excl := iv_subtotal_excl r, iv_taxes := iv_taxes r,
     iv_subtotal_incl := iv_subtotal_incl r, iv_total := iv_total r, iv_file := iv_file r,
     iv_web := iv_web r, iv_finalized := iv_finalized r, iv_voided := iv_voided r, iv_synced := iv_synced r\<rparr>"

definition q_UpsertInvoice :: "Invoice \<Rightarrow> Invoice tx" where
  "q_UpsertInvoice r = live_tx (\<lambda>s.
     if \<exists>x\<in>set (rows invoices s). same_invoice r x \<and> \<not> invoices_finalized_guard x (overwrite_invoice r x)
     then Inl (PgError ''P0001'')
     else q_upsert invoices same_invoice (overwrite_invoice r) r s)"

abbreviation q_GetInvoiceStatusByLagoID :: "uuid \<Rightarrow> uuid \<Rightarrow> string \<Rightarrow> (uuid \<times> string) tx" where
  "q_GetInvoiceStatusByLagoID p en lago \<equiv>
     bnd (q_one invoices (\<lambda>x. iv_provider x = p \<and> iv_env x = en \<and> iv_lago x = lago)) (\<lambda>x.
     ret (iv_id x, iv_status x))"

definition q_DeleteInvoiceLinesByInvoice :: "uuid \<Rightarrow> uuid \<Rightarrow> uuid \<Rightarrow> unit tx" where
  "q_DeleteInvoiceLinesByInvoice i p en = live_tx (\<lambda>s.
     if \<exists>l\<in>set (rows invoice_lines s). il_invoice l = i \<and> il_provider l = p \<and> il_env l = en \<and>
          \<not> guard_finalized_invoice (s_db s) l
     then Inl (PgError ''P0001'')
     else bnd (q_delete invoice_lines (\<lambda>l. il_invoice l = i \<and> il_provider l = p \<and> il_env l = en))
            (\<lambda>_. ret ()) s)"

definition line_row ::
  "uuid \<Rightarrow> uuid \<Rightarrow> uuid \<Rightarrow> uuid \<Rightarrow> FeeSync \<Rightarrow> uuid option \<Rightarrow> uuid option \<Rightarrow> InvoiceLine" where
  "line_row i invoice p en fee metric price =
     \<lparr>il_id = i, il_invoice = invoice, il_provider = p, il_env = en, il_fee = fe_LagoFeeID fee,
      il_code = fe_ItemCode fee, il_type = fe_ItemType fee, il_name = fe_ItemName fee,
      il_units = fe_Units fee, il_unit_amount = fe_PreciseUnitAmount fee,
      il_amount = fe_AmountCents fee, il_taxes = fe_TaxesAmountCents fee,
      il_total = fe_TotalAmountCents fee, il_currency = fe_Currency fee,
      il_tx = opt_text (fe_EventTransactionID fee), il_from = fe_FromDate fee, il_to = fe_ToDate fee,
      il_metric = metric, il_price = price\<rparr>"

abbreviation q_InsertInvoiceLine ::
  "uuid \<Rightarrow> uuid \<Rightarrow> uuid \<Rightarrow> uuid \<Rightarrow> FeeSync \<Rightarrow> uuid option \<Rightarrow> uuid option \<Rightarrow> InvoiceLine tx" where
  "q_InsertInvoiceLine i invoice p en fee metric price \<equiv>
     q_insert invoice_lines (line_row i invoice p en fee metric price)"

abbreviation q_ListMetricsByVersion :: "uuid \<Rightarrow> Metric list tx" where
  "q_ListMetricsByVersion v \<equiv> bnd (q_many metrics (\<lambda>x. mt_version x = v)) (\<lambda>xs. ret (sort_by mt_code xs))"

abbreviation q_ListPricesByVersion :: "uuid \<Rightarrow> Price list tx" where
  "q_ListPricesByVersion v \<equiv> bnd (q_many prices (\<lambda>x. px_version x = v)) (\<lambda>xs. ret (sort_by px_id xs))"

text \<open>\<open>ORDER BY issuing_date DESC\<close>; equal dates stay in the order of insertion.\<close>

definition newest_invoices :: "int \<Rightarrow> Invoice list \<Rightarrow> Invoice list" where
  "newest_invoices n xs = take (nat n) (sort_key (\<lambda>x. - iv_issuing x) xs)"

abbreviation q_ListInvoicesByTenant :: "uuid \<Rightarrow> uuid \<Rightarrow> int \<Rightarrow> Invoice list tx" where
  "q_ListInvoicesByTenant p en n \<equiv>
     bnd (q_many invoices (\<lambda>x. iv_provider x = p \<and> iv_env x = en)) (\<lambda>xs. ret (newest_invoices n xs))"

abbreviation q_GetInvoiceByID :: "uuid \<Rightarrow> uuid \<Rightarrow> uuid \<Rightarrow> Invoice tx" where
  "q_GetInvoiceByID i p en \<equiv> q_one invoices (\<lambda>x. iv_id x = i \<and> iv_provider x = p \<and> iv_env x = en)"

abbreviation q_ListInvoiceLinesByInvoice :: "uuid \<Rightarrow> uuid \<Rightarrow> uuid \<Rightarrow> InvoiceLine list tx" where
  "q_ListInvoiceLinesByInvoice i p en \<equiv>
     q_many invoice_lines (\<lambda>l. il_invoice l = i \<and> il_provider l = p \<and> il_env l = en)"

text \<open>The views that resolve the customer's external id and the kind of the environment.\<close>

definition q_invoice_views :: "(Invoice \<Rightarrow> bool) \<Rightarrow> (Invoice \<times> string \<times> string) list tx" where
  "q_invoice_views p =
     bnd (q_many invoices p) (\<lambda>xs.
     bnd (q_many customer_accounts (\<lambda>_. True)) (\<lambda>cs.
     bnd (q_many environments (\<lambda>_. True)) (\<lambda>es.
     ret (map (\<lambda>((i, c), en). (i, cu_external c, en_kind en))
           (joined (\<lambda>(i, c) en. en_id en = iv_env i)
             (joined (\<lambda>i c. cu_id c = iv_customer i) (sort_key (\<lambda>x. - iv_issuing x) xs) cs) es)))))"

abbreviation q_ListInvoicesByProvider :: "uuid \<Rightarrow> (Invoice \<times> string \<times> string) list tx" where
  "q_ListInvoicesByProvider p \<equiv>
     bnd (q_invoice_views (\<lambda>x. iv_provider x = p)) (\<lambda>vs. ret (take 200 vs))"

abbreviation q_ListInvoicesByProviderEnv :: "uuid \<Rightarrow> uuid \<Rightarrow> (Invoice \<times> string \<times> string) list tx" where
  "q_ListInvoicesByProviderEnv p en \<equiv>
     bnd (q_invoice_views (\<lambda>x. iv_provider x = p \<and> iv_env x = en)) (\<lambda>vs. ret (take 200 vs))"

abbreviation q_ListInvoicesByCustomer :: "uuid \<Rightarrow> int \<Rightarrow> (Invoice \<times> string \<times> string) list tx" where
  "q_ListInvoicesByCustomer c n \<equiv>
     bnd (q_invoice_views (\<lambda>x. iv_customer x = c)) (\<lambda>vs. ret (take (nat n) vs))"

abbreviation q_GetInvoiceByProviderEnvID :: "uuid \<Rightarrow> uuid \<Rightarrow> uuid \<Rightarrow> (Invoice \<times> string \<times> string) tx" where
  "q_GetInvoiceByProviderEnvID i p en \<equiv>
     bnd (q_invoice_views (\<lambda>x. iv_id x = i \<and> iv_provider x = p \<and> iv_env x = en)) (\<lambda>vs.
     case vs of [] \<Rightarrow> throw ErrNoRows | v # _ \<Rightarrow> ret v)"

abbreviation q_ListUsageEventsByCustomer :: "uuid \<Rightarrow> int \<Rightarrow> (UsageEvent \<times> string \<times> string) list tx" where
  "q_ListUsageEventsByCustomer c n \<equiv>
     bnd (q_many usage_events (\<lambda>x. us_customer x = c)) (\<lambda>us.
     bnd (q_many customer_accounts (\<lambda>_. True)) (\<lambda>cs.
     bnd (q_many environments (\<lambda>_. True)) (\<lambda>es.
     ret (take (nat n) (map (\<lambda>((u, c), en). (u, cu_external c, en_kind en))
            (joined (\<lambda>(u, c) en. en_id en = us_env u)
              (joined (\<lambda>u c. cu_id c = us_customer u) (rev us) cs) es))))))"

section \<open>One invoice\<close>

text \<open>The lookup of a line's metric and price in the pinned catalog version. Both maps are
  empty when the invoice has no subscription; the first price of the plan for a metric wins.\<close>

definition metric_by_code :: "Metric list \<Rightarrow> string \<Rightarrow> uuid option" where
  "metric_by_code ms code = map_option mt_id (find (\<lambda>m. mt_code m = code) (rev ms))"

definition price_by_metric :: "uuid \<Rightarrow> Price list \<Rightarrow> uuid \<Rightarrow> uuid option" where
  "price_by_metric plan ps m = map_option px_id (find (\<lambda>p. px_plan p = plan \<and> px_metric p = Some m) ps)"

definition catalog_maps :: "Subscription option \<Rightarrow> (Metric list \<times> Price list) tx" where
  "catalog_maps sub =
     (case sub of
        None \<Rightarrow> ret ([], [])
      | Some s \<Rightarrow>
          bnd (mapped_err (q_ListMetricsByVersion (su_version s))) (\<lambda>ms.
          bnd (if su_plan s \<noteq> uuid_Nil then mapped_err (q_ListPricesByVersion (su_version s)) else ret []) (\<lambda>ps.
          ret (ms, ps))))"

fun insert_fees :: "Ctx \<Rightarrow> uuid \<Rightarrow> uuid \<Rightarrow> Metric list \<Rightarrow> Price list \<Rightarrow> FeeSync list \<Rightarrow> unit tx" where
  "insert_fees tc invoice plan ms ps [] = ret ()"
| "insert_fees tc invoice plan ms ps (fee # fees) =
     (let metricID = metric_by_code ms (fe_ItemCode fee);
          priceID = Option.bind metricID (price_by_metric plan ps) in
      bnd (draw rt_gen) (\<lambda>id.
      bnd (mapped_err (q_InsertInvoiceLine id invoice (ProviderID tc) (EnvironmentID tc) fee metricID priceID)) (\<lambda>_.
      insert_fees tc invoice plan ms ps fees)))"

text \<open>The days of \<open>pgtype.Date\<close>; a zero issuing date is NULL, which the column refuses.\<close>

definition date_of :: "int \<Rightarrow> int" where
  "date_of t = t div (24 * Hour)"

definition invoice_row ::
  "Ctx \<Rightarrow> InvoiceSync \<Rightarrow> uuid \<Rightarrow> CustomerAccount \<Rightarrow> Subscription option \<Rightarrow> int \<Rightarrow> Invoice" where
  "invoice_row tc sy i customer sub now =
     \<lparr>iv_id = i, iv_provider = ProviderID tc, iv_env = EnvironmentID tc, iv_lago = sy_LagoID sy,
      iv_number = sy_Number sy, iv_customer = cu_id customer, iv_sub = map_option su_id sub,
      iv_version = map_option su_version sub, iv_issuing = date_of (sy_IssuingDate sy),
      iv_type = sy_InvoiceType sy, iv_status = sy_Status sy, iv_payment = sy_PaymentStatus sy,
      iv_currency = sy_Currency sy, iv_fees = sy_FeesAmountCents sy,
      iv_coupons = sy_CouponsAmountCents sy, iv_credits = sy_CreditNotesAmountCents sy,
      iv_subtotal_excl = sy_SubTotalExclTaxCents sy, iv_taxes = sy_TaxesAmountCents sy,
      iv_subtotal_incl = sy_SubTotalInclTaxCents sy, iv_total = sy_TotalAmountCents sy,
      iv_file = opt_text (sy_FileURL sy), iv_web = opt_text (sy_WebURL sy),
      iv_lago_created = sy_LagoCreatedAt sy,
      iv_finalized = (if sy_Status sy = InvoiceStatusFinalized
        then Some (if sy_IssuingDate sy = zero_time then now else sy_IssuingDate sy) else None),
      iv_voided = (if sy_Status sy = InvoiceStatusVoided then Some now else None),
      iv_synced = now\<rparr>"

definition optional_row :: "'r tx \<Rightarrow> 'r option tx" where
  "optional_row m = bnd (try_tx m) (\<lambda>res.
     case res of Inr x \<Rightarrow> ret (Some x) | Inl err \<Rightarrow> bnd (check (err = ErrNoRows) err) (\<lambda>_. ret None))"

definition write_lines ::
  "Ctx \<Rightarrow> InvoiceSync \<Rightarrow> Subscription option \<Rightarrow> Metric list \<Rightarrow> Price list \<Rightarrow> Invoice \<Rightarrow> unit tx" where
  "write_lines tc sy sub ms ps invoice =
     (if \<not> terminal_status (iv_status invoice) then
        bnd (q_DeleteInvoiceLinesByInvoice (iv_id invoice) (ProviderID tc) (EnvironmentID tc)) (\<lambda>_.
        insert_fees tc (iv_id invoice) (case sub of None \<Rightarrow> uuid_Nil | Some s \<Rightarrow> su_plan s) ms ps (sy_Fees sy))
      else ret ())"

definition store_invoice :: "Ctx \<Rightarrow> InvoiceSync \<Rightarrow> CustomerAccount \<Rightarrow> bool tx" where
  "store_invoice tc sy customer =
     bnd (if sy_ExternalSubscriptionID sy = '''' then ret None
          else optional_row (q_GetSubscriptionByExternalID (ProviderID tc) (EnvironmentID tc)
                 (sy_ExternalSubscriptionID sy))) (\<lambda>sub.
     bnd (catalog_maps sub) (\<lambda>(ms, ps).
     bnd now_tx (\<lambda>now.
     bnd (draw rt_gen) (\<lambda>id.
     bnd (check (sy_IssuingDate sy \<noteq> zero_time) (PgError ''23502'')) (\<lambda>_.
     bnd (mapped_err (q_UpsertInvoice (invoice_row tc sy id customer sub now))) (\<lambda>invoice.
     bnd (write_lines tc sy sub ms ps invoice) (\<lambda>_.
     bnd (emitOutboxTx (ProviderID tc) (EnvironmentID tc) ''invoice'' (iv_id invoice) ''invoice.synced'' (JObj
            [(''invoice_id'', JStr (iv_id invoice)), (''lago_id'', JStr (sy_LagoID sy)),
             (''status'', JStr (iv_status invoice)), (''customer_account_id'', JStr (cu_id customer))])) (\<lambda>_.
     bnd (insertAuditTx (ProviderNullUUID tc) (EnvironmentNullUUID tc) ''credential'' (CredentialID tc)
            ''invoice.sync'' ''invoice'' (iv_id invoice) (Some (JObj
            [(''lago_id'', JStr (sy_LagoID sy)), (''status'', JStr (iv_status invoice))]))) (\<lambda>_.
     ret True)))))))))"

definition sync_one_invoice :: "Ctx \<Rightarrow> InvoiceSync \<Rightarrow> bool tx" where
  "sync_one_invoice tc sy =
     bnd (optional_row (q_GetCustomerByExternalID (ProviderID tc) (EnvironmentID tc)
            (sy_ExternalCustomerID sy))) (\<lambda>found.
     case found of
       None \<Rightarrow> ret False
     | Some customer \<Rightarrow>
         bnd (optional_row (q_GetInvoiceStatusByLagoID (ProviderID tc) (EnvironmentID tc) (sy_LagoID sy))) (\<lambda>existing.
         case existing of
           None \<Rightarrow> store_invoice tc sy customer
         | Some (i, st) \<Rightarrow> if terminal_status st then ret False else store_invoice tc sy customer))"

definition syncOneInvoice :: "Ctx \<Rightarrow> InvoiceSync \<Rightarrow> rt \<Rightarrow> db \<Rightarrow> bool result \<times> db" where
  "syncOneInvoice tc sy = WithTenant tc (sync_one_invoice tc sy)"

section \<open>The sync\<close>

text \<open>The count of stored invoices is returned also with an error.\<close>

type_synonym sync_result = "(int \<times> goerr option) \<times> db"

fun sync_page :: "Ctx \<Rightarrow> InvoiceSync list \<Rightarrow> int \<Rightarrow> rt \<Rightarrow> db \<Rightarrow> sync_result" where
  "sync_page tc [] synced e d = ((synced, None), d)"
| "sync_page tc (sy # invs) synced e d =
     (if sy_ExternalCustomerID sy = '''' then sync_page tc invs synced e d
      else case syncOneInvoice tc sy e d of
        (Inl err, d') \<Rightarrow> ((synced, Some err), d')
      | (Inr stored, d') \<Rightarrow> sync_page tc invs (if stored then synced + 1 else synced) e d')"

partial_function (option) sync_pages ::
  "invoice_pages \<Rightarrow> Ctx \<Rightarrow> int \<Rightarrow> int \<Rightarrow> rt \<Rightarrow> db \<Rightarrow> sync_result option" where
  "sync_pages engine tc page synced e d =
     (case engine page of
        Inl err \<Rightarrow> Some ((synced, Some err), d)
      | Inr (invs, nextPage) \<Rightarrow>
          (case sync_page tc invs synced e d of
             ((n, Some err), d') \<Rightarrow> Some ((n, Some err), d')
           | ((n, None), d') \<Rightarrow>
               if nextPage = 0 then Some ((n, None), d') else sync_pages engine tc nextPage n e d'))"

text \<open>\<open>None\<close> as the engine is a service without a billing adapter.\<close>

definition SyncInvoices :: "invoice_pages option \<Rightarrow> Ctx \<Rightarrow> rt \<Rightarrow> db \<Rightarrow> sync_result option" where
  "SyncInvoices adapter tc e d =
     (case adapter of
        None \<Rightarrow> Some ((0, None), d)
      | Some engine \<Rightarrow>
          (case CheckCellDraining tc e d of
             (Inl err, d') \<Rightarrow> Some ((0, Some err), d')
           | (Inr _, d') \<Rightarrow> sync_pages engine tc 1 0 e d'))"

section \<open>Reading\<close>

record InvoiceDetail =
  id_Invoice :: Invoice
  id_Lines :: "InvoiceLine list"

record OperatorInvoiceDetail =
  od_Invoice :: "Invoice \<times> string \<times> string"
  od_Lines :: "InvoiceLine list"

definition ListInvoices :: "Ctx \<Rightarrow> int \<Rightarrow> rt \<Rightarrow> db \<Rightarrow> Invoice list result \<times> db" where
  "ListInvoices tc limit = WithTenant tc
     (q_ListInvoicesByTenant (ProviderID tc) (EnvironmentID tc) limit)"

definition GetInvoice :: "Ctx \<Rightarrow> uuid \<Rightarrow> rt \<Rightarrow> db \<Rightarrow> InvoiceDetail result \<times> db" where
  "GetInvoice tc i = WithTenant tc
     (bnd (mapped_err (q_GetInvoiceByID i (ProviderID tc) (EnvironmentID tc))) (\<lambda>invoice.
      bnd (q_ListInvoiceLinesByInvoice i (ProviderID tc) (EnvironmentID tc)) (\<lambda>lines.
      ret \<lparr>id_Invoice = invoice, id_Lines = lines\<rparr>)))"

definition ListInvoicesByProvider ::
  "uuid \<Rightarrow> rt \<Rightarrow> db \<Rightarrow> (Invoice \<times> string \<times> string) list result \<times> db" where
  "ListInvoicesByProvider providerID = WithOperator (q_ListInvoicesByProvider providerID)"

definition ListInvoicesByProviderEnv ::
  "uuid \<Rightarrow> uuid \<Rightarrow> rt \<Rightarrow> db \<Rightarrow> (Invoice \<times> string \<times> string) list result \<times> db" where
  "ListInvoicesByProviderEnv providerID envID = WithOperator (q_ListInvoicesByProviderEnv providerID envID)"

definition GetInvoiceDetailByProvider ::
  "uuid \<Rightarrow> uuid \<Rightarrow> uuid \<Rightarrow> rt \<Rightarrow> db \<Rightarrow> OperatorInvoiceDetail result \<times> db" where
  "GetInvoiceDetailByProvider providerID envID invoiceID = WithOperator
     (bnd (mapped_err (q_GetInvoiceByProviderEnvID invoiceID providerID envID)) (\<lambda>invoice.
      bnd (q_ListInvoiceLinesByInvoice invoiceID providerID envID) (\<lambda>lines.
      ret \<lparr>od_Invoice = invoice, od_Lines = lines\<rparr>)))"

record CustomerDetail =
  cd_Customer :: CustomerAccount
  cd_Subscriptions :: "SubscriptionRow list"
  cd_UsageEvents :: "(UsageEvent \<times> string \<times> string) list"
  cd_Invoices :: "(Invoice \<times> string \<times> string) list"

abbreviation customerDetailLimit :: int where "customerDetailLimit \<equiv> 100"

definition GetCustomerDetail :: "Ctx \<Rightarrow> string \<Rightarrow> rt \<Rightarrow> db \<Rightarrow> CustomerDetail result \<times> db" where
  "GetCustomerDetail tc externalID = WithTenant tc
     (bnd (mapped_err (q_GetCustomerByExternalID (ProviderID tc) (EnvironmentID tc) externalID)) (\<lambda>customer.
      bnd (q_ListSubscriptionsByCustomer (cu_id customer) customerDetailLimit) (\<lambda>subs.
      bnd (q_ListUsageEventsByCustomer (cu_id customer) customerDetailLimit) (\<lambda>events.
      bnd (q_ListInvoicesByCustomer (cu_id customer) customerDetailLimit) (\<lambda>invs.
      ret \<lparr>cd_Customer = customer, cd_Subscriptions = subs, cd_UsageEvents = events,
           cd_Invoices = invs\<rparr>)))))"

section \<open>What a sync keeps\<close>

lemma wp_optional_row [wp_intros]:
  "wp m (\<lambda>x. Q (Some x)) s \<Longrightarrow> (m s = Inl ErrNoRows \<Longrightarrow> Q None s) \<Longrightarrow> wp (optional_row m) Q s"
  unfolding optional_row_def
  by (auto simp: wp_def bnd_def try_tx_def check_def ret_def throw_def is_pg_def split: sum.splits prod.splits)

lemma wp_live_UpsertInvoice [wp_intros]:
  assumes "\<And>x xs. \<not> s_aborted s \<Longrightarrow> hit_rows invoices (same_invoice r) s = x # xs \<Longrightarrow>
      Q (overwrite_invoice r x) (upd_rows invoices (same_invoice r) (overwrite_invoice r) s)"
    and "\<not> s_aborted s \<Longrightarrow> \<forall>x\<in>set (db_invoices (s_db s)). \<not> tb_clash invoices r x \<Longrightarrow>
      Q r (put_rows invoices (db_invoices (s_db s) @ [r]) s)"
  shows "wp (q_UpsertInvoice r) Q s"
proof -
  have "wp (q_upsert invoices same_invoice (overwrite_invoice r) r) Q s"
    by (rule wp_q_upsert) (use assms in \<open>auto simp: invoices_tb\<close>)
  then show ?thesis by (simp add: q_UpsertInvoice_def wp_def live_tx_def)
qed

lemma wp_DeleteInvoiceLines [wp_intros]:
  assumes "\<not> s_aborted s \<Longrightarrow> Q () (put_rows invoice_lines
      (filter (\<lambda>l. \<not> (tb_vis invoice_lines (s_role s) l \<and> il_invoice l = i \<and> il_provider l = p \<and> il_env l = en))
        (db_lines (s_db s))) s)"
  shows "wp (q_DeleteInvoiceLinesByInvoice i p en) Q s"
proof -
  have "wp (bnd (q_delete invoice_lines (\<lambda>l. il_invoice l = i \<and> il_provider l = p \<and> il_env l = en))
      (\<lambda>_. ret ())) Q s"
    by (intro wp_intros) (use assms in \<open>simp add: invoice_lines_tb\<close>)
  then show ?thesis by (simp add: q_DeleteInvoiceLinesByInvoice_def wp_def live_tx_def)
qed

text \<open>The metric of a line has the line's code; its price is of the same catalog version and
  for that metric.\<close>

definition line_typed :: "Metric list \<Rightarrow> Price list \<Rightarrow> InvoiceLine \<Rightarrow> bool" where
  "line_typed ms ps l \<longleftrightarrow>
     (case il_metric l of
        None \<Rightarrow> il_price l = None
      | Some m \<Rightarrow> (\<exists>x\<in>set ms. mt_id x = m \<and> mt_code x = il_code l \<and>
          (\<forall>p. il_price l = Some p \<longrightarrow>
             (\<exists>y\<in>set ps. px_id y = p \<and> px_metric y = Some m \<and> px_version y = mt_version x))))"

definition maps_typed :: "db \<Rightarrow> Metric list \<Rightarrow> Price list \<Rightarrow> bool" where
  "maps_typed d ms ps \<longleftrightarrow> (\<exists>v. (\<forall>x\<in>set ms. x \<in> set (db_metrics d) \<and> mt_version x = v) \<and>
     (\<forall>y\<in>set ps. y \<in> set (db_prices d) \<and> px_version y = v))"

lemma wp_catalog_maps [wp_intros]:
  assumes "\<And>ms ps. maps_typed (s_db s) ms ps \<Longrightarrow> Q (ms, ps) s"
  shows "wp (catalog_maps sub) Q s"
  unfolding catalog_maps_def
proof (intro wp_intros, goal_cases)
  case 1
  show ?case by (rule assms) (simp add: maps_typed_def)
next
  case (2 y)
  show ?case by (rule assms) (auto simp: maps_typed_def rows_def metrics_tb prices_tb intro!: exI [of _ "su_version y"])
next
  case (3 y)
  show ?case by (rule assms) (auto simp: maps_typed_def rows_def metrics_tb)
qed

lemma line_row_typed:
  assumes "maps_typed d ms ps"
  shows "line_typed (db_metrics d) (db_prices d) (line_row i invoice p en fee
    (metric_by_code ms (fe_ItemCode fee))
    (Option.bind (metric_by_code ms (fe_ItemCode fee)) (price_by_metric plan ps)))"
proof (cases "find (\<lambda>m. mt_code m = fe_ItemCode fee) (rev ms)")
  case (Some m)
  have m: "m \<in> set ms" "mt_code m = fe_ItemCode fee" using find_Some_mem [OF Some] by auto
  have "\<exists>y\<in>set ps. px_id y = q \<and> px_metric y = Some (mt_id m)" if "price_by_metric plan ps (mt_id m) = Some q" for q
    using that by (auto simp: price_by_metric_def dest!: find_Some_mem)
  with m assms show ?thesis
    by (fastforce simp: line_typed_def line_row_def metric_by_code_def Some maps_typed_def)
qed (simp add: line_typed_def line_row_def metric_by_code_def)

lemma wp_insert_fees:
  assumes "maps_typed (s_db s) ms ps"
    and "\<And>ls n. \<forall>l\<in>set ls. il_invoice l = invoice \<and> line_typed (db_metrics (s_db s)) (db_prices (s_db s)) l \<Longrightarrow>
      Q () (s\<lparr>s_db := (s_db s)\<lparr>db_lines := db_lines (s_db s) @ ls, db_seq := n\<rparr>\<rparr>)"
  shows "wp (insert_fees tc invoice plan ms ps fees) Q s"
  using assms
proof (induction fees arbitrary: s)
  case Nil
  then show ?case using Nil.prems(2) [of "[]" "db_seq (s_db s)"] by (simp add: wp_ret)
next
  case (Cons fee fees)
  let ?l = "\<lambda>i. line_row i invoice (ProviderID tc) (EnvironmentID tc) fee (metric_by_code ms (fe_ItemCode fee))
    (Option.bind (metric_by_code ms (fe_ItemCode fee)) (price_by_metric plan ps))"
  show ?case unfolding insert_fees.simps Let_def
    apply (intro wp_intros)
    apply (rule Cons.IH)
    subgoal using Cons.prems(1) by (simp add: maps_typed_def put_rows_def bump_def invoice_lines_tb)
    subgoal for ls n
      using Cons.prems(2) [of "?l (rt_gen (s_rt s) (db_seq (s_db s))) # ls" n]
        line_row_typed [OF Cons.prems(1)]
      by (simp add: put_rows_def bump_def invoice_lines_tb line_row_def)
    done
qed

text \<open>Ids and keys of invoices are unique; lines are typed.\<close>

definition invoice_key :: "Invoice \<Rightarrow> uuid \<times> uuid \<times> string" where
  "invoice_key x = (iv_provider x, iv_env x, iv_lago x)"

definition invoices_ok :: "db \<Rightarrow> bool" where
  "invoices_ok d \<longleftrightarrow>
     distinct (map iv_id (db_invoices d)) \<and> distinct (map invoice_key (db_invoices d)) \<and>
     (\<forall>l\<in>set (db_lines d). line_typed (db_metrics d) (db_prices d) l)"

definition lines_of :: "uuid \<Rightarrow> db \<Rightarrow> InvoiceLine list" where
  "lines_of i d = filter (\<lambda>l. il_invoice l = i) (db_lines d)"

definition terminal :: "Invoice \<Rightarrow> bool" where
  "terminal x \<longleftrightarrow> terminal_status (iv_status x)"

definition invoices_kept :: "db \<Rightarrow> db \<Rightarrow> bool" where
  "invoices_kept d d' \<longleftrightarrow>
     (invoices_ok d \<longrightarrow> invoices_ok d' \<and> (\<forall>x\<in>set (db_invoices d). terminal x \<longrightarrow>
        x \<in> set (db_invoices d') \<and> lines_of (iv_id x) d' = lines_of (iv_id x) d))"

lemma invoices_kept_refl: "invoices_kept d d"
  by (simp add: invoices_kept_def)

lemma invoices_kept_trans: "invoices_kept a b \<Longrightarrow> invoices_kept b c \<Longrightarrow> invoices_kept a c"
  by (auto simp: invoices_kept_def)

text \<open>Storing an invoice: one invoice is overwritten or added, and its lines are replaced
  unless it has become terminal.\<close>

definition lines_replaced ::
  "uuid \<Rightarrow> Metric list \<Rightarrow> Price list \<Rightarrow> InvoiceLine list \<Rightarrow> InvoiceLine list \<Rightarrow> bool" where
  "lines_replaced i ms ps ls ls' \<longleftrightarrow>
     (\<exists>p new. ls' = filter p ls @ new \<and> (\<forall>l. il_invoice l \<noteq> i \<longrightarrow> p l) \<and>
        (\<forall>l\<in>set new. il_invoice l = i \<and> line_typed ms ps l))"

lemma lines_replaced_none: "lines_replaced i ms ps ls ls"
  by (auto simp: lines_replaced_def intro!: exI [of _ "\<lambda>_. True"] exI [of _ "[]"])

lemma wp_write_lines:
  assumes "maps_typed (s_db s) ms ps"
    and "\<And>ls n. lines_replaced (iv_id invoice) (db_metrics (s_db s)) (db_prices (s_db s)) (db_lines (s_db s)) ls \<Longrightarrow>
      Q () (s\<lparr>s_db := (s_db s)\<lparr>db_lines := ls, db_seq := n\<rparr>\<rparr>)"
  shows "wp (write_lines tc sy sub ms ps invoice) Q s"
  unfolding write_lines_def
proof (intro wp_intros wp_insert_fees, goal_cases)
  case 1
  then show ?case using assms(1) by (simp add: maps_typed_def put_rows_def invoice_lines_tb)
next
  case (2 ls n)
  then show ?case
    by (simp add: put_rows_def invoice_lines_tb) (rule assms(2), fastforce simp: lines_replaced_def)
next
  case 3
  then show ?case using assms(2) [of "db_lines (s_db s)" "db_seq (s_db s)"]
    by (simp add: lines_replaced_none)
qed

lemma lines_replaced_other:
  assumes "lines_replaced i ms ps ls ls'" "j \<noteq> i"
  shows "filter (\<lambda>l. il_invoice l = j) ls' = filter (\<lambda>l. il_invoice l = j) ls"
proof -
  obtain p new where r: "ls' = filter p ls @ new" "\<forall>l. il_invoice l \<noteq> i \<longrightarrow> p l"
    "\<forall>l\<in>set new. il_invoice l = i" using assms(1) by (auto simp: lines_replaced_def)
  have "filter (\<lambda>l. il_invoice l = j) new = []" using r(3) assms(2) by (auto simp: filter_empty_conv)
  moreover have "(p l \<and> il_invoice l = j) = (il_invoice l = j)" for l using r(2) assms(2) by auto
  ultimately show ?thesis by (simp add: r(1))
qed

lemma lines_replaced_typed:
  "lines_replaced i ms ps ls ls' \<Longrightarrow> \<forall>l\<in>set ls. line_typed ms ps l \<Longrightarrow> \<forall>l\<in>set ls'. line_typed ms ps l"
  by (auto simp: lines_replaced_def)

lemma overwrite_invoice_ids [simp]:
  "iv_id (overwrite_invoice r x) = iv_id x" "invoice_key (overwrite_invoice r x) = invoice_key x"
  by (simp_all add: overwrite_invoice_def invoice_key_def)

lemma kept_added:
  assumes "lines_replaced (iv_id r) (db_metrics d) (db_prices d) (db_lines d) ls"
    and "\<forall>x\<in>set (db_invoices d). \<not> tb_clash invoices r x"
  shows "invoices_kept d (d\<lparr>db_invoices := db_invoices d @ [r], db_lines := ls, db_outbox := evs,
    db_seq := n, db_audit := aus\<rparr>)"
  using assms(2) lines_replaced_other [OF assms(1)] lines_replaced_typed [OF assms(1)]
  by (fastforce simp: invoices_kept_def invoices_ok_def invoices_tb invoice_key_def lines_of_def)

lemma kept_overwritten:
  assumes "lines_replaced (iv_id x) (db_metrics d) (db_prices d) (db_lines d) ls"
    and "x \<in> set (db_invoices d)" "hit x" "\<forall>y\<in>set (db_invoices d). hit y \<longrightarrow> \<not> terminal y"
  shows "invoices_kept d (d\<lparr>db_invoices := update_where hit (overwrite_invoice r) (db_invoices d),
    db_lines := ls, db_outbox := evs, db_seq := n, db_audit := aus\<rparr>)"
    (is "invoices_kept d ?d")
proof -
  have "map iv_id (db_invoices ?d) = map iv_id (db_invoices d)"
    "map invoice_key (db_invoices ?d) = map invoice_key (db_invoices d)"
    by (simp_all add: update_where_def)
  moreover have "y \<in> set (db_invoices ?d)" "iv_id y \<noteq> iv_id x"
    if "y \<in> set (db_invoices d)" "terminal y" "distinct (map iv_id (db_invoices d))" for y
    using that assms(2-4) by (auto simp: set_update_where distinct_map inj_on_def)
  ultimately show ?thesis
    using lines_replaced_other [OF assms(1)] lines_replaced_typed [OF assms(1)]
    by (auto simp: invoices_kept_def invoices_ok_def lines_of_def)
qed

lemma hit_invoice:
  "hit_rows invoices p s = x # xs \<Longrightarrow> x \<in> set (db_invoices (s_db s)) \<and> tb_vis invoices (s_role s) x \<and> p x"
  using list.set_intros(1) [of x xs] by (auto simp: hit_rows_def invoices_tb dest: filter_eq_ConsD)

lemma same_invoice_key: "same_invoice r x \<longleftrightarrow> invoice_key x = invoice_key r"
  by (auto simp: same_invoice_def invoice_key_def)

lemma invoice_row_key: "invoice_key (invoice_row tc sy i customer sub now) = (ProviderID tc, EnvironmentID tc, sy_LagoID sy)"
  by (simp add: invoice_row_def invoice_key_def)

lemma store_invoice_kept:
  assumes "s_role s = Tenant (ProviderID tc) (EnvironmentID tc)"
    and "\<forall>x\<in>set (db_invoices (s_db s)). invoice_key x = (ProviderID tc, EnvironmentID tc, sy_LagoID sy) \<longrightarrow> \<not> terminal x"
  shows "wp (store_invoice tc sy customer) (\<lambda>_ s'. invoices_kept (s_db s) (s_db s')) s"
  unfolding store_invoice_def
  by (intro wp_intros wp_write_lines,
      simp_all add: put_rows_def upd_rows_def bump_def invoices_tb maps_typed_def)
     ((rule kept_added, assumption, simp add: invoices_tb; fail)
      | (rule kept_overwritten, assumption;
         (drule hit_invoice, simp add: invoices_tb same_invoice_key invoice_row_key assms; fail)))+

lemma wp_status_lookup:
  assumes "s_role s = Tenant (ProviderID tc) (EnvironmentID tc)" "\<not> s_aborted s" "invoices_ok (s_db s)"
    and "\<And>i st. (\<forall>x\<in>set (db_invoices (s_db s)). invoice_key x = (ProviderID tc, EnvironmentID tc, lago) \<longrightarrow>
        iv_status x = st) \<Longrightarrow> Q (Some (i, st)) s"
    and "(\<forall>x\<in>set (db_invoices (s_db s)). invoice_key x \<noteq> (ProviderID tc, EnvironmentID tc, lago)) \<Longrightarrow> Q None s"
  shows "wp (optional_row (q_GetInvoiceStatusByLagoID (ProviderID tc) (EnvironmentID tc) lago)) Q s"
proof (intro wp_intros, goal_cases)
  case (1 r)
  then have "iv_status x = iv_status r"
    if "x \<in> set (db_invoices (s_db s))" "invoice_key x = (ProviderID tc, EnvironmentID tc, lago)" for x
    using that assms(3) by (auto simp: invoices_ok_def invoices_tb invoice_key_def distinct_map inj_on_def)
  then show ?case by (intro assms(4)) blast
next
  case 2
  then have "\<forall>x\<in>set (rows invoices s). \<not> (iv_provider x = ProviderID tc \<and> iv_env x = EnvironmentID tc \<and> iv_lago x = lago)"
    using q_one_InlD [OF _ assms(2)] by (auto simp: bnd_def ret_def split: sum.splits)
  then show ?case by (intro assms(5)) (auto simp: rows_def invoices_tb invoice_key_def assms(1))
qed

lemma sync_one_invoice_kept:
  assumes "s_role s = Tenant (ProviderID tc) (EnvironmentID tc)" "\<not> s_aborted s"
  shows "wp (sync_one_invoice tc sy) (\<lambda>_ s'. invoices_kept (s_db s) (s_db s')) s"
proof (cases "invoices_ok (s_db s)")
  case True
  have store: "wp (store_invoice tc sy customer) (\<lambda>_ s'. invoices_kept (s_db s) (s_db s')) s"
    if "\<forall>x\<in>set (db_invoices (s_db s)). invoice_key x = (ProviderID tc, EnvironmentID tc, sy_LagoID sy) \<longrightarrow> \<not> terminal x"
    for customer by (rule store_invoice_kept [OF assms(1) that])
  show ?thesis
    unfolding sync_one_invoice_def
    by (intro wp_bnd, rule wp_optional_row)
       (intro wp_intros wp_status_lookup [OF assms True] store;
        simp add: invoices_kept_refl terminal_def; fail)+
next
  case False
  then show ?thesis by (auto simp: invoices_kept_def wp_def split: sum.splits)
qed

lemma syncOneInvoice_kept: "invoices_kept d (snd (syncOneInvoice tc sy e d))"
proof (rule outcome_snd [OF _ invoices_kept_refl])
  show "outcome (\<lambda>_ d'. invoices_kept d d') d (syncOneInvoice tc sy e d)"
    unfolding syncOneInvoice_def
    by (rule outcome_WithTenant)
       (rule wp_mono [OF sync_one_invoice_kept], simp_all)
qed

lemma sync_page_kept: "invoices_kept d (snd (sync_page tc sys n e d))"
proof (induction tc sys n e d rule: sync_page.induct)
  case (2 tc sy sys n e d)
  have k: "invoices_kept d d'" if "syncOneInvoice tc sy e d = (r, d')" for r d'
    using syncOneInvoice_kept [of d tc sy e] that by simp
  show ?case
  proof (cases "sy_ExternalCustomerID sy = ''''")
    case False
    then show ?thesis using 2(2) [OF False] k
      by (auto split: prod.splits sum.splits intro: invoices_kept_trans)
  qed (use 2(1) in simp)
qed (simp add: invoices_kept_refl)

lemma sync_pages_kept: "sync_pages engine tc page n e d = Some (r, d') \<Longrightarrow> invoices_kept d d'"
proof -
  assume "sync_pages engine tc page n e d = Some (r, d')"
  then have "invoices_kept d (snd (r, d'))"
  proof (rule sync_pages.raw_induct [where P = "\<lambda>engine tc page n e d y. invoices_kept d (snd y)", rotated])
    fix loop :: "invoice_pages \<Rightarrow> Ctx \<Rightarrow> int \<Rightarrow> int \<Rightarrow> rt \<Rightarrow> db \<Rightarrow> sync_result option"
    fix engine tc page n e d y
    assume IH: "\<And>engine tc page n e d y. loop engine tc page n e d = Some y \<Longrightarrow> invoices_kept d (snd y)"
    have k: "invoices_kept d d1" if "sync_page tc sys n e d = (m, d1)" for sys m d1
      using sync_page_kept [of d tc sys n e] that by simp
    assume "(case engine page of
        Inl err \<Rightarrow> Some ((n, Some err), d)
      | Inr (invs, nextPage) \<Rightarrow>
          (case sync_page tc invs n e d of
             ((n, Some err), d') \<Rightarrow> Some ((n, Some err), d')
           | ((n, None), d') \<Rightarrow>
               if nextPage = 0 then Some ((n, None), d') else loop engine tc nextPage n e d')) = Some y"
    then show "invoices_kept d (snd y)"
      by (auto split: sum.splits prod.splits option.splits if_splits
          intro: invoices_kept_refl k sync_page_kept invoices_kept_trans [OF k] dest: IH)
  qed
  then show "invoices_kept d d'" by simp
qed

lemma SyncInvoices_kept: "SyncInvoices adapter tc e d = Some (r, d') \<Longrightarrow> invoices_kept d d'"
  using CheckCellDraining_db [of tc e d]
  by (auto simp: SyncInvoices_def invoices_kept_refl split: option.splits prod.splits sum.splits
      dest: sync_pages_kept)

section \<open>Properties\<close>

text \<open>Syncs with whatever engine, and changes that leave invoices and lines alone and only add
  metrics and prices.\<close>

inductive invoice_move :: "db \<Rightarrow> db \<Rightarrow> bool" where
  sync: "SyncInvoices adapter tc e d = Some (r, d') \<Longrightarrow> invoice_move d d'"
| elsewhere: "db_invoices d' = db_invoices d \<Longrightarrow> db_lines d' = db_lines d \<Longrightarrow>
    set (db_metrics d) \<subseteq> set (db_metrics d') \<Longrightarrow> set (db_prices d) \<subseteq> set (db_prices d') \<Longrightarrow>
    invoice_move d d'"

lemma line_typed_mono:
  "line_typed ms ps l \<Longrightarrow> set ms \<subseteq> set ms' \<Longrightarrow> set ps \<subseteq> set ps' \<Longrightarrow> line_typed ms' ps' l"
  by (auto simp: line_typed_def split: option.splits) blast

lemma invoice_move_kept: "invoice_move d d' \<Longrightarrow> invoices_kept d d'"
proof (induction rule: invoice_move.induct)
  case (elsewhere d' d)
  then show ?case
    by (auto simp: invoices_kept_def invoices_ok_def lines_of_def intro: line_typed_mono)
qed (rule SyncInvoices_kept)

lemma invoice_moves_kept: "invoice_move\<^sup>*\<^sup>* d d' \<Longrightarrow> invoices_kept d d'"
  by (induction rule: rtranclp_induct)
     (blast intro: invoices_kept_refl invoices_kept_trans invoice_move_kept)+

text \<open>C11. A finalized or voided invoice is final: whatever the billing engine returns in any
  number of later syncs, for whatever tenants, the invoice and its lines stay exactly as they
  were.\<close>

theorem finalized_invoice_frozen:
  assumes "invoice_move\<^sup>*\<^sup>* d d'" "invoices_ok d" "x \<in> set (db_invoices d)"
    and "iv_status x \<in> {InvoiceStatusFinalized, InvoiceStatusVoided}"
  shows "x \<in> set (db_invoices d') \<and>
    filter (\<lambda>l. il_invoice l = iv_id x) (db_lines d') = filter (\<lambda>l. il_invoice l = iv_id x) (db_lines d)"
  using invoice_moves_kept [OF assms(1)] assms(2-4)
  by (auto simp: invoices_kept_def terminal_def terminal_status_def lines_of_def)

text \<open>C12. Invoices are well formed in every reachable state: their ids, and per tenant the ids
  of the billing engine, are unique, and every line that names a metric names one with the
  line's code, and a price of that metric in the same catalog version.\<close>

theorem invoices_well_formed:
  assumes "invoice_move\<^sup>*\<^sup>* d d'" "invoices_ok d"
  shows "distinct (map iv_id (db_invoices d')) \<and> distinct (map invoice_key (db_invoices d')) \<and>
    (\<forall>l\<in>set (db_lines d'). line_typed (db_metrics d') (db_prices d') l)"
  using invoice_moves_kept [OF assms(1)] assms(2) by (simp add: invoices_kept_def invoices_ok_def)

lemma sync_pages_returns:
  assumes "\<forall>page sys nxt. engine page = Inr (sys, nxt) \<longrightarrow> nxt = 0 \<or> page < nxt \<and> nxt \<le> bound"
  shows "\<exists>y. sync_pages engine tc page n e d = Some y"
proof (induction "nat (bound - page)" arbitrary: page n d rule: less_induct)
  case less
  show ?case
  proof (cases "engine page")
    case (Inr p)
    obtain sys nxt where p: "engine page = Inr (sys, nxt)" using Inr by (cases p) auto
    obtain m err d1 where s: "sync_page tc sys n e d = ((m, err), d1)"
      by (metis surj_pair)
    show ?thesis
    proof (cases "err = None \<and> nxt \<noteq> 0")
      case True
      with assms p have "page < nxt" "nxt \<le> bound" by auto
      then have "\<exists>y. sync_pages engine tc nxt m e d1 = Some y" by (intro less) simp
      with True show ?thesis by (subst sync_pages.simps) (simp add: p s)
    qed (subst sync_pages.simps, cases err, auto simp: p s)
  qed (subst sync_pages.simps, simp)
qed

text \<open>C13. A sync ends: when the billing engine numbers its pages upwards to some last page, the
  loop over the pages returns, with or without an error, whatever the invoices are.\<close>

theorem SyncInvoices_returns:
  assumes "\<forall>page sys nxt. engine page = Inr (sys, nxt) \<longrightarrow> nxt = 0 \<or> page < nxt \<and> nxt \<le> bound"
  shows "\<exists>synced err d'. SyncInvoices (Some engine) tc e d = Some ((synced, err), d')"
proof -
  obtain r d1 where c: "CheckCellDraining tc e d = (r, d1)" by fastforce
  obtain y where "sync_pages engine tc 1 0 e d1 = Some y" using sync_pages_returns [OF assms] by blast
  then show ?thesis by (cases r; cases y) (auto simp: SyncInvoices_def c)
qed

section \<open>A run\<close>

definition demo_fee :: FeeSync where
  "demo_fee = \<lparr>fe_LagoFeeID = ''f1'', fe_ItemCode = ''calls'', fe_ItemType = ''charge'', fe_ItemName = ''Calls'',
     fe_Units = ''1'', fe_PreciseUnitAmount = ''5'', fe_AmountCents = 5, fe_TaxesAmountCents = 0,
     fe_TotalAmountCents = 5, fe_Currency = ''EUR'', fe_EventTransactionID = ''t1'',
     fe_FromDate = None, fe_ToDate = None\<rparr>"

definition demo_invoice :: "string \<Rightarrow> int \<Rightarrow> InvoiceSync" where
  "demo_invoice st cents = \<lparr>sy_LagoID = ''lago'', sy_Number = ''n'', sy_IssuingDate = 0,
     sy_InvoiceType = ''subscription'', sy_Status = st, sy_PaymentStatus = ''pending'', sy_Currency = ''EUR'',
     sy_FeesAmountCents = cents, sy_CouponsAmountCents = 0, sy_CreditNotesAmountCents = 0,
     sy_SubTotalExclTaxCents = cents, sy_TaxesAmountCents = 0, sy_SubTotalInclTaxCents = cents,
     sy_TotalAmountCents = cents, sy_FileURL = '''', sy_WebURL = '''', sy_LagoCreatedAt = None,
     sy_ExternalCustomerID = ''cust'', sy_ExternalSubscriptionID = ''sub'', sy_Fees = [demo_fee]\<rparr>"

text \<open>Two pages, on a database that already holds the invoice in its final form.\<close>

definition demo_engine :: invoice_pages where
  "demo_engine page = (if page = 1 then Inr ([demo_invoice ''draft'' 7], 2) else Inr ([], 0))"

definition demo_final :: Invoice where
  "demo_final = invoice_row (demo_ctx ''p1'' ''e1'') (demo_invoice InvoiceStatusFinalized 5) ''i1''
     (hd (db_customers demo_db)) (Some (hd (db_subscriptions demo_db))) 0"

definition demo_billed :: db where
  "demo_billed = demo_db\<lparr>db_invoices := [demo_final]\<rparr>"

lemma demo_engine_pages:
  "\<forall>page sys nxt. demo_engine page = Inr (sys, nxt) \<longrightarrow> nxt = 0 \<or> page < nxt \<and> nxt \<le> 2"
  by (auto simp: demo_engine_def split: if_splits)

lemma demo_billed_ok: "invoices_ok demo_billed" "demo_final \<in> set (db_invoices demo_billed)"
  "iv_status demo_final \<in> {InvoiceStatusFinalized, InvoiceStatusVoided}"
  by (simp_all add: demo_billed_def invoices_ok_def demo_db_def demo_final_def invoice_row_def demo_invoice_def)

theorem SyncInvoices_returns_witness:
  "\<exists>synced err d'. SyncInvoices (Some demo_engine) (demo_ctx ''p1'' ''e1'') (demo_rt 0) demo_billed =
     Some ((synced, err), d')"
  by (rule SyncInvoices_returns [OF demo_engine_pages])

definition demo_resynced :: db where
  "demo_resynced = (case SyncInvoices (Some demo_engine) (demo_ctx ''p1'' ''e1'') (demo_rt 0) demo_billed of
     Some (_, d) \<Rightarrow> d | None \<Rightarrow> demo_billed)"

lemma demo_resync: "invoice_move\<^sup>*\<^sup>* demo_billed demo_resynced"
proof -
  obtain r d where "SyncInvoices (Some demo_engine) (demo_ctx ''p1'' ''e1'') (demo_rt 0) demo_billed = Some (r, d)"
    using sync_pages_returns [OF demo_engine_pages]
    by (cases "CheckCellDraining (demo_ctx ''p1'' ''e1'') (demo_rt 0) demo_billed")
       (fastforce simp: SyncInvoices_def split: sum.splits)
  then show ?thesis by (auto simp: demo_resynced_def intro: invoice_move.sync)
qed

theorem finalized_invoice_frozen_witness: "demo_final \<in> set (db_invoices demo_resynced)"
  using finalized_invoice_frozen [OF demo_resync demo_billed_ok] by blast

theorem invoices_well_formed_witness: "distinct (map iv_id (db_invoices demo_resynced))"
  using invoices_well_formed [OF demo_resync demo_billed_ok(1)] by blast

section \<open>Lines of final invoices\<close>

text \<open>An invoice that is already final when it is stored writes no lines, so that its usage is
  not recognized as invoiced.\<close>

lemma wp_write_no_lines:
  "terminal_status (iv_status invoice) \<Longrightarrow> Q () s \<Longrightarrow> wp (write_lines tc sy sub ms ps invoice) Q s"
  by (simp add: write_lines_def wp_ret)

lemma store_final_invoice:
  assumes "terminal_status (sy_Status sy)"
  shows "wp (store_invoice tc sy customer) (\<lambda>_ s'. db_lines (s_db s') = db_lines (s_db s)) s"
  unfolding store_invoice_def
  by (intro wp_intros wp_write_no_lines)
     (simp_all add: assms invoice_row_def overwrite_invoice_def put_rows_def upd_rows_def bump_def invoices_tb)

lemma final_invoice_has_no_lines:
  assumes "terminal_status (sy_Status sy)"
  shows "db_lines (snd (syncOneInvoice tc sy e d)) = db_lines d"
proof (rule outcome_snd [where P = "\<lambda>d'. db_lines d' = db_lines d" and d = d])
  show "outcome (\<lambda>_ d'. db_lines d' = db_lines d) d (syncOneInvoice tc sy e d)"
    unfolding syncOneInvoice_def sync_one_invoice_def
    by (intro wp_intros) (simp_all add: store_final_invoice [OF assms, THEN wp_mono])
qed simp

end
