(* ===== verification/Fencing.thy ===== *)
theory Fencing
  imports Invoicing
begin

text \<open>
  The write fence across the services: what a fenced failover stops. \<open>CheckCellDraining\<close> of
  \<open>internal/service/cells.go\<close> is asked by three operations, the creation of a subscription, the
  ingestion of usage and the synchronisation of invoices; the others do not ask it.
\<close>

text \<open>The three operations fail and change nothing, whatever they are asked.\<close>

definition billing_refused :: "Ctx \<Rightarrow> rt \<Rightarrow> db \<Rightarrow> bool" where
  "billing_refused tc e d \<longleftrightarrow>
     (\<forall>ext cust v plan. \<exists>err. CreateSubscription tc ext cust v plan e d = (Inl err, d)) \<and>
     (\<forall>cfg inp. \<exists>err. IngestUsage cfg tc inp e d = (Inl err, d)) \<and>
     (\<forall>engine. SyncInvoices (Some engine) tc e d = Some ((0, Some ErrCellDraining), d))"

lemma fences_closed:
  assumes "CheckCellDraining tc e d = (Inl ErrCellDraining, d)"
  shows "\<exists>err. check_fences tc e d = (Inl err, d)"
proof (cases "CheckCutoverLock tc e d")
  case (Pair r d1)
  with CheckCutoverLock_db [of tc e d] have "d1 = d" by simp
  with Pair assms show ?thesis by (cases r) (simp_all add: check_fences_def)
qed

lemma fenced_billing:
  assumes "CheckCellDraining tc e d = (Inl ErrCellDraining, d)"
  shows "billing_refused tc e d"
proof -
  obtain err where "check_fences tc e d = (Inl err, d)" using fences_closed [OF assms] by blast
  then show ?thesis using assms
    by (auto simp: billing_refused_def CreateSubscription_def fail_early_def IngestUsage_def SyncInvoices_def
        split: option.split)
qed

text \<open>
  C14. A fence closes the source cell to new subscriptions, usage and invoices before a
  provider leaves it. Once a failover is fenced, creating a subscription, ingesting usage and
  synchronising invoices fail and change nothing for every provider on the source cell; when the
  failover is then switched, the provider that failed over passes the check of the fence again, on
  the target cell, unless that is draining itself, while the three operations stay refused for
  all the others on the source cell.
\<close>

theorem fence_then_switch:
  assumes "moves_inv d" "distinct (map pv_id (db_providers d))" "distinct (map ce_id (db_cells d))"
    and "FenceFailover i e d = (Inr f, d1)" "SwitchFailover i e1 d1 = (Inr f1, d2)"
    and "p \<in> set (db_providers d)" "ProviderID tc = pv_id p" "pv_cell p = Some (fo_from f)"
    and "c \<in> set (db_cells d)" "ce_id c = fo_to f"
  shows "billing_refused tc e' d1 \<and>
    (if pv_id p = fo_provider f \<and> ce_status c \<noteq> CellStatusDraining then CheckCellDraining tc e' d2 = (Inr (), d2)
     else billing_refused tc e' d2)"
proof -
  let ?drain = "\<lambda>c. c\<lparr>ce_status := CellStatusDraining\<rparr>"
  have k: "moves_inv d1" using FenceFailover_kept [OF assms(1), of i e] by (simp add: assms(4) outcome_def moves_kept_def)
  have d1: "db_providers d1 = db_providers d" "fo_id f = i" "f \<in> set (db_failovers d1)"
    "db_cells d1 = update_where (\<lambda>c. ce_id c = fo_from f) ?drain (db_cells d)"
    using fence_effect [OF assms(1), of i e] by (simp_all add: assms(4) outcome_def)
  obtain f0 where "f0 \<in> set (db_failovers d1)" "fo_id f0 = i" and f1: "f1 = f0\<lparr>fo_status := FailoverStatusSwitched\<rparr>"
    and d2: "db_cells d2 = db_cells d1"
      "db_providers d2 = update_where (\<lambda>x. pv_id x = fo_provider f1) (\<lambda>x. x\<lparr>pv_cell := Some (fo_to f1)\<rparr>) (db_providers d)"
    using switch_effect [OF k, of i e1] by (auto simp: assms(5) outcome_def d1(1))
  with k d1 distinct_keys_unique [of fo_id "db_failovers d1" f0 f] have f0: "f0 = f"
    by (simp add: moves_inv_def exclusive_def)
  from k d1(3) have "fo_from f \<noteq> fo_to f" and route: "same_region d1 (fo_from f, fo_to f)"
    by (simp_all add: moves_inv_def exclusive_def failover_ok_def)
  obtain s where s: "s \<in> set (db_cells d1)" "ce_id s = fo_from f"
    using route by (auto simp: same_region_def regions_of_def)
  then have drained: "ce_status s = CellStatusDraining" by (auto simp: d1(4) set_update_where)
  have to: "c \<in> set (db_cells d1)" using assms(9,10) \<open>fo_from f \<noteq> fo_to f\<close> by (simp add: d1(4) set_update_where)
  have ids: "distinct (map ce_id (db_cells d1))" "distinct (map pv_id (db_providers d2))"
    using assms(2,3) by (simp_all add: d1(4) d2(2) map_update_where)
  have "CheckCellDraining tc e' d1 = (Inl ErrCellDraining, d1)"
    using draining_check [of d1 p tc s e'] assms(2,6-8) ids(1) s drained by (simp add: d1(1))
  moreover have "CheckCellDraining tc e' d2 =
      (if pv_id p = fo_provider f \<and> ce_status c \<noteq> CellStatusDraining then Inr () else Inl ErrCellDraining, d2)"
  proof (cases "pv_id p = fo_provider f")
    case True
    then have "p\<lparr>pv_cell := Some (fo_to f)\<rparr> \<in> set (db_providers d2)"
      using assms(6) by (simp add: d2(2) f1 f0 set_update_where)
    from draining_check [OF ids(2) _ this, of tc c e'] True assms(7,10) ids(1) to d2(1) show ?thesis by simp
  next
    case False
    then have "p \<in> set (db_providers d2)" using assms(6) by (simp add: d2(2) f1 f0 set_update_where)
    from draining_check [OF ids(2) _ this, of tc s e'] False assms(7,8) ids(1) s drained d2(1) show ?thesis by simp
  qed
  ultimately show ?thesis using fenced_billing by simp
qed

text \<open>The scenario of the witness: a second provider shares the source cell.\<close>

definition shared_cell_db :: db where
  "shared_cell_db = demo_db\<lparr>db_failovers := [(fenced_row ''gg'' ''p1'')\<lparr>fo_status := FailoverStatusInitiated\<rparr>]\<rparr>"

lemma shared_cell_moves:
  "fst (FenceFailover ''gg'' (demo_rt 1) shared_cell_db) = Inr (fenced_row ''gg'' ''p1'') \<and>
   fst (SwitchFailover ''gg'' (demo_rt 2) (snd (FenceFailover ''gg'' (demo_rt 1) shared_cell_db))) =
     Inr ((fenced_row ''gg'' ''p1'')\<lparr>fo_status := FailoverStatusSwitched\<rparr>)"
  by code_simp

theorem fence_then_switch_witness:
  "billing_refused (demo_ctx ''p1'' ''e1'') (demo_rt 3) (snd (FenceFailover ''gg'' (demo_rt 1) shared_cell_db))"
proof -
  let ?d1 = "snd (FenceFailover ''gg'' (demo_rt 1) shared_cell_db)"
  have inv: "moves_inv shared_cell_db"
    by (simp add: moves_inv_def exclusive_def failover_ok_def failover_final_def shared_cell_db_def fenced_row_def demo_db_def
        same_region_def regions_of_def)
  have "FenceFailover ''gg'' (demo_rt 1) shared_cell_db = (Inr (fenced_row ''gg'' ''p1''), ?d1)"
    "SwitchFailover ''gg'' (demo_rt 2) ?d1 =
      (Inr ((fenced_row ''gg'' ''p1'')\<lparr>fo_status := FailoverStatusSwitched\<rparr>),
       snd (SwitchFailover ''gg'' (demo_rt 2) ?d1))"
    using shared_cell_moves by (metis prod.collapse)+
  from fence_then_switch [OF inv _ _ this, where p = "demo_provider ''p1'' ''acme'' StateLiveActive"
      and tc = "demo_ctx ''p1'' ''e1''" and e' = "demo_rt 3"
      and c = "\<lparr>ce_id = ''c2'', ce_region = ''r1'', ce_code = ''cn-2'', ce_type = ''dedicated'',
        ce_status = CellStatusActive, ce_limits = JObj []\<rparr>"]
  show ?thesis by (simp add: shared_cell_db_def fenced_row_def demo_defs)
qed

end
