(* ===== verification/Catalog_Service.thy ===== *)
theory Catalog_Service
  imports Invoicing Providers
begin

text \<open>
  \<open>internal/service/catalog.go\<close>, \<open>catalog_plans.go\<close> and \<open>catalog_policies.go\<close>: versioned
  catalogs. Content is edited in a draft, a valid draft is frozen, a frozen version may be
  published and retired; an edit without a draft first clones the published version. The
  triggers of the database refuse every change of content outside a draft. The advisory lock
  of the plan operations orders concurrent calls, which here run one after the other.
\<close>

section \<open>Triggers and foreign keys\<close>

text \<open>\<open>require_draft_catalog\<close>: the version of the row, or of its plan, as the role sees it.\<close>

definition draft_version :: "sess \<Rightarrow> uuid \<Rightarrow> bool" where
  "draft_version s v \<longleftrightarrow> (\<exists>x\<in>set (rows catalog_versions s). cv_id x = v \<and> cv_state x = CatalogDraft)"

definition draft_plan :: "sess \<Rightarrow> uuid \<Rightarrow> bool" where
  "draft_plan s p \<longleftrightarrow> (\<exists>x\<in>set (rows plans s). pl_id x = p \<and> draft_version s (pl_version x))"

definition guarded_insert :: "(sess \<Rightarrow> 'r \<Rightarrow> bool) \<Rightarrow> 'r tbl \<Rightarrow> 'r \<Rightarrow> 'r tx" where
  "guarded_insert ok tb r = live_tx (\<lambda>s. if ok s r then q_insert tb r s else Inl (PgError ''P0001''))"

definition guarded_delete ::
  "(sess \<Rightarrow> 'r \<Rightarrow> bool) \<Rightarrow> (db \<Rightarrow> 'r \<Rightarrow> bool) \<Rightarrow> 'r tbl \<Rightarrow> ('r \<Rightarrow> bool) \<Rightarrow> int tx" where
  "guarded_delete ok used tb p = live_tx (\<lambda>s.
     if \<exists>r\<in>set (rows tb s). p r \<and> \<not> ok s r then Inl (PgError ''P0001'')
     else if \<exists>r\<in>set (rows tb s). p r \<and> used (s_db s) r then Inl (PgError ''23503'')
     else q_delete tb p s)"

definition guarded_update_one ::
  "(sess \<Rightarrow> 'r \<Rightarrow> bool) \<Rightarrow> 'r tbl \<Rightarrow> ('r \<Rightarrow> bool) \<Rightarrow> ('r \<Rightarrow> 'r) \<Rightarrow> 'r tx" where
  "guarded_update_one ok tb p f = live_tx (\<lambda>s.
     if \<exists>r\<in>set (rows tb s). p r \<and> \<not> ok s r then Inl (PgError ''P0001'') else q_update_one tb p f s)"

definition guarded_upsert ::
  "(sess \<Rightarrow> 'r \<Rightarrow> bool) \<Rightarrow> 'r tbl \<Rightarrow> ('r \<Rightarrow> 'r \<Rightarrow> bool) \<Rightarrow> ('r \<Rightarrow> 'r) \<Rightarrow> 'r \<Rightarrow> 'r tx" where
  "guarded_upsert ok tb same f r = live_tx (\<lambda>s.
     if \<not> ok s r \<or> (\<exists>x\<in>set (rows tb s). same r x \<and> \<not> ok s x) then Inl (PgError ''P0001'')
     else q_upsert tb same f r s)"

text \<open>The references into metrics and plans; a delete of a referenced row is refused.\<close>

definition metric_used :: "db \<Rightarrow> Metric \<Rightarrow> bool" where
  "metric_used d m \<longleftrightarrow> Some (mt_id m) \<in> px_metric ` set (db_prices d) \<or>
     Some (mt_id m) \<in> il_metric ` set (db_lines d)"

definition plan_used :: "db \<Rightarrow> Plan \<Rightarrow> bool" where
  "plan_used d p \<longleftrightarrow> pl_id p \<in> px_plan ` set (db_prices d) \<or> pl_id p \<in> eg_plan ` set (db_grants d) \<or>
     pl_id p \<in> su_plan ` set (db_subscriptions d)"

definition price_used :: "db \<Rightarrow> Price \<Rightarrow> bool" where
  "price_used d p \<longleftrightarrow> Some (px_id p) \<in> il_price ` set (db_lines d)"

abbreviation metric_draft :: "sess \<Rightarrow> Metric \<Rightarrow> bool" where
  "metric_draft s m \<equiv> draft_version s (mt_version m)"
abbreviation plan_draft :: "sess \<Rightarrow> Plan \<Rightarrow> bool" where
  "plan_draft s p \<equiv> draft_version s (pl_version p)"
abbreviation price_draft :: "sess \<Rightarrow> Price \<Rightarrow> bool" where
  "price_draft s p \<equiv> draft_plan s (px_plan p)"
abbreviation grant_draft :: "sess \<Rightarrow> EntitlementGrant \<Rightarrow> bool" where
  "grant_draft s g \<equiv> draft_plan s (eg_plan g)"

section \<open>Queries\<close>

text \<open>\<open>COALESCE(MAX(version), 0)\<close>; the sum with 1 fails beyond the range of the column.\<close>

definition max_version :: "CatalogVersion list \<Rightarrow> int" where
  "max_version vs = (case map cv_version vs of [] \<Rightarrow> 0 | n # ns \<Rightarrow> foldr max ns n)"

abbreviation q_NextCatalogVersionNumber :: "uuid \<Rightarrow> uuid \<Rightarrow> int tx" where
  "q_NextCatalogVersionNumber p en \<equiv>
     bnd (q_many catalog_versions (\<lambda>x. cv_provider x = p \<and> cv_env x = en)) (\<lambda>vs.
     if max_version vs + 1 < 2 ^ 31 then ret (max_version vs + 1) else throw (PgError ''22003''))"

abbreviation q_InsertCatalogVersion :: "uuid \<Rightarrow> uuid \<Rightarrow> uuid \<Rightarrow> int \<Rightarrow> CatalogVersion tx" where
  "q_InsertCatalogVersion i p en n \<equiv> q_insert catalog_versions
     \<lparr>cv_id = i, cv_provider = p, cv_env = en, cv_version = n, cv_state = CatalogDraft,
      cv_validated = None, cv_published = None, cv_retired = None\<rparr>"

text \<open>\<open>ORDER BY version DESC\<close>.\<close>

definition newest_versions :: "CatalogVersion list \<Rightarrow> CatalogVersion list" where
  "newest_versions vs = sort_key (\<lambda>x. - cv_version x) vs"

definition q_newest_version :: "(CatalogVersion \<Rightarrow> bool) \<Rightarrow> CatalogVersion tx" where
  "q_newest_version p = bnd (q_many catalog_versions p) (\<lambda>vs.
     case newest_versions vs of [] \<Rightarrow> throw ErrNoRows | v # _ \<Rightarrow> ret v)"

abbreviation q_GetDraftCatalogVersionByTenant :: "uuid \<Rightarrow> uuid \<Rightarrow> CatalogVersion tx" where
  "q_GetDraftCatalogVersionByTenant p en \<equiv>
     q_newest_version (\<lambda>x. cv_provider x = p \<and> cv_env x = en \<and> cv_state x = CatalogDraft)"

abbreviation q_GetLatestPublishedCatalogVersionByTenant :: "uuid \<Rightarrow> uuid \<Rightarrow> CatalogVersion tx" where
  "q_GetLatestPublishedCatalogVersionByTenant p en \<equiv>
     q_newest_version (\<lambda>x. cv_provider x = p \<and> cv_env x = en \<and> cv_state x = CatalogPublished)"

abbreviation q_ListCatalogVersionsByTenant :: "uuid \<Rightarrow> uuid \<Rightarrow> CatalogVersion list tx" where
  "q_ListCatalogVersionsByTenant p en \<equiv>
     bnd (q_many catalog_versions (\<lambda>x. cv_provider x = p \<and> cv_env x = en)) (\<lambda>vs. ret (newest_versions vs))"

definition set_state :: "int \<Rightarrow> string \<Rightarrow> CatalogVersion \<Rightarrow> CatalogVersion" where
  "set_state now st x = x\<lparr>cv_state := st,
     cv_validated := (if st = CatalogValidated then Some now else cv_validated x),
     cv_published := (if st = CatalogPublished then Some now else cv_published x),
     cv_retired := (if st = CatalogRetired then Some now else cv_retired x)\<rparr>"

abbreviation q_UpdateCatalogVersionState :: "int \<Rightarrow> uuid \<Rightarrow> string \<Rightarrow> CatalogVersion tx" where
  "q_UpdateCatalogVersionState now i st \<equiv>
     q_update_one catalog_versions (\<lambda>x. cv_id x = i) (set_state now st)"

record CatalogVersionRow =
  vr_ID :: uuid
  vr_EnvironmentID :: uuid
  vr_EnvironmentKind :: string
  vr_Version :: int
  vr_State :: string
  vr_MetricsCount :: int
  vr_PlansCount :: int
  vr_PublishedAt :: "int option"

abbreviation q_ListCatalogVersionsByProvider :: "uuid \<Rightarrow> CatalogVersionRow list tx" where
  "q_ListCatalogVersionsByProvider p \<equiv>
     bnd (q_many catalog_versions (\<lambda>x. cv_provider x = p)) (\<lambda>vs.
     bnd (q_many environments (\<lambda>_. True)) (\<lambda>es.
     bnd (q_many metrics (\<lambda>_. True)) (\<lambda>ms.
     bnd (q_many plans (\<lambda>_. True)) (\<lambda>ps.
     ret (map (\<lambda>(v, en). \<lparr>vr_ID = cv_id v, vr_EnvironmentID = cv_env v, vr_EnvironmentKind = en_kind en,
                vr_Version = cv_version v, vr_State = cv_state v,
                vr_MetricsCount = int (length (filter (\<lambda>m. mt_version m = cv_id v) ms)),
                vr_PlansCount = int (length (filter (\<lambda>p. pl_version p = cv_id v) ps)),
                vr_PublishedAt = cv_published v\<rparr>)
           (joined (\<lambda>v en. en_id en = cv_env v) (rev vs) es))))))"

abbreviation q_InsertMetric ::
  "uuid \<Rightarrow> uuid \<Rightarrow> uuid \<Rightarrow> uuid \<Rightarrow> string \<Rightarrow> string \<Rightarrow> string \<Rightarrow> string option \<Rightarrow> bool \<Rightarrow> Metric tx" where
  "q_InsertMetric i v p en code name agg field bill \<equiv> guarded_insert metric_draft metrics
     \<lparr>mt_id = i, mt_version = v, mt_provider = p, mt_env = en, mt_code = code, mt_name = name,
      mt_aggregation = agg, mt_field = field, mt_billable = bill\<rparr>"

abbreviation q_InsertPlan ::
  "uuid \<Rightarrow> uuid \<Rightarrow> uuid \<Rightarrow> uuid \<Rightarrow> string \<Rightarrow> string \<Rightarrow> string \<Rightarrow> string \<Rightarrow> Plan tx" where
  "q_InsertPlan i v p en code name interval currency \<equiv> guarded_insert plan_draft plans
     \<lparr>pl_id = i, pl_version = v, pl_provider = p, pl_env = en, pl_code = code, pl_name = name,
      pl_interval = interval, pl_currency = currency\<rparr>"

abbreviation q_InsertPrice ::
  "uuid \<Rightarrow> uuid \<Rightarrow> uuid \<Rightarrow> uuid \<Rightarrow> uuid \<Rightarrow> uuid option \<Rightarrow> string \<Rightarrow> RawMessage \<Rightarrow> Price tx" where
  "q_InsertPrice i plan v p en metric model props \<equiv> bnd (q_jsonb props) (\<lambda>j.
     guarded_insert price_draft prices
     \<lparr>px_id = i, px_plan = plan, px_version = v, px_provider = p, px_env = en, px_metric = metric,
      px_model = model, px_properties = j\<rparr>)"

abbreviation q_InsertEntitlementGrant ::
  "uuid \<Rightarrow> uuid \<Rightarrow> uuid \<Rightarrow> uuid \<Rightarrow> uuid \<Rightarrow> string \<Rightarrow> string \<Rightarrow> RawMessage \<Rightarrow> EntitlementGrant tx" where
  "q_InsertEntitlementGrant i plan v p en key ty val \<equiv> bnd (q_jsonb val) (\<lambda>j.
     guarded_insert grant_draft entitlement_grants
     \<lparr>eg_id = i, eg_plan = plan, eg_version = v, eg_provider = p, eg_env = en, eg_key = key,
      eg_type = ty, eg_value = j\<rparr>)"

definition same_grant :: "EntitlementGrant \<Rightarrow> EntitlementGrant \<Rightarrow> bool" where
  "same_grant x y \<longleftrightarrow> eg_plan x = eg_plan y \<and> eg_key x = eg_key y"

abbreviation q_UpsertEntitlementGrant ::
  "uuid \<Rightarrow> uuid \<Rightarrow> uuid \<Rightarrow> uuid \<Rightarrow> uuid \<Rightarrow> string \<Rightarrow> string \<Rightarrow> RawMessage \<Rightarrow> EntitlementGrant tx" where
  "q_UpsertEntitlementGrant i plan v p en key ty val \<equiv> bnd (q_jsonb val) (\<lambda>j.
     guarded_upsert grant_draft entitlement_grants same_grant (\<lambda>x. x\<lparr>eg_type := ty, eg_value := j\<rparr>)
     \<lparr>eg_id = i, eg_plan = plan, eg_version = v, eg_provider = p, eg_env = en, eg_key = key,
      eg_type = ty, eg_value = j\<rparr>)"

abbreviation q_UpdatePlan :: "uuid \<Rightarrow> string \<Rightarrow> string \<Rightarrow> string \<Rightarrow> Plan tx" where
  "q_UpdatePlan i name interval currency \<equiv> guarded_update_one plan_draft plans (\<lambda>x. pl_id x = i)
     (\<lambda>x. x\<lparr>pl_name := name, pl_interval := interval, pl_currency := currency\<rparr>)"

abbreviation delete_grants :: "(EntitlementGrant \<Rightarrow> bool) \<Rightarrow> int tx" where
  "delete_grants \<equiv> guarded_delete grant_draft (\<lambda>_ _. False) entitlement_grants"
abbreviation delete_prices :: "(Price \<Rightarrow> bool) \<Rightarrow> int tx" where
  "delete_prices \<equiv> guarded_delete price_draft price_used prices"
abbreviation delete_plans :: "(Plan \<Rightarrow> bool) \<Rightarrow> int tx" where
  "delete_plans \<equiv> guarded_delete plan_draft plan_used plans"
abbreviation delete_metrics :: "(Metric \<Rightarrow> bool) \<Rightarrow> int tx" where
  "delete_metrics \<equiv> guarded_delete metric_draft metric_used metrics"

abbreviation q_DeleteGrantsByVersion :: "uuid \<Rightarrow> int tx" where
  "q_DeleteGrantsByVersion v \<equiv> delete_grants (\<lambda>x. eg_version x = v)"
abbreviation q_DeletePricesByVersion :: "uuid \<Rightarrow> int tx" where
  "q_DeletePricesByVersion v \<equiv> delete_prices (\<lambda>x. px_version x = v)"
abbreviation q_DeletePlansByVersion :: "uuid \<Rightarrow> int tx" where
  "q_DeletePlansByVersion v \<equiv> delete_plans (\<lambda>x. pl_version x = v)"
abbreviation q_DeleteMetricsByVersion :: "uuid \<Rightarrow> int tx" where
  "q_DeleteMetricsByVersion v \<equiv> delete_metrics (\<lambda>x. mt_version x = v)"
abbreviation q_DeleteGrantsByPlan :: "uuid \<Rightarrow> int tx" where
  "q_DeleteGrantsByPlan p \<equiv> delete_grants (\<lambda>x. eg_plan x = p)"
abbreviation q_DeletePricesByPlan :: "uuid \<Rightarrow> int tx" where
  "q_DeletePricesByPlan p \<equiv> delete_prices (\<lambda>x. px_plan x = p)"
abbreviation q_DeletePlanByVersionAndCode :: "uuid \<Rightarrow> string \<Rightarrow> int tx" where
  "q_DeletePlanByVersionAndCode v code \<equiv> delete_plans (\<lambda>x. pl_version x = v \<and> pl_code x = code)"
abbreviation q_DeleteEntitlementGrantByKey :: "uuid \<Rightarrow> string \<Rightarrow> int tx" where
  "q_DeleteEntitlementGrantByKey p key \<equiv> delete_grants (\<lambda>x. eg_plan x = p \<and> eg_key x = key)"

abbreviation q_ListPlansByVersion :: "uuid \<Rightarrow> Plan list tx" where
  "q_ListPlansByVersion v \<equiv> bnd (q_many plans (\<lambda>x. pl_version x = v)) (\<lambda>xs. ret (sort_by pl_code xs))"
abbreviation q_ListGrantsByVersion :: "uuid \<Rightarrow> EntitlementGrant list tx" where
  "q_ListGrantsByVersion v \<equiv>
     bnd (q_many entitlement_grants (\<lambda>x. eg_version x = v)) (\<lambda>xs. ret (sort_by eg_key xs))"
abbreviation q_ListPricesByPlan :: "uuid \<Rightarrow> Price list tx" where
  "q_ListPricesByPlan p \<equiv> q_many prices (\<lambda>x. px_plan x = p)"
abbreviation q_ListGrantsByPlan :: "uuid \<Rightarrow> EntitlementGrant list tx" where
  "q_ListGrantsByPlan p \<equiv> q_many entitlement_grants (\<lambda>x. eg_plan x = p)"

section \<open>Versions\<close>

record CatalogVersionDetail =
  vd_Version :: CatalogVersion
  vd_Metrics :: "Metric list"
  vd_Plans :: "Plan list"
  vd_Prices :: "Price list"
  vd_Grants :: "EntitlementGrant list"

text \<open>A Go map from keys to ids; a missing key gives the zero id. A later entry of a key
  replaces an earlier one.\<close>

type_synonym 'k id_map = "('k \<times> uuid) list"

definition id_at :: "'k id_map \<Rightarrow> 'k \<Rightarrow> uuid" where
  "id_at m k = (case map_of m k of None \<Rightarrow> uuid_Nil | Some i \<Rightarrow> i)"

fun clone_metrics :: "Ctx \<Rightarrow> uuid \<Rightarrow> Metric list \<Rightarrow> uuid id_map \<Rightarrow> uuid id_map tx" where
  "clone_metrics tc toID [] ids = ret ids"
| "clone_metrics tc toID (m # ms) ids =
     bnd (draw rt_gen) (\<lambda>i.
     bnd (q_InsertMetric i toID (ProviderID tc) (EnvironmentID tc) (mt_code m) (mt_name m)
            (mt_aggregation m) (mt_field m) (mt_billable m)) (\<lambda>nm.
     clone_metrics tc toID ms ((mt_id m, mt_id nm) # ids)))"

fun clone_plans :: "Ctx \<Rightarrow> uuid \<Rightarrow> Plan list \<Rightarrow> uuid id_map \<Rightarrow> uuid id_map tx" where
  "clone_plans tc toID [] ids = ret ids"
| "clone_plans tc toID (p # ps) ids =
     bnd (draw rt_gen) (\<lambda>i.
     bnd (q_InsertPlan i toID (ProviderID tc) (EnvironmentID tc) (pl_code p) (pl_name p)
            (pl_interval p) (pl_currency p)) (\<lambda>np.
     clone_plans tc toID ps ((pl_id p, pl_id np) # ids)))"

fun clone_prices :: "Ctx \<Rightarrow> uuid \<Rightarrow> uuid id_map \<Rightarrow> uuid id_map \<Rightarrow> Price list \<Rightarrow> unit tx" where
  "clone_prices tc toID metricIDs planIDs [] = ret ()"
| "clone_prices tc toID metricIDs planIDs (pr # prs) =
     bnd (draw rt_gen) (\<lambda>i.
     bnd (q_InsertPrice i (id_at planIDs (px_plan pr)) toID (ProviderID tc) (EnvironmentID tc)
            (map_option (id_at metricIDs) (px_metric pr)) (px_model pr) (RawJson (px_properties pr))) (\<lambda>_.
     clone_prices tc toID metricIDs planIDs prs))"

fun clone_grants :: "Ctx \<Rightarrow> uuid \<Rightarrow> uuid id_map \<Rightarrow> EntitlementGrant list \<Rightarrow> unit tx" where
  "clone_grants tc toID planIDs [] = ret ()"
| "clone_grants tc toID planIDs (g # gs) =
     bnd (draw rt_gen) (\<lambda>i.
     bnd (q_InsertEntitlementGrant i (id_at planIDs (eg_plan g)) toID (ProviderID tc) (EnvironmentID tc)
            (eg_key g) (eg_type g) (RawJson (eg_value g))) (\<lambda>_.
     clone_grants tc toID planIDs gs))"

definition cloneCatalogContentTx :: "Ctx \<Rightarrow> uuid \<Rightarrow> uuid \<Rightarrow> unit tx" where
  "cloneCatalogContentTx tc fromID toID =
     bnd (mapped_err (q_GetCatalogVersionByID fromID)) (\<lambda>_.
     bnd (q_ListMetricsByVersion fromID) (\<lambda>ms.
     bnd (q_ListPlansByVersion fromID) (\<lambda>ps.
     bnd (q_ListPricesByVersion fromID) (\<lambda>prs.
     bnd (q_ListGrantsByVersion fromID) (\<lambda>gs.
     bnd (clone_metrics tc toID ms []) (\<lambda>metricIDs.
     bnd (clone_plans tc toID ps []) (\<lambda>planIDs.
     bnd (clone_prices tc toID metricIDs planIDs prs) (\<lambda>_.
     clone_grants tc toID planIDs gs))))))))"

definition createDraftTx :: "Ctx \<Rightarrow> uuid option \<Rightarrow> CatalogVersion tx" where
  "createDraftTx tc fromID =
     bnd (mapped_err (q_NextCatalogVersionNumber (ProviderID tc) (EnvironmentID tc))) (\<lambda>nextVersion.
     bnd (draw rt_gen) (\<lambda>i.
     bnd (mapped_err (q_InsertCatalogVersion i (ProviderID tc) (EnvironmentID tc) nextVersion)) (\<lambda>version.
     bnd (case fromID of None \<Rightarrow> ret () | Some f \<Rightarrow> cloneCatalogContentTx tc f (cv_id version)) (\<lambda>_.
     ret version))))"

definition CreateCatalogVersion ::
  "Ctx \<Rightarrow> uuid option \<Rightarrow> rt \<Rightarrow> db \<Rightarrow> CatalogVersion result \<times> db" where
  "CreateCatalogVersion tc fromVersionID = WithTenant tc
     (bnd (q_NextCatalogVersionNumber (ProviderID tc) (EnvironmentID tc)) (\<lambda>nextVersion.
      bnd (draw rt_gen) (\<lambda>i.
      bnd (mapped_err (q_InsertCatalogVersion i (ProviderID tc) (EnvironmentID tc) nextVersion)) (\<lambda>version.
      bnd (case fromVersionID of None \<Rightarrow> ret () | Some f \<Rightarrow> cloneCatalogContentTx tc f (cv_id version)) (\<lambda>_.
      bnd (emitOutboxTx (ProviderID tc) (EnvironmentID tc) ''catalog_version'' (cv_id version)
             ''catalog.version_created'' (JObj [(''catalog_version_id'', JStr (cv_id version)),
              (''version'', JInt (cv_version version))])) (\<lambda>_.
      bnd (insertAuditTx (ProviderNullUUID tc) (EnvironmentNullUUID tc) ''credential'' (CredentialID tc)
             ''catalog.version_create'' ''catalog_version'' (cv_id version)
             (Some (JObj [(''version'', JInt (cv_version version))]))) (\<lambda>_.
      ret version)))))))"

definition ListCatalogVersions :: "Ctx \<Rightarrow> rt \<Rightarrow> db \<Rightarrow> CatalogVersion list result \<times> db" where
  "ListCatalogVersions tc = WithTenant tc
     (q_ListCatalogVersionsByTenant (ProviderID tc) (EnvironmentID tc))"

definition loadCatalogDetailTx :: "uuid \<Rightarrow> CatalogVersionDetail tx" where
  "loadCatalogDetailTx i =
     bnd (mapped_err (q_GetCatalogVersionByID i)) (\<lambda>version.
     bnd (q_ListMetricsByVersion i) (\<lambda>ms.
     bnd (q_ListPlansByVersion i) (\<lambda>ps.
     bnd (q_ListPricesByVersion i) (\<lambda>prs.
     bnd (q_ListGrantsByVersion i) (\<lambda>gs.
     ret \<lparr>vd_Version = version, vd_Metrics = ms, vd_Plans = ps, vd_Prices = prs, vd_Grants = gs\<rparr>)))))"

definition GetCatalogVersion :: "Ctx \<Rightarrow> uuid \<Rightarrow> rt \<Rightarrow> db \<Rightarrow> CatalogVersionDetail result \<times> db" where
  "GetCatalogVersion tc i = WithTenant tc (loadCatalogDetailTx i)"

definition ListCatalogVersionsByProvider :: "uuid \<Rightarrow> rt \<Rightarrow> db \<Rightarrow> CatalogVersionRow list result \<times> db" where
  "ListCatalogVersionsByProvider providerID = WithOperator (q_ListCatalogVersionsByProvider providerID)"

section \<open>Content\<close>

definition props_or_empty :: "RawMessage \<Rightarrow> RawMessage" where
  "props_or_empty raw = (case raw of RawEmpty \<Rightarrow> RawJson (JObj []) | _ \<Rightarrow> raw)"

fun insert_metrics :: "Ctx \<Rightarrow> uuid \<Rightarrow> MetricInput list \<Rightarrow> string id_map \<Rightarrow> string id_map tx" where
  "insert_metrics tc versionID [] ids = ret ids"
| "insert_metrics tc versionID (m # ms) ids =
     bnd (draw rt_gen) (\<lambda>i.
     bnd (mapped_err (q_InsertMetric i versionID (ProviderID tc) (EnvironmentID tc) (m_Code m) (m_Name m)
            (m_AggregationType m) (opt_text (m_FieldName m))
            (case m_Billable m of None \<Rightarrow> True | Some b \<Rightarrow> b))) (\<lambda>nm.
     insert_metrics tc versionID ms ((m_Code m, mt_id nm) # ids)))"

text \<open>\<open>f\<close> is what the callers make of an error.\<close>

fun insert_prices ::
  "(goerr \<Rightarrow> goerr) \<Rightarrow> Ctx \<Rightarrow> uuid \<Rightarrow> uuid \<Rightarrow> string id_map \<Rightarrow> PriceInput list \<Rightarrow> unit tx" where
  "insert_prices f tc versionID planID metricIDs [] = ret ()"
| "insert_prices f tc versionID planID metricIDs (pr # prs) =
     bnd (draw rt_gen) (\<lambda>i.
     bnd (map_err f (q_InsertPrice i planID versionID (ProviderID tc) (EnvironmentID tc)
            (if pr_MetricCode pr = '''' then None else Some (id_at metricIDs (pr_MetricCode pr)))
            (pr_ChargeModel pr) (props_or_empty (pr_Properties pr)))) (\<lambda>_.
     insert_prices f tc versionID planID metricIDs prs))"

fun insert_grants :: "Ctx \<Rightarrow> uuid \<Rightarrow> uuid \<Rightarrow> EntitlementInput list \<Rightarrow> unit tx" where
  "insert_grants tc versionID planID [] = ret ()"
| "insert_grants tc versionID planID (e # es) =
     bnd (draw rt_gen) (\<lambda>i.
     bnd (mapped_err (q_InsertEntitlementGrant i planID versionID (ProviderID tc) (EnvironmentID tc)
            (e_Key e) (e_ValueType e) (e_Value e))) (\<lambda>_.
     insert_grants tc versionID planID es))"

fun insert_plans :: "Ctx \<Rightarrow> uuid \<Rightarrow> string id_map \<Rightarrow> PlanInput list \<Rightarrow> unit tx" where
  "insert_plans tc versionID metricIDs [] = ret ()"
| "insert_plans tc versionID metricIDs (p # ps) =
     bnd (draw rt_gen) (\<lambda>i.
     bnd (mapped_err (q_InsertPlan i versionID (ProviderID tc) (EnvironmentID tc) (p_Code p) (p_Name p)
            (p_Interval p) (p_Currency p))) (\<lambda>np.
     bnd (insert_prices (\<lambda>err. err) tc versionID (pl_id np) metricIDs (p_Prices p)) (\<lambda>_.
     bnd (insert_grants tc versionID (pl_id np) (p_Entitlements p)) (\<lambda>_.
     insert_plans tc versionID metricIDs ps))))"

definition replaceCatalogContentTx :: "Ctx \<Rightarrow> uuid \<Rightarrow> CatalogContent \<Rightarrow> unit tx" where
  "replaceCatalogContentTx tc versionID content =
     bnd (q_DeleteGrantsByVersion versionID) (\<lambda>_.
     bnd (q_DeletePricesByVersion versionID) (\<lambda>_.
     bnd (q_DeletePlansByVersion versionID) (\<lambda>_.
     bnd (q_DeleteMetricsByVersion versionID) (\<lambda>_.
     bnd (insert_metrics tc versionID (c_Metrics content) []) (\<lambda>metricIDs.
     insert_plans tc versionID metricIDs (c_Plans content))))))"

definition ReplaceCatalogContent ::
  "Ctx \<Rightarrow> uuid \<Rightarrow> CatalogContent \<Rightarrow> rt \<Rightarrow> db \<Rightarrow> CatalogVersionDetail result \<times> db" where
  "ReplaceCatalogContent tc i content e d =
     (if ValidateCatalogStructure content \<noteq> None then fail_early ErrValidation d
      else WithTenant tc
        (bnd (mapped_err (q_GetCatalogVersionByID i)) (\<lambda>version.
         bnd (check (cv_state version = CatalogDraft) ErrConflict) (\<lambda>_.
         bnd (replaceCatalogContentTx tc i content) (\<lambda>_.
         bnd (insertAuditTx (ProviderNullUUID tc) (EnvironmentNullUUID tc) ''credential'' (CredentialID tc)
                ''catalog.content_replace'' ''catalog_version'' i
                (Some (JObj [(''version'', JInt (cv_version version))]))) (\<lambda>_.
         loadCatalogDetailTx i)))) ) e d)"

text \<open>The content model of stored rows: metric references become codes again.\<close>

definition code_of :: "Metric list \<Rightarrow> uuid option \<Rightarrow> string" where
  "code_of ms m = (case m of None \<Rightarrow> ''''
     | Some i \<Rightarrow> (case find (\<lambda>x. mt_id x = i) (rev ms) of None \<Rightarrow> '''' | Some x \<Rightarrow> mt_code x))"

definition metric_input :: "Metric \<Rightarrow> MetricInput" where
  "metric_input m = \<lparr>m_Code = mt_code m, m_Name = mt_name m, m_AggregationType = mt_aggregation m,
     m_FieldName = (case mt_field m of None \<Rightarrow> '''' | Some f \<Rightarrow> f), m_Billable = Some (mt_billable m)\<rparr>"

definition plan_input :: "Metric list \<Rightarrow> Price list \<Rightarrow> EntitlementGrant list \<Rightarrow> Plan \<Rightarrow> PlanInput" where
  "plan_input ms prs gs p = \<lparr>p_Code = pl_code p, p_Name = pl_name p, p_Interval = pl_interval p,
     p_Currency = pl_currency p,
     p_Prices = map (\<lambda>pr. \<lparr>pr_MetricCode = code_of ms (px_metric pr), pr_ChargeModel = px_model pr,
                      pr_Properties = RawJson (px_properties pr)\<rparr>)
                  (filter (\<lambda>pr. px_plan pr = pl_id p) prs),
     p_Entitlements = map (\<lambda>g. \<lparr>e_Key = eg_key g, e_ValueType = eg_type g, e_Value = RawJson (eg_value g)\<rparr>)
                        (filter (\<lambda>g. eg_plan g = pl_id p) gs)\<rparr>"

definition stored_content ::
  "Metric list \<Rightarrow> Plan list \<Rightarrow> Price list \<Rightarrow> EntitlementGrant list \<Rightarrow> CatalogContent" where
  "stored_content ms ps prs gs =
     \<lparr>c_Metrics = map metric_input ms, c_Plans = map (plan_input ms prs gs) ps\<rparr>"

definition storedContentTx :: "uuid \<Rightarrow> CatalogContent tx" where
  "storedContentTx versionID =
     bnd (q_ListMetricsByVersion versionID) (\<lambda>ms.
     bnd (q_ListPlansByVersion versionID) (\<lambda>ps.
     bnd (q_ListPricesByVersion versionID) (\<lambda>prs.
     bnd (q_ListGrantsByVersion versionID) (\<lambda>gs.
     ret (stored_content ms ps prs gs)))))"

section \<open>Transitions\<close>

definition transitionCatalogVersion ::
  "Ctx \<Rightarrow> uuid \<Rightarrow> CatalogState \<Rightarrow> unit tx \<Rightarrow> rt \<Rightarrow> db \<Rightarrow> CatalogVersion result \<times> db" where
  "transitionCatalogVersion tc i to gate = WithTenant tc
     (bnd (mapped_err (q_GetCatalogVersionByID i)) (\<lambda>version.
      bnd (lift_res (TransitionCatalog (cv_state version) to)) (\<lambda>nextState.
      bnd gate (\<lambda>_.
      bnd now_tx (\<lambda>now.
      bnd (q_UpdateCatalogVersionState now i nextState) (\<lambda>version.
      bnd (emitOutboxTx (ProviderID tc) (EnvironmentID tc) ''catalog_version'' i
             (''catalog.version_'' @ nextState) (JObj [(''catalog_version_id'', JStr i),
              (''version'', JInt (cv_version version)), (''state'', JStr nextState)])) (\<lambda>_.
      bnd (insertAuditTx (ProviderNullUUID tc) (EnvironmentNullUUID tc) ''credential'' (CredentialID tc)
             (''catalog.version_'' @ nextState) ''catalog_version'' i (Some (JObj
             [(''version'', JInt (cv_version version)), (''state'', JStr nextState)]))) (\<lambda>_.
      ret version))))))))"

definition ValidateCatalogVersion :: "Ctx \<Rightarrow> uuid \<Rightarrow> rt \<Rightarrow> db \<Rightarrow> CatalogVersion result \<times> db" where
  "ValidateCatalogVersion tc i = transitionCatalogVersion tc i CatalogValidated
     (bnd (storedContentTx i) (\<lambda>content. check (ValidateCatalog content = None) ErrValidation))"

definition PublishCatalogVersion :: "Ctx \<Rightarrow> uuid \<Rightarrow> rt \<Rightarrow> db \<Rightarrow> CatalogVersion result \<times> db" where
  "PublishCatalogVersion tc i = transitionCatalogVersion tc i CatalogPublished
     (bnd (mapped_err (q_GetProviderByID (ProviderID tc))) (\<lambda>provider.
      check (CanPublishCatalog (pv_state provider)) ErrProviderNotWritable))"

definition RetireCatalogVersion :: "Ctx \<Rightarrow> uuid \<Rightarrow> rt \<Rightarrow> db \<Rightarrow> CatalogVersion result \<times> db" where
  "RetireCatalogVersion tc i = transitionCatalogVersion tc i CatalogRetired (ret ())"

section \<open>Plans of the current draft\<close>

record PlanDetail =
  pd_Plan :: Plan
  pd_Prices :: "Price list"
  pd_Grants :: "EntitlementGrant list"

text \<open>The current draft, or the latest published version when there is none.\<close>

definition currentCatalogVersionIDTx :: "Ctx \<Rightarrow> uuid tx" where
  "currentCatalogVersionIDTx tc =
     bnd (optional_row (q_GetDraftCatalogVersionByTenant (ProviderID tc) (EnvironmentID tc))) (\<lambda>draft.
     case draft of
       Some v \<Rightarrow> ret (cv_id v)
     | None \<Rightarrow>
         bnd (q_GetLatestPublishedCatalogVersionByTenant (ProviderID tc) (EnvironmentID tc)) (\<lambda>v.
         ret (cv_id v)))"

definition ensureDraftVersionTx :: "Ctx \<Rightarrow> CatalogVersion tx" where
  "ensureDraftVersionTx tc =
     bnd (optional_row (q_GetDraftCatalogVersionByTenant (ProviderID tc) (EnvironmentID tc))) (\<lambda>draft.
     case draft of
       Some v \<Rightarrow> ret v
     | None \<Rightarrow>
         bnd (optional_row (q_GetLatestPublishedCatalogVersionByTenant (ProviderID tc) (EnvironmentID tc))) (\<lambda>published.
         createDraftTx tc (map_option cv_id published)))"

definition validatePlanStructureTx :: "uuid \<Rightarrow> PlanInput \<Rightarrow> unit tx" where
  "validatePlanStructureTx versionID plan =
     bnd (q_ListMetricsByVersion versionID) (\<lambda>ms.
     check (ValidateCatalogStructure \<lparr>c_Metrics = map metric_input ms, c_Plans = [plan]\<rparr> = None) ErrValidation)"

definition replacePlanChildrenTx :: "Ctx \<Rightarrow> uuid \<Rightarrow> uuid \<Rightarrow> PlanInput \<Rightarrow> unit tx" where
  "replacePlanChildrenTx tc versionID planID plan =
     bnd (q_DeleteGrantsByPlan planID) (\<lambda>_.
     bnd (q_DeletePricesByPlan planID) (\<lambda>_.
     bnd (q_ListMetricsByVersion versionID) (\<lambda>ms.
     bnd (insert_prices mapErr tc versionID planID (rev (map (\<lambda>m. (mt_code m, mt_id m)) ms)) (p_Prices plan)) (\<lambda>_.
     insert_grants tc versionID planID (p_Entitlements plan)))))"

definition insertPlanContentTx :: "Ctx \<Rightarrow> uuid \<Rightarrow> PlanInput \<Rightarrow> Plan tx" where
  "insertPlanContentTx tc versionID plan =
     bnd (draw rt_gen) (\<lambda>i.
     bnd (mapped_err (q_InsertPlan i versionID (ProviderID tc) (EnvironmentID tc) (p_Code plan)
            (p_Name plan) (p_Interval plan) (p_Currency plan))) (\<lambda>created.
     bnd (replacePlanChildrenTx tc versionID (pl_id created) plan) (\<lambda>_.
     ret created)))"

definition loadPlanDetailTx :: "Plan \<Rightarrow> PlanDetail tx" where
  "loadPlanDetailTx plan =
     bnd (q_ListPricesByPlan (pl_id plan)) (\<lambda>prs.
     bnd (q_ListGrantsByPlan (pl_id plan)) (\<lambda>gs.
     ret \<lparr>pd_Plan = plan, pd_Prices = prs, pd_Grants = gs\<rparr>))"

definition record_plan :: "Ctx \<Rightarrow> string \<Rightarrow> string \<Rightarrow> uuid \<Rightarrow> CatalogVersion \<Rightarrow> string \<Rightarrow> (string \<times> json) list \<Rightarrow> unit tx" where
  "record_plan tc event action planID version code extra =
     bnd (emitOutboxTx (ProviderID tc) (EnvironmentID tc) ''plan'' planID event (JObj
            ([(''catalog_version_id'', JStr (cv_id version)), (''version'', JInt (cv_version version)),
              (''plan_code'', JStr code)] @ extra))) (\<lambda>_.
     insertAuditTx (ProviderNullUUID tc) (EnvironmentNullUUID tc) ''credential'' (CredentialID tc)
       action ''plan'' planID (Some (JObj
            ([(''catalog_version_id'', JStr (cv_id version)), (''version'', JInt (cv_version version)),
              (''plan_code'', JStr code)] @ extra))))"

definition CreatePlan :: "Ctx \<Rightarrow> PlanInput \<Rightarrow> rt \<Rightarrow> db \<Rightarrow> PlanDetail result \<times> db" where
  "CreatePlan tc input = WithTenant tc
     (bnd (ensureDraftVersionTx tc) (\<lambda>version.
      bnd (q_ListPlansByVersion (cv_id version)) (\<lambda>ps.
      bnd (check (\<forall>p\<in>set ps. pl_code p \<noteq> p_Code input) ErrConflict) (\<lambda>_.
      bnd (validatePlanStructureTx (cv_id version) input) (\<lambda>_.
      bnd (insertPlanContentTx tc (cv_id version) input) (\<lambda>plan.
      bnd (record_plan tc ''catalog.plan_created'' ''catalog.plan_create'' (pl_id plan) version (pl_code plan) []) (\<lambda>_.
      loadPlanDetailTx plan)))))))"

definition UpdatePlan :: "Ctx \<Rightarrow> string \<Rightarrow> PlanInput \<Rightarrow> rt \<Rightarrow> db \<Rightarrow> PlanDetail result \<times> db" where
  "UpdatePlan tc code inp e d =
     (if p_Code inp \<noteq> '''' \<and> p_Code inp \<noteq> code then fail_early ErrValidation d
      else let input = inp\<lparr>p_Code := code\<rparr> in WithTenant tc
        (bnd (ensureDraftVersionTx tc) (\<lambda>version.
         bnd (mapped_err (q_GetPlanByVersionAndCode (cv_id version) code)) (\<lambda>existing.
         bnd (validatePlanStructureTx (cv_id version) input) (\<lambda>_.
         bnd (mapped_err (q_UpdatePlan (pl_id existing) (p_Name input) (p_Interval input) (p_Currency input))) (\<lambda>updated.
         bnd (replacePlanChildrenTx tc (cv_id version) (pl_id updated) input) (\<lambda>_.
         bnd (record_plan tc ''catalog.plan_updated'' ''catalog.plan_update'' (pl_id updated) version (pl_code updated) []) (\<lambda>_.
         loadPlanDetailTx updated))))))) e d)"

definition DeletePlan :: "Ctx \<Rightarrow> string \<Rightarrow> rt \<Rightarrow> db \<Rightarrow> unit result \<times> db" where
  "DeletePlan tc code = WithTenant tc
     (bnd (ensureDraftVersionTx tc) (\<lambda>version.
      bnd (mapped_err (q_GetPlanByVersionAndCode (cv_id version) code)) (\<lambda>existing.
      bnd (q_DeleteGrantsByPlan (pl_id existing)) (\<lambda>_.
      bnd (q_DeletePricesByPlan (pl_id existing)) (\<lambda>_.
      bnd (mapped_err (q_DeletePlanByVersionAndCode (cv_id version) code)) (\<lambda>_.
      record_plan tc ''catalog.plan_deleted'' ''catalog.plan_delete'' (pl_id existing) version code []))))))"

definition ListPlans :: "Ctx \<Rightarrow> rt \<Rightarrow> db \<Rightarrow> Plan list result \<times> db" where
  "ListPlans tc = WithTenant tc (bnd (currentCatalogVersionIDTx tc) (\<lambda>v. q_ListPlansByVersion v))"

record PlanPriceView =
  pp_ID :: uuid
  pp_ChargeModel :: string
  pp_MetricCode :: string
  pp_Properties :: json

record PlanDetailView =
  pv_Plan :: Plan
  pv_Prices :: "PlanPriceView list"
  pv_Grants :: "EntitlementGrant list"

record PlanCollectionView =
  pc_Plans :: "PlanDetailView list"
  pc_Metrics :: "Metric list"

definition price_view :: "Metric list \<Rightarrow> Price \<Rightarrow> PlanPriceView" where
  "price_view ms p = \<lparr>pp_ID = px_id p, pp_ChargeModel = px_model p,
     pp_MetricCode = code_of ms (px_metric p), pp_Properties = px_properties p\<rparr>"

definition ListPlanDetails :: "Ctx \<Rightarrow> rt \<Rightarrow> db \<Rightarrow> PlanCollectionView result \<times> db" where
  "ListPlanDetails tc = WithTenant tc
     (bnd (optional_row (currentCatalogVersionIDTx tc)) (\<lambda>found.
      case found of
        None \<Rightarrow> ret \<lparr>pc_Plans = [], pc_Metrics = []\<rparr>
      | Some v \<Rightarrow>
          bnd (q_ListPlansByVersion v) (\<lambda>ps.
          bnd (q_ListMetricsByVersion v) (\<lambda>ms.
          bnd (q_ListPricesByVersion v) (\<lambda>prs.
          bnd (q_ListGrantsByVersion v) (\<lambda>gs.
          ret \<lparr>pc_Plans = map (\<lambda>p. \<lparr>pv_Plan = p,
                   pv_Prices = map (price_view ms) (filter (\<lambda>x. px_plan x = pl_id p) prs),
                   pv_Grants = filter (\<lambda>g. eg_plan g = pl_id p) gs\<rparr>) ps,
                pc_Metrics = ms\<rparr>))))))"

definition GetPlanDetail :: "Ctx \<Rightarrow> string \<Rightarrow> rt \<Rightarrow> db \<Rightarrow> PlanDetailView result \<times> db" where
  "GetPlanDetail tc code = WithTenant tc
     (bnd (map_err (\<lambda>err. if err = ErrNoRows then ErrNotFound else err) (currentCatalogVersionIDTx tc)) (\<lambda>v.
      bnd (mapped_err (q_GetPlanByVersionAndCode v code)) (\<lambda>plan.
      bnd (q_ListPricesByPlan (pl_id plan)) (\<lambda>prs.
      bnd (q_ListGrantsByPlan (pl_id plan)) (\<lambda>gs.
      bnd (q_ListMetricsByVersion v) (\<lambda>ms.
      ret \<lparr>pv_Plan = plan, pv_Prices = map (price_view ms) prs, pv_Grants = gs\<rparr>))))))"

section \<open>Entitlement policies of a plan\<close>

definition ListPlanEntitlements :: "Ctx \<Rightarrow> string \<Rightarrow> rt \<Rightarrow> db \<Rightarrow> EntitlementGrant list result \<times> db" where
  "ListPlanEntitlements tc planCode = WithTenant tc
     (bnd (currentCatalogVersionIDTx tc) (\<lambda>v.
      bnd (mapped_err (q_GetPlanByVersionAndCode v planCode)) (\<lambda>plan.
      q_ListGrantsByPlan (pl_id plan))))"

definition SetPlanEntitlement ::
  "Ctx \<Rightarrow> string \<Rightarrow> string \<Rightarrow> EntitlementInput \<Rightarrow> rt \<Rightarrow> db \<Rightarrow> EntitlementGrant result \<times> db" where
  "SetPlanEntitlement tc planCode key inp e d =
     (if e_Key inp \<noteq> '''' \<and> e_Key inp \<noteq> key then fail_early ErrValidation d
      else let input = inp\<lparr>e_Key := key\<rparr> in
      if ValidateEntitlementInput input \<noteq> None then fail_early ErrValidation d
      else WithTenant tc
        (bnd (ensureDraftVersionTx tc) (\<lambda>version.
         bnd (mapped_err (q_GetPlanByVersionAndCode (cv_id version) planCode)) (\<lambda>plan.
         bnd (draw rt_gen) (\<lambda>i.
         bnd (mapped_err (q_UpsertEntitlementGrant i (pl_id plan) (cv_id version) (ProviderID tc)
                (EnvironmentID tc) key (e_ValueType input) (e_Value input))) (\<lambda>grant.
         bnd (record_plan tc ''catalog.entitlement_set'' ''catalog.entitlement_set'' (pl_id plan) version (pl_code plan)
                [(''entitlement_key'', JStr key), (''value_type'', JStr (e_ValueType input))]) (\<lambda>_.
         ret grant)))))) e d)"

definition DeletePlanEntitlement :: "Ctx \<Rightarrow> string \<Rightarrow> string \<Rightarrow> rt \<Rightarrow> db \<Rightarrow> unit result \<times> db" where
  "DeletePlanEntitlement tc planCode key = WithTenant tc
     (bnd (ensureDraftVersionTx tc) (\<lambda>version.
      bnd (mapped_err (q_GetPlanByVersionAndCode (cv_id version) planCode)) (\<lambda>plan.
      bnd (mapped_err (q_DeleteEntitlementGrantByKey (pl_id plan) key)) (\<lambda>n.
      bnd (check (n \<noteq> 0) ErrNotFound) (\<lambda>_.
      record_plan tc ''catalog.entitlement_deleted'' ''catalog.entitlement_delete'' (pl_id plan) version (pl_code plan)
        [(''entitlement_key'', JStr key)])))))"

end
