(* ===== verification/Catalog_Laws.thy ===== *)
theory Catalog_Laws
  imports Catalog_Service
begin

text \<open>
  What the catalog operations keep: a version that left the draft state keeps its content for
  good, whatever operation of whatever tenant runs next; it leaves the draft state only with
  content that satisfies the rules of the domain. \<open>db_preorder\<close> is the walk through a body
  whose steps all keep a reflexive and transitive relation of databases.
\<close>

section \<open>Bodies that keep a preorder\<close>

locale db_preorder =
  fixes R :: "db \<Rightarrow> db \<Rightarrow> bool"
  assumes R_refl: "R d d"
    and R_trans: "R a b \<Longrightarrow> R b c \<Longrightarrow> R a c"
    and R_records: "R d (d\<lparr>db_seq := n, db_outbox := out, db_audit := aud\<rparr>)"
begin

definition keeps :: "'a tx \<Rightarrow> bool" where
  "keeps m \<longleftrightarrow> (\<forall>s. wp m (\<lambda>_ s'. R (s_db s) (s_db s')) s)"

lemma keepsI: "(\<And>s. wp m (\<lambda>_ s'. R (s_db s) (s_db s')) s) \<Longrightarrow> keeps m"
  by (simp add: keeps_def)

lemma keepsD: "keeps m \<Longrightarrow> wp m (\<lambda>_ s'. R (s_db s) (s_db s')) s"
  by (simp add: keeps_def)

lemma keeps_ret: "keeps (ret x)"
  by (intro keepsI wp_intros R_refl)

lemma keeps_throw: "keeps (throw e)"
  by (intro keepsI wp_intros)

lemma keeps_bnd:
  assumes "keeps m" "\<And>x. keeps (f x)"
  shows "keeps (bnd m f)"
  unfolding keeps_def wp_def
  using assms by (fastforce simp: bnd_def keeps_def wp_def split: sum.splits prod.splits intro: R_trans)

lemma keeps_if: "keeps m \<Longrightarrow> keeps m' \<Longrightarrow> keeps (if c then m else m')"
  by simp

lemma keeps_option: "keeps m \<Longrightarrow> (\<And>y. keeps (f y)) \<Longrightarrow> keeps (case x of None \<Rightarrow> m | Some y \<Rightarrow> f y)"
  by (cases x) simp_all

lemma keeps_sum:
  "(\<And>e. keeps (f e)) \<Longrightarrow> (\<And>x. keeps (g x)) \<Longrightarrow> keeps (case r of Inl e \<Rightarrow> f e | Inr x \<Rightarrow> g x)"
  by (cases r) simp_all

lemma keeps_list: "keeps m \<Longrightarrow> (\<And>y ys. keeps (f y ys)) \<Longrightarrow> keeps (case x of [] \<Rightarrow> m | y # ys \<Rightarrow> f y ys)"
  by (cases x) simp_all

lemma keeps_check: "keeps (check c e)"
  by (intro keepsI wp_check R_refl)

lemma keeps_lift_res: "keeps (lift_res r)"
  by (intro keepsI wp_lift_res R_refl)

lemma keeps_bnd_lift_res: "(\<And>x. r = Inr x \<Longrightarrow> keeps (f x)) \<Longrightarrow> keeps (bnd (lift_res r) f)"
  by (cases r) (simp_all add: keeps_def wp_def bnd_def lift_res_def ret_def throw_def)

lemma keeps_map_err: "keeps m \<Longrightarrow> keeps (map_err f m)"
  by (simp add: keeps_def wp_map_err)

lemma keeps_try_tx: "keeps m \<Longrightarrow> keeps (try_tx m)"
  by (simp add: keeps_def wp_try_tx R_refl)

lemma keeps_now: "keeps now_tx"
  by (intro keepsI wp_now R_refl)

lemma keeps_draw: "keeps (draw f)"
  using R_records [where out = "db_outbox d" and aud = "db_audit d" and d = d for d]
  by (intro keepsI wp_draw) (simp add: bump_def)

lemma keeps_q_jsonb: "keeps (q_jsonb raw)"
  by (intro keepsI wp_q_jsonb R_refl)

lemma keeps_q_many: "keeps (q_many tb p)"
  by (intro keepsI wp_q_many R_refl)

lemma keeps_q_one: "keeps (q_one tb p)"
  by (intro keepsI wp_q_one R_refl)

lemma keeps_emit: "keeps (emitOutboxTx p e at ai et payload)"
  using R_records [where aud = "db_audit d" and d = d for d]
  by (intro keepsI wp_emitOutboxTx) simp

lemma keeps_audit: "keeps (insertAuditTx p e aty ai ac tt ti m)"
  using R_records [where out = "db_outbox d" and d = d for d]
  by (intro keepsI wp_insertAuditTx) simp

lemmas keeps_intros = keeps_ret keeps_throw keeps_bnd_lift_res keeps_bnd keeps_if keeps_option keeps_sum keeps_list keeps_check
  keeps_lift_res keeps_map_err keeps_try_tx keeps_now keeps_draw keeps_q_jsonb keeps_q_many keeps_q_one
  keeps_emit keeps_audit

lemma keeps_WithTenant: "keeps m \<Longrightarrow> R d (snd (WithTenant tc m e d))"
  by (auto simp: WithTenant_def run_tx_def R_refl keeps_def wp_def split: sum.splits prod.splits) fastforce

end

section \<open>Content of a version\<close>

text \<open>The version as it was created, its metrics and plans, and the prices and grants of
  those plans: what the trigger resolves to the version.\<close>

definition plan_ids :: "uuid \<Rightarrow> db \<Rightarrow> uuid set" where
  "plan_ids v d = pl_id ` {x \<in> set (db_plans d). pl_version x = v}"

definition content ::
  "uuid \<Rightarrow> db \<Rightarrow> (uuid \<times> uuid \<times> int) list \<times> Metric list \<times> Plan list \<times> Price list \<times> EntitlementGrant list" where
  "content v d = (map (\<lambda>x. (cv_provider x, cv_env x, cv_version x)) (filter (\<lambda>x. cv_id x = v) (db_versions d)),
     filter (\<lambda>x. mt_version x = v) (db_metrics d), filter (\<lambda>x. pl_version x = v) (db_plans d),
     filter (\<lambda>x. px_plan x \<in> plan_ids v d) (db_prices d), filter (\<lambda>x. eg_plan x \<in> plan_ids v d) (db_grants d))"

definition frozen :: "uuid \<Rightarrow> db \<Rightarrow> bool" where
  "frozen v d \<longleftrightarrow> (\<exists>x\<in>set (db_versions d). cv_id x = v \<and> cv_state x \<noteq> CatalogDraft)"

text \<open>The primary keys the triggers look up by.\<close>

definition catalog_keys :: "db \<Rightarrow> bool" where
  "catalog_keys d \<longleftrightarrow> distinct (map pl_id (db_plans d)) \<and> distinct (map cv_id (db_versions d))"

definition freeze_step :: "db \<Rightarrow> db \<Rightarrow> bool" where
  "freeze_step d d' \<longleftrightarrow> (catalog_keys d \<longrightarrow> catalog_keys d' \<and>
     (\<forall>v. frozen v d \<longrightarrow> frozen v d' \<and> content v d' = content v d))"

interpretation fz: db_preorder freeze_step
  by unfold_locales (simp_all add: freeze_step_def catalog_keys_def content_def plan_ids_def frozen_def)

section \<open>The guarded queries\<close>

lemma wp_guarded_insert: "(ok s r \<Longrightarrow> wp (q_insert tb r) Q s) \<Longrightarrow> wp (guarded_insert ok tb r) Q s"
  by (simp add: guarded_insert_def wp_def live_tx_def)

lemma wp_guarded_update_one:
  "(\<forall>x\<in>set (rows tb s). p x \<longrightarrow> ok s x \<Longrightarrow> wp (q_update_one tb p f) Q s) \<Longrightarrow>
   wp (guarded_update_one ok tb p f) Q s"
  by (auto simp: guarded_update_one_def wp_def live_tx_def)

lemma wp_guarded_upsert:
  "(ok s r \<Longrightarrow> \<forall>x\<in>set (rows tb s). same r x \<longrightarrow> ok s x \<Longrightarrow> wp (q_upsert tb same f r) Q s) \<Longrightarrow>
   wp (guarded_upsert ok tb same f r) Q s"
  by (auto simp: guarded_upsert_def wp_def live_tx_def)

lemma wp_guarded_delete:
  "(\<forall>x\<in>set (rows tb s). p x \<longrightarrow> ok s x \<Longrightarrow> wp (q_delete tb p) Q s) \<Longrightarrow>
   wp (guarded_delete ok used tb p) Q s"
  by (auto simp: guarded_delete_def wp_def live_tx_def)

lemma wp_upsert_cases:
  "(wp (q_insert tb r) Q s) \<Longrightarrow> wp (q_update_one tb (same r) f) Q s \<Longrightarrow> wp (q_upsert tb same f r) Q s"
  by (auto simp: q_upsert_def wp_def live_tx_def)

text \<open>What the role sees as a draft is no frozen version.\<close>

lemma draft_not_frozen: "catalog_keys (s_db s) \<Longrightarrow> draft_version s v \<Longrightarrow> \<not> frozen v (s_db s)"
  by (auto simp: catalog_keys_def draft_version_def frozen_def rows_def catalog_versions_tb distinct_map
      dest: inj_onD)

lemma draft_plan_not_frozen:
  assumes "catalog_keys (s_db s)" "draft_plan s p" "frozen v (s_db s)"
  shows "p \<notin> plan_ids v (s_db s)"
proof
  assume "p \<in> plan_ids v (s_db s)"
  moreover obtain x where "x \<in> set (db_plans (s_db s))" "pl_id x = p" "draft_version s (pl_version x)"
    using assms(2) by (auto simp: draft_plan_def rows_def plans_tb)
  ultimately have "draft_version s v"
    using assms(1) by (auto simp: plan_ids_def catalog_keys_def distinct_map dest: inj_onD)
  then show False using assms draft_not_frozen by blast
qed

text \<open>A change of rows none of which is in a selection does not change the selection.\<close>

lemma filter_kept: "(\<And>x. x \<in> set xs \<Longrightarrow> q x \<Longrightarrow> h x) \<Longrightarrow> filter (\<lambda>x. h x \<and> q x) xs = filter q xs"
  by (induction xs) auto

lemma filter_updated:
  "(\<And>x. x \<in> set xs \<Longrightarrow> h x \<Longrightarrow> \<not> q x \<and> \<not> q (f x)) \<Longrightarrow> filter q (update_where h f xs) = filter q xs"
  by (induction xs) (auto simp: update_where_def)

lemma map_updated: "(\<And>x. k (f x) = k x) \<Longrightarrow> map k (update_where h f xs) = map k xs"
  by (simp add: update_where_def)

lemma plan_ids_inserted:
  "plan_ids v (d\<lparr>db_plans := db_plans d @ [p]\<rparr>) =
     (if pl_version p = v then insert (pl_id p) (plan_ids v d) else plan_ids v d)"
  by (auto simp: plan_ids_def)

lemma freeze_stepI:
  "(catalog_keys d \<Longrightarrow> catalog_keys d') \<Longrightarrow> db_versions d' = db_versions d \<Longrightarrow>
   (\<And>v. catalog_keys d \<Longrightarrow> frozen v d \<Longrightarrow> content v d' = content v d) \<Longrightarrow> freeze_step d d'"
  by (simp add: freeze_step_def frozen_def)

lemma freezes_insert_metric: "fz.keeps (guarded_insert metric_draft metrics m)"
proof (intro fz.keepsI wp_guarded_insert wp_q_insert freeze_stepI, goal_cases)
  case (3 s v)
  then have "mt_version m \<noteq> v" using draft_not_frozen by blast
  then show ?case by (simp add: put_rows_def metrics_tb content_def plan_ids_def)
qed (simp_all add: put_rows_def metrics_tb catalog_keys_def)

lemma freezes_insert_plan: "fz.keeps (guarded_insert plan_draft plans m)"
proof (intro fz.keepsI wp_guarded_insert wp_q_insert freeze_stepI, goal_cases)
  case (1 s)
  then show ?case by (fastforce simp: put_rows_def plans_tb catalog_keys_def)
next
  case (3 s v)
  then have "pl_version m \<noteq> v" using draft_not_frozen by blast
  then show ?case by (simp add: put_rows_def plans_tb content_def plan_ids_inserted)
qed (simp add: put_rows_def plans_tb)

lemma freezes_insert_price: "fz.keeps (guarded_insert price_draft prices m)"
proof (intro fz.keepsI wp_guarded_insert wp_q_insert freeze_stepI, goal_cases)
  case (3 s v)
  then have "px_plan m \<notin> plan_ids v (s_db s)" using draft_plan_not_frozen by blast
  then show ?case by (simp add: put_rows_def prices_tb content_def plan_ids_def)
qed (simp_all add: put_rows_def prices_tb catalog_keys_def)

lemma freezes_insert_grant: "fz.keeps (guarded_insert grant_draft entitlement_grants m)"
proof (intro fz.keepsI wp_guarded_insert wp_q_insert freeze_stepI, goal_cases)
  case (3 s v)
  then have "eg_plan m \<notin> plan_ids v (s_db s)" using draft_plan_not_frozen by blast
  then show ?case by (simp add: put_rows_def entitlement_grants_tb content_def plan_ids_def)
qed (simp_all add: put_rows_def entitlement_grants_tb catalog_keys_def)

text \<open>Deletes: no row of a frozen version passes the trigger.\<close>

lemma freezes_delete_metrics: "fz.keeps (delete_metrics p)"
proof (intro fz.keepsI wp_guarded_delete wp_q_delete freeze_stepI, goal_cases)
  case (3 s v)
  have "filter (\<lambda>x. (tb_vis metrics (s_role s) x \<longrightarrow> \<not> p x) \<and> mt_version x = v) (db_metrics (s_db s)) =
      filter (\<lambda>x. mt_version x = v) (db_metrics (s_db s))"
    using 3 draft_not_frozen by (intro filter_kept) (auto simp: rows_def metrics_tb)
  then show ?case by (simp add: put_rows_def metrics_tb content_def plan_ids_def)
qed (simp_all add: put_rows_def metrics_tb catalog_keys_def)

lemma freezes_delete_prices: "fz.keeps (delete_prices p)"
proof (intro fz.keepsI wp_guarded_delete wp_q_delete freeze_stepI, goal_cases)
  case (3 s v)
  have "filter (\<lambda>x. (tb_vis prices (s_role s) x \<longrightarrow> \<not> p x) \<and> px_plan x \<in> plan_ids v (s_db s)) (db_prices (s_db s)) =
      filter (\<lambda>x. px_plan x \<in> plan_ids v (s_db s)) (db_prices (s_db s))"
    using 3 draft_plan_not_frozen by (intro filter_kept) (auto simp: rows_def prices_tb)
  then show ?case by (simp add: put_rows_def prices_tb content_def plan_ids_def)
qed (simp_all add: put_rows_def prices_tb catalog_keys_def)

lemma freezes_delete_grants: "fz.keeps (delete_grants p)"
proof (intro fz.keepsI wp_guarded_delete wp_q_delete freeze_stepI, goal_cases)
  case (3 s v)
  have "filter (\<lambda>x. (tb_vis entitlement_grants (s_role s) x \<longrightarrow> \<not> p x) \<and> eg_plan x \<in> plan_ids v (s_db s))
        (db_grants (s_db s)) = filter (\<lambda>x. eg_plan x \<in> plan_ids v (s_db s)) (db_grants (s_db s))"
    using 3 draft_plan_not_frozen by (intro filter_kept) (auto simp: rows_def entitlement_grants_tb)
  then show ?case by (simp add: put_rows_def entitlement_grants_tb content_def plan_ids_def)
qed (simp_all add: put_rows_def entitlement_grants_tb catalog_keys_def)

lemma content_same_plans:
  "db_versions d' = db_versions d \<Longrightarrow> db_metrics d' = db_metrics d \<Longrightarrow> db_prices d' = db_prices d \<Longrightarrow>
   db_grants d' = db_grants d \<Longrightarrow>
   filter (\<lambda>x. pl_version x = v) (db_plans d') = filter (\<lambda>x. pl_version x = v) (db_plans d) \<Longrightarrow>
   content v d' = content v d"
  by (simp add: content_def plan_ids_def flip: set_filter)

lemma freezes_delete_plans: "fz.keeps (delete_plans p)"
proof (intro fz.keepsI wp_guarded_delete wp_q_delete freeze_stepI, goal_cases)
  case (1 s)
  then show ?case by (simp add: put_rows_def plans_tb catalog_keys_def distinct_map_filter)
next
  case (3 s v)
  have "filter (\<lambda>x. (tb_vis plans (s_role s) x \<longrightarrow> \<not> p x) \<and> pl_version x = v) (db_plans (s_db s)) =
      filter (\<lambda>x. pl_version x = v) (db_plans (s_db s))"
    using 3 draft_not_frozen by (intro filter_kept) (auto simp: rows_def plans_tb)
  then show ?case by (intro content_same_plans) (simp_all add: put_rows_def plans_tb)
qed (simp add: put_rows_def plans_tb)

text \<open>Updates keep keys and references.\<close>

lemma freezes_update_plan:
  assumes f: "\<And>x. pl_id (f x) = pl_id x" "\<And>x. pl_version (f x) = pl_version x"
  shows "fz.keeps (guarded_update_one plan_draft plans p f)"
proof (intro fz.keepsI wp_guarded_update_one wp_q_update_one freeze_stepI, goal_cases)
  case (1 s)
  then show ?case by (simp add: upd_rows_def put_rows_def plans_tb catalog_keys_def map_updated f)
next
  case (3 s r rs v)
  have "filter (\<lambda>x. pl_version x = v) (update_where (\<lambda>x. tb_vis plans (s_role s) x \<and> p x) f (db_plans (s_db s))) =
      filter (\<lambda>x. pl_version x = v) (db_plans (s_db s))"
    using 3 draft_not_frozen f by (intro filter_updated) (auto simp: rows_def plans_tb)
  then show ?case by (intro content_same_plans) (simp_all add: upd_rows_def put_rows_def plans_tb)
qed (simp add: upd_rows_def put_rows_def plans_tb)

lemma freezes_upsert_grant:
  assumes f: "\<And>x. eg_plan (f x) = eg_plan x"
  shows "fz.keeps (guarded_upsert grant_draft entitlement_grants same f r)"
proof (rule fz.keepsI, rule wp_guarded_upsert, rule wp_upsert_cases, goal_cases)
  case (1 s)
  then show ?case
    using fz.keepsD [OF freezes_insert_grant, where s = s, of r]
    by (auto simp: guarded_insert_def wp_def live_tx_def q_insert_def split: if_splits)
next
  case (2 s)
  show ?case
  proof (intro wp_q_update_one freeze_stepI, goal_cases)
    case (3 r' rs v)
    have "filter (\<lambda>x. eg_plan x \<in> plan_ids v (s_db s))
         (update_where (\<lambda>x. tb_vis entitlement_grants (s_role s) x \<and> same r x) f (db_grants (s_db s))) =
        filter (\<lambda>x. eg_plan x \<in> plan_ids v (s_db s)) (db_grants (s_db s))"
      using 2 3 draft_plan_not_frozen f by (intro filter_updated) (auto simp: rows_def entitlement_grants_tb)
    then show ?case
      by (simp add: upd_rows_def put_rows_def entitlement_grants_tb content_def plan_ids_def)
  qed (simp_all add: upd_rows_def put_rows_def entitlement_grants_tb catalog_keys_def)
qed

section \<open>Versions\<close>

lemma freezes_insert_version: "fz.keeps (q_insert catalog_versions x)"
proof (rule fz.keepsI, rule wp_q_insert, goal_cases)
  case (1 s)
  have "cv_id y \<noteq> cv_id x" if "y \<in> set (db_versions (s_db s))" for y
    using 1(4) that by (auto simp: catalog_versions_tb)
  then have new: "cv_id x \<notin> cv_id ` set (db_versions (s_db s))" by force
  then have "filter (\<lambda>y. cv_id y = v) [x] = []" if "frozen v (s_db s)" for v
    using that by (auto simp: frozen_def)
  then show ?case using new
    by (auto simp: freeze_step_def put_rows_def catalog_versions_tb catalog_keys_def content_def plan_ids_def
       frozen_def)
qed

lemma set_state_same [simp]:
  "cv_id (set_state now st x) = cv_id x" "cv_provider (set_state now st x) = cv_provider x"
  "cv_env (set_state now st x) = cv_env x" "cv_version (set_state now st x) = cv_version x"
  "cv_state (set_state now st x) = st"
  by (simp_all add: set_state_def)

lemma map_filter_updated:
  "(\<And>x. q (f x) = q x) \<Longrightarrow> (\<And>x. k (f x) = k x) \<Longrightarrow>
   map k (filter q (update_where h f xs)) = map k (filter q xs)"
  by (induction xs) (auto simp: update_where_def)

lemma freezes_set_state:
  assumes "st \<noteq> CatalogDraft"
  shows "fz.keeps (q_update_one catalog_versions p (set_state now st))"
proof (rule fz.keepsI, rule wp_q_update_one, goal_cases)
  case (1 s r rs)
  let ?h = "\<lambda>x. tb_vis catalog_versions (s_role s) x \<and> p x"
  let ?d = "(s_db s)\<lparr>db_versions := update_where ?h (set_state now st) (db_versions (s_db s))\<rparr>"
  have "frozen v ?d" if v: "frozen v (s_db s)" for v
  proof -
    obtain x where x: "x \<in> set (db_versions (s_db s))" "cv_id x = v" "cv_state x \<noteq> CatalogDraft"
      using v by (auto simp: frozen_def)
    let ?y = "if ?h x then set_state now st x else x"
    have "?y \<in> set (db_versions ?d)" using x(1) by (auto simp: update_where_def)
    moreover have "cv_id ?y = v" "cv_state ?y \<noteq> CatalogDraft" using x(2,3) assms by simp_all
    ultimately show ?thesis unfolding frozen_def by blast
  qed
  moreover have "content v ?d = content v (s_db s)" for v
    by (simp add: content_def plan_ids_def map_filter_updated)
  moreover have "catalog_keys ?d = catalog_keys (s_db s)"
    by (simp add: catalog_keys_def map_updated)
  ultimately show ?case
    by (simp add: freeze_step_def upd_rows_def put_rows_def catalog_versions_tb)
qed

lemma no_way_to_draft: "TransitionCatalog from to = Inr st \<Longrightarrow> st = to \<and> to \<noteq> CatalogDraft"
  by (auto simp: TransitionCatalog_def catalogTransitions_def split: if_splits)

text \<open>The queries of the catalog and what is built from them.\<close>

lemmas freezes_queries = freezes_insert_metric freezes_insert_plan freezes_insert_price freezes_insert_grant
  freezes_delete_metrics freezes_delete_prices freezes_delete_grants freezes_delete_plans freezes_insert_version

lemma freezes_newest [intro!]: "fz.keeps (q_newest_version p)"
  unfolding q_newest_version_def by (intro fz.keeps_intros)

lemma freezes_optional [intro!]: "fz.keeps m \<Longrightarrow> fz.keeps (optional_row m)"
  unfolding optional_row_def by (intro fz.keeps_intros)

lemmas freezes_intros = fz.keeps_intros freezes_queries freezes_newest freezes_optional

section \<open>The operations\<close>

lemma freezes_clone_metrics: "fz.keeps (clone_metrics tc v ms ids)"
  by (induction ms arbitrary: ids) (simp_all, (intro freezes_intros | assumption)+)

lemma freezes_clone_plans: "fz.keeps (clone_plans tc v ps ids)"
  by (induction ps arbitrary: ids) (simp_all, (intro freezes_intros | assumption)+)

lemma freezes_clone_prices: "fz.keeps (clone_prices tc v a b prs)"
  by (induction prs) (simp_all, (intro freezes_intros | assumption)+)

lemma freezes_clone_grants: "fz.keeps (clone_grants tc v a gs)"
  by (induction gs) (simp_all, (intro freezes_intros | assumption)+)

lemma freezes_insert_metrics: "fz.keeps (insert_metrics tc v ms ids)"
  by (induction ms arbitrary: ids) (simp_all, (intro freezes_intros | assumption)+)

lemma freezes_insert_prices: "fz.keeps (insert_prices f tc v p ids prs)"
  by (induction prs) (simp_all only: insert_prices.simps, (intro freezes_intros | assumption)+)

lemma freezes_insert_grants: "fz.keeps (insert_grants tc v p gs)"
  by (induction gs) (simp_all, (intro freezes_intros | assumption)+)

lemma freezes_insert_plans: "fz.keeps (insert_plans tc v ids ps)"
  by (induction ps) (simp_all, (intro freezes_intros freezes_insert_prices freezes_insert_grants | assumption)+)

lemma freezes_clone: "fz.keeps (cloneCatalogContentTx tc a b)"
  unfolding cloneCatalogContentTx_def
  by (intro freezes_intros freezes_clone_metrics freezes_clone_plans freezes_clone_prices freezes_clone_grants)

lemma freezes_createDraft: "fz.keeps (createDraftTx tc from)"
  unfolding createDraftTx_def by (intro freezes_intros freezes_clone)

lemma freezes_ensureDraft: "fz.keeps (ensureDraftVersionTx tc)"
  unfolding ensureDraftVersionTx_def by (intro freezes_intros freezes_createDraft)

lemma freezes_load: "fz.keeps (loadCatalogDetailTx i)"
  unfolding loadCatalogDetailTx_def by (intro freezes_intros)

lemma freezes_replace: "fz.keeps (replaceCatalogContentTx tc v c)"
  unfolding replaceCatalogContentTx_def by (intro freezes_intros freezes_insert_metrics freezes_insert_plans)

lemma freezes_transition:
  "fz.keeps gate \<Longrightarrow> freeze_step d (snd (transitionCatalogVersion tc i to gate e d))"
  unfolding transitionCatalogVersion_def
  by (intro fz.keeps_WithTenant freezes_intros freezes_set_state | (frule no_way_to_draft, simp) | assumption)+

lemma freezes_stored: "fz.keeps (storedContentTx v)"
  unfolding storedContentTx_def by (intro freezes_intros)

lemma freezes_structure: "fz.keeps (validatePlanStructureTx v p)"
  unfolding validatePlanStructureTx_def by (intro freezes_intros)

lemma freezes_children: "fz.keeps (replacePlanChildrenTx tc v i p)"
  unfolding replacePlanChildrenTx_def
  by (intro freezes_intros freezes_insert_prices freezes_insert_grants)

lemma freezes_plan_content: "fz.keeps (insertPlanContentTx tc v p)"
  unfolding insertPlanContentTx_def by (intro freezes_intros freezes_children)

lemma freezes_plan_detail: "fz.keeps (loadPlanDetailTx p)"
  unfolding loadPlanDetailTx_def by (intro freezes_intros)

lemma freezes_record_plan: "fz.keeps (record_plan tc ev ac i v code extra)"
  unfolding record_plan_def by (intro freezes_intros)

lemmas freezes_parts = freezes_ensureDraft freezes_load freezes_replace freezes_stored freezes_structure
  freezes_children freezes_plan_content freezes_plan_detail freezes_record_plan freezes_clone

lemmas catalog_op_defs = CreateCatalogVersion_def ReplaceCatalogContent_def CreatePlan_def UpdatePlan_def
  DeletePlan_def SetPlanEntitlement_def DeletePlanEntitlement_def

text \<open>The operations that write, called by any tenant with any input.\<close>

inductive catalog_step :: "db \<Rightarrow> db \<Rightarrow> bool" where
  "catalog_step d (snd (CreateCatalogVersion tc from e d))"
| "catalog_step d (snd (ReplaceCatalogContent tc i new e d))"
| "catalog_step d (snd (ValidateCatalogVersion tc i e d))"
| "catalog_step d (snd (PublishCatalogVersion tc i e d))"
| "catalog_step d (snd (RetireCatalogVersion tc i e d))"
| "catalog_step d (snd (CreatePlan tc input e d))"
| "catalog_step d (snd (UpdatePlan tc code input e d))"
| "catalog_step d (snd (DeletePlan tc code e d))"
| "catalog_step d (snd (SetPlanEntitlement tc code key ent e d))"
| "catalog_step d (snd (DeletePlanEntitlement tc code key e d))"

lemma fail_early_keeps: "freeze_step d (snd (fail_early err d))"
  by (simp add: fail_early_def fz.R_refl)

lemma freezes_early:
  "(\<not> c \<Longrightarrow> freeze_step d (snd r)) \<Longrightarrow> freeze_step d (snd (if c then fail_early err d else r))"
  by (simp add: fail_early_keeps)

lemma freezes_UpdatePlan: "freeze_step d (snd (UpdatePlan tc code input e d))"
  unfolding UpdatePlan_def Let_def
  by (intro freezes_early fz.keeps_WithTenant freezes_intros freezes_parts freezes_update_plan) simp_all

lemma catalog_step_freezes: "catalog_step d d' \<Longrightarrow> freeze_step d d'"
proof (induction rule: catalog_step.induct)
  case (1 d tc fr e)
  show ?case unfolding CreateCatalogVersion_def
    by (intro fz.keeps_WithTenant freezes_intros freezes_parts)
next
  case (2 d tc i new e)
  show ?case unfolding ReplaceCatalogContent_def
    by (intro freezes_early fz.keeps_WithTenant freezes_intros freezes_parts)
next
  case (3 d tc i e)
  show ?case unfolding ValidateCatalogVersion_def
    by (intro freezes_transition freezes_intros freezes_parts)
next
  case (4 d tc i e)
  show ?case unfolding PublishCatalogVersion_def by (intro freezes_transition freezes_intros)
next
  case (5 d tc i e)
  show ?case unfolding RetireCatalogVersion_def by (intro freezes_transition freezes_intros)
next
  case (6 d tc input e)
  show ?case unfolding CreatePlan_def by (intro fz.keeps_WithTenant freezes_intros freezes_parts)
next
  case (7 d tc code input e)
  show ?case by (rule freezes_UpdatePlan)
next
  case (8 d tc code e)
  show ?case unfolding DeletePlan_def by (intro fz.keeps_WithTenant freezes_intros freezes_parts)
next
  case (9 d tc code key ent e)
  show ?case unfolding SetPlanEntitlement_def Let_def
    by (intro freezes_early fz.keeps_WithTenant freezes_intros freezes_parts freezes_upsert_grant) simp
next
  case (10 d tc code key e)
  show ?case unfolding DeletePlanEntitlement_def by (intro fz.keeps_WithTenant freezes_intros freezes_parts)
qed

text \<open>
  C36. A catalog version that left the draft state keeps its content: whatever sequence of catalog
  operations runs next, called by any tenants and whether they succeed or fail, the version
  is never a draft again and its number and tenant, its metrics and plans, and the prices and
  entitlement grants of its plans are exactly the ones it had.
\<close>

theorem frozen_catalog_keeps_content:
  assumes "catalog_step\<^sup>*\<^sup>* d d'" and "catalog_keys d" and "frozen v d"
  shows "frozen v d' \<and> content v d' = content v d"
proof -
  have "freeze_step d d'"
    using assms(1) by (induction) (auto intro: fz.R_refl fz.R_trans catalog_step_freezes)
  then show ?thesis using assms(2,3) by (simp add: freeze_step_def)
qed

text \<open>A step on the demo database: the tenant deletes a plan of its published catalog, which clones
  the catalog into a draft and deletes the plan there.\<close>

theorem frozen_catalog_keeps_content_witness:
  "content ''v1'' (snd (DeletePlan (demo_ctx ''p1'' ''e1'') ''basic'' (demo_rt 0) demo_db)) = content ''v1'' demo_db"
proof -
  have "catalog_step demo_db (snd (DeletePlan (demo_ctx ''p1'' ''e1'') ''basic'' (demo_rt 0) demo_db))"
    by (rule catalog_step.intros)
  then have "catalog_step\<^sup>*\<^sup>* demo_db (snd (DeletePlan (demo_ctx ''p1'' ''e1'') ''basic'' (demo_rt 0) demo_db))" by blast
  from frozen_catalog_keeps_content [OF this, of "''v1''"] show ?thesis
    by (simp add: catalog_keys_def frozen_def demo_db_def)
qed

section \<open>What is validated is valid\<close>

text \<open>The content of a version as a role reads it.\<close>

definition content_read :: "role \<Rightarrow> uuid \<Rightarrow> db \<Rightarrow> CatalogContent" where
  "content_read r v d = stored_content
     (sort_by mt_code (filter (\<lambda>x. tb_vis metrics r x \<and> mt_version x = v) (db_metrics d)))
     (sort_by pl_code (filter (\<lambda>x. tb_vis plans r x \<and> pl_version x = v) (db_plans d)))
     (sort_by px_id (filter (\<lambda>x. tb_vis prices r x \<and> px_version x = v) (db_prices d)))
     (sort_by eg_key (filter (\<lambda>x. tb_vis entitlement_grants r x \<and> eg_version x = v) (db_grants d)))"

lemma wp_stored: "Q (content_read (s_role s) v (s_db s)) s \<Longrightarrow> wp (storedContentTx v) Q s"
  unfolding storedContentTx_def
  by (intro wp_intros) (simp add: content_read_def rows_def conj_commute metrics_tb plans_tb prices_tb entitlement_grants_tb)

lemma to_validated:
  "TransitionCatalog fr CatalogValidated = Inr st \<Longrightarrow> st = CatalogValidated \<and> fr = CatalogDraft"
  by (auto simp: TransitionCatalog_def catalogTransitions_def split: if_splits)

lemma hit_row: "hit_rows tb p s = r # rs \<Longrightarrow> r \<in> set (tb_get tb (s_db s)) \<and> p r"
  unfolding hit_rows_def by (metis (no_types, lifting) list.set_intros(1) mem_Collect_eq set_filter)

text \<open>
  A catalog version leaves the draft state only with valid content: when the validation of a
  version succeeds, the version was a draft, is now validated, and the content the tenant
  reads back from it afterwards satisfies every rule of \<open>ValidateCatalog\<close>.
\<close>

lemma validated_catalog_is_valid:
  assumes "ValidateCatalogVersion tc i e d = (Inr v, d')"
  shows "ValidateCatalog (content_read (Tenant (ProviderID tc) (EnvironmentID tc)) i d') = None \<and>
    cv_id v = i \<and> cv_state v = CatalogValidated \<and> v \<in> set (db_versions d') \<and>
    (\<exists>x\<in>set (db_versions d). cv_id x = i \<and> cv_state x = CatalogDraft)"
proof -
  let ?r = "Tenant (ProviderID tc) (EnvironmentID tc)"
  have "outcome (\<lambda>v d'. ValidateCatalog (content_read ?r i d') = None \<and> cv_id v = i \<and>
      cv_state v = CatalogValidated \<and> v \<in> set (db_versions d') \<and>
      (\<exists>x\<in>set (db_versions d). cv_id x = i \<and> cv_state x = CatalogDraft)) d (ValidateCatalogVersion tc i e d)"
    unfolding ValidateCatalogVersion_def transitionCatalogVersion_def
  proof (intro wp_intros wp_stored, goal_cases)
    case (1 r st ra rs)
    note read = this
    then have "st = CatalogValidated" "cv_state r = CatalogDraft"
      using to_validated by blast+
    then show ?case using read hit_row [of catalog_versions]
      by (fastforce simp: catalog_versions_tb upd_rows_def put_rows_def content_read_def update_where_def)
  qed
  with assms(1) show ?thesis by (simp add: outcome_def)
qed

end
