(* ===== verification/Spec2Isabelle.thy ===== *)
theory Spec2Isabelle
  imports Domain_Lifecycle Domain_Catalog Breaker RateLimit Supervisor Ssrf Crypto Keys
    Providers Audit_Log Audit_Chain
    Support Quota Outbox_Relay Webhook_Worker Cells
    Customers Billing_Migration Subscriptions Usage_Metering Invoicing Fencing
    Catalog_Service Catalog_Laws
begin

text \<open>
  \<^bold>\<open>The program.\<close> vLogBin (\<open>src/apps/api\<close>, Go) is the control plane of a multi-tenant commerce
  platform. HTTP handlers call services (\<open>internal/service\<close>), which work on PostgreSQL through
  generated queries (\<open>internal/store/storegen\<close>) inside transactions that carry a role for
  row-level security (\<open>internal/store/store.go\<close>): a tenant sees the rows of its provider and
  environment, the operator sees all. Every business fact leaves two records in its transaction:
  an event in the outbox and an event in the audit trail. Workers run beside the handlers: the
  outbox relay, the webhook worker and the expiry sweepers, each restarted by a supervisor, and
  the outgoing calls stand behind circuit breakers.

  \<^bold>\<open>How it is modelled.\<close>
  \<^item> \<open>Go_Prelude\<close>, \<open>Go_Json\<close>: errors as a datatype, results as sums, integers with Go's wrap-around
    written out, times and durations in nanoseconds, strings as character lists; decoded JSON and
    the decoding of structs. \<open>Transition_Table\<close>, \<open>Retry\<close>: what the transition tables and the
    retry schedules share, stated as locales (\<open>retry_schedule\<close> is interpreted by the relay and the
    webhook worker on their own \<open>nextRetryAt\<close>).
  \<^item> \<open>Schema\<close>: a record per table row with the columns the modelled code reads or writes, the
    database as a record of row lists in the order of insertion, and per table the row-level
    security policy, the unique keys, the checks and references, and the update triggers.
  \<^item> \<open>Store\<close>: a transaction is a function on sessions (database, role, environment, aborted
    flag) that fails or returns a value; queries in the four forms of sqlc; an SQL error that the
    code catches leaves the transaction aborted, as PostgreSQL does; a failed transaction changes
    nothing. The environment \<open>rt\<close> holds what a call gets from outside: the clock, fresh ids and
    random bytes (drawn in order, counted by \<open>db_seq\<close>), the hash functions.
  \<^item> \<open>Store_Laws\<close>: the logic of successful runs (\<open>wp\<close>, \<open>outcome\<close>), isolation of a tenant's
    transactions, and the locale \<open>row_machine\<close>: a table whose rows are state machines keeps the
    invariant of its rows and never touches final rows. It is interpreted on the rows of support
    sessions, quota reservations, providers, failovers and migrations.
  \<^item> \<open>Fixtures\<close>: a small concrete database on which the witnesses run.

  \<^bold>\<open>The components.\<close> Each theory has the operations of its source files first, in their order
  and under their names, then what they keep and promise.
  \<^item> \<open>Domain_Lifecycle\<close> (\<open>domain/lifecycle.go\<close>): the provider lifecycle and the vocabularies.
    \<open>Domain_Catalog\<close> (\<open>domain/catalog.go\<close>): catalog and price validation against a declarative
    specification, entitlement evaluation.
  \<^item> \<open>Breaker\<close> (\<open>circuitbreaker/breaker.go\<close>): whole calls refine a two-state machine; the atomic
    steps of concurrent callers as an interleaving. \<open>RateLimit\<close> (\<open>ratelimit\<close>): a window contract
    as a locale, interpreted by the in-memory limiter. \<open>Supervisor\<close> (\<open>worker/supervisor.go\<close>).
    \<open>Ssrf\<close> (\<open>webhook/ssrf.go\<close>). \<open>Crypto\<close> (\<open>crypto/crypto.go\<close>). \<open>Keys\<close> (\<open>keys\<close>, \<open>tenant\<close>, \<open>portal\<close>).
  \<^item> \<open>Providers\<close> (\<open>service/service.go\<close>, \<open>service/risk_review.go\<close>): onboarding, activation, the
    go-live gate, API credentials. \<open>Audit_Log\<close>: listing by cursor, export, retention.
    \<open>Audit_Chain\<close> (\<open>db/migrations/0031_audit_hash_chain.sql\<close> and its callers): the hash chain.
  \<^item> \<open>Support\<close> (\<open>service/support.go\<close>), \<open>Quota\<close> (\<open>service/quota.go\<close>), \<open>Cells\<close> (\<open>service/cells.go\<close>,
    \<open>cell_failover.go\<close>, \<open>cell_migration.go\<close>): request, approval, reservation and move machines,
    their runs and invariants.
  \<^item> \<open>Outbox_Relay\<close> (\<open>outbox/relay.go\<close>), \<open>Webhook_Worker\<close> (\<open>webhook/worker.go\<close>,
    \<open>service/webhooks.go\<close>): leasing, delivery, retries, dead letters; what a run of cycles can and
    cannot do to a row. The marks of the webhook worker fail when their transaction does or when
    the answer is no text the database stores, and then the attempt is not counted.
  \<^item> \<open>Customers\<close> (\<open>service/customers.go\<close>), \<open>Subscriptions\<close> (\<open>service/subscriptions.go\<close>): accounts and
    the subscriptions that pin a plan of a published catalog, created behind the two write fences.
    \<open>Billing_Migration\<close> (\<open>service/migration.go\<close>): import jobs and their cutover lock.
    \<open>Usage_Metering\<close> (\<open>service/usage.go\<close>): the usage ledger, its payload hash, reversals.
    \<open>Invoicing\<close> (\<open>service/invoices.go\<close>): the sync of invoices and their guarded final states.
    \<open>Fencing\<close>: what a fenced cell refuses, across the services that ask its fence.
  \<^item> \<open>Catalog_Service\<close> (\<open>service/catalog.go\<close>, \<open>catalog_plans.go\<close>, \<open>catalog_policies.go\<close>): versions of a
    catalog, their content, plans and policies, and the triggers that freeze all but drafts.
    \<open>Catalog_Laws\<close>: the locale \<open>db_preorder\<close> (transactions whose queries all keep a preorder of
    databases), interpreted on the preorder under which frozen versions keep their content.

  \<^bold>\<open>Bounds.\<close> Loops over rows are recursive on the rows. The two paging loops of the audit trail
  (\<open>stream_pages\<close> and the purge) are partial functions whose result \<open>None\<close> stands for not
  returning; their theorems prove that they return. So is the loop of an import, which returns
  because every record it reads is settled, and the loop over the pages of invoices, which
  returns when the engine numbers its pages upwards. The supervisor runs over a list of outcomes
  of its worker. No other loop needs fuel.

  \<^bold>\<open>Assumptions.\<close> A call runs alone: concurrent transactions are serial, except where interleaving
  is modelled as such (the breaker's atomic operations, two relays with expired leases, appends to
  the audit chain). Texts that a call writes are storable, except the answers of webhook endpoints,
  which are arbitrary bytes. AES-GCM, HMAC, SHA-256, name resolution, the HTTP client, the billing adapter,
  and the text forms of numbers, times and JSON are parameters, with what the code relies on as
  named hypotheses or locale assumptions, discharged in the witnesses by concrete functions. Nothing
  is assumed of the hash of the audit chain but that a digest is a list of bytes: its theorem ends in
  agreement or in a collision.

  \<^bold>\<open>Not modelled.\<close> HTTP decoding and encoding, configuration, start-up, logging, metrics and
  tracing (no effect on the state); the clients of external services (identity, billing, object
  storage); the Redis connection; the TypeScript consoles and the client libraries. Left for later:
  entitlement overrides and snapshots, workspaces, teams and SCIM, metered billing, data export, settings.
\<close>

end
